(* ===== verification/Ipmb_Prelude.thy ===== *)
theory Ipmb_Prelude
  imports Main "HOL-Library.Word" "HOL-Library.Sublist"
begin

unbundle bit_operations_syntax

text \<open>
  Shared vocabulary of the development: the status codes and limits of
  \<^verbatim>\<open>include/ipmb/types.h\<close>, the result type of a C call (a value, a status returned early, or
  undefined behaviour), checked access to byte buffers and to allocated cells, and the
  lemmas every component uses.  Lengths, positions and capacities (\<^verbatim>\<open>size_t\<close>) are
  \<open>nat\<close>; where the code's arithmetic can reach the width of \<^verbatim>\<open>size_t\<close> the model writes
  \<open>mod size_modulus\<close>.  Integers of a fixed width are words.
\<close>

section \<open>Status codes and limits\<close>

datatype ipmb_status =
    IPMB_OK
  | IPMB_ERR_SHORT_READ
  | IPMB_ERR_BAD_MAGIC
  | IPMB_ERR_BAD_CRC
  | IPMB_ERR_LIMIT
  | IPMB_ERR_INVALID
  | IPMB_ERR_ALLOC
  | IPMB_ERR_EVAL
  | IPMB_ERR_NOT_FOUND

definition IPMB_MAX_FRAMES :: nat where
  "IPMB_MAX_FRAMES = 1024"

definition IPMB_MAX_PAYLOAD :: nat where
  "IPMB_MAX_PAYLOAD = 1024 * 1024"

definition IPMB_MAX_RULE_CODE :: nat where
  "IPMB_MAX_RULE_CODE = 4096"

definition IPMB_FRAME_FLAG_FRAGMENTED :: "16 word" where
  "IPMB_FRAME_FLAG_FRAGMENTED = 0x0001"

text \<open>The enumerators are numbered in their order; the order type class follows the numbers.\<close>

fun status_code :: "ipmb_status \<Rightarrow> nat" where
  "status_code IPMB_OK = 0"
| "status_code IPMB_ERR_SHORT_READ = 1"
| "status_code IPMB_ERR_BAD_MAGIC = 2"
| "status_code IPMB_ERR_BAD_CRC = 3"
| "status_code IPMB_ERR_LIMIT = 4"
| "status_code IPMB_ERR_INVALID = 5"
| "status_code IPMB_ERR_ALLOC = 6"
| "status_code IPMB_ERR_EVAL = 7"
| "status_code IPMB_ERR_NOT_FOUND = 8"

lemma status_code_inject [simp]: "status_code s = status_code t \<longleftrightarrow> s = t"
  by (cases s; cases t) simp_all

instantiation ipmb_status :: linorder
begin

definition less_eq_ipmb_status :: "ipmb_status \<Rightarrow> ipmb_status \<Rightarrow> bool" where
  "less_eq_ipmb_status s t \<longleftrightarrow> status_code s \<le> status_code t"

definition less_ipmb_status :: "ipmb_status \<Rightarrow> ipmb_status \<Rightarrow> bool" where
  "less_ipmb_status s t \<longleftrightarrow> status_code s < status_code t"

instance
  by standard (auto simp: less_eq_ipmb_status_def less_ipmb_status_def)

end

section \<open>Words\<close>

lemma xor_cancel_right [simp]: "(a :: 'a::len word) XOR c = b XOR c \<longleftrightarrow> a = b"
  by (metis xor.assoc xor_self_eq xor.right_neutral)

lemma xor_cancel_left [simp]: "(c :: 'a::len word) XOR a = c XOR b \<longleftrightarrow> a = b"
  by (metis xor_cancel_right xor.commute)

lemma unat_of_nat_small [simp]:
  "n < 2 ^ 16 \<Longrightarrow> unat (of_nat n :: 16 word) = n"
  "n < 2 ^ 32 \<Longrightarrow> unat (of_nat n :: 32 word) = n"
  "n < 2 ^ 64 \<Longrightarrow> unat (of_nat n :: 64 word) = n"
  by (simp_all add: unsigned_of_nat take_bit_nat_eq_self)

text \<open>A 32-bit signed value is a \<open>32 word\<close> read by \<open>sint\<close>; a signed operation whose result
  does not fit has undefined behaviour.\<close>

definition i32_fits :: "int \<Rightarrow> bool" where
  "i32_fits x \<longleftrightarrow> - (2 ^ 31) \<le> x \<and> x < 2 ^ 31"

lemma i32_fits_sint [simp]: "i32_fits (sint (w :: 32 word))"
  using sint_range_size [of w] by (simp add: i32_fits_def word_size)

lemma sint_of_int_i32 [simp]: "i32_fits x \<Longrightarrow> sint (word_of_int x :: 32 word) = x"
  by (auto simp: i32_fits_def int_word_sint)

section \<open>Prefixes\<close>

lemma prefix_append_iff:
  "prefix (a @ b) x \<longleftrightarrow> prefix a x \<and> prefix b (drop (length a) x)"
  by (auto simp: prefix_def)

lemma prefix_eq_take: "prefix a x \<longleftrightarrow> length a \<le> length x \<and> take (length a) x = a"
  by (metis append_eq_conv_conj prefix_def prefix_length_le append_take_drop_id)

section \<open>Results of a call\<close>

text \<open>
  A call returns a value, stops with an error (\<open>Err\<close>, whose payload is what the caller can
  see: a status, or a status with the out-parameter), or has undefined behaviour
  (\<open>Fault\<close>).  A \<open>Fault\<close> absorbs everything after it.
\<close>

datatype fault =
    Oob_read         \<comment> \<open>read outside an object\<close>
  | Oob_write        \<comment> \<open>write outside an object\<close>
  | Uninit_read      \<comment> \<open>read of an indeterminate value\<close>
  | Null_deref       \<comment> \<open>access through a null pointer\<close>
  | Use_after_free   \<comment> \<open>access through a dangling pointer\<close>
  | Double_free      \<comment> \<open>free of a dangling pointer\<close>
  | Int_overflow     \<comment> \<open>overflow of a signed operation\<close>
  | Size_underflow   \<comment> \<open>a size subtraction that would go below zero\<close>
  | Hangs            \<comment> \<open>a loop that does not end\<close>

datatype ('e, 'a) res = Ok 'a | Err 'e | Fault fault

fun rbind :: "('e, 'a) res \<Rightarrow> ('a \<Rightarrow> ('e, 'b) res) \<Rightarrow> ('e, 'b) res" where
  "rbind (Ok x) f = f x"
| "rbind (Err e) f = Err e"
| "rbind (Fault u) f = Fault u"

text \<open>\<^verbatim>\<open>if (call != IPMB_OK) return e\<close>: every error of the call becomes \<open>e\<close>.\<close>

fun or_fail :: "('e, 'a) res \<Rightarrow> 'f \<Rightarrow> ('f, 'a) res" where
  "or_fail (Ok x) e = Ok x"
| "or_fail (Err _) e = Err e"
| "or_fail (Fault u) e = Fault u"

fun map_err :: "('e \<Rightarrow> 'f) \<Rightarrow> ('e, 'a) res \<Rightarrow> ('f, 'a) res" where
  "map_err f (Ok x) = Ok x"
| "map_err f (Err e) = Err (f e)"
| "map_err f (Fault u) = Fault u"

text \<open>\<^verbatim>\<open>if (!cond) return e\<close> and the two kinds of check that have no branch in C.\<close>

definition guard :: "bool \<Rightarrow> 'e \<Rightarrow> ('e, unit) res" where
  "guard b e = (if b then Ok () else Err e)"

definition checked_add_i32 :: "32 word \<Rightarrow> 32 word \<Rightarrow> ('e, 32 word) res" where
  "checked_add_i32 a b = (if i32_fits (sint a + sint b) then Ok (a + b) else Fault Int_overflow)"

definition no_fault :: "('e, 'a) res \<Rightarrow> bool" where
  "no_fault m \<longleftrightarrow> (\<forall>u. m \<noteq> Fault u)"

named_theorems res_simps \<open>unfolding of the result combinators\<close>
named_theorems safe_intro \<open>absence of undefined behaviour\<close>

lemma rbind_eq_Ok [simp]:
  "rbind m f = Ok y \<longleftrightarrow> (\<exists>x. m = Ok x \<and> f x = Ok y)"
  by (cases m) auto

lemma rbind_eq_Err [simp]:
  "rbind m f = Err e \<longleftrightarrow> m = Err e \<or> (\<exists>x. m = Ok x \<and> f x = Err e)"
  by (cases m) auto

lemma rbind_eq_Fault [simp]:
  "rbind m f = Fault u \<longleftrightarrow> m = Fault u \<or> (\<exists>x. m = Ok x \<and> f x = Fault u)"
  by (cases m) auto

lemma or_fail_eq_Ok [simp]: "or_fail m e = Ok x \<longleftrightarrow> m = Ok x"
  by (cases m) auto

lemma or_fail_eq_Err [simp]: "or_fail m e = Err d \<longleftrightarrow> d = e \<and> (\<exists>c. m = Err c)"
  by (cases m) auto

lemma or_fail_eq_Fault [simp]: "or_fail m e = Fault u \<longleftrightarrow> m = Fault u"
  by (cases m) auto

lemma map_err_eq_Ok [simp]: "map_err f m = Ok x \<longleftrightarrow> m = Ok x"
  by (cases m) auto

lemma map_err_eq_Err [simp]: "map_err f m = Err d \<longleftrightarrow> (\<exists>c. m = Err c \<and> d = f c)"
  by (cases m) auto

lemma map_err_eq_Fault [simp]: "map_err f m = Fault u \<longleftrightarrow> m = Fault u"
  by (cases m) auto

lemma guard_eq_Ok [simp]: "guard b e = Ok x \<longleftrightarrow> b"
  by (simp add: guard_def)

lemma guard_eq_Err [simp]: "guard b e = Err d \<longleftrightarrow> \<not> b \<and> d = e"
  by (auto simp: guard_def)

lemma guard_neq_Fault [simp]: "guard b e \<noteq> Fault u"
  by (simp add: guard_def)

lemma guard_True [simp]: "guard True e = Ok ()"
  by (simp add: guard_def)

lemma guard_False [simp]: "guard False e = Err e"
  by (simp add: guard_def)

lemma rbind_assoc: "rbind (rbind m f) g = rbind m (\<lambda>x. rbind (f x) g)"
  by (cases m) auto

lemma rbind_cong [fundef_cong]:
  "m = m' \<Longrightarrow> (\<And>x. m' = Ok x \<Longrightarrow> f x = g x) \<Longrightarrow> rbind m f = rbind m' g"
  by (cases m') auto

lemma no_fault_simps [simp]:
  "no_fault (Ok x)" "no_fault (Err e)" "\<not> no_fault (Fault u)"
  by (simp_all add: no_fault_def)

lemma no_fault_guard [simp]: "no_fault (guard b e)"
  by (simp add: no_fault_def)

lemma no_fault_or_fail [simp]: "no_fault (or_fail m e) \<longleftrightarrow> no_fault m"
  by (simp add: no_fault_def)

lemma no_fault_map_err [simp]: "no_fault (map_err f m) \<longleftrightarrow> no_fault m"
  by (simp add: no_fault_def)

lemma no_fault_rbind [safe_intro]:
  "no_fault m \<Longrightarrow> (\<And>x. m = Ok x \<Longrightarrow> no_fault (f x)) \<Longrightarrow> no_fault (rbind m f)"
  by (cases m) auto

lemma no_fault_ex_Ok: "no_fault m \<Longrightarrow> (\<And>e. m \<noteq> Err e) \<Longrightarrow> \<exists>v. m = Ok v"
  by (cases m) auto

lemma res_eq_by_OkI:
  "(\<And>x. m = Ok x \<longleftrightarrow> m' = Ok x) \<Longrightarrow> no_fault m \<Longrightarrow> no_fault m' \<Longrightarrow>
   (\<And>e. m = Err e \<longleftrightarrow> m' = Err e) \<Longrightarrow> m = m'"
  by (cases m; cases m') auto

end
