(* ===== verification/C_Memory.thy ===== *)
theory C_Memory
  imports Ipmb_Prelude
begin

text \<open>
  The memory the C code works on.  A \<^verbatim>\<open>const\<close> input \<open>(pointer, length)\<close> is the list of the
  bytes of its object; an access outside it is a \<open>Fault\<close>.  A block returned by the allocator
  is a list of cells, \<open>None\<close> in a cell that was never written.  Whether the allocator
  succeeds is not known: every call that allocates takes an \<open>allocs\<close>, whose \<open>k\<close>-th answer
  is the outcome of the \<open>k\<close>-th allocation the call makes.
\<close>

section \<open>Input buffers\<close>

type_synonym byte = "8 word"

definition rd8 :: "'a list \<Rightarrow> nat \<Rightarrow> ('e, 'a) res" where
  "rd8 d i = (if i < length d then Ok (d ! i) else Fault Oob_read)"

definition rd_bytes :: "'a list \<Rightarrow> nat \<Rightarrow> nat \<Rightarrow> ('e, 'a list) res" where
  "rd_bytes d off n = (if off + n \<le> length d then Ok (take n (drop off d)) else Fault Oob_read)"

definition usub :: "nat \<Rightarrow> nat \<Rightarrow> ('e, nat) res" where
  "usub a b = (if b \<le> a then Ok (a - b) else Fault Size_underflow)"

definition ascii :: "string \<Rightarrow> byte list" where
  "ascii s = map of_char s"

text \<open>\<^verbatim>\<open>memcmp(data, magic, strlen(magic)) == 0\<close>.\<close>

definition has_magic :: "byte list \<Rightarrow> string \<Rightarrow> ('e, bool) res" where
  "has_magic d s = rbind (rd_bytes d 0 (length s)) (\<lambda>b. Ok (b = ascii s))"

lemma rd8_eq_Ok [simp]: "rd8 d i = Ok x \<longleftrightarrow> i < length d \<and> x = d ! i"
  by (auto simp: rd8_def)

lemma rd8_neq_Err [simp]: "rd8 d i \<noteq> Err e"
  by (simp add: rd8_def)

lemma rd8_eq_Fault [simp]: "rd8 d i = Fault u \<longleftrightarrow> length d \<le> i \<and> u = Oob_read"
  by (auto simp: rd8_def)

lemma rd_bytes_eq_Ok [simp]:
  "rd_bytes d off n = Ok x \<longleftrightarrow> off + n \<le> length d \<and> x = take n (drop off d)"
  by (auto simp: rd_bytes_def)

lemma rd_bytes_neq_Err [simp]: "rd_bytes d off n \<noteq> Err e"
  by (simp add: rd_bytes_def)

lemma rd_bytes_eq_Fault [simp]:
  "rd_bytes d off n = Fault u \<longleftrightarrow> length d < off + n \<and> u = Oob_read"
  by (auto simp: rd_bytes_def)

lemma usub_eq_Ok [simp]: "usub a b = Ok x \<longleftrightarrow> b \<le> a \<and> x = a - b"
  by (auto simp: usub_def)

lemma usub_neq_Err [simp]: "usub a b \<noteq> Err e"
  by (simp add: usub_def)

lemma usub_eq_Fault [simp]: "usub a b = Fault u \<longleftrightarrow> a < b \<and> u = Size_underflow"
  by (auto simp: usub_def)

lemma no_fault_rd8 [simp]: "no_fault (rd8 d i) \<longleftrightarrow> i < length d"
  by (simp add: rd8_def)

lemma no_fault_rd_bytes [simp]: "no_fault (rd_bytes d off n) \<longleftrightarrow> off + n \<le> length d"
  by (simp add: rd_bytes_def)

lemma no_fault_usub [simp]: "no_fault (usub a b) \<longleftrightarrow> b \<le> a"
  by (simp add: usub_def)

lemma length_ascii [simp]: "length (ascii s) = length s"
  by (simp add: ascii_def)

lemma has_magic_eq [simp]:
  "length s = 4 \<Longrightarrow> 4 \<le> length d \<Longrightarrow> has_magic d s = Ok (take 4 d = ascii s)"
  by (simp add: has_magic_def rd_bytes_def)

lemma prefix_magic:
  "length s = 4 \<Longrightarrow> prefix (ascii s) d \<longleftrightarrow> 4 \<le> length d \<and> take 4 d = ascii s"
  by (simp add: prefix_eq_take)

section \<open>Allocated cells\<close>

type_synonym allocs = "nat \<Rightarrow> bool"

type_synonym 'a cells = "'a option list"

definition malloc_cells :: "nat \<Rightarrow> 'a cells" where
  "malloc_cells n = replicate n None"

definition calloc_cells :: "'a \<Rightarrow> nat \<Rightarrow> 'a cells" where
  "calloc_cells z n = replicate n (Some z)"

text \<open>\<^verbatim>\<open>realloc\<close> keeps the common prefix and leaves what it adds indeterminate.\<close>

definition realloc_cells :: "nat \<Rightarrow> 'a cells \<Rightarrow> 'a cells" where
  "realloc_cells n b = take n b @ replicate (n - length b) None"

definition store_cells :: "'a cells \<Rightarrow> nat \<Rightarrow> 'a list \<Rightarrow> ('e, 'a cells) res" where
  "store_cells b off xs =
     (if off + length xs \<le> length b
      then Ok (take off b @ map Some xs @ drop (off + length xs) b)
      else Fault Oob_write)"

definition load_cells :: "'a cells \<Rightarrow> nat \<Rightarrow> nat \<Rightarrow> ('e, 'a list) res" where
  "load_cells b off n =
     (if off + n \<le> length b
      then if None \<in> set (take n (drop off b)) then Fault Uninit_read
           else Ok (map the (take n (drop off b)))
      else Fault Oob_read)"

definition alloc :: "allocs \<Rightarrow> nat \<Rightarrow> 'e \<Rightarrow> ('e, unit) res" where
  "alloc al k e = guard (al k) e"

text \<open>
  \<^verbatim>\<open>while (cap < need) cap *= 2u;\<close> on \<^verbatim>\<open>size_t\<close>, whose multiplication wraps around.  \<open>None\<close>
  is a loop that does not end (once \<open>cap\<close> has wrapped to 0).
\<close>

definition size_modulus :: nat where
  "size_modulus = 2 ^ 64"

partial_function (option) double_until :: "nat \<Rightarrow> nat \<Rightarrow> nat option" where
  "double_until need cap =
     (if cap < need then double_until need (cap * 2 mod size_modulus) else Some cap)"

declare double_until.simps [code]

fun or_hang :: "'a option \<Rightarrow> ('e, 'a) res" where
  "or_hang None = Fault Hangs"
| "or_hang (Some x) = Ok x"

lemma double_until_stops:
  "need \<le> 2 ^ 63 \<Longrightarrow> 0 < cap \<Longrightarrow>
   \<exists>c. double_until need cap = Some c \<and> need \<le> c \<and> cap \<le> c \<and> (c = cap \<or> c < 2 * need)"
proof (induction "need - cap" arbitrary: cap rule: less_induct)
  case less
  show ?case
  proof (cases "cap < need")
    case True
    have small: "cap * 2 mod size_modulus = cap * 2"
      using True less.prems by (simp add: size_modulus_def)
    have decr: "need - cap * 2 < need - cap"
      using True less.prems by linarith
    obtain c where "double_until need (cap * 2) = Some c" "need \<le> c" "cap * 2 \<le> c"
        "c = cap * 2 \<or> c < 2 * need"
      using less.hyps [OF decr] less.prems by auto
    with True small show ?thesis
      by (subst double_until.simps) auto
  next
    case False
    then show ?thesis by (subst double_until.simps) auto
  qed
qed

text \<open>\<open>holds b xs\<close>: the block \<open>b\<close> starts with the written values \<open>xs\<close>.\<close>

definition holds :: "'a cells \<Rightarrow> 'a list \<Rightarrow> bool" where
  "holds b xs \<longleftrightarrow> length xs \<le> length b \<and> take (length xs) b = map Some xs"

lemma alloc_eq_Ok [simp]: "alloc al k e = Ok x \<longleftrightarrow> al k"
  by (simp add: alloc_def)

lemma alloc_eq_Err [simp]: "alloc al k e = Err d \<longleftrightarrow> \<not> al k \<and> d = e"
  by (simp add: alloc_def)

lemma alloc_neq_Fault [simp]: "alloc al k e \<noteq> Fault u"
  by (simp add: alloc_def)

lemma no_fault_alloc [simp]: "no_fault (alloc al k e)"
  by (simp add: alloc_def)

lemma alloc_True [simp]: "al k \<Longrightarrow> alloc al k e = Ok ()"
  by (simp add: alloc_def)

lemma length_malloc_cells [simp]: "length (malloc_cells n) = n"
  by (simp add: malloc_cells_def)

lemma length_calloc_cells [simp]: "length (calloc_cells z n) = n"
  by (simp add: calloc_cells_def)

lemma length_realloc_cells [simp]: "length (realloc_cells n b) = n"
  by (simp add: realloc_cells_def)

lemma length_store_cells: "store_cells b off xs = Ok b' \<Longrightarrow> length b' = length b"
  by (auto simp: store_cells_def split: if_splits)

lemma store_cells_neq_Err [simp]: "store_cells b off xs \<noteq> Err e"
  by (simp add: store_cells_def)

lemma store_cells_eq_Fault [simp]:
  "store_cells b off xs = Fault u \<longleftrightarrow> length b < off + length xs \<and> u = Oob_write"
  by (auto simp: store_cells_def)

lemma no_fault_store_cells [simp]:
  "no_fault (store_cells b off xs) \<longleftrightarrow> off + length xs \<le> length b"
  by (simp add: store_cells_def)

lemma load_cells_neq_Err [simp]: "load_cells b off n \<noteq> Err e"
  by (simp add: load_cells_def)

lemma holds_Nil [simp]: "holds b []"
  by (simp add: holds_def)

lemma holds_length: "holds b xs \<Longrightarrow> length xs \<le> length b"
  by (simp add: holds_def)

lemma holds_unique: "holds b xs \<Longrightarrow> holds b ys \<Longrightarrow> length xs = length ys \<Longrightarrow> xs = ys"
  by (auto simp: holds_def dest: map_injective[OF _ inj_Some] intro: inj_Some)

lemma holds_append_prefix: "holds b (xs @ ys) \<Longrightarrow> holds b xs"
  unfolding holds_def
  by (metis append_eq_conv_conj length_append length_map le_add1 le_trans map_append take_append
      take_add take_take min.absorb1)

lemma holds_realloc:
  "holds b xs \<Longrightarrow> length xs \<le> n \<Longrightarrow> holds (realloc_cells n b) xs"
  by (auto simp: holds_def realloc_cells_def min_def)

lemma load_holds: "holds b xs \<Longrightarrow> load_cells b 0 (length xs) = Ok xs"
  by (auto simp: holds_def load_cells_def)

lemma store_holds:
  assumes "holds b xs" "length xs + length ys \<le> length b"
  obtains b' where "store_cells b (length xs) ys = Ok b'"
    and "holds b' (xs @ ys)" and "length b' = length b"
proof
  let ?b' = "take (length xs) b @ map Some ys @ drop (length xs + length ys) b"
  show "store_cells b (length xs) ys = Ok ?b'"
    using assms by (simp add: store_cells_def)
  show "holds ?b' (xs @ ys)"
    using assms by (auto simp: holds_def)
  show "length ?b' = length b"
    using assms by simp
qed

lemma store_holds_snoc:
  assumes "holds b xs" "length xs < length b"
  obtains b' where "store_cells b (length xs) [x] = Ok b'"
    and "holds b' (xs @ [x])" and "length b' = length b"
  using store_holds [OF assms(1), of "[x]"] assms(2) by auto

end
