(* ===== verification/Endian.thy ===== *)
theory Endian
  imports C_Memory
begin

text \<open>
  Little-endian loads and stores, \<^verbatim>\<open>src/util/endian.c\<close>.  A load reads its bytes through
  \<open>rd8\<close>, so it is undefined outside the object; a store writes them through
  \<open>store_cells\<close>.  \<open>le16_bytes\<close>, \<open>le32_bytes\<close> and \<open>le64_bytes\<close> are the wire images
  of a value; the main lemmas say that a load succeeds with \<open>v\<close> exactly when the bytes it
  reads are the image of \<open>v\<close>.
\<close>

section \<open>The code\<close>

definition ipmb_load_le16 :: "byte list \<Rightarrow> nat \<Rightarrow> ('e, 16 word) res" where
  "ipmb_load_le16 p o0 =
     rbind (rd8 p o0) (\<lambda>b0. rbind (rd8 p (o0 + 1)) (\<lambda>b1.
       Ok (ucast b0 OR push_bit 8 (ucast b1))))"

definition ipmb_load_le32 :: "byte list \<Rightarrow> nat \<Rightarrow> ('e, 32 word) res" where
  "ipmb_load_le32 p o0 =
     rbind (rd8 p o0) (\<lambda>b0. rbind (rd8 p (o0 + 1)) (\<lambda>b1.
     rbind (rd8 p (o0 + 2)) (\<lambda>b2. rbind (rd8 p (o0 + 3)) (\<lambda>b3.
       Ok (ucast b0 OR push_bit 8 (ucast b1) OR push_bit 16 (ucast b2)
             OR push_bit 24 (ucast b3))))))"

definition ipmb_load_le64 :: "byte list \<Rightarrow> nat \<Rightarrow> ('e, 64 word) res" where
  "ipmb_load_le64 p o0 =
     rbind (ipmb_load_le32 p o0) (\<lambda>lo. rbind (ipmb_load_le32 p (o0 + 4)) (\<lambda>hi.
       Ok (ucast lo OR push_bit 32 (ucast hi))))"

definition le16_bytes :: "16 word \<Rightarrow> byte list" where
  "le16_bytes v = [ucast (v AND 0xff), ucast (drop_bit 8 v)]"

definition le32_bytes :: "32 word \<Rightarrow> byte list" where
  "le32_bytes v = [ucast (v AND 0xff), ucast (drop_bit 8 v AND 0xff),
                   ucast (drop_bit 16 v AND 0xff), ucast (drop_bit 24 v AND 0xff)]"

definition ipmb_store_le16 :: "byte cells \<Rightarrow> nat \<Rightarrow> 16 word \<Rightarrow> ('e, byte cells) res" where
  "ipmb_store_le16 p o0 v = store_cells p o0 (le16_bytes v)"

definition ipmb_store_le32 :: "byte cells \<Rightarrow> nat \<Rightarrow> 32 word \<Rightarrow> ('e, byte cells) res" where
  "ipmb_store_le32 p o0 v = store_cells p o0 (le32_bytes v)"

section \<open>Wire images\<close>

definition le64_bytes :: "64 word \<Rightarrow> byte list" where
  "le64_bytes v = le32_bytes (ucast v) @ le32_bytes (ucast (drop_bit 32 v))"

lemma length_le_bytes [simp]:
  "length (le16_bytes v) = 2" "length (le32_bytes w) = 4" "length (le64_bytes x) = 8"
  by (simp_all add: le16_bytes_def le32_bytes_def le64_bytes_def)

lemma and_ff: "(w :: 'a::len word) AND 0xff = take_bit 8 w"
  by (simp add: take_bit_eq_mask mask_eq_exp_minus_1)

lemma le16_join:
  "(ucast (ucast (v AND 0xff) :: byte) OR push_bit 8 (ucast (ucast (drop_bit 8 v) :: byte)) :: 16 word)
     = v"
  by (rule bit_word_eqI) (auto simp: and_ff bit_simps)

lemma le32_join:
  "(ucast (ucast (v AND 0xff) :: byte) OR push_bit 8 (ucast (ucast (drop_bit 8 v AND 0xff) :: byte))
    OR push_bit 16 (ucast (ucast (drop_bit 16 v AND 0xff) :: byte))
    OR push_bit 24 (ucast (ucast (drop_bit 24 v AND 0xff) :: byte)) :: 32 word)
     = v"
  by (rule bit_word_eqI) (auto simp: and_ff bit_simps not_less, rule ccontr, simp add: not_less)

lemma le64_join:
  "(ucast (ucast v :: 32 word) OR push_bit 32 (ucast (ucast (drop_bit 32 v) :: 32 word)) :: 64 word)
     = v"
  by (rule bit_word_eqI) (auto simp: bit_simps)

lemma le16_split: "le16_bytes (ucast b0 OR push_bit 8 (ucast b1)) = [b0, b1]"
  unfolding le16_bytes_def and_ff
  by (simp; intro conjI; rule bit_word_eqI; auto simp: bit_simps dest: bit_imp_le_length)

lemma le32_split:
  "le32_bytes (ucast b0 OR push_bit 8 (ucast b1) OR push_bit 16 (ucast b2) OR push_bit 24 (ucast b3))
     = [b0, b1, b2, b3]"
  unfolding le32_bytes_def and_ff
  by (simp; intro conjI; rule bit_word_eqI; auto simp: bit_simps dest: bit_imp_le_length)

lemma le64_split:
  "le64_bytes (ucast lo OR push_bit 32 (ucast hi)) = le32_bytes lo @ le32_bytes hi"
proof -
  have "(ucast (ucast lo OR push_bit 32 (ucast hi) :: 64 word) :: 32 word) = lo"
    by (rule bit_word_eqI) (auto simp: bit_simps)
  moreover have "(ucast (drop_bit 32 (ucast lo OR push_bit 32 (ucast hi) :: 64 word)) :: 32 word) = hi"
    by (rule bit_word_eqI) (auto simp: bit_simps dest: bit_imp_le_length)
  ultimately show ?thesis by (simp add: le64_bytes_def)
qed

lemma le_bytes_inj:
  "inj le16_bytes" "inj le32_bytes" "inj le64_bytes"
proof -
  define j16 :: "byte list \<Rightarrow> 16 word" where
    "j16 = (\<lambda>b. ucast (b ! 0) OR push_bit 8 (ucast (b ! 1)))"
  define j32 :: "byte list \<Rightarrow> 32 word" where
    "j32 = (\<lambda>b. ucast (b ! 0) OR push_bit 8 (ucast (b ! 1)) OR push_bit 16 (ucast (b ! 2))
              OR push_bit 24 (ucast (b ! 3)))"
  have "j16 (le16_bytes v) = v" for v
    using le16_join [of v] by (simp only: j16_def le16_bytes_def nth_Cons_0 nth_Cons_Suc One_nat_def)
  then show "inj le16_bytes" by (rule inj_on_inverseI)
  have j32: "j32 (le32_bytes w) = w" for w
    using le32_join [of w]
    by (simp only: j32_def le32_bytes_def nth_Cons_0 nth_Cons_Suc One_nat_def numeral_2_eq_2 numeral_3_eq_3)
  then show "inj le32_bytes" by (rule inj_on_inverseI)
  define j64 :: "byte list \<Rightarrow> 64 word" where
    "j64 = (\<lambda>b. ucast (j32 (take 4 b)) OR push_bit 32 (ucast (j32 (drop 4 b))))"
  have "j64 (le64_bytes x) = x" for x
    by (simp add: j64_def le64_bytes_def j32 le64_join)
  then show "inj le64_bytes" by (rule inj_on_inverseI)
qed

lemma le_bytes_inject [simp]:
  "le16_bytes v = le16_bytes v' \<longleftrightarrow> v = v'"
  "le32_bytes w = le32_bytes w' \<longleftrightarrow> w = w'"
  "le64_bytes x = le64_bytes x' \<longleftrightarrow> x = x'"
  by (simp_all add: le_bytes_inj inj_eq)

section \<open>Loads read exactly the wire image\<close>

lemma take_2_drop: "i + 2 \<le> length d \<Longrightarrow> take 2 (drop i d) = [d ! i, d ! Suc i]"
  by (simp add: take_Suc_conv_app_nth numeral_2_eq_2)

lemma take_4_drop:
  "i + 4 \<le> length d \<Longrightarrow> take 4 (drop i d) = [d ! i, d ! (i + 1), d ! (i + 2), d ! (i + 3)]"
  by (simp add: take_Suc_conv_app_nth numeral_eq_Suc)

lemma load_le16_eq_Ok [simp]:
  "ipmb_load_le16 d i = Ok v \<longleftrightarrow> i + 2 \<le> length d \<and> take 2 (drop i d) = le16_bytes v"
proof (cases "i + 2 \<le> length d")
  case True
  then show ?thesis
    unfolding take_2_drop [OF True]
    by (auto simp: ipmb_load_le16_def le16_split) (simp_all add: le16_bytes_def le16_join)
next
  case False
  then show ?thesis by (auto simp: ipmb_load_le16_def)
qed

lemma load_le32_eq_Ok [simp]:
  "ipmb_load_le32 d i = Ok v \<longleftrightarrow> i + 4 \<le> length d \<and> take 4 (drop i d) = le32_bytes v"
proof (cases "i + 4 \<le> length d")
  case True
  then show ?thesis
    unfolding take_4_drop [OF True]
    by (auto simp: ipmb_load_le32_def le32_split) (simp_all add: le32_bytes_def le32_join)
next
  case False
  then show ?thesis by (auto simp: ipmb_load_le32_def)
qed

lemma load_le64_eq_Ok [simp]:
  "ipmb_load_le64 d i = Ok v \<longleftrightarrow> i + 8 \<le> length d \<and> take 8 (drop i d) = le64_bytes v"
proof -
  have *: "take 8 (drop i d) = take 4 (drop i d) @ take 4 (drop (i + 4) d)"
    using take_add [of 4 4 "drop i d"] by (simp add: add.commute)
  show ?thesis
    by (auto simp: ipmb_load_le64_def * le64_split)
       (auto simp: le64_bytes_def le64_join)
qed

lemma load_le_neq_Err [simp]:
  "ipmb_load_le16 d i \<noteq> Err e" "ipmb_load_le32 d i \<noteq> Err e" "ipmb_load_le64 d i \<noteq> Err e"
  by (simp_all add: ipmb_load_le16_def ipmb_load_le32_def ipmb_load_le64_def)

lemma no_fault_load_le [simp]:
  "no_fault (ipmb_load_le16 d i) \<longleftrightarrow> i + 2 \<le> length d"
  "no_fault (ipmb_load_le32 d i) \<longleftrightarrow> i + 4 \<le> length d"
  "no_fault (ipmb_load_le64 d i) \<longleftrightarrow> i + 8 \<le> length d"
  by (auto simp: no_fault_def ipmb_load_le16_def ipmb_load_le32_def ipmb_load_le64_def not_le)

end
