(* ===== verification/Checksum.thy ===== *)
theory Checksum
  imports Endian
begin

text \<open>
  The CRC-32 of \<^verbatim>\<open>src/util/checksum.c\<close> (bit by bit, polynomial \<^verbatim>\<open>0xedb88320\<close>) and the
  probe table of \<^verbatim>\<open>src/protocol/crc_table.c\<close>.  The register update is linear and injective;
  from this come the chaining law, the agreement with the table-driven computation whose
  first sixteen entries the probe table keeps, and the detection of every error confined to
  four consecutive bytes.
\<close>

section \<open>The code\<close>

definition crc_bit :: "32 word \<Rightarrow> 32 word" where
  "crc_bit crc =
     (let mask = 0 - (crc AND 1) in drop_bit 1 crc XOR (0xedb88320 AND mask))"

fun crc_bits :: "nat \<Rightarrow> 32 word \<Rightarrow> 32 word" where
  "crc_bits 0 crc = crc"
| "crc_bits (Suc n) crc = crc_bits n (crc_bit crc)"

fun crc_loop :: "32 word \<Rightarrow> byte list \<Rightarrow> 32 word" where
  "crc_loop crc [] = crc"
| "crc_loop crc (b # bs) = crc_loop (crc_bits 8 (crc XOR ucast b)) bs"

definition ipmb_crc32_extend :: "32 word \<Rightarrow> byte list \<Rightarrow> 32 word" where
  "ipmb_crc32_extend seed data = crc_loop (seed XOR 0xffffffff) data XOR 0xffffffff"

definition ipmb_crc32 :: "byte list \<Rightarrow> 32 word" where
  "ipmb_crc32 data = ipmb_crc32_extend 0 data"

definition crc32_probe_table :: "32 word list" where
  "crc32_probe_table =
    [0x00000000, 0x77073096, 0xee0e612c, 0x990951ba,
     0x076dc419, 0x706af48f, 0xe963a535, 0x9e6495a3,
     0x0edb8832, 0x79dcb8a4, 0xe0d5e91e, 0x97d2d988,
     0x09b64c2b, 0x7eb17cbd, 0xe7b82d07, 0x90bf1d91]"

definition ipmb_crc32_probe_value :: "nat \<Rightarrow> 32 word" where
  "ipmb_crc32_probe_value index = crc32_probe_table ! (index AND 15)"

section \<open>One step of the register\<close>

lemma crc_bit_if:
  "crc_bit c = drop_bit 1 c XOR (if bit c 0 then 0xedb88320 else 0)"
proof -
  have "c AND 1 = (if bit c 0 then 1 else 0)"
    by (simp add: and_one_eq mod_2_eq_odd bit_0)
  then show ?thesis by (simp add: crc_bit_def)
qed

lemma crc_bit_xor: "crc_bit (a XOR b) = crc_bit a XOR crc_bit b"
  by (simp add: crc_bit_if drop_bit_xor bit_xor_iff ac_simps)

lemma crc_bits_xor: "crc_bits n (a XOR b) = crc_bits n a XOR crc_bits n b"
  by (induction n arbitrary: a b) (simp_all add: crc_bit_xor)

lemma crc_bits_add: "crc_bits (m + n) c = crc_bits n (crc_bits m c)"
  by (induction m arbitrary: c) simp_all

text \<open>The top bit of the result tells whether the polynomial was added.\<close>

lemma bit_31_crc_bit: "bit (crc_bit c) 31 \<longleftrightarrow> bit c 0"
  by (auto simp: crc_bit_if bit_xor_iff bit_drop_bit_eq dest: bit_imp_le_length)

lemma crc_bit_inject: "crc_bit a = crc_bit b \<longleftrightarrow> a = b"
proof
  assume eq: "crc_bit a = crc_bit b"
  then have low: "bit a 0 \<longleftrightarrow> bit b 0"
    by (metis bit_31_crc_bit)
  with eq have high: "drop_bit 1 a = drop_bit 1 b"
    by (auto simp: crc_bit_if split: if_splits)
  show "a = b"
  proof (rule bit_word_eqI)
    fix n
    show "bit a n \<longleftrightarrow> bit b n"
      using low arg_cong [OF high, of "\<lambda>w. bit w (n - 1)"]
      by (cases n) (simp_all add: bit_drop_bit_eq)
  qed
qed simp

lemma crc_bits_inject: "crc_bits n a = crc_bits n b \<longleftrightarrow> a = b"
  by (induction n arbitrary: a b) (simp_all add: crc_bit_inject)

text \<open>A register with \<open>n\<close> clear low bits is only shifted by the next \<open>n\<close> steps.\<close>

lemma crc_bits_clear: "(\<And>i. i < n \<Longrightarrow> \<not> bit c i) \<Longrightarrow> crc_bits n c = drop_bit n c"
proof (induction n arbitrary: c)
  case (Suc n)
  have "crc_bit c = drop_bit 1 c"
    using Suc.prems [of 0] by (simp add: crc_bit_if)
  moreover have "\<And>i. i < n \<Longrightarrow> \<not> bit (drop_bit 1 c) i"
    using Suc.prems by (auto simp: bit_drop_bit_eq)
  ultimately show ?case
    using Suc.IH [of "drop_bit 1 c"] by simp
qed simp

lemma split_low_byte: "(c :: 32 word) = (c AND 0xff) XOR push_bit 8 (drop_bit 8 c)"
  by (rule bit_word_eqI) (auto simp: and_ff bit_simps)

section \<open>Chaining\<close>

lemma crc_loop_append: "crc_loop c (xs @ ys) = crc_loop (crc_loop c xs) ys"
  by (induction xs arbitrary: c) simp_all

section \<open>The table-driven computation\<close>

text \<open>The computation the probe table was kept for: one table look-up per byte.\<close>

definition crc_table :: "32 word \<Rightarrow> 32 word" where
  "crc_table i = crc_bits 8 i"

fun crc_table_loop :: "32 word \<Rightarrow> byte list \<Rightarrow> 32 word" where
  "crc_table_loop crc [] = crc"
| "crc_table_loop crc (b # bs) =
     crc_table_loop (crc_table ((crc XOR ucast b) AND 0xff) XOR drop_bit 8 crc) bs"

lemma drop_8_ucast: "drop_bit 8 (ucast (b :: byte) :: 32 word) = 0"
  by (rule bit_word_eqI) (auto simp: bit_simps dest: bit_imp_le_length)

lemma crc_bits_8_table: "crc_bits 8 c = crc_table (c AND 0xff) XOR drop_bit 8 c"
proof -
  have "crc_bits 8 (push_bit 8 (drop_bit 8 c)) = drop_bit 8 (push_bit 8 (drop_bit 8 c))"
    by (rule crc_bits_clear) (simp add: bit_push_bit_iff)
  also have "\<dots> = drop_bit 8 c"
    by (rule bit_word_eqI) (auto simp: bit_simps dest: bit_imp_le_length)
  finally show ?thesis
    by (subst split_low_byte [of c]) (simp only: crc_bits_xor crc_table_def)
qed

lemma crc_loop_table: "crc_loop c bs = crc_table_loop c bs"
  by (induction bs arbitrary: c) (simp_all add: crc_bits_8_table drop_bit_xor drop_8_ucast)

lemma probe_index: "(i :: nat) AND 15 = i mod 16"
  using take_bit_eq_mask [of 4 i] by (simp add: take_bit_eq_mod mask_eq_exp_minus_1)

lemma probe_table_eq: "crc32_probe_table = map (\<lambda>i. crc_table (of_nat i)) [0..<16]"
  by code_simp

section \<open>Four bytes fill the register\<close>

fun le_word :: "byte list \<Rightarrow> 32 word" where
  "le_word [] = 0"
| "le_word (b # bs) = ucast b XOR push_bit 8 (le_word bs)"

lemma le_word_high: "length bs \<le> k \<Longrightarrow> 8 * k \<le> i \<Longrightarrow> \<not> bit (le_word bs) i"
proof (induction bs arbitrary: k i)
  case (Cons b bs)
  then obtain j where k: "k = Suc j" "length bs \<le> j" by (cases k) auto
  with Cons.prems Cons.IH [of j "i - 8"] show ?case
    by (auto simp: bit_simps dest: bit_imp_le_length)
qed simp

lemma le_word_shift: "length bs \<le> 3 \<Longrightarrow> drop_bit 8 (push_bit 8 (le_word bs)) = le_word bs"
  using le_word_high [of bs 3] by (intro bit_word_eqI) (auto simp: bit_simps, metis not_le)

lemma crc_loop_le_word:
  "length bs \<le> 4 \<Longrightarrow> crc_loop c bs = crc_bits (8 * length bs) (c XOR le_word bs)"
proof (induction bs arbitrary: c)
  case (Cons b bs)
  have "crc_bits 8 (push_bit 8 (le_word bs)) = le_word bs"
    using Cons.prems le_word_shift [of bs]
    by (subst crc_bits_clear) (simp_all add: bit_push_bit_iff)
  then have "crc_bits 8 (c XOR ucast b) XOR le_word bs = crc_bits 8 (c XOR le_word (b # bs))"
    by (simp add: crc_bits_xor xor.assoc)
  with Cons show ?case
    by (simp add: crc_bits_add)
qed simp

lemma le_word_inject:
  "length xs = length ys \<Longrightarrow> length ys \<le> 4 \<Longrightarrow> le_word xs = le_word ys \<Longrightarrow> xs = ys"
proof (induction xs ys rule: list_induct2)
  case (Cons x xs y ys)
  have "bit x i = bit y i" if "i < 8" for i
    using arg_cong [OF Cons.prems(2), of "\<lambda>w. bit w i"] that by (simp add: bit_simps)
  then have xy: "x = y"
    by (intro bit_word_eqI) simp
  with Cons.prems have "push_bit 8 (le_word xs) = push_bit 8 (le_word ys)"
    by simp
  moreover have "length xs \<le> 3" "length ys \<le> 3"
    using Cons by simp_all
  ultimately have "le_word xs = le_word ys"
    by (metis le_word_shift)
  with Cons xy show ?case by simp
qed simp

lemma crc_loop_inject: "crc_loop c xs = crc_loop d xs \<longleftrightarrow> c = d"
  by (induction xs arbitrary: c d) (simp_all add: crc_bits_inject)

lemma crc_loop_burst:
  "length xs = length ys \<Longrightarrow> length ys \<le> 4 \<Longrightarrow> crc_loop c xs = crc_loop c ys \<longleftrightarrow> xs = ys"
  by (auto simp: crc_loop_le_word crc_bits_inject intro: le_word_inject)

lemma crc32_burst:
  "length xs = length ys \<Longrightarrow> length ys \<le> 4 \<Longrightarrow>
   ipmb_crc32 (p @ xs @ s) = ipmb_crc32 (p @ ys @ s) \<longleftrightarrow> xs = ys"
  by (simp add: ipmb_crc32_def ipmb_crc32_extend_def crc_loop_append crc_loop_inject crc_loop_burst)

text \<open>Appending a checksum to the data it is of always gives the same checksum.\<close>

lemma le_word_le32: "le_word (le32_bytes c) = c"
proof -
  have "bit (le_word (le32_bytes c)) i = bit c i" if "i < 32" for i
    using that unfolding le32_bytes_def and_ff
    by (cases "i < 8"; cases "i < 16"; cases "i < 24") (auto simp: bit_simps dest: bit_imp_le_length)
  then show ?thesis by (intro bit_word_eqI) simp
qed

lemma crc32_residue: "ipmb_crc32 (data @ le32_bytes (ipmb_crc32 data)) = crc_bits 32 0xffffffff XOR 0xffffffff"
proof -
  let ?s = "crc_loop 0xffffffff data"
  have "length (le32_bytes c) \<le> 4" for c by simp
  from crc_loop_le_word [OF this, of ?s "?s XOR 0xffffffff"]
  have "crc_loop ?s (le32_bytes (?s XOR 0xffffffff)) = crc_bits 32 (?s XOR (?s XOR 0xffffffff))"
    by (simp add: le_word_le32)
  then show ?thesis
    by (simp add: ipmb_crc32_def ipmb_crc32_extend_def crc_loop_append flip: xor.assoc)
qed

section \<open>Properties\<close>

text \<open>The checksum detects every error confined to four consecutive bytes: two inputs that
  differ only there never have the same \<^verbatim>\<open>ipmb_crc32\<close>, wherever the four bytes stand.\<close>

theorem crc32_detects_burst:
  assumes "length xs = length ys" "length ys \<le> 4" "xs \<noteq> ys"
  shows "ipmb_crc32 (p @ xs @ s) \<noteq> ipmb_crc32 (p @ ys @ s)"
  using crc32_burst [OF assms(1, 2)] assms(3) by simp

theorem crc32_detects_burst_witness:
  "ipmb_crc32 ([1, 2] @ [3, 4, 5, 6] @ [7]) \<noteq> ipmb_crc32 ([1, 2] @ [3, 4, 5, 0x86] @ [7])"
  by (rule crc32_detects_burst) simp_all

text \<open>\<^verbatim>\<open>ipmb_crc32_extend\<close> chains: continuing from the checksum of a first part gives the
  checksum of the whole, so a checksum may be computed piecewise.\<close>

theorem crc32_extend_append:
  "ipmb_crc32_extend (ipmb_crc32_extend seed xs) ys = ipmb_crc32_extend seed (xs @ ys) \<and>
   ipmb_crc32_extend (ipmb_crc32 xs) ys = ipmb_crc32 (xs @ ys)"
  by (simp add: ipmb_crc32_def ipmb_crc32_extend_def crc_loop_append xor.assoc)

text \<open>C34: the bit-by-bit checksum is the table-driven one, and the sixteen probe values are the
  first entries of its table, indexed modulo 16.\<close>

theorem crc32_table_driven:
  "ipmb_crc32 data = crc_table_loop 0xffffffff data XOR 0xffffffff \<and>
   ipmb_crc32_probe_value i = crc_table (of_nat (i mod 16))"
  by (simp add: ipmb_crc32_def ipmb_crc32_extend_def crc_loop_table ipmb_crc32_probe_value_def
      probe_index probe_table_eq del: upt_conv_Cons)

end
