(* ===== verification/Varint.thy ===== *)
theory Varint
  imports C_Memory
begin

text \<open>
  The base-128 integers of \<^verbatim>\<open>src/util/varint.c\<close>: seven bits per byte, the low group first,
  the top bit set on every byte but the last.  Both loops terminate; encoding then decoding
  gives the value back; decoding fails exactly when none of the first ten bytes ends a number.
\<close>

section \<open>The code\<close>

function varint_decode_loop ::
  "byte list \<Rightarrow> nat \<Rightarrow> 64 word \<Rightarrow> nat \<Rightarrow> (ipmb_status, 64 word \<times> nat) res" where
  "varint_decode_loop data i result shift =
     (if i < length data \<and> i < 10 then
        rbind (rd8 data i) (\<lambda>b.
          let result' = result OR push_bit shift (ucast (b AND 0x7f)) in
          if b AND 0x80 = 0 then Ok (result', i + 1)
          else varint_decode_loop data (i + 1) result' (shift + 7))
      else Err IPMB_ERR_SHORT_READ)"
  by pat_completeness auto
termination
  by (relation "measure (\<lambda>(data, i, result, shift). 10 - i)") auto

definition ipmb_varint_decode :: "byte list \<Rightarrow> (ipmb_status, 64 word \<times> nat) res" where
  "ipmb_varint_decode data = varint_decode_loop data 0 0 0"

lemma unat_drop_7: "unat (drop_bit 7 (v :: 64 word)) = unat v div 128"
  unfolding unat_drop_bit_eq by (simp add: drop_bit_eq_div)

lemma drop_7_less: "drop_bit 7 (v :: 64 word) \<noteq> 0 \<Longrightarrow> unat (drop_bit 7 v) < unat v"
  by (metis drop_bit_of_0 unat_eq_zero unat_drop_7 div_less_dividend gr_zeroI one_less_numeral_iff
      semiring_norm(76))

function varint_encode_loop ::
  "64 word \<Rightarrow> byte cells \<Rightarrow> nat \<Rightarrow> nat \<Rightarrow> (ipmb_status, byte cells \<times> nat) res" where
  "varint_encode_loop value out out_len n =
     (if n \<ge> out_len then Err IPMB_ERR_SHORT_READ
      else
        let b = ucast (value AND 0x7f); value' = drop_bit 7 value;
            b' = (if value' \<noteq> 0 then b OR 0x80 else b) in
        rbind (store_cells out n [b']) (\<lambda>out'.
          if value' \<noteq> 0 then varint_encode_loop value' out' out_len (n + 1)
          else Ok (out', n + 1)))"
  by pat_completeness auto
termination
  by (relation "measure (\<lambda>(value, out, out_len, n). unat value)") (auto simp: drop_7_less)

definition ipmb_varint_encode ::
  "64 word \<Rightarrow> byte cells \<Rightarrow> nat \<Rightarrow> (ipmb_status, byte cells \<times> nat) res" where
  "ipmb_varint_encode value out out_len = varint_encode_loop value out out_len 0"

declare varint_decode_loop.simps [simp del] varint_encode_loop.simps [simp del]

section \<open>The format\<close>

function varint_bytes :: "64 word \<Rightarrow> byte list" where
  "varint_bytes v =
     (if drop_bit 7 v \<noteq> 0 then (ucast (v AND 0x7f) OR 0x80) # varint_bytes (drop_bit 7 v)
      else [ucast (v AND 0x7f)])"
  by pat_completeness auto
termination
  by (relation "measure unat") (auto simp: drop_7_less)

declare varint_bytes.simps [simp del]

lemma varint_bytes_length: "unat v < 2 ^ (7 * k) \<Longrightarrow> 0 < k \<Longrightarrow> length (varint_bytes v) \<le> k"
proof (induction v arbitrary: k rule: varint_bytes.induct)
  case (1 v)
  show ?case
  proof (cases "drop_bit 7 v = 0")
    case True
    with "1.prems" show ?thesis by (simp add: varint_bytes.simps [of v])
  next
    case False
    have "unat v \<ge> 2 ^ 7"
    proof (rule ccontr)
      assume "\<not> unat v \<ge> 2 ^ 7"
      then have "unat (drop_bit 7 v) = 0"
        by (simp only: unat_drop_7) simp
      with False show False by (simp only: unat_eq_zero)
    qed
    with "1.prems" have "k \<noteq> 1" by auto
    with "1.prems" obtain j where k: "k = Suc j" "0 < j" by (cases k) auto
    have "unat (drop_bit 7 v) < 2 ^ (7 * j)"
      using "1.prems"(1)
      by (simp only: unat_drop_7 k) (simp add: power_add less_mult_imp_div_less mult.commute)
    with False k "1.IH" [of j] show ?thesis
      by (simp add: varint_bytes.simps [of v])
  qed
qed

lemma varint_bytes_le_10: "length (varint_bytes v) \<le> 10"
proof (rule varint_bytes_length)
  have "unat v < 2 ^ 64" using unsigned_less [of v] by simp
  also have "(2 :: nat) ^ 64 \<le> 2 ^ (7 * 10)" by (rule power_increasing) auto
  finally show "unat v < 2 ^ (7 * 10)" .
qed simp

lemma varint_bytes_pos: "0 < length (varint_bytes v)"
  by (simp add: varint_bytes.simps [of v])

section \<open>Encoding writes the format\<close>

lemma encode_loop_Ok:
  assumes "n + length (varint_bytes v) \<le> out_len" "out_len \<le> length out"
  shows "\<exists>out'. varint_encode_loop v out out_len n = Ok (out', n + length (varint_bytes v)) \<and>
      length out' = length out \<and> take n out' = take n out \<and>
      take (length (varint_bytes v)) (drop n out') = map Some (varint_bytes v)"
  using assms
proof (induction v arbitrary: out n rule: varint_bytes.induct)
  case (1 v)
  let ?b = "if drop_bit 7 v \<noteq> 0 then ucast (v AND 0x7f) OR 0x80 else ucast (v AND 0x7f) :: byte"
  let ?out = "take n out @ [Some ?b] @ drop (n + 1) out"
  have n: "n < out_len" "n + 1 \<le> length out"
    using "1.prems" varint_bytes_pos [of v] by linarith+
  then have step: "(store_cells out n [?b] :: (ipmb_status, byte cells) res) = Ok ?out"
    by (simp add: store_cells_def)
  show ?case
  proof (cases "drop_bit 7 v = 0")
    case True
    with n step show ?thesis
      by (simp add: varint_encode_loop.simps [of v] varint_bytes.simps [of v] Let_def)
  next
    case False
    then have len: "length (varint_bytes v) = Suc (length (varint_bytes (drop_bit 7 v)))"
      by (simp add: varint_bytes.simps [of v])
    have pre: "n + 1 + length (varint_bytes (drop_bit 7 v)) \<le> out_len" "out_len \<le> length ?out"
      using "1.prems" n len by simp_all
    obtain out' where out': "varint_encode_loop (drop_bit 7 v) ?out out_len (n + 1)
          = Ok (out', n + 1 + length (varint_bytes (drop_bit 7 v)))"
        "length out' = length ?out" "take (n + 1) out' = take (n + 1) ?out"
        "take (length (varint_bytes (drop_bit 7 v))) (drop (n + 1) out')
           = map Some (varint_bytes (drop_bit 7 v))"
      using "1.IH" [OF False pre] by blast
    have nth: "out' ! n = Some ?b"
      using arg_cong [OF out'(3), of "\<lambda>xs. xs ! n"] n by (simp add: nth_append)
    have "drop n out' = Some ?b # drop (n + 1) out'"
      using nth n out'(2) Cons_nth_drop_Suc [of n out'] by simp
    moreover have "take n out' = take n out"
      using arg_cong [OF out'(3), of "take n"] n by (simp add: min_def)
    ultimately show ?thesis
      using False out' step n len
      by (simp add: varint_encode_loop.simps [of v] varint_bytes.simps [of v] Let_def)
  qed
qed

lemma encode_loop_Err:
  assumes "out_len < n + length (varint_bytes v)" "out_len \<le> length out" "n \<le> out_len"
  shows "varint_encode_loop v out out_len n = Err IPMB_ERR_SHORT_READ"
  using assms
proof (induction v arbitrary: out n rule: varint_bytes.induct)
  case (1 v)
  show ?case
  proof (cases "n = out_len")
    case True
    then show ?thesis by (simp add: varint_encode_loop.simps [of v])
  next
    case False
    with "1.prems" have n: "n < out_len" "n < length out" by auto
    then have more: "drop_bit 7 v \<noteq> 0"
      using "1.prems"(1) by (auto simp: varint_bytes.simps [of v] split: if_splits)
    then have "out_len < n + 1 + length (varint_bytes (drop_bit 7 v))"
      using "1.prems"(1) by (simp add: varint_bytes.simps [of v])
    then show ?thesis
      using more n "1.IH" [OF more, of "n + 1"] "1.prems"(2)
      by (simp add: varint_encode_loop.simps [of v] Let_def store_cells_def)
  qed
qed

section \<open>Decoding reads the format\<close>

lemma join_low: "(ucast (ucast (v AND 0x7f) :: byte) :: 64 word) = take_bit 7 v"
proof -
  have 1: "(0x7f :: 64 word) = mask 7" by (simp add: mask_eq_exp_minus_1)
  show ?thesis unfolding 1 by (rule bit_word_eqI) (auto simp: bit_simps)
qed

lemma bit_0x80: "bit (0x80 :: byte) n \<longleftrightarrow> n = 7" "bit (0x80 :: int) n \<longleftrightarrow> n = 7"
proof -
  have "bit (2 ^ 7 :: byte) n \<longleftrightarrow> n = 7" "bit (2 ^ 7 :: int) n \<longleftrightarrow> n = 7"
    by (subst bit_exp_iff; auto)+
  then show "bit (0x80 :: byte) n \<longleftrightarrow> n = 7" "bit (0x80 :: int) n \<longleftrightarrow> n = 7"
    by simp_all
qed

lemma byte_top:
  "((ucast (v AND 0x7f) OR 0x80 :: byte) AND 0x80) \<noteq> 0"
  "((ucast (v AND 0x7f) :: byte) AND 0x80) = 0" for v :: "64 word"
proof -
  have "bit ((ucast (v AND 0x7f) OR 0x80 :: byte) AND 0x80) 7"
    by (simp add: bit_and_iff bit_or_iff bit_0x80)
  then show "((ucast (v AND 0x7f) OR 0x80 :: byte) AND 0x80) \<noteq> 0" by force
  have 1: "(0x7f :: 64 word) = mask 7" by (simp add: mask_eq_exp_minus_1)
  show "((ucast (v AND 0x7f) :: byte) AND 0x80) = 0"
    unfolding 1 by (rule bit_word_eqI) (simp only: bit_simps, auto simp: bit_0x80)
qed

lemma join_byte:
  "(ucast ((ucast (v AND 0x7f) :: byte) AND 0x7f) :: 64 word) = take_bit 7 v"
  "(ucast ((ucast (v AND 0x7f) OR 0x80 :: byte) AND 0x7f) :: 64 word) = take_bit 7 v"
proof -
  have 1: "(0x7f :: 64 word) = mask 7" "(0x7f :: byte) = mask 7"
    by (simp_all add: mask_eq_exp_minus_1)
  show "(ucast ((ucast (v AND 0x7f) :: byte) AND 0x7f) :: 64 word) = take_bit 7 v"
    unfolding 1 by (rule bit_word_eqI) (auto simp: bit_simps)
  show "(ucast ((ucast (v AND 0x7f) OR 0x80 :: byte) AND 0x7f) :: 64 word) = take_bit 7 v"
    unfolding 1 by (rule bit_word_eqI) (simp only: bit_simps, auto simp: bit_0x80)
qed

lemma join_high: "take_bit 7 v OR push_bit 7 (drop_bit 7 v) = v" for v :: "64 word"
  by (rule bit_word_eqI) (auto simp: bit_simps not_less, rule ccontr, simp add: not_less)

lemma decode_loop_Ok:
  assumes "data = pre @ varint_bytes v @ rest" "length pre + length (varint_bytes v) \<le> 10"
  shows "varint_decode_loop data (length pre) result (7 * length pre)
     = Ok (result OR push_bit (7 * length pre) v, length pre + length (varint_bytes v))"
  using assms
proof (induction v arbitrary: pre result rule: varint_bytes.induct)
  case (1 v)
  have i: "length pre < length data" "length pre < 10"
    using "1.prems" varint_bytes_pos [of v] by (auto simp flip: length_greater_0_conv)
  show ?case
  proof (cases "drop_bit 7 v = 0")
    case True
    have "push_bit (7 * length pre) (take_bit 7 v) = push_bit (7 * length pre) v"
      using True join_high [of v] by simp
    then show ?thesis
      using True i "1.prems"(1)
      by (subst varint_decode_loop.simps)
         (simp add: varint_bytes.simps [of v] rd8_def join_byte byte_top)
  next
    case False
    let ?b = "ucast (v AND 0x7f) OR 0x80 :: byte"
    have "varint_decode_loop data (length (pre @ [?b])) (result OR push_bit (7 * length pre) (take_bit 7 v))
        (7 * length (pre @ [?b])) = Ok ((result OR push_bit (7 * length pre) (take_bit 7 v))
           OR push_bit (7 * length (pre @ [?b])) (drop_bit 7 v),
        length (pre @ [?b]) + length (varint_bytes (drop_bit 7 v)))"
      using False "1.prems" by (intro "1.IH") (auto simp: varint_bytes.simps [of v])
    moreover have "push_bit (7 * length pre) (take_bit 7 v)
           OR push_bit (7 * length (pre @ [?b])) (drop_bit 7 v) = push_bit (7 * length pre) v"
      using arg_cong [OF join_high [of v], of "push_bit (7 * length pre)"]
      by (simp add: push_bit_or add.commute)
    moreover have "varint_decode_loop data (length pre) result (7 * length pre) =
        varint_decode_loop data (length pre + 1)
          (result OR push_bit (7 * length pre) (take_bit 7 v)) (7 * length pre + 7)"
    proof -
      have "(rd8 data (length pre) :: (ipmb_status, byte) res) = Ok ?b"
        using False "1.prems"(1) by (simp add: varint_bytes.simps [of v] rd8_def)
      then show ?thesis
        using i by (subst varint_decode_loop.simps)
          (simp only: rbind.simps Let_def byte_top join_byte if_False if_True simp_thms)
    qed
    ultimately show ?thesis
      using False by (simp add: varint_bytes.simps [of v] or.assoc add.commute)
  qed
qed

lemma varint_decode_bytes:
  "ipmb_varint_decode (varint_bytes v @ rest) = Ok (v, length (varint_bytes v))"
  using decode_loop_Ok [of "varint_bytes v @ rest" "[]" v rest 0] varint_bytes_le_10 [of v]
  by (simp add: ipmb_varint_decode_def)

text \<open>Where the decoder stops: at the first byte without the continuation bit.\<close>

lemma decode_loop_stops:
  "varint_decode_loop data i result shift = Ok (v, used) \<Longrightarrow>
     i < used \<and> used \<le> length data \<and> used \<le> 10 \<and> data ! (used - 1) AND 0x80 = 0 \<and>
     (\<forall>j. i \<le> j \<and> j < used - 1 \<longrightarrow> data ! j AND 0x80 \<noteq> 0)"
proof (induction data i result shift rule: varint_decode_loop.induct)
  case (1 data i result shift)
  from "1.prems" have i: "i < length data" "i < 10"
    by (auto simp: varint_decode_loop.simps [of data i] split: if_splits)
  show ?case
  proof (cases "data ! i AND 0x80 = 0")
    case True
    with "1.prems" i show ?thesis
      by (auto simp: varint_decode_loop.simps [of data i] Let_def rd8_def)
  next
    case False
    with "1.prems" i have "varint_decode_loop data (i + 1)
        (result OR push_bit shift (ucast (data ! i AND 0x7f))) (shift + 7) = Ok (v, used)"
      by (simp add: varint_decode_loop.simps [of data i] Let_def rd8_def)
    from "1.IH" [OF _ _ refl False this] i have *: "i + 1 < used" "used \<le> length data" "used \<le> 10"
        "data ! (used - 1) AND 0x80 = 0"
        "\<And>j. i + 1 \<le> j \<Longrightarrow> j < used - 1 \<Longrightarrow> data ! j AND 0x80 \<noteq> 0"
      by auto
    have "data ! j AND 0x80 \<noteq> 0" if "i \<le> j" "j < used - 1" for j
      using that False *(5) [of j] by (cases "j = i") auto
    with * show ?thesis by auto
  qed
qed

lemma decode_loop_total:
  "i \<le> j \<Longrightarrow> j < length data \<Longrightarrow> j < 10 \<Longrightarrow> data ! j AND 0x80 = 0 \<Longrightarrow>
   \<exists>v used. varint_decode_loop data i result shift = Ok (v, used)"
proof (induction data i result shift rule: varint_decode_loop.induct)
  case (1 data i result shift)
  show ?case
  proof (cases "data ! i AND 0x80 = 0")
    case True
    with "1.prems" show ?thesis
      by (simp add: varint_decode_loop.simps [of data i] Let_def rd8_def)
  next
    case False
    with "1.prems" have "i + 1 \<le> j" by (metis Suc_eq_plus1 Suc_leI le_neq_implies_less)
    then obtain v used where "varint_decode_loop data (i + 1)
        (result OR push_bit shift (ucast (data ! i AND 0x7f))) (shift + 7) = Ok (v, used)"
      using "1.IH" [of "data ! i", OF _ _ refl False] "1.prems" by auto
    with False "1.prems" show ?thesis
      by (simp add: varint_decode_loop.simps [of data i] Let_def rd8_def)
  qed
qed

lemma decode_loop_no_fault: "no_fault (varint_decode_loop data i result shift)"
proof (induction data i result shift rule: varint_decode_loop.induct)
  case (1 data i result shift)
  then show ?case
    by (subst varint_decode_loop.simps) (auto simp: Let_def intro!: no_fault_rbind)
qed

lemma decode_loop_Err: "varint_decode_loop data i result shift = Err e \<Longrightarrow> e = IPMB_ERR_SHORT_READ"
proof (induction data i result shift rule: varint_decode_loop.induct)
  case (1 data i result shift)
  from "1.prems" show ?case
    by (subst (asm) varint_decode_loop.simps) (auto simp: Let_def split: if_splits intro: "1.IH")
qed

text \<open>The value of the bytes read: their groups of seven bits, low group first, in 64 bits.\<close>

fun varint_value :: "byte list \<Rightarrow> 64 word" where
  "varint_value [] = 0"
| "varint_value (b # bs) = ucast (b AND 0x7f) OR push_bit 7 (varint_value bs)"

lemma decode_loop_value:
  "varint_decode_loop data i result shift = Ok (v, used) \<Longrightarrow>
     v = result OR push_bit shift (varint_value (take (used - i) (drop i data)))"
proof (induction data i result shift rule: varint_decode_loop.induct)
  case (1 data i result shift)
  from "1.prems" have i: "i < length data" "i < 10"
    by (auto simp: varint_decode_loop.simps [of data i] split: if_splits)
  have drop: "drop i data = data ! i # drop (i + 1) data"
    using i by (simp add: Cons_nth_drop_Suc)
  show ?case
  proof (cases "data ! i AND 0x80 = 0")
    case True
    with "1.prems" i show ?thesis
      by (auto simp: varint_decode_loop.simps [of data i] Let_def rd8_def drop)
  next
    case False
    with "1.prems" i have rec: "varint_decode_loop data (i + 1)
        (result OR push_bit shift (ucast (data ! i AND 0x7f))) (shift + 7) = Ok (v, used)"
      by (simp add: varint_decode_loop.simps [of data i] Let_def rd8_def)
    from decode_loop_stops [OF rec] have "used - i = Suc (used - (i + 1))" by linarith
    moreover have "v = (result OR push_bit shift (ucast (data ! i AND 0x7f)))
        OR push_bit (shift + 7) (varint_value (take (used - (i + 1)) (drop (i + 1) data)))"
      using "1.IH" [OF _ _ refl False rec] i by auto
    ultimately show ?thesis
      by (simp add: drop push_bit_or or.assoc add.commute)
  qed
qed

section \<open>Properties\<close>

text \<open>\<^verbatim>\<open>ipmb_varint_decode\<close> reads up to the first byte without the continuation bit, among the
  first ten, and returns the groups of seven bits it has read (cut to 64 bits) and their
  number; when there is no such byte it reports a short read, and it never reads outside its
  input.\<close>

theorem varint_decode_complete:
  "if \<exists>j < length data. j < 10 \<and> data ! j AND 0x80 = 0
   then \<exists>used. ipmb_varint_decode data = Ok (varint_value (take used data), used) \<and>
      0 < used \<and> used \<le> length data \<and> used \<le> 10 \<and> data ! (used - 1) AND 0x80 = 0 \<and>
      (\<forall>j < used - 1. data ! j AND 0x80 \<noteq> 0)
   else ipmb_varint_decode data = Err IPMB_ERR_SHORT_READ"
proof (cases "\<exists>j < length data. j < 10 \<and> data ! j AND 0x80 = 0")
  case True
  then obtain v used where run: "varint_decode_loop data 0 0 0 = Ok (v, used)"
    using decode_loop_total [of 0 _ data] by blast
  with True show ?thesis
    using decode_loop_stops [OF run] decode_loop_value [OF run] by (simp add: ipmb_varint_decode_def)
next
  case False
  have "ipmb_varint_decode data \<noteq> Ok p" for p
    using False decode_loop_stops [of data 0 0 0 "fst p" "snd p"]
    by (auto simp: ipmb_varint_decode_def)
  moreover have "no_fault (ipmb_varint_decode data)"
    by (simp add: ipmb_varint_decode_def decode_loop_no_fault)
  ultimately have "ipmb_varint_decode data = Err IPMB_ERR_SHORT_READ"
    using decode_loop_Err [of data 0 0 0]
    by (cases "ipmb_varint_decode data") (auto simp: ipmb_varint_decode_def)
  with False show ?thesis by simp
qed

theorem varint_decode_complete_witness:
  "\<exists>used. ipmb_varint_decode [0xac, 0x02, 0x55] = Ok (varint_value (take used [0xac, 0x02, 0x55]), used) \<and>
     used = 2 \<and> varint_value (take 2 [0xac, 0x02, 0x55]) = 300"
proof -
  have ex: "\<exists>j < length [0xac, 0x02, 0x55 :: byte]. j < 10 \<and> [0xac, 0x02, 0x55 :: byte] ! j AND 0x80 = 0"
    by (rule exI [of _ 1]) simp
  then obtain used where used:
      "ipmb_varint_decode [0xac, 0x02, 0x55] = Ok (varint_value (take used [0xac, 0x02, 0x55]), used)"
      "0 < used" "used \<le> 3" "[0xac, 0x02, 0x55 :: byte] ! (used - 1) AND 0x80 = 0"
      "\<forall>j < used - 1. [0xac, 0x02, 0x55 :: byte] ! j AND 0x80 \<noteq> 0"
    using varint_decode_complete [of "[0xac, 0x02, 0x55]"] by auto
  have "used = 1 \<or> used = 2 \<or> used = 3" using used(2, 3) by linarith
  moreover have "\<not> (\<forall>j < 2. [0xac, 0x02, 0x55 :: byte] ! j AND 0x80 \<noteq> 0)"
    by (simp add: exI [of _ "1 :: nat"])
  ultimately have "used = 2" using used(4, 5) by auto
  moreover have "varint_value (take 2 [0xac, 0x02, 0x55]) = 300" by simp
  ultimately show ?thesis using used(1) by blast
qed

text \<open>C35: into a buffer with room \<^verbatim>\<open>ipmb_varint_encode\<close> writes at most ten bytes, which decode to
  the same value and the same length whatever follows them; into a shorter one it reports a
  short read, and it never writes past the length it was given.\<close>

theorem varint_roundtrip:
  assumes "out_len \<le> length out"
  shows "if length (varint_bytes v) \<le> out_len
    then \<exists>out' n. ipmb_varint_encode v out out_len = Ok (out', n) \<and> n \<le> 10 \<and>
      length out' = length out \<and> holds out' (varint_bytes v) \<and> length (varint_bytes v) = n \<and>
      ipmb_varint_decode (varint_bytes v @ rest) = Ok (v, n)
    else ipmb_varint_encode v out out_len = Err IPMB_ERR_SHORT_READ"
  using encode_loop_Ok [of 0 v out_len out] encode_loop_Err [of out_len 0 v out] assms
    varint_bytes_le_10 [of v] varint_decode_bytes [of v rest]
  by (auto simp: ipmb_varint_encode_def holds_def)

theorem varint_roundtrip_witness:
  "\<exists>out' n. ipmb_varint_encode 300 (malloc_cells 4) 4 = Ok (out', n) \<and>
     holds out' (varint_bytes 300) \<and> ipmb_varint_decode (varint_bytes 300 @ [1]) = Ok (300, n)"
proof -
  have "4 \<le> length (malloc_cells 4 :: byte cells)" by simp
  moreover have "length (varint_bytes 300) \<le> 4"
    by (rule varint_bytes_length) simp_all
  ultimately show ?thesis
    using varint_roundtrip [of 4 "malloc_cells 4" 300 "[1]"] by auto
qed

end
