(* ===== verification/Bitstream.thy ===== *)
theory Bitstream
  imports C_Memory
begin

text \<open>
  The bit reader of \<^verbatim>\<open>src/codec/bitstream.c\<close>: at most 24 bits per call, low bit first.  The
  functional lemma says which bits the result has; reading in two portions gives the same
  bits as reading at once.
\<close>

section \<open>The code\<close>

record ipmb_bitreader =
  bdata :: "byte list"
  blen :: nat
  bit_pos :: nat

definition ipmb_bitreader_init :: "byte list \<Rightarrow> nat \<Rightarrow> ipmb_bitreader" where
  "ipmb_bitreader_init data n = \<lparr>bdata = data, blen = n, bit_pos = 0\<rparr>"

text \<open>The loop runs \<open>n\<close> more times, the next bit goes to place \<open>i\<close> of the result.\<close>

fun bitread_loop ::
  "byte list \<Rightarrow> nat \<Rightarrow> nat \<Rightarrow> nat \<Rightarrow> 32 word \<Rightarrow> (ipmb_status, 32 word \<times> nat) res" where
  "bitread_loop data i 0 pos v = Ok (v, pos)"
| "bitread_loop data i (Suc n) pos v =
     rbind (rd8 data (pos div 8)) (\<lambda>b.
       bitread_loop data (i + 1) n (pos + 1)
         (v OR push_bit i (ucast (drop_bit (pos mod 8) b AND 1))))"

definition ipmb_bitreader_read ::
  "ipmb_bitreader \<Rightarrow> nat \<Rightarrow> (ipmb_status, 32 word \<times> ipmb_bitreader) res" where
  "ipmb_bitreader_read br bits =
     (if bits > 24 then Err IPMB_ERR_LIMIT
      else if bit_pos br + bits > blen br * 8 then Err IPMB_ERR_SHORT_READ
      else rbind (bitread_loop (bdata br) 0 bits (bit_pos br) 0) (\<lambda>(v, pos).
             Ok (v, br\<lparr>bit_pos := pos\<rparr>)))"

section \<open>Which bits are read\<close>

definition stream_bit :: "byte list \<Rightarrow> nat \<Rightarrow> bool" where
  "stream_bit data k \<longleftrightarrow> bit (data ! (k div 8)) (k mod 8)"

definition bitreader_wf :: "ipmb_bitreader \<Rightarrow> bool" where
  "bitreader_wf br \<longleftrightarrow> blen br \<le> length (bdata br) \<and> bit_pos br \<le> blen br * 8"

lemma one_bit: "bit (push_bit i (ucast (drop_bit j (b :: byte) AND 1)) :: 32 word) k \<longleftrightarrow>
    k < 32 \<and> k = i \<and> bit b j"
proof -
  have "(drop_bit j b AND 1 :: byte) = (if bit b j then 1 else 0)"
    by (simp add: and_one_eq mod_2_eq_odd bit_iff_odd_drop_bit)
  then show ?thesis by (auto simp: bit_simps)
qed

lemma bitread_loop_bits:
  "i + n \<le> 32 \<Longrightarrow> pos + n \<le> 8 * length data \<Longrightarrow>
   \<exists>v'. bitread_loop data i n pos v = Ok (v', pos + n) \<and>
     (\<forall>k. bit v' k \<longleftrightarrow> bit v k \<or> (i \<le> k \<and> k < i + n \<and> stream_bit data (pos + (k - i))))"
proof (induction n arbitrary: i pos v)
  case (Suc n)
  then have byte: "pos div 8 < length data" by auto
  let ?v = "v OR push_bit i (ucast (drop_bit (pos mod 8) (data ! (pos div 8)) AND 1))"
  obtain v' where v': "bitread_loop data (i + 1) n (pos + 1) ?v = Ok (v', pos + 1 + n)"
    "\<And>k. bit v' k \<longleftrightarrow> bit ?v k \<or> (i + 1 \<le> k \<and> k < i + 1 + n \<and> stream_bit data (pos + 1 + (k - (i + 1))))"
    using Suc.IH [of "i + 1" "pos + 1" ?v] Suc.prems by auto
  have "bit v' k \<longleftrightarrow> bit v k \<or> (i \<le> k \<and> k < i + Suc n \<and> stream_bit data (pos + (k - i)))" for k
  proof (cases "i < k")
    case True
    then have "pos + 1 + (k - (i + 1)) = pos + (k - i)" by simp
    with True v'(2) [of k] show ?thesis by (auto simp: one_bit bit_or_iff)
  next
    case False
    then show ?thesis
      using Suc.prems(1) by (auto simp: v'(2) one_bit bit_or_iff stream_bit_def)
  qed
  with v'(1) byte show ?case by (auto simp: rd8_def)
qed auto

lemma bitreader_read_Ok:
  assumes "bitreader_wf br" "bits \<le> 24" "bit_pos br + bits \<le> blen br * 8"
  shows "\<exists>v. ipmb_bitreader_read br bits = Ok (v, br\<lparr>bit_pos := bit_pos br + bits\<rparr>) \<and>
      (\<forall>k. bit v k \<longleftrightarrow> k < bits \<and> stream_bit (bdata br) (bit_pos br + k))"
proof -
  obtain v where "bitread_loop (bdata br) 0 bits (bit_pos br) 0 = Ok (v, bit_pos br + bits)"
      "\<forall>k. bit v k \<longleftrightarrow> k < bits \<and> stream_bit (bdata br) (bit_pos br + k)"
    using bitread_loop_bits [of 0 bits "bit_pos br" "bdata br" 0] assms
    by (auto simp: bitreader_wf_def)
  then show ?thesis
    using assms by (auto simp: ipmb_bitreader_read_def)
qed

lemma bitreader_read_cases:
  assumes "bitreader_wf br"
  shows "ipmb_bitreader_read br bits = Err IPMB_ERR_LIMIT \<and> 24 < bits \<or>
    ipmb_bitreader_read br bits = Err IPMB_ERR_SHORT_READ \<and> bits \<le> 24 \<and> blen br * 8 < bit_pos br + bits \<or>
    (\<exists>v. ipmb_bitreader_read br bits = Ok (v, br\<lparr>bit_pos := bit_pos br + bits\<rparr>)) \<and> bits \<le> 24 \<and>
      bit_pos br + bits \<le> blen br * 8"
  using bitreader_read_Ok [OF assms, of bits] by (auto simp: ipmb_bitreader_read_def not_le not_less)

lemma bitreader_read_wf:
  "bitreader_wf br \<Longrightarrow> ipmb_bitreader_read br bits = Ok (v, br') \<Longrightarrow> bitreader_wf br'"
  using bitreader_read_cases [of br bits] by (auto simp: bitreader_wf_def)

section \<open>Properties\<close>

text \<open>Reading \<open>m + n\<close> bits at once gives the \<open>m\<close> bits of a first read with the \<open>n\<close> bits
  of a second read above them, and leaves the reader at the same position.\<close>

theorem bitreader_read_split:
  assumes "bitreader_wf br" "m + n \<le> 24" "ipmb_bitreader_read br (m + n) = Ok (v, br')"
  shows "\<exists>v1 br1 v2. ipmb_bitreader_read br m = Ok (v1, br1) \<and>
      ipmb_bitreader_read br1 n = Ok (v2, br') \<and> v = v1 OR push_bit m v2 \<and>
      unat v1 < 2 ^ m \<and> unat v2 < 2 ^ n"
proof -
  have fits: "bit_pos br + (m + n) \<le> blen br * 8"
    using bitreader_read_cases [OF assms(1), of "m + n"] assms(3) by auto
  have v: "br' = br\<lparr>bit_pos := bit_pos br + (m + n)\<rparr>"
      "\<And>k. bit v k \<longleftrightarrow> k < m + n \<and> stream_bit (bdata br) (bit_pos br + k)"
    using bitreader_read_Ok [OF assms(1,2) fits] assms(3) by auto
  let ?br1 = "br\<lparr>bit_pos := bit_pos br + m\<rparr>"
  obtain v1 where v1: "ipmb_bitreader_read br m = Ok (v1, ?br1)"
      "\<And>k. bit v1 k \<longleftrightarrow> k < m \<and> stream_bit (bdata br) (bit_pos br + k)"
    using bitreader_read_Ok [OF assms(1), of m] assms(2) fits by auto
  have wf1: "bitreader_wf ?br1"
    using assms(1) fits by (simp add: bitreader_wf_def)
  obtain v2 where v2: "ipmb_bitreader_read ?br1 n = Ok (v2, br')"
      "\<And>k. bit v2 k \<longleftrightarrow> k < n \<and> stream_bit (bdata br) (bit_pos br + m + k)"
    using bitreader_read_Ok [OF wf1, of n] assms(2) fits v(1) by (auto simp: add.assoc)
  have "v = v1 OR push_bit m v2"
    using assms(2)
    by (intro bit_word_eqI) (auto simp: v v1 v2 bit_simps add.assoc)
  moreover have "v1 = take_bit m v1" "v2 = take_bit n v2"
    by (rule bit_word_eqI; auto simp: v1 v2 bit_simps)+
  then have "unat v1 < 2 ^ m" "unat v2 < 2 ^ n"
    by (metis take_bit_nat_less_exp unsigned_take_bit_eq)+
  ultimately show ?thesis using v1(1) v2(1) by blast
qed

lemma bitreader_read_split_witness:
  "\<exists>v1 br1 v2. ipmb_bitreader_read (ipmb_bitreader_init [0xac, 0x35] 2) 4 = Ok (v1, br1) \<and>
      ipmb_bitreader_read br1 6 = Ok (v2, \<lparr>bdata = [0xac, 0x35], blen = 2, bit_pos = 10\<rparr>) \<and>
      0x1ac = v1 OR push_bit 4 v2 \<and> unat v1 < 2 ^ 4 \<and> unat v2 < 2 ^ 6"
proof -
  let ?br = "ipmb_bitreader_init [0xac, 0x35] 2"
  have read: "ipmb_bitreader_read ?br (4 + 6)
      = Ok (0x1ac, \<lparr>bdata = [0xac, 0x35], blen = 2, bit_pos = 10\<rparr>)"
    by code_simp
  have wf: "bitreader_wf ?br"
    by (simp add: bitreader_wf_def ipmb_bitreader_init_def)
  show ?thesis
    using bitreader_read_split [OF wf _ read] by simp
qed

end
