(* ===== verification/Delta_Codec.thy ===== *)
theory Delta_Codec
  imports Endian
begin

text \<open>
  The delta codec of \<^verbatim>\<open>src/codec/delta_codec.c\<close>.  The decoder is the index-based loop of
  the source over the input bytes and the allocated output array; \<open>delta_ref\<close> is the same
  tag stream read as a list.  The lemmas show that the loop computes the reference, that it
  never leaves either buffer, and that encoding followed by decoding is the identity on
  every sequence the decoder's limit admits.  A relative step can overflow \<^verbatim>\<open>int32_t\<close>.
\<close>

section \<open>The code\<close>

text \<open>\<^verbatim>\<open>for (uint8_t i = 0; i < run && n < count; ++i) vals[n++] = acc;\<close> with \<open>k\<close> rounds left.\<close>

fun delta_run ::
  "nat \<Rightarrow> 32 word \<Rightarrow> nat \<Rightarrow> nat \<Rightarrow> 32 word cells \<Rightarrow> (ipmb_status, 32 word cells \<times> nat) res" where
  "delta_run 0 acc count n vals = Ok (vals, n)"
| "delta_run (Suc k) acc count n vals =
     (if n < count then
        rbind (store_cells vals n [acc]) (\<lambda>vals. delta_run k acc count (n + 1) vals)
      else Ok (vals, n))"

function delta_loop ::
  "byte list \<Rightarrow> nat \<Rightarrow> nat \<Rightarrow> 32 word \<Rightarrow> nat \<Rightarrow> 32 word cells \<Rightarrow>
   (ipmb_status, 32 word cells \<times> nat) res" where
  "delta_loop data count pos acc n vals =
     (if n < count \<and> pos < length data then
        rbind (rd8 data pos) (\<lambda>tag.
          if tag = 0 then
            rbind (usub (length data) (pos + 1)) (\<lambda>left.
              if left < 4 then Ok (vals, n)
              else rbind (ipmb_load_le32 data (pos + 1)) (\<lambda>v.
                   rbind (store_cells vals n [v]) (\<lambda>vals.
                     delta_loop data count (pos + 5) v (n + 1) vals)))
          else if tag = 1 then
            rbind (usub (length data) (pos + 1)) (\<lambda>left.
              if left < 2 then Ok (vals, n)
              else rbind (ipmb_load_le16 data (pos + 1)) (\<lambda>d.
                   rbind (checked_add_i32 acc (scast d)) (\<lambda>v.
                   rbind (store_cells vals n [v]) (\<lambda>vals.
                     delta_loop data count (pos + 3) v (n + 1) vals))))
          else if tag = 2 then
            (if pos + 1 \<ge> length data then Ok (vals, n)
             else rbind (rd8 data (pos + 1)) (\<lambda>run.
                  rbind (delta_run (unat run) acc count n vals) (\<lambda>(vals, n).
                    delta_loop data count (pos + 2) acc n vals)))
          else if tag = 3 then delta_loop data count (pos + 1) 0 n vals
          else Ok (vals, n))
      else Ok (vals, n))"
  by pat_completeness auto
termination
  by (relation "measure (\<lambda>(data, count, pos, acc, n, vals). length data - pos)") auto

declare delta_loop.simps [simp del]

text \<open>The result is the output array and the number of values written to it.\<close>

definition ipmb_delta_decode ::
  "allocs \<Rightarrow> byte list \<Rightarrow> (ipmb_status, 32 word cells \<times> nat) res" where
  "ipmb_delta_decode al data =
     (if length data < 12 then Err IPMB_ERR_BAD_MAGIC
      else rbind (has_magic data ''IDLT'') (\<lambda>magic.
           if \<not> magic then Err IPMB_ERR_BAD_MAGIC
           else rbind (ipmb_load_le32 data 8) (\<lambda>count.
                if count > 100000 then Err IPMB_ERR_LIMIT
                else rbind (alloc al 0 IPMB_ERR_ALLOC) (\<lambda>_.
                       delta_loop data (unat count) 12 0 0
                         (calloc_cells 0 (if unat count = 0 then 1 else unat count))))))"

fun delta_encode_loop ::
  "32 word list \<Rightarrow> nat \<Rightarrow> byte cells \<Rightarrow> (ipmb_status, byte cells \<times> nat) res" where
  "delta_encode_loop [] pos buf = Ok (buf, pos)"
| "delta_encode_loop (v # vs) pos buf =
     rbind (store_cells buf pos [0]) (\<lambda>buf.
     rbind (ipmb_store_le32 buf (pos + 1) v) (\<lambda>buf.
       delta_encode_loop vs (pos + 5) buf))"

definition ipmb_delta_encode ::
  "allocs \<Rightarrow> 32 word list \<Rightarrow> (ipmb_status, byte cells \<times> nat) res" where
  "ipmb_delta_encode al values =
     (let len = 12 + length values * 5 in
      rbind (alloc al 0 IPMB_ERR_ALLOC) (\<lambda>_.
      rbind (store_cells (calloc_cells 0 len) 0 (ascii ''IDLT'')) (\<lambda>buf.
      rbind (store_cells buf 4 [16]) (\<lambda>buf.
      rbind (ipmb_store_le32 buf 8 (of_nat (length values))) (\<lambda>buf.
        delta_encode_loop values 12 buf)))))"

section \<open>The tag stream as a list\<close>

function delta_ref :: "nat \<Rightarrow> 32 word \<Rightarrow> byte list \<Rightarrow> (ipmb_status, 32 word list) res" where
  "delta_ref m acc bs =
     (if m = 0 \<or> bs = [] then Ok []
      else
        let tag = hd bs; rest = tl bs in
        if tag = 0 then
          (if length rest < 4 then Ok []
           else rbind (ipmb_load_le32 rest 0) (\<lambda>v.
                rbind (delta_ref (m - 1) v (drop 4 rest)) (\<lambda>vs. Ok (v # vs))))
        else if tag = 1 then
          (if length rest < 2 then Ok []
           else rbind (ipmb_load_le16 rest 0) (\<lambda>d.
                rbind (checked_add_i32 acc (scast d)) (\<lambda>v.
                rbind (delta_ref (m - 1) v (drop 2 rest)) (\<lambda>vs. Ok (v # vs)))))
        else if tag = 2 then
          (if rest = [] then Ok []
           else let k = min (unat (hd rest)) m in
                rbind (delta_ref (m - k) acc (tl rest)) (\<lambda>vs. Ok (replicate k acc @ vs)))
        else if tag = 3 then delta_ref m 0 rest
        else Ok [])"
  by pat_completeness auto
termination
  by (relation "measure (\<lambda>(m, acc, bs). length bs)") (auto simp: neq_Nil_conv)

declare delta_ref.simps [simp del]

text \<open>\<open>delta_rel r xs n c\<close>: the loop result \<open>r\<close>, begun with \<open>xs\<close> written, agrees with the
  reference result \<open>c\<close>.\<close>

definition delta_rel ::
  "(ipmb_status, 32 word cells \<times> nat) res \<Rightarrow> 32 word list \<Rightarrow> nat \<Rightarrow>
   (ipmb_status, 32 word list) res \<Rightarrow> bool" where
  "delta_rel r xs cap c \<longleftrightarrow>
     (case c of
        Ok ys \<Rightarrow> (\<exists>vals. r = Ok (vals, length xs + length ys) \<and> holds vals (xs @ ys) \<and> length vals = cap)
      | Err e \<Rightarrow> False
      | Fault u \<Rightarrow> r = Fault u \<and> u = Int_overflow)"

lemma delta_rel_Ok: "holds vals xs \<Longrightarrow> delta_rel (Ok (vals, length xs)) xs (length vals) (Ok [])"
  by (simp add: delta_rel_def)

lemma delta_rel_step:
  "delta_rel r (xs @ ys) cap c \<Longrightarrow> delta_rel r xs cap (rbind c (\<lambda>vs. Ok (ys @ vs)))"
  by (cases c) (auto simp: delta_rel_def add.assoc)

lemma delta_run_holds:
  "holds vals xs \<Longrightarrow> length xs \<le> count \<Longrightarrow> count \<le> length vals \<Longrightarrow>
   \<exists>vals'. delta_run k acc count (length xs) vals
         = Ok (vals', length xs + min k (count - length xs)) \<and>
      holds vals' (xs @ replicate (min k (count - length xs)) acc) \<and> length vals' = length vals"
proof (induction k arbitrary: vals xs)
  case (Suc k)
  show ?case
  proof (cases "length xs < count")
    case True
    with Suc.prems have room: "length xs < length vals" by simp
    obtain vals1 where v1:
        "(store_cells vals (length xs) [acc] :: (ipmb_status, 32 word cells) res) = Ok vals1"
        "holds vals1 (xs @ [acc])" "length vals1 = length vals"
      by (rule store_holds_snoc [OF Suc.prems(1) room])
    have pre: "length (xs @ [acc]) \<le> count" "count \<le> length vals1"
      using True Suc.prems v1(3) by simp_all
    have "min (Suc k) (count - length xs) = Suc (min k (count - length (xs @ [acc])))"
      using True by auto
    with Suc.IH [OF v1(2) pre] True v1 show ?thesis
      by (auto simp del: min_Suc_Suc)
  next
    case False
    with Suc.prems show ?thesis by simp
  qed
qed simp

lemma load_le_drop:
  "ipmb_load_le16 d (i + j) = ipmb_load_le16 (drop i d) j"
  "ipmb_load_le32 d (i + j) = ipmb_load_le32 (drop i d) j" if "i \<le> length d"
  using that
  by (auto simp: ipmb_load_le16_def ipmb_load_le32_def rd8_def add.assoc)

text \<open>One round of the loop against one round of the reference, tag by tag.\<close>

lemma delta_loop_stop:
  "\<not> (n < count \<and> pos < length data) \<Longrightarrow> delta_loop data count pos acc n vals = Ok (vals, n)"
  by (subst delta_loop.simps) (rule if_not_P)

lemma delta_loop_tag0:
  "n < count \<Longrightarrow> pos < length data \<Longrightarrow> data ! pos = 0 \<Longrightarrow>
   delta_loop data count pos acc n vals =
     (if length data - (pos + 1) < 4 then Ok (vals, n)
      else rbind (ipmb_load_le32 data (pos + 1)) (\<lambda>v.
           rbind (store_cells vals n [v]) (\<lambda>vals. delta_loop data count (pos + 5) v (n + 1) vals)))"
  by (subst delta_loop.simps) (simp add: rd8_def usub_def)

lemma delta_loop_tag1:
  "n < count \<Longrightarrow> pos < length data \<Longrightarrow> data ! pos = 1 \<Longrightarrow>
   delta_loop data count pos acc n vals =
     (if length data - (pos + 1) < 2 then Ok (vals, n)
      else rbind (ipmb_load_le16 data (pos + 1)) (\<lambda>d.
           rbind (checked_add_i32 acc (scast d)) (\<lambda>v.
           rbind (store_cells vals n [v]) (\<lambda>vals. delta_loop data count (pos + 3) v (n + 1) vals))))"
  by (subst delta_loop.simps) (simp add: rd8_def usub_def)

lemma delta_loop_tag2:
  "n < count \<Longrightarrow> pos < length data \<Longrightarrow> data ! pos = 2 \<Longrightarrow>
   delta_loop data count pos acc n vals =
     (if length data \<le> pos + 1 then Ok (vals, n)
      else rbind (delta_run (unat (data ! (pos + 1))) acc count n vals) (\<lambda>(vals, n).
             delta_loop data count (pos + 2) acc n vals))"
  by (subst delta_loop.simps) (simp add: rd8_def not_le)

lemma delta_loop_tag3:
  "n < count \<Longrightarrow> pos < length data \<Longrightarrow> data ! pos = 3 \<Longrightarrow>
   delta_loop data count pos acc n vals = delta_loop data count (pos + 1) 0 n vals"
  by (subst delta_loop.simps) (simp add: rd8_def)

lemma delta_loop_other:
  "n < count \<Longrightarrow> pos < length data \<Longrightarrow> data ! pos \<notin> {0, 1, 2, 3} \<Longrightarrow>
   delta_loop data count pos acc n vals = Ok (vals, n)"
  by (subst delta_loop.simps) (simp add: rd8_def)

lemma delta_ref_tags:
  "0 < m \<Longrightarrow> delta_ref m acc (0 # rest) =
     (if length rest < 4 then Ok []
      else rbind (ipmb_load_le32 rest 0) (\<lambda>v.
           rbind (delta_ref (m - 1) v (drop 4 rest)) (\<lambda>vs. Ok (v # vs))))"
  "0 < m \<Longrightarrow> delta_ref m acc (1 # rest) =
     (if length rest < 2 then Ok []
      else rbind (ipmb_load_le16 rest 0) (\<lambda>d.
           rbind (checked_add_i32 acc (scast d)) (\<lambda>v.
           rbind (delta_ref (m - 1) v (drop 2 rest)) (\<lambda>vs. Ok (v # vs)))))"
  "0 < m \<Longrightarrow> delta_ref m acc (2 # rest) =
     (if rest = [] then Ok []
      else rbind (delta_ref (m - min (unat (hd rest)) m) acc (tl rest))
             (\<lambda>vs. Ok (replicate (min (unat (hd rest)) m) acc @ vs)))"
  "0 < m \<Longrightarrow> delta_ref m acc (3 # rest) = delta_ref m 0 rest"
  "0 < m \<Longrightarrow> t \<notin> {0, 1, 2, 3} \<Longrightarrow> delta_ref m acc (t # rest) = Ok []"
  "delta_ref 0 acc bs = Ok []" "delta_ref m acc [] = Ok []"
  by (subst delta_ref.simps; simp add: Let_def)+

text \<open>\<open>agrees_at data count p\<close>: from position \<open>p\<close> the loop computes the reference.\<close>

definition agrees_at :: "byte list \<Rightarrow> nat \<Rightarrow> nat \<Rightarrow> bool" where
  "agrees_at data count p \<longleftrightarrow>
     (\<forall>acc vals xs. holds vals xs \<and> length xs \<le> count \<and> count \<le> length vals \<longrightarrow>
        delta_rel (delta_loop data count p acc (length xs) vals) xs (length vals)
          (delta_ref (count - length xs) acc (drop p data)))"

lemma agrees_atD:
  "agrees_at data count p \<Longrightarrow> holds vals xs \<Longrightarrow> length xs \<le> count \<Longrightarrow> count \<le> length vals \<Longrightarrow>
   delta_rel (delta_loop data count p acc (length xs) vals) xs (length vals)
     (delta_ref (count - length xs) acc (drop p data))"
  by (simp add: agrees_at_def)

text \<open>Writing one value and going on from position \<open>p\<close>.\<close>

lemma delta_emit:
  assumes "agrees_at data count p" "holds vals xs" "length xs < count" "count \<le> length vals"
  shows "delta_rel
      (rbind (store_cells vals (length xs) [v])
         (\<lambda>vals. delta_loop data count p v (length xs + 1) vals))
      xs (length vals)
      (rbind (delta_ref (count - length xs - 1) v (drop p data)) (\<lambda>vs. Ok (v # vs)))"
proof -
  have room: "length xs < length vals" using assms(3,4) by simp
  obtain vals1 where v1:
      "(store_cells vals (length xs) [v] :: (ipmb_status, 32 word cells) res) = Ok vals1"
      "holds vals1 (xs @ [v])" "length vals1 = length vals"
    by (rule store_holds_snoc [OF assms(2) room])
  have "delta_rel (delta_loop data count p v (length (xs @ [v])) vals1) (xs @ [v]) (length vals1)
      (delta_ref (count - length (xs @ [v])) v (drop p data))"
    using assms v1 by (intro agrees_atD) auto
  then have "delta_rel (delta_loop data count p v (length xs + 1) vals1) xs (length vals)
      (rbind (delta_ref (count - length xs - 1) v (drop p data)) (\<lambda>vs. Ok ([v] @ vs)))"
    using v1(3) by (intro delta_rel_step) simp
  with v1(1) show ?thesis by simp
qed

lemma delta_rel_tag0:
  assumes at: "agrees_at data count (pos + 5)" and pos: "pos < length data" "data ! pos = 0"
    and vals: "holds vals xs" "length xs < count" "count \<le> length vals"
  shows "delta_rel (delta_loop data count pos acc (length xs) vals) xs (length vals)
           (delta_ref (count - length xs) acc (0 # drop (pos + 1) data))"
proof (cases "length data - (pos + 1) < 4")
  case True
  with vals pos show ?thesis
    by (simp add: delta_loop_tag0 delta_ref_tags delta_rel_Ok)
next
  case False
  then obtain v where v: "(ipmb_load_le32 (drop (pos + 1) data) 0 :: (ipmb_status, 32 word) res) = Ok v"
    using no_fault_ex_Ok [of "ipmb_load_le32 (drop (pos + 1) data) 0"] by auto
  have v': "(ipmb_load_le32 data (pos + 1) :: (ipmb_status, 32 word) res) = Ok v"
    unfolding v [symmetric] using pos load_le_drop(2) [of "pos + 1" data 0] by simp
  have "drop 4 (drop (pos + 1) data) = drop (pos + 5) data"
    by (simp add: eval_nat_numeral)
  moreover have m: "0 < count - length xs" using vals by simp
  ultimately show ?thesis
    using delta_emit [OF at vals, of v]
    unfolding delta_loop_tag0 [OF vals(2) pos] delta_ref_tags(1) [OF m] v v' rbind.simps
    using False by simp
qed

lemma delta_rel_tag1:
  assumes at: "agrees_at data count (pos + 3)" and pos: "pos < length data" "data ! pos = 1"
    and vals: "holds vals xs" "length xs < count" "count \<le> length vals"
  shows "delta_rel (delta_loop data count pos acc (length xs) vals) xs (length vals)
           (delta_ref (count - length xs) acc (1 # drop (pos + 1) data))"
proof (cases "length data - (pos + 1) < 2")
  case True
  with vals pos show ?thesis
    by (simp add: delta_loop_tag1 delta_ref_tags delta_rel_Ok)
next
  case False
  then obtain d where d: "(ipmb_load_le16 (drop (pos + 1) data) 0 :: (ipmb_status, 16 word) res) = Ok d"
    using no_fault_ex_Ok [of "ipmb_load_le16 (drop (pos + 1) data) 0"] by auto
  have d': "(ipmb_load_le16 data (pos + 1) :: (ipmb_status, 16 word) res) = Ok d"
    unfolding d [symmetric] using pos load_le_drop(1) [of "pos + 1" data 0] by simp
  have "drop 2 (drop (pos + 1) data) = drop (pos + 3) data"
    by (simp add: eval_nat_numeral)
  moreover have m: "0 < count - length xs" using vals by simp
  ultimately show ?thesis
    using delta_emit [OF at vals, of "acc + scast d"]
    unfolding delta_loop_tag1 [OF vals(2) pos] delta_ref_tags(2) [OF m] d d' rbind.simps
      checked_add_i32_def
    using False by (cases "i32_fits (sint acc + sint (scast d :: 32 word))") (simp_all add: delta_rel_def)
qed

lemma delta_rel_tag2:
  assumes at: "agrees_at data count (pos + 2)" and pos: "pos < length data" "data ! pos = 2"
    and vals: "holds vals xs" "length xs < count" "count \<le> length vals"
  shows "delta_rel (delta_loop data count pos acc (length xs) vals) xs (length vals)
           (delta_ref (count - length xs) acc (2 # drop (pos + 1) data))"
proof (cases "length data \<le> pos + 1")
  case True
  with vals pos show ?thesis
    by (simp add: delta_loop_tag2 delta_ref_tags delta_rel_Ok)
next
  case False
  then have drop: "drop (pos + 1) data = data ! (pos + 1) # drop (pos + 2) data"
    by (metis Cons_nth_drop_Suc add_2_eq_Suc' Suc_eq_plus1 not_le)
  let ?k = "min (unat (data ! (pos + 1))) (count - length xs)"
  obtain vals1 where v1: "delta_run (unat (data ! (pos + 1))) acc count (length xs) vals
        = Ok (vals1, length xs + ?k)"
      "holds vals1 (xs @ replicate ?k acc)" "length vals1 = length vals"
    using delta_run_holds [OF vals(1)] vals by (metis less_imp_le)
  have "delta_rel (delta_loop data count (pos + 2) acc (length (xs @ replicate ?k acc)) vals1)
      (xs @ replicate ?k acc) (length vals1)
      (delta_ref (count - length (xs @ replicate ?k acc)) acc (drop (pos + 2) data))"
    using vals v1 by (intro agrees_atD [OF at]) auto
  then have "delta_rel (delta_loop data count (pos + 2) acc (length xs + ?k) vals1) xs (length vals)
      (rbind (delta_ref (count - length xs - ?k) acc (drop (pos + 2) data))
         (\<lambda>vs. Ok (replicate ?k acc @ vs)))"
    using v1(3) by (intro delta_rel_step) simp
  then show ?thesis
    unfolding drop using False v1(1) pos vals
    by (simp add: delta_loop_tag2 delta_ref_tags)
qed

lemma agrees_everywhere: "pos \<le> length data \<Longrightarrow> agrees_at data count pos"
proof (induction "length data - pos" arbitrary: pos rule: less_induct)
  case less
  have later: "agrees_at data count p" if "pos < p" "pos < length data" for p
  proof (cases "p \<le> length data")
    case True
    then show ?thesis using less that by auto
  next
    case False
    then show ?thesis
      by (auto simp: agrees_at_def delta_loop_stop delta_ref_tags delta_rel_Ok)
  qed
  show ?case
    unfolding agrees_at_def
  proof (intro allI impI, elim conjE)
    fix acc vals and xs :: "32 word list"
    assume vals: "holds vals xs" "length xs \<le> count" "count \<le> length vals"
    show "delta_rel (delta_loop data count pos acc (length xs) vals) xs (length vals)
        (delta_ref (count - length xs) acc (drop pos data))"
    proof (cases "length xs < count \<and> pos < length data")
      case False
      then show ?thesis
        using vals by (auto simp: delta_loop_stop delta_ref_tags delta_rel_Ok)
    next
      case True
      then have drop: "drop pos data = data ! pos # drop (pos + 1) data"
        by (simp add: Cons_nth_drop_Suc)
      consider "data ! pos = 0" | "data ! pos = 1" | "data ! pos = 2" | "data ! pos = 3"
        | "data ! pos \<notin> {0, 1, 2, 3}" by blast
      then show ?thesis
      proof cases
        case 1
        with delta_rel_tag0 [OF later] True vals show ?thesis by (simp add: drop)
      next
        case 2
        with delta_rel_tag1 [OF later] True vals show ?thesis by (simp add: drop)
      next
        case 3
        with delta_rel_tag2 [OF later] True vals show ?thesis by (simp add: drop)
      next
        case 4
        have "agrees_at data count (pos + 1)" using later True by simp
        from agrees_atD [OF this vals, of 0] show ?thesis
          using True 4 by (simp add: drop delta_loop_tag3 delta_ref_tags)
      next
        case 5
        then show ?thesis
          using True vals by (simp add: drop delta_loop_other delta_ref_tags delta_rel_Ok)
      qed
    qed
  qed
qed

lemma delta_ref_length: "delta_ref m acc bs = Ok ys \<Longrightarrow> length ys \<le> m"
  using agrees_atD [OF agrees_everywhere [of 0 bs m], of "calloc_cells 0 m" "[]" acc]
  by (auto simp: delta_rel_def dest: holds_length)

section \<open>Encoding\<close>

definition delta_image :: "32 word list \<Rightarrow> byte list" where
  "delta_image vs = ascii ''IDLT'' @ [16, 0, 0, 0] @ le32_bytes (of_nat (length vs)) @
     concat (map (\<lambda>v. 0 # le32_bytes v) vs)"

lemma delta_encode_loop_holds:
  "holds buf xs \<Longrightarrow> length xs + 5 * length vs \<le> length buf \<Longrightarrow>
   \<exists>buf'. delta_encode_loop vs (length xs) buf = Ok (buf', length xs + 5 * length vs) \<and>
      holds buf' (xs @ concat (map (\<lambda>v. 0 # le32_bytes v) vs)) \<and> length buf' = length buf"
proof (induction vs arbitrary: buf xs)
  case (Cons v vs)
  then have room: "length xs < length buf" by simp
  obtain b1 where b1: "(store_cells buf (length xs) [0] :: (ipmb_status, byte cells) res) = Ok b1"
      "holds b1 (xs @ [0])" "length b1 = length buf"
    by (rule store_holds_snoc [OF Cons.prems(1) room])
  have room1: "length (xs @ [0]) + length (le32_bytes v) \<le> length b1"
    using Cons.prems(2) b1(3) by simp
  obtain b2 where b2: "(store_cells b1 (length (xs @ [0])) (le32_bytes v) :: (ipmb_status, byte cells) res) = Ok b2"
      "holds b2 ((xs @ [0]) @ le32_bytes v)" "length b2 = length b1"
    by (rule store_holds [OF b1(2) room1])
  have "length ((xs @ [0]) @ le32_bytes v) + 5 * length vs \<le> length b2"
    using Cons.prems(2) b1(3) b2(3) by simp
  from Cons.IH [OF b2(2) this] b1 b2 show ?case
    by (auto simp: ipmb_store_le32_def add.commute add.left_commute)
qed simp

lemma delta_header_cells:
  "al 0 \<Longrightarrow> ipmb_delta_encode al vs = delta_encode_loop vs 12
     (map Some (ascii ''IDLT'' @ [16, 0, 0, 0] @ le32_bytes (of_nat (length vs))) @
        replicate (length vs * 5) (Some 0))"
  by (simp add: ipmb_delta_encode_def Let_def store_cells_def calloc_cells_def ipmb_store_le32_def
      le32_bytes_def ascii_def numeral_eq_Suc)

lemma delta_encode_image:
  assumes "al 0"
  shows "ipmb_delta_encode al vs = Ok (map Some (delta_image vs), length (delta_image vs))"
proof -
  define hdr where "hdr = ascii ''IDLT'' @ [16, 0, 0, 0] @ le32_bytes (of_nat (length vs))"
  have len: "length hdr = 12" by (simp add: hdr_def)
  let ?buf = "map Some hdr @ replicate (length vs * 5) (Some 0)"
  have holds: "holds ?buf hdr" by (simp add: holds_def)
  obtain buf' where buf': "delta_encode_loop vs (length hdr) ?buf = Ok (buf', length hdr + 5 * length vs)"
      "holds buf' (hdr @ concat (map (\<lambda>v. 0 # le32_bytes v) vs))" "length buf' = length ?buf"
    using delta_encode_loop_holds [OF holds, of vs] by auto
  have img: "hdr @ concat (map (\<lambda>v. 0 # le32_bytes v) vs) = delta_image vs"
    by (simp add: hdr_def delta_image_def)
  have total: "length (delta_image vs) = 12 + 5 * length vs"
    unfolding img [symmetric] by (simp add: len length_concat sum_list_triv comp_def)
  have "buf' = map Some (delta_image vs)"
    using buf'(2,3) total unfolding img by (simp add: holds_def len)
  with buf'(1) total len show ?thesis
    using delta_header_cells [where al = al, OF assms, of vs] by (simp add: hdr_def)
qed

lemma delta_ref_image:
  "delta_ref (length vs) acc (concat (map (\<lambda>v. 0 # le32_bytes v) vs)) = Ok vs"
proof (induction vs arbitrary: acc)
  case (Cons v vs)
  let ?rest = "le32_bytes v @ concat (map (\<lambda>v. 0 # le32_bytes v) vs)"
  have "(ipmb_load_le32 ?rest 0 :: (ipmb_status, 32 word) res) = Ok v" by simp
  then show ?case
    using delta_ref_tags(1) [of "length (v # vs)" acc ?rest] Cons.IH [of v]
    by (simp del: load_le32_eq_Ok)
qed (simp add: delta_ref_tags)

lemma delta_decode_header:
  assumes "12 \<le> length data" "take 4 data = ascii ''IDLT''" "take 4 (drop 8 data) = le32_bytes c"
  shows "ipmb_delta_decode al data =
    (if c \<le> 100000 then
       (if al 0 then delta_loop data (unat c) 12 0 0 (calloc_cells 0 (if unat c = 0 then 1 else unat c))
        else Err IPMB_ERR_ALLOC)
     else Err IPMB_ERR_LIMIT)"
proof -
  have c: "(ipmb_load_le32 data 8 :: (ipmb_status, 32 word) res) = Ok c"
    using assms by simp
  show ?thesis
    using assms(1,2) unfolding ipmb_delta_decode_def c rbind.simps
    by (simp add: alloc_def guard_def del: not_le flip: not_le)
qed

lemma delta_decode_loop:
  assumes "12 \<le> length data" "take 4 data = ascii ''IDLT''" "take 4 (drop 8 data) = le32_bytes c"
    and "c \<le> 100000" "al 0"
  shows "delta_rel (ipmb_delta_decode al data) [] (if unat c = 0 then 1 else unat c)
           (delta_ref (unat c) 0 (drop 12 data))"
  using agrees_atD [OF agrees_everywhere [OF assms(1)],
        of "calloc_cells 0 (if unat c = 0 then 1 else unat c)" "[]" "unat c" 0]
    delta_decode_header [OF assms(1-3), of al] assms(4,5)
  by simp

section \<open>Properties\<close>

text \<open>C31: on a stream with a valid header the decoder's indexed loop returns exactly the values
  of the reference reading of the tags, in an output array that holds them, and a signed
  overflow exactly where the reference has one.\<close>

theorem delta_decode_reference:
  assumes "12 \<le> length data" "take 4 data = ascii ''IDLT''" "take 4 (drop 8 data) = le32_bytes c"
    and "c \<le> 100000" "al 0"
  shows "(\<exists>vals ys. delta_ref (unat c) 0 (drop 12 data) = Ok ys \<and>
             ipmb_delta_decode al data = Ok (vals, length ys) \<and> holds vals ys \<and> length ys \<le> unat c)
       \<or> delta_ref (unat c) 0 (drop 12 data) = Fault Int_overflow \<and>
         ipmb_delta_decode al data = Fault Int_overflow"
  using delta_decode_loop [where al = al, OF assms]
  by (cases "delta_ref (unat c) 0 (drop 12 data)") (auto simp: delta_rel_def dest: delta_ref_length)

lemma delta_decode_reference_witness:
  "(\<exists>vals ys. delta_ref 3 0 [0, 5, 0, 0, 0, 1, 0xfe, 0xff, 2, 9] = Ok ys \<and>
     ipmb_delta_decode (\<lambda>_. True)
       (ascii ''IDLT'' @ [16, 0, 0, 0, 3, 0, 0, 0, 0, 5, 0, 0, 0, 1, 0xfe, 0xff, 2, 9])
       = Ok (vals, length ys) \<and> holds vals ys \<and> length ys \<le> 3)
   \<or> delta_ref 3 0 [0, 5, 0, 0, 0, 1, 0xfe, 0xff, 2, 9] = Fault Int_overflow \<and>
     ipmb_delta_decode (\<lambda>_. True)
       (ascii ''IDLT'' @ [16, 0, 0, 0, 3, 0, 0, 0, 0, 5, 0, 0, 0, 1, 0xfe, 0xff, 2, 9])
       = Fault Int_overflow"
  using delta_decode_reference
    [of "ascii ''IDLT'' @ [16, 0, 0, 0, 3, 0, 0, 0, 0, 5, 0, 0, 0, 1, 0xfe, 0xff, 2, 9]" 3 "\<lambda>_. True"]
  by (simp add: le32_bytes_def)

text \<open>Whatever the input and the allocator, the decoder reads and writes inside its buffers
  and ends; the only undefined behaviour is the overflow of the accumulator.\<close>

theorem delta_decode_safe:
  "no_fault (ipmb_delta_decode al data) \<or> ipmb_delta_decode al data = Fault Int_overflow"
proof (cases "12 \<le> length data \<and> take 4 data = ascii ''IDLT''")
  case True
  then obtain c where c: "take 4 (drop 8 data) = le32_bytes c"
    using no_fault_ex_Ok [of "ipmb_load_le32 data 8"] by auto
  show ?thesis
  proof (cases "c \<le> 100000 \<and> al 0")
    case fits: True
    with True c show ?thesis
      using delta_decode_loop [of data c al]
      by (cases "delta_ref (unat c) 0 (drop 12 data)") (auto simp: delta_rel_def)
  next
    case False
    then show ?thesis
      using delta_decode_header [OF _ _ c, of al] True by auto
  qed
next
  case False
  then show ?thesis
    by (auto simp: ipmb_delta_decode_def)
qed

text \<open>C30: encoding then decoding gives back every sequence of at most 100000 values; a longer one
  is encoded without complaint and then refused by the decoder.\<close>

theorem delta_roundtrip:
  assumes "al 0" "length vs < 2 ^ 32"
  shows "\<exists>buf vals. ipmb_delta_encode al vs = Ok (map Some buf, length buf) \<and>
     (if length vs \<le> 100000
      then ipmb_delta_decode al buf = Ok (vals, length vs) \<and> holds vals vs
      else ipmb_delta_decode al buf = Err IPMB_ERR_LIMIT)"
proof -
  let ?c = "of_nat (length vs) :: 32 word"
  have unat: "unat ?c = length vs"
    using assms(2) by (simp add: unat_of_nat)
  have hdr: "12 \<le> length (delta_image vs)" "take 4 (delta_image vs) = ascii ''IDLT''"
    "take 4 (drop 8 (delta_image vs)) = le32_bytes ?c"
    "drop 12 (delta_image vs) = concat (map (\<lambda>v. 0 # le32_bytes v) vs)"
    by (simp_all add: delta_image_def)
  have le: "?c \<le> 100000 \<longleftrightarrow> length vs \<le> 100000"
    by (simp add: word_le_nat_alt unat)
  show ?thesis
  proof (cases "length vs \<le> 100000")
    case True
    then show ?thesis
      using delta_decode_loop [OF hdr(1-3), of al] delta_ref_image [of vs 0]
        delta_encode_image [of al vs] assms le hdr(4) unat
      by (auto simp: delta_rel_def)
  next
    case False
    then have "ipmb_delta_decode al (delta_image vs) = Err IPMB_ERR_LIMIT"
      using le delta_decode_header [OF hdr(1-3), of al] by simp
    with False show ?thesis using delta_encode_image [of al vs] assms(1) by auto
  qed
qed

lemma delta_roundtrip_witness:
  "\<exists>buf vals. ipmb_delta_encode (\<lambda>_. True) [10, 15, -2] = Ok (map Some buf, length buf) \<and>
     ipmb_delta_decode (\<lambda>_. True) buf = Ok (vals, 3) \<and> holds vals [10, 15, -2]"
  using delta_roundtrip [of "\<lambda>_. True" "[10, 15, -2]"] by (simp add: numeral_3_eq_3)

end
