(* ===== verification/Rle_Codec.thy ===== *)
theory Rle_Codec
  imports C_Memory
begin

text \<open>
  The run-length codec of \<^verbatim>\<open>src/codec/rle_codec.c\<close>.  \<open>rle_expand\<close> and \<open>rle_pairs\<close> are the
  format: a magic, then pairs of a run length and a byte.  The decoder grows its output by
  doubling; the lemmas show that every write is inside the block, that decoding is
  \<open>rle_expand\<close>, and that encoding followed by decoding is the identity.
\<close>

section \<open>The code\<close>

function rle_decode_loop ::
  "allocs \<Rightarrow> byte list \<Rightarrow> nat \<Rightarrow> nat \<Rightarrow> nat \<Rightarrow> byte cells \<Rightarrow>
   (ipmb_status, byte cells \<times> nat) res" where
  "rle_decode_loop al data pos k used buf =
     (if pos + 1 < length data then
        rbind (rd8 data pos) (\<lambda>run. rbind (rd8 data (pos + 1)) (\<lambda>value.
        rbind (if used + unat run > length buf then
                 rbind (or_hang (double_until (used + unat run) (length buf))) (\<lambda>cap.
                 rbind (alloc al k IPMB_ERR_ALLOC) (\<lambda>_. Ok (realloc_cells cap buf, k + 1)))
               else Ok (buf, k)) (\<lambda>(buf, k).
        rbind (store_cells buf used (replicate (unat run) value)) (\<lambda>buf.
          rle_decode_loop al data (pos + 2) k (used + unat run) buf))))
      else Ok (buf, used))"
  by pat_completeness auto
termination
  by (relation "measure (\<lambda>(al, data, pos, k, used, buf). length data - pos)") auto

declare rle_decode_loop.simps [simp del]

definition ipmb_rle_decode :: "allocs \<Rightarrow> byte list \<Rightarrow> (ipmb_status, byte cells \<times> nat) res" where
  "ipmb_rle_decode al data =
     (if length data < 4 then Err IPMB_ERR_BAD_MAGIC
      else rbind (has_magic data ''IRLE'') (\<lambda>magic.
           if \<not> magic then Err IPMB_ERR_BAD_MAGIC
           else rbind (alloc al 0 IPMB_ERR_ALLOC) (\<lambda>_.
                  rle_decode_loop al data 4 1 0 (malloc_cells 64))))"

text \<open>\<^verbatim>\<open>while (i + run < len && data[i + run] == value && run < 255) run++;\<close>\<close>

function rle_run :: "byte list \<Rightarrow> nat \<Rightarrow> byte \<Rightarrow> nat \<Rightarrow> (ipmb_status, nat) res" where
  "rle_run data i value run =
     (if i + run < length data then
        rbind (rd8 data (i + run)) (\<lambda>b.
          if b = value \<and> run < 255 then rle_run data i value (run + 1) else Ok run)
      else Ok run)"
  by pat_completeness auto
termination
  by (relation "measure (\<lambda>(data, i, value, run). 255 - run)") auto

declare rle_run.simps [simp del]

lemma rle_run_ge: "rle_run data i v run = Ok r \<Longrightarrow> run \<le> r"
proof (induction data i v run rule: rle_run.induct)
  case (1 data i v run)
  have "Suc run \<le> r" if "rle_run data i v (Suc run) = Ok r"
      "i + run < length data" "data ! (i + run) = v" "run < 255"
    using "1.IH" [of "data ! (i + run)"] that by simp
  with "1.prems" show ?case
    by (subst (asm) rle_run.simps) (auto split: if_splits dest: Suc_leD)
qed

function rle_encode_loop ::
  "byte list \<Rightarrow> nat \<Rightarrow> nat \<Rightarrow> byte cells \<Rightarrow> (ipmb_status, byte cells \<times> nat) res" where
  "rle_encode_loop data i pos buf =
     (if i < length data then
        rbind (rd8 data i) (\<lambda>value.
        rbind (rle_run data i value 1) (\<lambda>run.
        rbind (store_cells buf pos [of_nat run]) (\<lambda>buf.
        rbind (store_cells buf (pos + 1) [value]) (\<lambda>buf.
          rle_encode_loop data (i + run) (pos + 2) buf))))
      else Ok (buf, pos))"
  by pat_completeness auto
termination
  by (relation "measure (\<lambda>(data, i, pos, buf). length data - i)") (auto dest!: rle_run_ge)

declare rle_encode_loop.simps [simp del]

text \<open>The size of the block is computed in \<^verbatim>\<open>size_t\<close>.\<close>

definition ipmb_rle_encode :: "allocs \<Rightarrow> byte list \<Rightarrow> (ipmb_status, byte cells \<times> nat) res" where
  "ipmb_rle_encode al data =
     rbind (alloc al 0 IPMB_ERR_ALLOC) (\<lambda>_.
     rbind (store_cells (malloc_cells ((4 + length data * 2 + 2) mod size_modulus)) 0 (ascii ''IRLE'')) (\<lambda>buf.
       rle_encode_loop data 0 4 buf))"

section \<open>The format\<close>

fun rle_expand :: "byte list \<Rightarrow> byte list" where
  "rle_expand (r # v # bs) = replicate (unat r) v @ rle_expand bs"
| "rle_expand _ = []"

text \<open>The run the encoder takes: at most 255 equal bytes at the head of the list.\<close>

definition run_length :: "byte list \<Rightarrow> nat" where
  "run_length xs = min 255 (length (takeWhile (\<lambda>x. x = hd xs) xs))"

lemma run_length_bounds: "xs \<noteq> [] \<Longrightarrow> 0 < run_length xs \<and> run_length xs \<le> 255 \<and> run_length xs \<le> length xs"
  by (cases xs) (auto simp: run_length_def length_takeWhile_le min_le_iff_disj le_SucI)

function rle_pairs :: "byte list \<Rightarrow> byte list" where
  "rle_pairs xs =
     (if xs = [] then []
      else of_nat (run_length xs) # hd xs # rle_pairs (drop (run_length xs) xs))"
  by pat_completeness auto
termination
  by (relation "measure length") (auto simp: run_length_bounds)

declare rle_pairs.simps [simp del]

lemma take_run: "take (run_length xs) xs = replicate (run_length xs) (hd xs)"
proof -
  let ?w = "takeWhile (\<lambda>x. x = hd xs) xs"
  have "\<forall>x \<in> set ?w. x = hd xs" by (auto dest: set_takeWhileD)
  then have "replicate (length ?w) (hd xs) = ?w" by (rule replicate_length_same)
  moreover have "take (length ?w) xs = ?w" by (rule takeWhile_eq_take [symmetric])
  ultimately have "take (length ?w) xs = replicate (length ?w) (hd xs)" by (rule trans [OF _ sym, rotated])
  from arg_cong [OF this, of "take 255"] show ?thesis
    by (simp only: run_length_def take_take take_replicate min.commute)
qed

lemma rle_expand_pairs: "rle_expand (rle_pairs xs) = xs"
proof (induction xs rule: rle_pairs.induct)
  case (1 xs)
  show ?case
  proof (cases "xs = []")
    case True
    then show ?thesis by (simp add: rle_pairs.simps)
  next
    case False
    have "unat (of_nat (run_length xs) :: byte) = run_length xs"
      using run_length_bounds [OF False] by (simp add: unsigned_of_nat take_bit_nat_eq_self)
    moreover have "rle_expand (rle_pairs (drop (run_length xs) xs)) = drop (run_length xs) xs"
      using "1.IH" False by simp
    moreover have "replicate (run_length xs) (hd xs) @ drop (run_length xs) xs = xs"
      using append_take_drop_id [of "run_length xs" xs] unfolding take_run .
    ultimately show ?thesis
      using False by (subst rle_pairs.simps) simp
  qed
qed

lemma length_rle_pairs: "length (rle_pairs xs) \<le> 2 * length xs"
proof (induction xs rule: rle_pairs.induct)
  case (1 xs)
  show ?case
  proof (cases "xs = []")
    case True
    then show ?thesis by (simp add: rle_pairs.simps)
  next
    case False
    then show ?thesis
      using "1.IH" run_length_bounds [OF False]
      by (subst rle_pairs.simps) (simp add: diff_mult_distrib2, linarith)
  qed
qed

section \<open>The encoder writes the format\<close>

lemma rle_run_count:
  assumes "i + run \<le> length data" "run \<le> 255"
  shows "rle_run data i v run =
    Ok (min 255 (run + length (takeWhile (\<lambda>x. x = v) (drop (i + run) data))))"
  using assms
proof (induction data i v run rule: rle_run.induct)
  case (1 data i v run)
  show ?case
  proof (cases "i + run < length data")
    case True
    then have drop: "drop (i + run) data = data ! (i + run) # drop (i + (run + 1)) data"
      by (simp add: Cons_nth_drop_Suc)
    show ?thesis
      using True "1.prems" "1.IH" [OF True, of "data ! (i + run)"]
      by (subst rle_run.simps) (auto simp: rd8_def drop)
  next
    case False
    with "1.prems" show ?thesis
      by (subst rle_run.simps) simp
  qed
qed

lemma rle_run_length:
  assumes "i < length data"
  shows "rle_run data i (data ! i) 1 = Ok (run_length (drop i data))"
proof -
  have "drop i data = data ! i # drop (i + 1) data"
    using assms by (simp add: Cons_nth_drop_Suc)
  then have "run_length (drop i data)
      = min 255 (1 + length (takeWhile (\<lambda>x. x = data ! i) (drop (i + 1) data)))"
    by (simp add: run_length_def)
  then show ?thesis
    using rle_run_count [of i 1 data "data ! i"] assms by simp
qed

lemma rle_encode_loop_holds:
  assumes "i \<le> length data" "holds buf xs" "length xs + 2 * (length data - i) \<le> length buf"
  shows "\<exists>buf'. rle_encode_loop data i (length xs) buf
       = Ok (buf', length xs + length (rle_pairs (drop i data))) \<and>
     holds buf' (xs @ rle_pairs (drop i data)) \<and> length buf' = length buf"
  using assms
proof (induction "length data - i" arbitrary: i xs buf rule: less_induct)
  case less
  show ?case
  proof (cases "i < length data")
    case False
    with less.prems show ?thesis
      by (subst rle_encode_loop.simps) (simp add: rle_pairs.simps)
  next
    case True
    let ?run = "run_length (drop i data)"
    have run: "0 < ?run" "i + ?run \<le> length data"
      using run_length_bounds [of "drop i data"] True by auto
    have room: "length xs < length buf" using True less.prems by simp
    obtain b1 where b1: "(store_cells buf (length xs) [of_nat ?run] :: (ipmb_status, byte cells) res) = Ok b1"
        "holds b1 (xs @ [of_nat ?run])" "length b1 = length buf"
      by (rule store_holds_snoc [OF less.prems(2) room])
    have room1: "length (xs @ [of_nat ?run]) < length b1" using True less.prems b1 by simp
    obtain b2 where b2:
        "(store_cells b1 (length (xs @ [of_nat ?run])) [data ! i] :: (ipmb_status, byte cells) res) = Ok b2"
        "holds b2 ((xs @ [of_nat ?run]) @ [data ! i])" "length b2 = length b1"
      by (rule store_holds_snoc [OF b1(2) room1])
    let ?xs = "(xs @ [of_nat ?run]) @ [data ! i]"
    have fit: "length ?xs + 2 * (length data - (i + ?run)) \<le> length b2"
      using less.prems(3) run b1(3) b2(3) True by simp
    have dec: "length data - (i + ?run) < length data - i" using run True by simp
    obtain buf' where buf': "rle_encode_loop data (i + ?run) (length ?xs) b2
          = Ok (buf', length ?xs + length (rle_pairs (drop (i + ?run) data)))"
        "holds buf' (?xs @ rle_pairs (drop (i + ?run) data))" "length buf' = length b2"
      using less.hyps [OF dec run(2) b2(2) fit] by blast
    have pairs: "rle_pairs (drop i data) = of_nat ?run # data ! i # rle_pairs (drop (i + ?run) data)"
      using True by (subst rle_pairs.simps) (simp add: hd_drop_conv_nth add.commute)
    have "rle_encode_loop data i (length xs) buf = rle_encode_loop data (i + ?run) (length ?xs) b2"
      using True b1(1) b2(1) rle_run_length [OF True]
      by (subst rle_encode_loop.simps) (simp add: rd8_def)
    with buf' b1 b2 pairs show ?thesis by simp
  qed
qed

lemma rle_encode_image:
  assumes "al 0" "length data + 4 \<le> 2 ^ 63"
  shows "\<exists>buf. ipmb_rle_encode al data = Ok (buf, 4 + length (rle_pairs data)) \<and>
     holds buf (ascii ''IRLE'' @ rle_pairs data)"
proof -
  let ?b = "malloc_cells (4 + length data * 2 + 2) :: byte cells"
  have room: "length ([] :: byte list) + length (ascii ''IRLE'') \<le> length ?b" by simp
  obtain b1 where b1: "(store_cells ?b (length ([] :: byte list)) (ascii ''IRLE'')
        :: (ipmb_status, byte cells) res) = Ok b1"
      "holds b1 ([] @ ascii ''IRLE'')" "length b1 = length ?b"
    by (rule store_holds [OF holds_Nil room])
  have four: "length (ascii ''IRLE'') = 4" by simp
  obtain buf where "rle_encode_loop data 0 4 b1 = Ok (buf, 4 + length (rle_pairs data))"
      "holds buf (ascii ''IRLE'' @ rle_pairs data)"
    using rle_encode_loop_holds [of 0 data b1 "ascii ''IRLE''", unfolded four] b1 by auto
  moreover have "ipmb_rle_encode al data = rle_encode_loop data 0 4 b1"
    using assms b1 by (simp add: ipmb_rle_encode_def size_modulus_def)
  ultimately show ?thesis by metis
qed

section \<open>The decoder expands the pairs\<close>

lemma rle_expand_take:
  "pos + 1 < length data \<Longrightarrow>
   rle_expand (drop pos data)
     = replicate (unat (data ! pos)) (data ! (pos + 1)) @ rle_expand (drop (pos + 2) data)"
proof -
  assume "pos + 1 < length data"
  then have "drop pos data = data ! pos # data ! (pos + 1) # drop (pos + 2) data"
    by (simp add: Cons_nth_drop_Suc)
  then show ?thesis by simp
qed

lemma rle_expand_short: "length bs \<le> 1 \<Longrightarrow> rle_expand bs = []"
  by (cases bs rule: rle_expand.cases) auto

lemma length_rle_expand: "length (rle_expand bs) \<le> 128 * length bs"
proof (induction bs rule: rle_expand.induct)
  case (1 r v bs)
  have "unat r < 256" using unsigned_less [of r] by simp
  with 1 show ?case by simp
qed auto

text \<open>\<open>ready buf out\<close>: the output written so far fills the block that was allocated for it.\<close>

definition ready :: "byte cells \<Rightarrow> byte list \<Rightarrow> bool" where
  "ready buf out \<longleftrightarrow> holds buf out \<and> 0 < length buf"

lemma rle_grow:
  assumes "ready buf out" "length out + n \<le> 2 ^ 63"
  obtains cap where "double_until (length out + n) (length buf) = Some cap"
    and "length out + n \<le> length (realloc_cells cap buf)" and "ready (realloc_cells cap buf) out"
proof -
  from assms obtain cap where cap: "double_until (length out + n) (length buf) = Some cap"
      "length out + n \<le> cap" "length buf \<le> cap"
    using double_until_stops [OF assms(2), of "length buf"] by (auto simp: ready_def)
  have "0 < cap" using cap(3) assms(1) by (cases cap) (auto simp: ready_def)
  then show ?thesis
    using that [of cap] cap assms by (simp add: ready_def holds_realloc)
qed

lemma rle_decode_loop_spec:
  assumes "ready buf out" "length out + length (rle_expand (drop pos data)) \<le> 2 ^ 63"
  shows "rle_decode_loop al data pos k (length out) buf = Err IPMB_ERR_ALLOC \<and> (\<exists>j \<ge> k. \<not> al j) \<or>
    (\<exists>buf'. rle_decode_loop al data pos k (length out) buf
          = Ok (buf', length out + length (rle_expand (drop pos data))) \<and>
        holds buf' (out @ rle_expand (drop pos data)))"
  using assms
proof (induction "length data - pos" arbitrary: pos k out buf rule: less_induct)
  case less
  show ?case
  proof (cases "pos + 1 < length data")
    case False
    then have "rle_expand (drop pos data) = []" by (simp add: rle_expand_short)
    with False less.prems show ?thesis
      by (subst rle_decode_loop.simps) (simp add: ready_def rle_decode_loop.simps)
  next
    case True
    let ?n = "unat (data ! pos)" and ?v = "data ! (pos + 1)"
    let ?rest = "rle_expand (drop (pos + 2) data)"
    note exp = rle_expand_take [OF True]
    have fit: "length out + ?n \<le> 2 ^ 63" using less.prems(2) exp by simp
    obtain cap where grow: "double_until (length out + ?n) (length buf) = Some cap"
        "length out + ?n \<le> length (realloc_cells cap buf)" "ready (realloc_cells cap buf) out"
      by (rule rle_grow [OF less.prems(1) fit])
    show ?thesis
    proof (cases "length out + ?n > length buf \<and> \<not> al k")
      case no: True
      then have "rle_decode_loop al data pos k (length out) buf = Err IPMB_ERR_ALLOC"
        using True by (subst rle_decode_loop.simps) (simp add: rd8_def grow(1))
      with no show ?thesis by blast
    next
      case yes: False
      let ?buf = "if length out + ?n > length buf then realloc_cells cap buf else buf"
      let ?k = "if length out + ?n > length buf then k + 1 else k"
      have buf: "holds ?buf out" "0 < length ?buf"
          "length out + length (replicate ?n ?v) \<le> length ?buf"
        using less.prems(1) grow(2, 3) by (auto simp: ready_def simp del: length_realloc_cells)
      obtain b1 where b1: "(store_cells ?buf (length out) (replicate ?n ?v)
            :: (ipmb_status, byte cells) res) = Ok b1"
          "holds b1 (out @ replicate ?n ?v)" "length b1 = length ?buf"
        by (rule store_holds [OF buf(1, 3)])
      let ?out = "out @ replicate ?n ?v"
      have step: "rle_decode_loop al data pos k (length out) buf
          = rle_decode_loop al data (pos + 2) ?k (length ?out) b1"
        using True yes b1(1)
        by (subst rle_decode_loop.simps) (auto simp: rd8_def grow(1))
      have "ready b1 ?out" using b1 buf(2) by (simp add: ready_def)
      moreover have "length ?out + length ?rest \<le> 2 ^ 63"
        using less.prems(2) unfolding exp by simp
      moreover have "length data - (pos + 2) < length data - pos" using True by simp
      ultimately have ih: "rle_decode_loop al data (pos + 2) ?k (length ?out) b1 = Err IPMB_ERR_ALLOC \<and>
            (\<exists>j \<ge> ?k. \<not> al j) \<or>
          (\<exists>buf'. rle_decode_loop al data (pos + 2) ?k (length ?out) b1
              = Ok (buf', length ?out + length ?rest) \<and> holds buf' (?out @ ?rest))"
        by (intro less.hyps)
      have assoc: "out @ replicate ?n ?v @ ?rest = ?out @ ?rest"
          "length out + length (replicate ?n ?v @ ?rest) = length ?out + length ?rest"
        by simp_all
      have k: "\<exists>j \<ge> ?k. \<not> al j \<Longrightarrow> \<exists>j \<ge> k. \<not> al j" by (auto split: if_splits intro: Suc_leD)
      show ?thesis
        unfolding step exp assoc using ih k by blast
    qed
  qed
qed

lemma rle_decode_outcome:
  assumes "length (rle_expand (drop 4 data)) \<le> 2 ^ 63" "prefix (ascii ''IRLE'') data"
  shows "ipmb_rle_decode al data = Err IPMB_ERR_ALLOC \<and> (\<exists>j. \<not> al j) \<or>
    (\<exists>buf. ipmb_rle_decode al data = Ok (buf, length (rle_expand (drop 4 data))) \<and>
       holds buf (rle_expand (drop 4 data)))"
proof -
  have magic: "4 \<le> length data" "take 4 data = ascii ''IRLE''"
    using assms(2) by (simp_all add: prefix_magic)
  then have run: "ipmb_rle_decode al data = rbind (alloc al 0 IPMB_ERR_ALLOC)
      (\<lambda>_. rle_decode_loop al data 4 1 (length ([] :: byte list)) (malloc_cells 64))"
    by (simp add: ipmb_rle_decode_def)
  show ?thesis
    using rle_decode_loop_spec [of "malloc_cells 64" "[]" 4 data al 1] assms(1) unfolding run
    by (cases "al 0") (auto simp: ready_def alloc_def)
qed

section \<open>Properties\<close>

text \<open>C33: \<^verbatim>\<open>ipmb_rle_decode\<close> on any input shorter than 2^55 bytes: without the magic it reports
  \<^verbatim>\<open>IPMB_ERR_BAD_MAGIC\<close>; with it, it either reports a failed allocation or returns a block that
  starts with exactly the runs the pairs stand for, whose number of bytes it also returns.
  It never reads or writes outside a block, and its growth loop ends.\<close>

theorem rle_decode_complete:
  assumes "length data < 2 ^ 55"
  shows "if prefix (ascii ''IRLE'') data
    then (ipmb_rle_decode al data = Err IPMB_ERR_ALLOC \<and> (\<exists>j. \<not> al j)) \<or>
      (\<exists>buf. ipmb_rle_decode al data = Ok (buf, length (rle_expand (drop 4 data))) \<and>
         holds buf (rle_expand (drop 4 data)))
    else ipmb_rle_decode al data = Err IPMB_ERR_BAD_MAGIC"
proof (cases "prefix (ascii ''IRLE'') data")
  case True
  have "length (rle_expand (drop 4 data)) \<le> 2 ^ 63"
    using length_rle_expand [of "drop 4 data"] assms by simp
  with True show ?thesis by (simp add: rle_decode_outcome)
next
  case False
  then have "ipmb_rle_decode al data = Err IPMB_ERR_BAD_MAGIC"
    by (auto simp: ipmb_rle_decode_def prefix_magic)
  with False show ?thesis by simp
qed

theorem rle_decode_complete_witness:
  "\<exists>buf. ipmb_rle_decode (\<lambda>_. True) (ascii ''IRLE'' @ [3, 7, 0, 9, 1, 8]) = Ok (buf, 4) \<and>
     holds buf [7, 7, 7, 8]"
proof -
  let ?d = "ascii ''IRLE'' @ [3, 7, 0, 9, 1, 8 :: byte]"
  have short: "length ?d < 2 ^ 55" by simp
  have replicate_eq_3: "replicate 3 x = [x, x, x]" for x :: byte by (simp add: numeral_3_eq_3)
  have exp: "rle_expand (drop 4 ?d) = [7, 7, 7, 8]" "length [7, 7, 7, 8 :: byte] = 4"
    by (simp_all add: replicate_eq_3)
  show ?thesis
    using rle_decode_complete [where al = "\<lambda>_. True", OF short] unfolding exp by simp
qed

text \<open>C32: run-length encoding followed by decoding is the identity for inputs of at most
  \<open>2 ^ 63 - 4\<close> bytes, the largest for which the encoder's block size does not wrap around: when
  memory is available, \<^verbatim>\<open>ipmb_rle_encode\<close> writes an image it has room for, and
  \<^verbatim>\<open>ipmb_rle_decode\<close> of that image returns the original bytes, runs longer than 255 included.\<close>

theorem rle_roundtrip:
  assumes "length data + 4 \<le> 2 ^ 63" "\<forall>k. al k"
  shows "\<exists>buf n img out. ipmb_rle_encode al data = Ok (buf, n) \<and> load_cells buf 0 n = (Ok img :: (ipmb_status, byte list) res) \<and>
    ipmb_rle_decode al img = Ok (out, length data) \<and> holds out data"
proof -
  obtain buf where enc: "ipmb_rle_encode al data = Ok (buf, 4 + length (rle_pairs data))"
      "holds buf (ascii ''IRLE'' @ rle_pairs data)"
    using rle_encode_image assms by blast
  let ?img = "ascii ''IRLE'' @ rle_pairs data"
  have len: "length ?img = 4 + length (rle_pairs data)" by simp
  have img: "rle_expand (drop 4 ?img) = data" "prefix (ascii ''IRLE'') ?img"
    by (simp_all add: rle_expand_pairs)
  from assms rle_decode_outcome [of ?img al] obtain out
    where "ipmb_rle_decode al ?img = Ok (out, length data)" "holds out data"
    unfolding img by auto
  moreover have "load_cells buf 0 (4 + length (rle_pairs data)) = (Ok ?img :: (ipmb_status, byte list) res)"
    using load_holds [OF enc(2), where ?'b = ipmb_status] unfolding len .
  ultimately show ?thesis using enc(1) by blast
qed

theorem rle_roundtrip_witness:
  "\<exists>buf n img out. ipmb_rle_encode (\<lambda>_. True) [5, 5, 5, 9] = Ok (buf, n) \<and> load_cells buf 0 n = (Ok img :: (ipmb_status, byte list) res) \<and>
    ipmb_rle_decode (\<lambda>_. True) img = Ok (out, 4) \<and> holds out [5, 5, 5, 9]"
proof -
  have "length [5, 5, 5, 9 :: byte] + 4 \<le> 2 ^ 63" "\<forall>k. (\<lambda>_. True) (k :: nat)" by simp_all
  from rle_roundtrip [OF this] show ?thesis
    unfolding list.size by (simp only: numeral_eq_Suc pred_numeral_simps BitM.simps add_0 add_Suc add_Suc_right add_0_right)
qed

end
