(* ===== verification/Byte_Read.thy ===== *)
theory Byte_Read
  imports Endian
begin

text \<open>
  The bounds-checked cursor of \<^verbatim>\<open>src/util/byte_read.c\<close>, and the interface the parsers of
  the repository use it through.  The locale \<open>reader_codec\<close> states what a reading step
  promises: it succeeds with \<open>v\<close> exactly when the unread bytes start with the wire image of
  \<open>v\<close>, it reports a short read on a truncated image, and it never touches a byte outside
  the buffer.  Steps compose (\<open>codec_bind\<close>) and repeat (\<open>record_loop\<close>), so the wire format
  of a record follows from those of its fields.
\<close>

section \<open>The code\<close>

record ipmb_reader =
  rdata :: "byte list"
  rlen :: nat
  rpos :: nat

definition ipmb_reader_init :: "byte list \<Rightarrow> nat \<Rightarrow> ipmb_reader" where
  "ipmb_reader_init data n = \<lparr>rdata = data, rlen = n, rpos = 0\<rparr>"

definition ipmb_reader_remaining :: "ipmb_reader \<Rightarrow> nat" where
  "ipmb_reader_remaining r = (if rpos r \<le> rlen r then rlen r - rpos r else 0)"

definition advance :: "nat \<Rightarrow> ipmb_reader \<Rightarrow> ipmb_reader" where
  "advance n r = r\<lparr>rpos := rpos r + n\<rparr>"

type_synonym 'a rd_result = "(ipmb_status, 'a \<times> ipmb_reader) res"

definition ipmb_read_u8 :: "ipmb_reader \<Rightarrow> byte rd_result" where
  "ipmb_read_u8 r =
     (if ipmb_reader_remaining r < 1 then Err IPMB_ERR_SHORT_READ
      else rbind (rd8 (rdata r) (rpos r)) (\<lambda>v. Ok (v, advance 1 r)))"

definition ipmb_read_le16 :: "ipmb_reader \<Rightarrow> (16 word) rd_result" where
  "ipmb_read_le16 r =
     (if ipmb_reader_remaining r < 2 then Err IPMB_ERR_SHORT_READ
      else rbind (ipmb_load_le16 (rdata r) (rpos r)) (\<lambda>v. Ok (v, advance 2 r)))"

definition ipmb_read_le32 :: "ipmb_reader \<Rightarrow> (32 word) rd_result" where
  "ipmb_read_le32 r =
     (if ipmb_reader_remaining r < 4 then Err IPMB_ERR_SHORT_READ
      else rbind (ipmb_load_le32 (rdata r) (rpos r)) (\<lambda>v. Ok (v, advance 4 r)))"

definition ipmb_read_le64 :: "ipmb_reader \<Rightarrow> (64 word) rd_result" where
  "ipmb_read_le64 r =
     (if ipmb_reader_remaining r < 8 then Err IPMB_ERR_SHORT_READ
      else rbind (ipmb_load_le64 (rdata r) (rpos r)) (\<lambda>v. Ok (v, advance 8 r)))"

text \<open>
  \<^verbatim>\<open>ipmb_read_bytes\<close> returns a pointer to the \<open>n\<close> bytes; every caller copies them at once,
  so the model returns the bytes.
\<close>

definition ipmb_read_bytes :: "nat \<Rightarrow> ipmb_reader \<Rightarrow> (byte list) rd_result" where
  "ipmb_read_bytes n r =
     (if ipmb_reader_remaining r < n then Err IPMB_ERR_SHORT_READ
      else rbind (rd_bytes (rdata r) (rpos r) n) (\<lambda>v. Ok (v, advance n r)))"

lemma read_remaining:
  "ipmb_read_u8 r = Ok (a, r') \<Longrightarrow> ipmb_reader_remaining r = ipmb_reader_remaining r' + 1"
  "ipmb_read_le16 r = Ok (b, r') \<Longrightarrow> ipmb_reader_remaining r = ipmb_reader_remaining r' + 2"
  "ipmb_read_le32 r = Ok (c, r') \<Longrightarrow> ipmb_reader_remaining r = ipmb_reader_remaining r' + 4"
  "ipmb_read_le64 r = Ok (d, r') \<Longrightarrow> ipmb_reader_remaining r = ipmb_reader_remaining r' + 8"
  "ipmb_read_bytes n r = Ok (e, r') \<Longrightarrow> ipmb_reader_remaining r = ipmb_reader_remaining r' + n"
  by (auto simp: ipmb_read_u8_def ipmb_read_le16_def ipmb_read_le32_def ipmb_read_le64_def
      ipmb_read_bytes_def ipmb_reader_remaining_def advance_def split: if_splits)

lemma read_bytes_length: "ipmb_read_bytes n r = Ok (v, r') \<Longrightarrow> length v = n"
  by (auto simp: ipmb_read_bytes_def split: if_splits)

section \<open>Unread bytes\<close>

definition reader_wf :: "ipmb_reader \<Rightarrow> bool" where
  "reader_wf r \<longleftrightarrow> rlen r \<le> length (rdata r) \<and> rpos r \<le> rlen r"

definition unread :: "ipmb_reader \<Rightarrow> byte list" where
  "unread r = drop (rpos r) (take (rlen r) (rdata r))"

lemma advance_simps [simp]:
  "rdata (advance n r) = rdata r" "rlen (advance n r) = rlen r" "rpos (advance n r) = rpos r + n"
  by (simp_all add: advance_def)

lemma advance_0 [simp]: "advance 0 r = r"
  by (simp add: advance_def)

lemma advance_advance [simp]: "advance m (advance n r) = advance (n + m) r"
  by (simp add: advance_def add.assoc)

lemma unread_advance [simp]: "unread (advance n r) = drop n (unread r)"
  by (simp add: unread_def add.commute)

lemma unread_init [simp]: "unread (ipmb_reader_init d n) = take n d"
  by (simp add: unread_def ipmb_reader_init_def)

lemma reader_wf_init [simp]: "reader_wf (ipmb_reader_init d n) \<longleftrightarrow> n \<le> length d"
  by (simp add: reader_wf_def ipmb_reader_init_def)

lemma length_unread: "reader_wf r \<Longrightarrow> length (unread r) = ipmb_reader_remaining r"
  by (auto simp: reader_wf_def unread_def ipmb_reader_remaining_def)

lemma reader_wf_advance: "reader_wf r \<Longrightarrow> n \<le> length (unread r) \<Longrightarrow> reader_wf (advance n r)"
  by (auto simp: reader_wf_def unread_def)

lemma take_unread:
  "reader_wf r \<Longrightarrow> n \<le> length (unread r) \<Longrightarrow> take n (unread r) = take n (drop (rpos r) (rdata r))"
  by (auto simp: unread_def reader_wf_def drop_take min_absorb1 min_absorb2)

section \<open>What a reading step promises\<close>

locale reader_codec =
  fixes rd :: "ipmb_reader \<Rightarrow> ('e, 'a \<times> ipmb_reader) res"
    and img :: "'a \<Rightarrow> byte list"
    and ok :: "'a \<Rightarrow> bool"
    and short :: 'e
  assumes rd_Ok: "reader_wf r \<Longrightarrow>
        rd r = Ok (v, r') \<longleftrightarrow> ok v \<and> prefix (img v) (unread r) \<and> r' = advance (length (img v)) r"
    and rd_short: "reader_wf r \<Longrightarrow> ok v \<Longrightarrow> strict_prefix (unread r) (img v) \<Longrightarrow> rd r = Err short"
    and rd_safe: "reader_wf r \<Longrightarrow> no_fault (rd r)"
begin

lemma rd_img: "reader_wf r \<Longrightarrow> ok v \<Longrightarrow> prefix (img v) (unread r) \<Longrightarrow>
    rd r = Ok (v, advance (length (img v)) r)"
  by (simp add: rd_Ok)

lemma rd_wf: "reader_wf r \<Longrightarrow> rd r = Ok (v, r') \<Longrightarrow> reader_wf r'"
  by (auto simp: rd_Ok intro: reader_wf_advance prefix_length_le)

lemma img_unique: "ok v \<Longrightarrow> ok v' \<Longrightarrow> prefix (img v) bs \<Longrightarrow> prefix (img v') bs \<Longrightarrow> v = v'"
  using rd_img [of "ipmb_reader_init bs (length bs)" v] rd_img [of "ipmb_reader_init bs (length bs)" v']
  by simp

end

lemma codec_return: "reader_codec (\<lambda>r. Ok (c, r)) (\<lambda>_. []) (\<lambda>v. v = c) short"
  by unfold_locales auto

lemma codec_bind:
  assumes rd1: "reader_codec rd1 img1 ok1 short"
    and rd2: "\<And>x. ok1 x \<Longrightarrow> reader_codec (k x) (img2 x) (ok2 x) short"
    and det: "\<And>x v. ok2 x v \<Longrightarrow> f v = x"
  shows "reader_codec (\<lambda>r. rbind (rd1 r) (\<lambda>(x, r1). k x r1))
           (\<lambda>v. img1 (f v) @ img2 (f v) v) (\<lambda>v. ok1 (f v) \<and> ok2 (f v) v) short"
proof
  fix r v r' assume wf: "reader_wf r"
  have "rbind (rd1 r) (\<lambda>(x, r1). k x r1) = Ok (v, r') \<longleftrightarrow>
     (\<exists>x r1. rd1 r = Ok (x, r1) \<and> k x r1 = Ok (v, r'))"
    by auto
  also have "\<dots> \<longleftrightarrow> (\<exists>x. ok1 x \<and> prefix (img1 x) (unread r) \<and>
       k x (advance (length (img1 x)) r) = Ok (v, r'))"
    using reader_codec.rd_Ok [OF rd1 wf] by auto
  also have "\<dots> \<longleftrightarrow> (\<exists>x. ok1 x \<and> prefix (img1 x) (unread r) \<and> ok2 x v \<and>
       prefix (img2 x v) (drop (length (img1 x)) (unread r)) \<and>
       r' = advance (length (img1 x) + length (img2 x v)) r)"
    by (intro ex_cong1 conj_cong refl)
      (simp add: reader_codec.rd_Ok [OF rd2] reader_wf_advance [OF wf] prefix_length_le)
  also have "\<dots> \<longleftrightarrow> (ok1 (f v) \<and> ok2 (f v) v) \<and> prefix (img1 (f v) @ img2 (f v) v) (unread r) \<and>
       r' = advance (length (img1 (f v) @ img2 (f v) v)) r"
    by (auto simp: prefix_append_iff dest: det)
  finally show "rbind (rd1 r) (\<lambda>(x, r1). k x r1) = Ok (v, r') \<longleftrightarrow>
      (ok1 (f v) \<and> ok2 (f v) v) \<and> prefix (img1 (f v) @ img2 (f v) v) (unread r) \<and>
       r' = advance (length (img1 (f v) @ img2 (f v) v)) r" .
next
  fix r v assume wf: "reader_wf r" and ok: "ok1 (f v) \<and> ok2 (f v) v"
    and short: "strict_prefix (unread r) (img1 (f v) @ img2 (f v) v)"
  show "rbind (rd1 r) (\<lambda>(x, r1). k x r1) = Err short"
  proof (cases "strict_prefix (unread r) (img1 (f v))")
    case True
    then show ?thesis using reader_codec.rd_short [OF rd1 wf] ok by auto
  next
    case False
    with short obtain ys where ys: "unread r = img1 (f v) @ ys" "strict_prefix ys (img2 (f v) v)"
      by (metis prefix_append prefix_order.less_le same_prefix_prefix append_Nil2 prefix_bot.bot_least
          strict_prefix_def)
    then have "rd1 r = Ok (f v, advance (length (img1 (f v))) r)"
      using reader_codec.rd_img [OF rd1 wf] ok by simp
    moreover have "k (f v) (advance (length (img1 (f v))) r) = Err short"
      using ok ys by (intro reader_codec.rd_short [OF rd2]) (auto intro: reader_wf_advance [OF wf])
    ultimately show ?thesis by simp
  qed
next
  fix r assume wf: "reader_wf r"
  show "no_fault (rbind (rd1 r) (\<lambda>(x, r1). k x r1))"
  proof (rule no_fault_rbind)
    show "no_fault (rd1 r)" by (rule reader_codec.rd_safe [OF rd1 wf])
  next
    fix p assume p: "rd1 r = Ok p"
    obtain x r1 where [simp]: "p = (x, r1)" by (cases p)
    from p have "ok1 x" "reader_wf r1"
      using reader_codec.rd_Ok [OF rd1 wf] reader_codec.rd_wf [OF rd1 wf] by auto
    then show "no_fault (case p of (x, r1) \<Rightarrow> k x r1)"
      by (auto intro: reader_codec.rd_safe [OF rd2])
  qed
qed

text \<open>A step may fail on a condition of the value it has read, or turn its error into another.\<close>

lemma codec_or_fail:
  "reader_codec rd img ok s \<Longrightarrow> reader_codec (\<lambda>r. or_fail (rd r) e) img ok e"
  by (auto simp: reader_codec_def)

lemma codec_cong:
  "reader_codec rd img ok s \<Longrightarrow> (\<And>r. reader_wf r \<Longrightarrow> rd' r = rd r) \<Longrightarrow> (\<And>v. ok' v = ok v) \<Longrightarrow>
   (\<And>v. ok v \<Longrightarrow> img' v = img v) \<Longrightarrow> reader_codec rd' img' ok' s"
  by (auto simp: reader_codec_def)

lemma codec_image:
  "reader_codec rd img ok s \<Longrightarrow> (\<And>v. ok' v = ok v) \<Longrightarrow> (\<And>v. ok v \<Longrightarrow> img' v = img v) \<Longrightarrow>
   reader_codec rd img' ok' s"
  by (auto simp: reader_codec_def)

lemma codec_guard:
  "reader_codec rd img ok s \<Longrightarrow>
   reader_codec (\<lambda>r. rbind (guard p e) (\<lambda>_. rd r)) img (\<lambda>v. p \<and> ok v) s"
  by (cases p) (auto simp: reader_codec_def)

text \<open>A check of the value read against the bytes it was read from.\<close>

lemma codec_check:
  assumes rd: "reader_codec rd img ok s"
    and chk: "\<And>r v. reader_wf r \<Longrightarrow> ok v \<Longrightarrow> prefix (img v) (unread r) \<Longrightarrow>
        c r v = (if good v then Ok () else Err (e v))"
  shows "reader_codec (\<lambda>r. rbind (rd r) (\<lambda>(v, r'). rbind (c r v) (\<lambda>_. Ok (v, r'))))
           img (\<lambda>v. ok v \<and> good v) s"
proof
  fix r v r' assume wf: "reader_wf r"
  show "rbind (rd r) (\<lambda>(v, r'). rbind (c r v) (\<lambda>_. Ok (v, r'))) = Ok (v, r') \<longleftrightarrow>
      (ok v \<and> good v) \<and> prefix (img v) (unread r) \<and> r' = advance (length (img v)) r"
    using reader_codec.rd_Ok [OF rd wf] chk [OF wf] by (auto split: if_splits)
next
  fix r v assume "reader_wf r" "ok v \<and> good v" "strict_prefix (unread r) (img v)"
  then show "rbind (rd r) (\<lambda>(v, r'). rbind (c r v) (\<lambda>_. Ok (v, r'))) = Err s"
    using reader_codec.rd_short [OF rd, of r v] by simp
next
  fix r assume wf: "reader_wf r"
  show "no_fault (rbind (rd r) (\<lambda>(v, r'). rbind (c r v) (\<lambda>_. Ok (v, r'))))"
    using reader_codec.rd_Ok [OF rd wf] chk [OF wf] reader_codec.rd_safe [OF rd wf]
    by (intro no_fault_rbind) (auto split: prod.split)
qed

section \<open>The fields\<close>

text \<open>A field has a fixed width, and reading it fails only by a short read.\<close>

locale field_reader = reader_codec rd img ok IPMB_ERR_SHORT_READ
  for rd :: "ipmb_reader \<Rightarrow> 'a rd_result" and img ok +
  fixes width :: nat
  assumes img_width: "ok v \<Longrightarrow> length (img v) = width"
    and rd_Err: "reader_wf r \<Longrightarrow> rd r = Err e \<longleftrightarrow> e = IPMB_ERR_SHORT_READ \<and> length (unread r) < width"
begin

lemma rd_total:
  assumes "reader_wf r" "width \<le> length (unread r)"
  shows "\<exists>v. rd r = Ok (v, advance width r) \<and> img v = take width (unread r) \<and> ok v"
proof (cases "rd r")
  case (Ok p)
  then show ?thesis using assms
    by (cases p) (auto simp: rd_Ok img_width prefix_eq_take)
qed (use assms rd_Err rd_safe in \<open>auto simp: no_fault_def\<close>)

end

lemma strict_prefix_length: "strict_prefix a b \<Longrightarrow> length a < length b"
  by (rule prefix_length_less)

lemma field_readerI:
  assumes rd: "\<And>r. reader_wf r \<Longrightarrow> w \<le> length (unread r) \<Longrightarrow>
      \<exists>v. ok v \<and> rd r = Ok (v, advance w r) \<and> img v = take w (unread r)"
    and short: "\<And>r. reader_wf r \<Longrightarrow> length (unread r) < w \<Longrightarrow> rd r = Err IPMB_ERR_SHORT_READ"
    and inj: "\<And>v v'. ok v \<Longrightarrow> ok v' \<Longrightarrow> img v = img v' \<Longrightarrow> v = v'"
    and len: "\<And>v. ok v \<Longrightarrow> length (img v) = w"
  shows "field_reader rd img ok w"
proof unfold_locales
  fix r v r' assume wf: "reader_wf r"
  show "rd r = Ok (v, r') \<longleftrightarrow> ok v \<and> prefix (img v) (unread r) \<and> r' = advance (length (img v)) r"
  proof (cases "w \<le> length (unread r)")
    case True
    then obtain v' where "ok v'" "rd r = Ok (v', advance w r)" "img v' = take w (unread r)"
      using rd [OF wf] by blast
    then show ?thesis using inj [of v v'] len True
      by (auto simp: prefix_eq_take)
  next
    case False
    then show ?thesis using short [OF wf] len by (auto simp: prefix_eq_take)
  qed
next
  fix r v assume "reader_wf r" "ok v" "strict_prefix (unread r) (img v)"
  then show "rd r = Err IPMB_ERR_SHORT_READ"
    using short len strict_prefix_length by metis
next
  fix r assume wf: "reader_wf r"
  show "no_fault (rd r)"
    using rd [OF wf] short [OF wf] by (cases "w \<le> length (unread r)") auto
next
  fix r e assume wf: "reader_wf r"
  show "rd r = Err e \<longleftrightarrow> e = IPMB_ERR_SHORT_READ \<and> length (unread r) < w"
    using rd [OF wf] short [OF wf] by (cases "w \<le> length (unread r)") auto
qed (rule len)

lemma wf_bounds: "reader_wf r \<Longrightarrow> n \<le> length (unread r) \<Longrightarrow> rpos r + n \<le> length (rdata r)"
  by (auto simp: reader_wf_def unread_def)

lemma load_le16_total: "i + 2 \<le> length d \<Longrightarrow> \<exists>v. ipmb_load_le16 d i = Ok v \<and> le16_bytes v = take 2 (drop i d)"
  using no_fault_ex_Ok [of "ipmb_load_le16 d i"] by auto

lemma load_le32_total: "i + 4 \<le> length d \<Longrightarrow> \<exists>v. ipmb_load_le32 d i = Ok v \<and> le32_bytes v = take 4 (drop i d)"
  using no_fault_ex_Ok [of "ipmb_load_le32 d i"] by auto

lemma load_le64_total: "i + 8 \<le> length d \<Longrightarrow> \<exists>v. ipmb_load_le64 d i = Ok v \<and> le64_bytes v = take 8 (drop i d)"
  using no_fault_ex_Ok [of "ipmb_load_le64 d i"] by auto

interpretation u8: field_reader ipmb_read_u8 "\<lambda>v. [v]" "\<lambda>_. True" 1
proof (rule field_readerI)
  fix r assume r: "reader_wf r" "1 \<le> length (unread r)"
  show "\<exists>v. True \<and> ipmb_read_u8 r = Ok (v, advance 1 r) \<and> [v] = take 1 (unread r)"
    unfolding take_unread [OF r]
    using wf_bounds [OF r] r
    by (simp add: ipmb_read_u8_def length_unread rd8_def take_Suc_conv_app_nth)
next
  fix r assume r: "reader_wf r" "length (unread r) < 1"
  then show "ipmb_read_u8 r = Err IPMB_ERR_SHORT_READ"
    unfolding length_unread [OF r(1)] by (simp add: ipmb_read_u8_def)
qed auto

interpretation le16: field_reader ipmb_read_le16 le16_bytes "\<lambda>_. True" 2
proof (rule field_readerI)
  fix r assume r: "reader_wf r" "2 \<le> length (unread r)"
  show "\<exists>v. True \<and> ipmb_read_le16 r = Ok (v, advance 2 r) \<and> le16_bytes v = take 2 (unread r)"
    using load_le16_total [OF wf_bounds [OF r]] r
    by (auto simp: ipmb_read_le16_def length_unread take_unread)
qed (auto simp: ipmb_read_le16_def length_unread)

interpretation le32: field_reader ipmb_read_le32 le32_bytes "\<lambda>_. True" 4
proof (rule field_readerI)
  fix r assume r: "reader_wf r" "4 \<le> length (unread r)"
  show "\<exists>v. True \<and> ipmb_read_le32 r = Ok (v, advance 4 r) \<and> le32_bytes v = take 4 (unread r)"
    using load_le32_total [OF wf_bounds [OF r]] r
    by (auto simp: ipmb_read_le32_def length_unread take_unread)
qed (auto simp: ipmb_read_le32_def length_unread)

interpretation le64: field_reader ipmb_read_le64 le64_bytes "\<lambda>_. True" 8
proof (rule field_readerI)
  fix r assume r: "reader_wf r" "8 \<le> length (unread r)"
  show "\<exists>v. True \<and> ipmb_read_le64 r = Ok (v, advance 8 r) \<and> le64_bytes v = take 8 (unread r)"
    using load_le64_total [OF wf_bounds [OF r]] r
    by (auto simp: ipmb_read_le64_def length_unread take_unread)
qed (auto simp: ipmb_read_le64_def length_unread)

interpretation bytes: field_reader "ipmb_read_bytes n" "\<lambda>v. v" "\<lambda>v. length v = n" n for n
proof (rule field_readerI)
  fix r assume r: "reader_wf r" "n \<le> length (unread r)"
  show "\<exists>v. length v = n \<and> ipmb_read_bytes n r = Ok (v, advance n r) \<and> v = take n (unread r)"
    using wf_bounds [OF r] r
    by (auto simp: ipmb_read_bytes_def length_unread take_unread rd_bytes_def)
qed (auto simp: ipmb_read_bytes_def length_unread)

lemmas u8_step = codec_bind [OF codec_or_fail [OF u8.reader_codec_axioms]]
lemmas le16_step = codec_bind [OF codec_or_fail [OF le16.reader_codec_axioms]]
lemmas le32_step = codec_bind [OF codec_or_fail [OF le32.reader_codec_axioms]]
lemmas le64_step = codec_bind [OF codec_or_fail [OF le64.reader_codec_axioms]]
lemmas bytes_step = codec_bind [OF codec_or_fail [OF bytes.reader_codec_axioms]]

lemma unat16_less: "unat (w :: 16 word) < 65536"
  using unsigned_less [of w] by simp

lemma alloc_guard: "alloc al k e = guard (al k) e"
  by (simp add: alloc_def)

text \<open>The two 16-bit fields behind a four-byte magic.\<close>

lemma read_small_header:
  assumes "8 \<le> length data"
  obtains v c where
    "ipmb_read_le16 (ipmb_reader_init (drop 4 data) (length data - 4))
       = Ok (v, advance 2 (ipmb_reader_init (drop 4 data) (length data - 4)))"
    "ipmb_read_le16 (advance 2 (ipmb_reader_init (drop 4 data) (length data - 4)))
       = Ok (c, advance 4 (ipmb_reader_init (drop 4 data) (length data - 4)))"
    "take 4 (drop 4 data) = le16_bytes v @ le16_bytes c"
    "reader_wf (advance 4 (ipmb_reader_init (drop 4 data) (length data - 4)))"
    "unread (advance 4 (ipmb_reader_init (drop 4 data) (length data - 4))) = drop 8 data"
proof -
  let ?r = "ipmb_reader_init (drop 4 data) (length data - 4)"
  have wf: "reader_wf (advance n ?r)" if "n \<le> 4" for n
    using that assms by (intro reader_wf_advance) auto
  have room: "k \<le> length (unread (advance n ?r))" if "n + k \<le> 4" for n k
    using that assms by simp
  obtain v where v: "ipmb_read_le16 ?r = Ok (v, advance 2 ?r)" "le16_bytes v = take 2 (drop 4 data)"
    using le16.rd_total [OF wf room, of 0] by auto
  obtain c where c: "ipmb_read_le16 (advance 2 ?r) = Ok (c, advance 4 ?r)" "le16_bytes c = take 2 (drop 6 data)"
    using le16.rd_total [OF wf room, of 2] by auto
  have "take (2 + 2) (drop 4 data) = le16_bytes v @ le16_bytes c"
    unfolding take_add v c by simp
  with v(1) c(1) wf [of 4] show ?thesis by (intro that [of v c]) simp_all
qed

lemma prefix_small_header:
  "length s = 4 \<Longrightarrow> length h = 4 \<Longrightarrow> prefix (ascii s @ h @ x) data \<longleftrightarrow> 8 \<le> length data \<and>
     take 4 data = ascii s \<and> take 4 (drop 4 data) = h \<and> prefix x (drop 8 data)"
  by (auto simp: prefix_append_iff prefix_eq_take [of "ascii s"] prefix_eq_take [of h])

section \<open>Counted records\<close>

text \<open>\<^verbatim>\<open>for (i = 0; i < count; ++i)\<close> over records read one after the other.\<close>

fun repeat_rd ::
  "(nat \<Rightarrow> ipmb_reader \<Rightarrow> ('e, 'a \<times> ipmb_reader) res) \<Rightarrow> nat \<Rightarrow> nat \<Rightarrow> ipmb_reader \<Rightarrow>
   ('e, 'a list \<times> ipmb_reader) res" where
  "repeat_rd item i 0 r = Ok ([], r)"
| "repeat_rd item i (Suc n) r =
     rbind (item i r) (\<lambda>(x, r1).
     rbind (repeat_rd item (Suc i) n r1) (\<lambda>(xs, r2). Ok (x # xs, r2)))"

locale record_loop =
  fixes item :: "nat \<Rightarrow> ipmb_reader \<Rightarrow> ('e, 'a \<times> ipmb_reader) res"
    and img :: "'a \<Rightarrow> byte list"
    and ok :: "nat \<Rightarrow> 'a \<Rightarrow> bool"
    and short :: 'e
  assumes item_codec: "reader_codec (item i) img (ok i) short"
begin

definition oks :: "nat \<Rightarrow> nat \<Rightarrow> 'a list \<Rightarrow> bool" where
  "oks i n vs \<longleftrightarrow> length vs = n \<and> (\<forall>k < n. ok (i + k) (vs ! k))"

lemma oks_0: "oks i 0 vs \<longleftrightarrow> vs = []"
  by (auto simp: oks_def)

lemma oks_Suc: "oks i (Suc n) vs \<longleftrightarrow> (\<exists>x xs. vs = x # xs \<and> ok i x \<and> oks (Suc i) n xs)"
  by (cases vs) (auto simp: oks_def All_less_Suc2)

lemma loop_codec: "reader_codec (repeat_rd item i n) (\<lambda>vs. concat (map img vs)) (oks i n) short"
proof (induction n arbitrary: i)
  case 0
  show ?case by unfold_locales (auto simp: oks_0)
next
  case (Suc n)
  let ?tail = "\<lambda>x r1. rbind (repeat_rd item (Suc i) n r1) (\<lambda>(xs, r2). Ok (x # xs, r2))"
  have tail: "reader_codec (?tail x) (\<lambda>vs. concat (map img (tl vs)) @ [])
      (\<lambda>vs. oks (Suc i) n (tl vs) \<and> vs = x # tl vs) short" for x
    by (rule codec_bind [OF Suc.IH codec_return, where f = tl]) auto
  have "reader_codec (\<lambda>r. rbind (item i r) (\<lambda>(x, r1). ?tail x r1))
      (\<lambda>vs. img (hd vs) @ (concat (map img (tl vs)) @ []))
      (\<lambda>vs. ok i (hd vs) \<and> (oks (Suc i) n (tl vs) \<and> vs = hd vs # tl vs)) short"
    by (rule codec_bind [OF item_codec tail, where f = hd]) (metis list.sel(1))
  then show ?case
  proof (rule codec_cong)
    fix vs
    show "oks i (Suc n) vs \<longleftrightarrow> ok i (hd vs) \<and> oks (Suc i) n (tl vs) \<and> vs = hd vs # tl vs"
      by (cases vs) (auto simp: oks_Suc)
    assume "ok i (hd vs) \<and> oks (Suc i) n (tl vs) \<and> vs = hd vs # tl vs"
    then show "concat (map img vs) = img (hd vs) @ concat (map img (tl vs)) @ []"
      by (cases vs) auto
  qed simp
qed

end

end
