(* ===== verification/Frame_Reader.thy ===== *)
theory Frame_Reader
  imports Byte_Read Checksum
begin

text \<open>
  The message parser of \<^verbatim>\<open>src/protocol/frame_reader.c\<close>.  A message is parsed into
  \<open>ipmb_message\<close>; on an error the pair of the status and of the message as the caller finds it
  is returned.  The k-th allocation is that of the frame array for \<open>k = 0\<close> and of the payload of
  frame \<open>k - 1\<close> otherwise.  \<open>message_image\<close> is the wire format, \<open>documented_wf\<close> what the
  format document demands and \<open>message_wf\<close> what the parser demands; the main lemma says that
  parsing succeeds with \<open>m\<close> exactly on the inputs that start with the image of a well-formed \<open>m\<close>.
\<close>

section \<open>The code\<close>

text \<open>\<open>payload\<close> is the block the pointer points to, the empty list for the null pointer; a frame made by
  hand may claim another length for it.\<close>

record ipmb_frame =
  frame_type :: "16 word"
  frame_flags :: "16 word"
  source_addr :: "32 word"
  dest_addr :: "32 word"
  priority :: "16 word"
  ttl :: "16 word"
  payload :: "byte list"
  payload_len :: nat
  crc :: "32 word"

text \<open>\<open>frames\<close> is \<open>None\<close> for the null pointer.\<close>

record ipmb_message =
  version :: "16 word"
  flags :: "16 word"
  session_id :: "64 word"
  sequence :: "32 word"
  frame_count :: "32 word"
  frames :: "ipmb_frame list option"

definition IPMB_MESSAGE_HEADER_LEN :: nat where
  "IPMB_MESSAGE_HEADER_LEN = 28"

definition IPMB_FRAME_HEADER_LEN :: nat where
  "IPMB_FRAME_HEADER_LEN = 20"

definition zero_message :: ipmb_message where
  "zero_message = \<lparr>version = 0, flags = 0, session_id = 0, sequence = 0, frame_count = 0,
                   frames = None\<rparr>"

text \<open>What the caller sees of a message that was freed: its fields are zero.\<close>

definition ipmb_message_free :: "ipmb_message \<Rightarrow> ipmb_message" where
  "ipmb_message_free msg = zero_message"

text \<open>The body of the frame loop; the checksum is over the bytes from \<^verbatim>\<open>frame_start\<close> on.\<close>

definition parse_frame :: "allocs \<Rightarrow> nat \<Rightarrow> ipmb_reader \<Rightarrow> ipmb_frame rd_result" where
  "parse_frame al i r =
     (let frame_start = rpos r; data = rdata r in
      if ipmb_reader_remaining r < IPMB_FRAME_HEADER_LEN then Err IPMB_ERR_SHORT_READ
      else
        rbind (or_fail (ipmb_read_le16 r) IPMB_ERR_SHORT_READ) (\<lambda>(ftype, r).
        rbind (or_fail (ipmb_read_le16 r) IPMB_ERR_SHORT_READ) (\<lambda>(fflags, r).
        rbind (or_fail (ipmb_read_le32 r) IPMB_ERR_SHORT_READ) (\<lambda>(plen, r).
        rbind (or_fail (ipmb_read_le32 r) IPMB_ERR_SHORT_READ) (\<lambda>(source, r).
        rbind (or_fail (ipmb_read_le32 r) IPMB_ERR_SHORT_READ) (\<lambda>(dest, r).
        rbind (or_fail (ipmb_read_le16 r) IPMB_ERR_SHORT_READ) (\<lambda>(prio, r).
        rbind (or_fail (ipmb_read_le16 r) IPMB_ERR_SHORT_READ) (\<lambda>(ttl, r).
        rbind (guard (unat plen \<le> IPMB_MAX_PAYLOAD) IPMB_ERR_LIMIT) (\<lambda>_.
        rbind (or_fail (ipmb_read_bytes (unat plen) r) IPMB_ERR_SHORT_READ) (\<lambda>(pl, r).
        rbind (or_fail (ipmb_read_le32 r) IPMB_ERR_SHORT_READ) (\<lambda>(fcrc, r).
        rbind (rd_bytes data frame_start (IPMB_FRAME_HEADER_LEN + unat plen)) (\<lambda>body.
        rbind (guard (ipmb_crc32 body = fcrc) IPMB_ERR_BAD_CRC) (\<lambda>_.
        rbind (alloc al (i + 1) IPMB_ERR_ALLOC) (\<lambda>_.
          Ok (\<lparr>frame_type = ftype, frame_flags = fflags, source_addr = source, dest_addr = dest,
               priority = prio, ttl = ttl, payload = pl, payload_len = unat plen, crc = fcrc\<rparr>, r)))))))))))))))"

definition ipmb_parse_message ::
  "allocs \<Rightarrow> byte list \<Rightarrow> (ipmb_status \<times> ipmb_message, ipmb_message) res" where
  "ipmb_parse_message al data =
     (let out = zero_message in
      if length data < IPMB_MESSAGE_HEADER_LEN then Err (IPMB_ERR_SHORT_READ, out)
      else rbind (has_magic data ''IPMB'') (\<lambda>magic.
      if \<not> magic then Err (IPMB_ERR_BAD_MAGIC, out)
      else
        let r = ipmb_reader_init (drop 4 data) (length data - 4) in
        rbind (or_fail (ipmb_read_le16 r) (IPMB_ERR_SHORT_READ, out)) (\<lambda>(v, r).
        let out = out\<lparr>version := v\<rparr> in
        rbind (or_fail (ipmb_read_le16 r) (IPMB_ERR_SHORT_READ, out)) (\<lambda>(v, r).
        let out = out\<lparr>flags := v\<rparr> in
        rbind (or_fail (ipmb_read_le32 r) (IPMB_ERR_SHORT_READ, out)) (\<lambda>(v, r).
        let out = out\<lparr>frame_count := v\<rparr> in
        rbind (or_fail (ipmb_read_le64 r) (IPMB_ERR_SHORT_READ, out)) (\<lambda>(v, r).
        let out = out\<lparr>session_id := v\<rparr> in
        rbind (or_fail (ipmb_read_le32 r) (IPMB_ERR_SHORT_READ, out)) (\<lambda>(v, r).
        let out = out\<lparr>sequence := v\<rparr> in
        rbind (or_fail (ipmb_read_le32 r) (IPMB_ERR_SHORT_READ, out)) (\<lambda>(header_crc, r).
        let r = \<lparr>rdata = data, rlen = length data, rpos = IPMB_MESSAGE_HEADER_LEN\<rparr> in
        rbind (guard (unat (frame_count out) \<le> IPMB_MAX_FRAMES) (IPMB_ERR_LIMIT, out)) (\<lambda>_.
        rbind (rd_bytes data 0 24) (\<lambda>header.
        rbind (guard (ipmb_crc32 header = header_crc) (IPMB_ERR_BAD_CRC, out)) (\<lambda>_.
        rbind (alloc al 0 (IPMB_ERR_ALLOC, out)) (\<lambda>_.
        rbind (map_err (\<lambda>status. (status, ipmb_message_free out))
                 (repeat_rd (parse_frame al) 0 (unat (frame_count out)) r)) (\<lambda>(fs, r).
          Ok (out\<lparr>frames := Some fs\<rparr>))))))))))))))"

text \<open>The result of the search is the frame the returned pointer points to.\<close>

fun first_frame_loop ::
  "ipmb_frame list option \<Rightarrow> 16 word \<Rightarrow> nat \<Rightarrow> nat \<Rightarrow> (unit, ipmb_frame option) res" where
  "first_frame_loop fs ftype i 0 = Ok None"
| "first_frame_loop fs ftype i (Suc n) =
     (case fs of None \<Rightarrow> Fault Null_deref
      | Some fs \<Rightarrow> rbind (rd8 fs i) (\<lambda>f.
          if frame_type f = ftype then Ok (Some f) else first_frame_loop (Some fs) ftype (i + 1) n))"

definition ipmb_message_first_frame ::
  "ipmb_message option \<Rightarrow> 16 word \<Rightarrow> (unit, ipmb_frame option) res" where
  "ipmb_message_first_frame msg ftype =
     (case msg of None \<Rightarrow> Ok None
      | Some m \<Rightarrow> first_frame_loop (frames m) ftype 0 (unat (frame_count m)))"

section \<open>The wire format\<close>

definition frame_body :: "ipmb_frame \<Rightarrow> byte list" where
  "frame_body f = le16_bytes (frame_type f) @ le16_bytes (frame_flags f) @
     le32_bytes (of_nat (payload_len f)) @ le32_bytes (source_addr f) @
     le32_bytes (dest_addr f) @ le16_bytes (priority f) @ le16_bytes (ttl f) @ payload f"

definition frame_image :: "ipmb_frame \<Rightarrow> byte list" where
  "frame_image f = frame_body f @ le32_bytes (crc f)"

definition frame_wf :: "ipmb_frame \<Rightarrow> bool" where
  "frame_wf f \<longleftrightarrow> length (payload f) = payload_len f \<and> payload_len f \<le> IPMB_MAX_PAYLOAD \<and>
     crc f = ipmb_crc32 (frame_body f)"

definition header_body :: "ipmb_message \<Rightarrow> byte list" where
  "header_body m = ascii ''IPMB'' @ le16_bytes (version m) @ le16_bytes (flags m) @
     le32_bytes (frame_count m) @ le64_bytes (session_id m) @ le32_bytes (sequence m)"

definition message_image :: "ipmb_message \<Rightarrow> byte list" where
  "message_image m = header_body m @ le32_bytes (ipmb_crc32 (header_body m)) @
     concat (map frame_image (the (frames m)))"

text \<open>\<^verbatim>\<open>docs/FORMAT.md\<close>: a message holds one or more frames whose checksums are right.  The parser also takes
  a message without any, so what it accepts is one or the other.\<close>

definition documented_wf :: "ipmb_message \<Rightarrow> bool" where
  "documented_wf m \<longleftrightarrow> (\<exists>fs. frames m = Some fs \<and> fs \<noteq> [] \<and> length fs = unat (frame_count m) \<and>
     length fs \<le> IPMB_MAX_FRAMES \<and> (\<forall>f \<in> set fs. frame_wf f))"

definition frameless :: "ipmb_message \<Rightarrow> bool" where
  "frameless m \<longleftrightarrow> frames m = Some [] \<and> frame_count m = 0"

definition message_wf :: "ipmb_message \<Rightarrow> bool" where
  "message_wf m \<longleftrightarrow> documented_wf m \<or> frameless m"

lemma message_wf_eq:
  "message_wf m \<longleftrightarrow> (\<exists>fs. frames m = Some fs \<and> length fs = unat (frame_count m) \<and>
     length fs \<le> IPMB_MAX_FRAMES \<and> (\<forall>f \<in> set fs. frame_wf f))"
  by (auto simp: message_wf_def documented_wf_def frameless_def unat_eq_zero)

lemma length_frame_body [simp]: "length (frame_body f) = 20 + length (payload f)"
  by (simp add: frame_body_def)

lemma length_header_body [simp]: "length (header_body m) = 24"
  by (simp add: header_body_def)

section \<open>Frames\<close>

text \<open>The fields of a frame in their order, before the checks on the bytes as a whole.\<close>

definition read_frame_fields :: "ipmb_reader \<Rightarrow> ipmb_frame rd_result" where
  "read_frame_fields r =
        rbind (or_fail (ipmb_read_le16 r) IPMB_ERR_SHORT_READ) (\<lambda>(ftype, r).
        rbind (or_fail (ipmb_read_le16 r) IPMB_ERR_SHORT_READ) (\<lambda>(fflags, r).
        rbind (or_fail (ipmb_read_le32 r) IPMB_ERR_SHORT_READ) (\<lambda>(plen, r).
        rbind (or_fail (ipmb_read_le32 r) IPMB_ERR_SHORT_READ) (\<lambda>(source, r).
        rbind (or_fail (ipmb_read_le32 r) IPMB_ERR_SHORT_READ) (\<lambda>(dest, r).
        rbind (or_fail (ipmb_read_le16 r) IPMB_ERR_SHORT_READ) (\<lambda>(prio, r).
        rbind (or_fail (ipmb_read_le16 r) IPMB_ERR_SHORT_READ) (\<lambda>(ttl, r).
        rbind (guard (unat plen \<le> IPMB_MAX_PAYLOAD) IPMB_ERR_LIMIT) (\<lambda>_.
        rbind (or_fail (ipmb_read_bytes (unat plen) r) IPMB_ERR_SHORT_READ) (\<lambda>(pl, r).
        rbind (or_fail (ipmb_read_le32 r) IPMB_ERR_SHORT_READ) (\<lambda>(fcrc, r).
          Ok (\<lparr>frame_type = ftype, frame_flags = fflags, source_addr = source, dest_addr = dest,
               priority = prio, ttl = ttl, payload = pl, payload_len = unat plen, crc = fcrc\<rparr>, r)))))))))))"

lemma frame_fields_codec:
  "reader_codec read_frame_fields frame_image
     (\<lambda>f. length (payload f) = payload_len f \<and> payload_len f \<le> IPMB_MAX_PAYLOAD) IPMB_ERR_SHORT_READ"
  unfolding read_frame_fields_def
  apply (rule codec_image)
    apply (rule le16_step [where f = frame_type])
     apply (rule le16_step [where f = frame_flags])
      apply (rule le32_step [where f = "\<lambda>f. of_nat (payload_len f)"])
       apply (rule le32_step [where f = source_addr])
        apply (rule le32_step [where f = dest_addr])
         apply (rule le16_step [where f = priority])
          apply (rule le16_step [where f = ttl])
           apply (rule codec_guard)
           apply (rule bytes_step [where f = payload])
            apply (rule le32_step [where f = crc])
             apply (rule codec_return)
            apply (simp_all only: ipmb_frame.splits)
            apply (auto simp: IPMB_MAX_PAYLOAD_def frame_image_def frame_body_def)
  done

text \<open>The check of the remaining length is implied by the reads, and the bytes the checksum is
  taken over are the body of the frame that was read.\<close>

definition frame_check :: "allocs \<Rightarrow> nat \<Rightarrow> ipmb_reader \<Rightarrow> ipmb_frame \<Rightarrow> (ipmb_status, unit) res" where
  "frame_check al i r f =
     rbind (rd_bytes (rdata r) (rpos r) (20 + length (payload f))) (\<lambda>body.
     rbind (guard (ipmb_crc32 body = crc f) IPMB_ERR_BAD_CRC) (\<lambda>_. alloc al (i + 1) IPMB_ERR_ALLOC))"

lemma frame_fields_short:
  assumes "reader_wf r" "ipmb_reader_remaining r < 20"
  shows "read_frame_fields r = Err IPMB_ERR_SHORT_READ"
proof (cases "read_frame_fields r")
  case (Ok p)
  then show ?thesis
    using reader_codec.rd_Ok [OF frame_fields_codec assms(1)] assms
    by (cases p) (auto simp: frame_image_def length_unread dest!: prefix_length_le)
next
  case (Err e)
  with assms(2) have "e = IPMB_ERR_SHORT_READ"
    by (auto simp: read_frame_fields_def dest!: read_remaining)
  with Err show ?thesis by simp
qed (use reader_codec.rd_safe [OF frame_fields_codec assms(1)] in \<open>auto simp: no_fault_def\<close>)

lemma parse_frame_eq:
  assumes "reader_wf r"
  shows "parse_frame al i r =
     rbind (read_frame_fields r) (\<lambda>(f, r'). rbind (frame_check al i r f) (\<lambda>_. Ok (f, r')))"
proof (cases "ipmb_reader_remaining r < 20")
  case True
  with assms show ?thesis
    by (simp add: parse_frame_def frame_fields_short IPMB_FRAME_HEADER_LEN_def)
next
  case False
  then show ?thesis
    by (auto simp: parse_frame_def read_frame_fields_def frame_check_def rbind_assoc split_def Let_def
        IPMB_FRAME_HEADER_LEN_def intro!: rbind_cong) (drule read_bytes_length, simp)
qed

definition frame_ok :: "allocs \<Rightarrow> nat \<Rightarrow> ipmb_frame \<Rightarrow> bool" where
  "frame_ok al i f \<longleftrightarrow> frame_wf f \<and> al (i + 1)"

lemma frame_check_eq:
  assumes "reader_wf r" "prefix (frame_image f) (unread r)"
  shows "frame_check al i r f =
    (if crc f \<noteq> ipmb_crc32 (frame_body f) then Err IPMB_ERR_BAD_CRC
     else if al (i + 1) then Ok () else Err IPMB_ERR_ALLOC)"
proof -
  let ?n = "20 + length (payload f)"
  have "prefix (frame_body f) (unread r)"
    using assms(2) unfolding frame_image_def by (rule append_prefixD)
  then have n: "?n \<le> length (unread r)" and body: "take ?n (unread r) = frame_body f"
    by (simp_all add: prefix_eq_take)
  have "(rd_bytes (rdata r) (rpos r) ?n :: (ipmb_status, byte list) res) = Ok (frame_body f)"
    using wf_bounds [OF assms(1) n] take_unread [OF assms(1) n] body by simp
  then show ?thesis
    unfolding frame_check_def by (auto simp: alloc_def guard_def)
qed

lemma parse_frame_codec:
  "reader_codec (parse_frame al i) frame_image (frame_ok al i) IPMB_ERR_SHORT_READ"
proof (rule codec_cong [OF codec_check [OF frame_fields_codec]])
  show "reader_wf r \<Longrightarrow> prefix (frame_image f) (unread r) \<Longrightarrow> frame_check al i r f =
      (if crc f = ipmb_crc32 (frame_body f) \<and> al (i + 1) then Ok ()
       else Err (if crc f \<noteq> ipmb_crc32 (frame_body f) then IPMB_ERR_BAD_CRC else IPMB_ERR_ALLOC))"
    for r f by (simp add: frame_check_eq)
qed (auto simp: parse_frame_eq frame_ok_def frame_wf_def)

interpretation frame_loop: record_loop "parse_frame al" frame_image "frame_ok al" IPMB_ERR_SHORT_READ
  for al
  by (rule record_loop.intro) (rule parse_frame_codec)

lemma frames_oks:
  "frame_loop.oks al i n fs \<longleftrightarrow> length fs = n \<and> (\<forall>f \<in> set fs. frame_wf f) \<and> (\<forall>k < n. al (i + k + 1))"
  by (auto simp: frame_loop.oks_def frame_ok_def all_set_conv_all_nth)

section \<open>Messages\<close>

text \<open>The header of an input that is long enough: every field is read.\<close>

lemma take_header:
  "take 24 xs = take 4 xs @ take 2 (drop 4 xs) @ take 2 (drop 6 xs) @ take 4 (drop 8 xs) @
     take 8 (drop 12 xs) @ take 4 (drop 20 xs)"
proof -
  have "take (4 + (2 + (2 + (4 + (8 + 4))))) xs = take 4 xs @ take 2 (drop 4 xs) @ take 2 (drop 6 xs) @
      take 4 (drop 8 xs) @ take 8 (drop 12 xs) @ take 4 (drop 20 xs)"
    by (simp only: take_add drop_drop) simp
  then show ?thesis by simp
qed

definition after_header ::
  "allocs \<Rightarrow> byte list \<Rightarrow> ipmb_message \<Rightarrow> 32 word \<Rightarrow> (ipmb_status \<times> ipmb_message, ipmb_message) res" where
  "after_header al data m c =
      (if IPMB_MAX_FRAMES < unat (frame_count m) then Err (IPMB_ERR_LIMIT, m)
       else if ipmb_crc32 (header_body m) \<noteq> c then Err (IPMB_ERR_BAD_CRC, m)
       else if \<not> al 0 then Err (IPMB_ERR_ALLOC, m)
       else rbind (map_err (\<lambda>status. (status, zero_message))
              (repeat_rd (parse_frame al) 0 (unat (frame_count m))
                 \<lparr>rdata = data, rlen = length data, rpos = 28\<rparr>))
            (\<lambda>(fs, r). Ok (m\<lparr>frames := Some fs\<rparr>)))"

lemma read_header:
  assumes "28 \<le> length data" "take 4 data = ascii ''IPMB''"
  obtains m c where "take 24 data = header_body m" and "take 4 (drop 24 data) = le32_bytes c"
    and "frames m = None"
    and "ipmb_parse_message al data = after_header al data m c"
proof -
  let ?r = "ipmb_reader_init (drop 4 data) (length data - 4)"
  have wf: "reader_wf (advance n ?r)" if "n \<le> 24" for n
    using that assms(1) by (intro reader_wf_advance) auto
  have room: "k \<le> length (unread (advance n ?r))" if "n + k \<le> 24" for n k
    using that assms(1) by simp
  note total = le16.rd_total [OF wf room] le32.rd_total [OF wf room] le64.rd_total [OF wf room]
  obtain ver where ver: "ipmb_read_le16 ?r = Ok (ver, advance 2 ?r)" "le16_bytes ver = take 2 (drop 4 data)"
    using total(1) [of 0] by auto
  obtain fl where fl: "ipmb_read_le16 (advance 2 ?r) = Ok (fl, advance 4 ?r)"
      "le16_bytes fl = take 2 (drop 6 data)"
    using total(1) [of 2] by auto
  obtain cnt where cnt: "ipmb_read_le32 (advance 4 ?r) = Ok (cnt, advance 8 ?r)"
      "le32_bytes cnt = take 4 (drop 8 data)"
    using total(2) [of 4] by auto
  obtain sid where sid: "ipmb_read_le64 (advance 8 ?r) = Ok (sid, advance 16 ?r)"
      "le64_bytes sid = take 8 (drop 12 data)"
    using total(3) [of 8] by auto
  obtain sq where sq: "ipmb_read_le32 (advance 16 ?r) = Ok (sq, advance 20 ?r)"
      "le32_bytes sq = take 4 (drop 20 data)"
    using total(2) [of 16] by auto
  obtain c where c: "ipmb_read_le32 (advance 20 ?r) = Ok (c, advance 24 ?r)"
      "le32_bytes c = take 4 (drop 24 data)"
    using total(2) [of 20] by auto
  let ?m = "\<lparr>version = ver, flags = fl, session_id = sid, sequence = sq, frame_count = cnt, frames = None\<rparr>"
  have body: "take 24 data = header_body ?m"
    unfolding take_header [of data] assms(2) by (simp add: header_body_def ver fl cnt sid sq)
  show ?thesis
  proof (rule that [of ?m c])
    show "ipmb_parse_message al data = after_header al data ?m c"
      using assms ver(1) fl(1) cnt(1) sid(1) sq(1) c(1)
      by (simp add: ipmb_parse_message_def IPMB_MESSAGE_HEADER_LEN_def zero_message_def
          ipmb_message_free_def after_header_def alloc_def guard_def rd_bytes_def body)
  qed (use body c in simp_all)
qed

lemma header_body_frames [simp]: "header_body (m\<lparr>frames := x\<rparr>) = header_body m"
  by (simp add: header_body_def)

lemma header_body_eq:
  "header_body m0 = header_body m \<and> frames m = x \<longleftrightarrow> m = m0\<lparr>frames := x\<rparr>"
  by (cases m; cases m0) (auto simp: header_body_def)

lemma take_4_header_body: "take 4 (header_body m) = ascii ''IPMB''"
proof -
  have "length (ascii ''IPMB'') = 4" by simp
  then show ?thesis unfolding header_body_def by (simp only: take_append) simp
qed

lemma message_image_prefix:
  "prefix (message_image m) data \<longleftrightarrow> take 24 data = header_body m \<and>
     take 4 (drop 24 data) = le32_bytes (ipmb_crc32 (header_body m)) \<and> 28 \<le> length data \<and>
     prefix (concat (map frame_image (the (frames m)))) (drop 28 data)"
  unfolding message_image_def prefix_append_iff
  by (auto simp: prefix_eq_take [of "header_body m"] prefix_eq_take [of "le32_bytes c" for c])

lemma image_header_residue:
  "prefix (message_image m) data \<Longrightarrow> ipmb_crc32 (take 28 data) = crc_bits 32 0xffffffff XOR 0xffffffff"
  using take_add [of 24 4 data] by (simp add: message_image_prefix crc32_residue)

lemma short_or_magic:
  assumes "\<not> (28 \<le> length data \<and> take 4 data = ascii ''IPMB'')"
  shows "ipmb_parse_message al data =
    Err (if length data < 28 then IPMB_ERR_SHORT_READ else IPMB_ERR_BAD_MAGIC, zero_message)"
  using assms by (auto simp: ipmb_parse_message_def IPMB_MESSAGE_HEADER_LEN_def Let_def)

lemma frames_reader:
  assumes "28 \<le> length data"
  shows "reader_wf \<lparr>rdata = data, rlen = length data, rpos = 28\<rparr>"
    and "unread \<lparr>rdata = data, rlen = length data, rpos = 28\<rparr> = drop 28 data"
  using assms by (simp_all add: reader_wf_def unread_def)

lemma parse_message_Ok:
  "ipmb_parse_message al data = Ok m \<longleftrightarrow>
     message_wf m \<and> (\<forall>k \<le> unat (frame_count m). al k) \<and> prefix (message_image m) data"
proof (cases "28 \<le> length data \<and> take 4 data = ascii ''IPMB''")
  case False
  moreover have "28 \<le> length data \<and> take 4 data = ascii ''IPMB''" if "prefix (message_image m) data"
  proof -
    from that have "take 24 data = header_body m" "28 \<le> length data"
      by (simp_all add: message_image_prefix)
    moreover have "take 4 (take 24 data) = take 4 data" by simp
    ultimately show ?thesis using take_4_header_body [of m] by metis
  qed
  ultimately show ?thesis by (auto simp: short_or_magic)
next
  case True
  then have "28 \<le> length data" "take 4 data = ascii ''IPMB''" by auto
  then obtain m0 c where hd: "take 24 data = header_body m0" "take 4 (drop 24 data) = le32_bytes c"
      "frames m0 = None"
    and run: "ipmb_parse_message al data = after_header al data m0 c"
    by (rule read_header)
  note rd = frames_reader [OF \<open>28 \<le> length data\<close>]
  have al: "(\<forall>k \<le> n. al k) \<longleftrightarrow> al 0 \<and> (\<forall>k < n. al (Suc k))" for n
    by (metis Suc_leI Suc_le_D Suc_le_lessD le0 not0_implies_Suc)
  have m: "take 24 data = header_body m \<and> frames m = Some fs \<longleftrightarrow> m = m0\<lparr>frames := Some fs\<rparr>" for fs
    unfolding hd(1) by (rule header_body_eq)
  have "ipmb_parse_message al data = Ok m \<longleftrightarrow>
    (\<exists>fs. m = m0\<lparr>frames := Some fs\<rparr> \<and> unat (frame_count m0) \<le> IPMB_MAX_FRAMES \<and>
       ipmb_crc32 (header_body m0) = c \<and> al 0 \<and> frame_loop.oks al 0 (unat (frame_count m0)) fs \<and>
       prefix (concat (map frame_image fs)) (drop 28 data))"
    using reader_codec.rd_Ok [OF frame_loop.loop_codec rd(1)] unfolding run after_header_def rd(2) by auto
  also have "\<dots> \<longleftrightarrow> (\<exists>fs. take 24 data = header_body m \<and> frames m = Some fs \<and> unat (frame_count m) \<le> IPMB_MAX_FRAMES \<and>
       ipmb_crc32 (header_body m) = c \<and> al 0 \<and> frame_loop.oks al 0 (unat (frame_count m)) fs \<and>
       prefix (concat (map frame_image fs)) (drop 28 data))"
    unfolding conj_assoc [symmetric] m by (intro ex_cong1) auto
  also have "\<dots> \<longleftrightarrow> message_wf m \<and> (\<forall>k \<le> unat (frame_count m). al k) \<and> prefix (message_image m) data"
    using True hd(2) unfolding message_image_prefix al by (auto simp: message_wf_eq frames_oks)
  finally show ?thesis .
qed

lemma parse_message_no_fault: "no_fault (ipmb_parse_message al data)"
proof (cases "28 \<le> length data \<and> take 4 data = ascii ''IPMB''")
  case False
  then show ?thesis by (simp add: short_or_magic)
next
  case True
  note rd = frames_reader [OF conjunct1 [OF True]]
  from True have "28 \<le> length data" "take 4 data = ascii ''IPMB''" by auto
  then obtain m0 c where run: "ipmb_parse_message al data = after_header al data m0 c"
    by (rule read_header)
  show ?thesis
    unfolding run after_header_def using reader_codec.rd_safe [OF frame_loop.loop_codec rd(1)]
    by (auto intro!: no_fault_rbind split: prod.split)
qed

lemma parse_message_Err:
  assumes "ipmb_parse_message al data = Err (s, m)"
  shows "frames m = None"
proof (cases "28 \<le> length data \<and> take 4 data = ascii ''IPMB''")
  case False
  with assms show ?thesis by (auto simp: short_or_magic zero_message_def)
next
  case True
  from True have "28 \<le> length data" "take 4 data = ascii ''IPMB''" by auto
  then obtain m0 c where m0: "frames m0 = None" and run: "ipmb_parse_message al data = after_header al data m0 c"
    by (rule read_header)
  from assms show ?thesis
    unfolding run after_header_def using m0 by (auto simp: zero_message_def split: if_splits)
qed

text \<open>An input cut short anywhere is reported as such.\<close>

lemma parse_message_truncated:
  assumes wf: "message_wf m" and al: "\<forall>k. al k" and cut: "strict_prefix data (message_image m)"
  shows "ipmb_parse_message al data = Err (IPMB_ERR_SHORT_READ, zero_message)"
proof (cases "28 \<le> length data")
  case False
  then show ?thesis by (simp add: short_or_magic)
next
  case True
  let ?c = "ipmb_crc32 (header_body m)"
  let ?fs = "concat (map frame_image (the (frames m)))"
  obtain ys where ys: "message_image m = data @ ys" "ys \<noteq> []"
    using cut by (auto simp: strict_prefix_def prefix_def)
  have head: "take 24 (message_image m) = header_body m" "take 4 (drop 24 (message_image m)) = le32_bytes ?c"
      "drop 28 (message_image m) = ?fs"
    by (simp_all add: message_image_def)
  have same: "take 24 data = header_body m" "take 4 (drop 24 data) = le32_bytes ?c"
      "?fs = drop 28 data @ ys"
    using head True unfolding ys(1) by simp_all
  have "take 4 data = ascii ''IPMB''"
    using arg_cong [OF same(1), of "take 4"] take_4_header_body [of m] by simp
  with True obtain m0 c where hd: "take 24 data = header_body m0" "take 4 (drop 24 data) = le32_bytes c"
    and run: "ipmb_parse_message al data = after_header al data m0 c"
    by (rule read_header)
  have eq: "header_body m0 = header_body m" "c = ?c"
    using hd same by simp_all
  then have cnt: "frame_count m0 = frame_count m"
    by (simp add: header_body_def)
  obtain fs where fs: "frames m = Some fs" "length fs = unat (frame_count m)"
      "length fs \<le> IPMB_MAX_FRAMES" "\<forall>f \<in> set fs. frame_wf f"
    using wf by (auto simp: message_wf_eq)
  have "repeat_rd (parse_frame al) 0 (unat (frame_count m))
      \<lparr>rdata = data, rlen = length data, rpos = 28\<rparr> = Err IPMB_ERR_SHORT_READ"
    using fs al same(3) ys(2)
    by (intro reader_codec.rd_short [OF frame_loop.loop_codec frames_reader(1) [OF True], of _ _ _ fs])
      (auto simp: frames_oks frames_reader(2) [OF True] strict_prefix_def prefix_def)
  then show ?thesis
    unfolding run after_header_def eq cnt using fs al by simp
qed

section \<open>Corrupted frames\<close>

lemma frame_image_unique:
  assumes "frame_wf f" "frame_wf f'" "prefix (frame_image f) x" "prefix (frame_image f') x"
  shows "f = f'"
  using reader_codec.img_unique [OF parse_frame_codec [of "\<lambda>_. True" 0], of f f' x] assms
  by (simp add: frame_ok_def)

lemma frame_images_split:
  "\<forall>f \<in> set fs1. frame_wf f \<Longrightarrow> \<forall>f \<in> set fs. frame_wf f \<Longrightarrow> length fs1 \<le> length fs \<Longrightarrow>
   prefix (concat (map frame_image fs)) (concat (map frame_image fs1) @ y) \<Longrightarrow>
   prefix (concat (map frame_image (drop (length fs1) fs))) y"
proof (induction fs1 arbitrary: fs)
  case (Cons f fs1)
  then obtain g gs where fs: "fs = g # gs" by (cases fs) auto
  let ?x = "concat (map frame_image (f # fs1)) @ y"
  have "prefix (frame_image g) ?x" "prefix (frame_image f) ?x"
    using Cons.prems(4) by (auto simp: fs prefix_append_iff)
  then have "g = f"
    using frame_image_unique Cons.prems(1, 2) fs by (metis list.set_intros(1))
  then show ?case
    using Cons.IH [of gs] Cons.prems fs by simp
qed simp

text \<open>The image of a frame ends in the checksum of the rest, so all images have the same checksum; two
  images of one length differ only where the checksum cannot miss it.\<close>

lemma frame_length_bytes:
  "take 4 (drop 4 (frame_image f)) = le32_bytes (of_nat (payload_len f))"
  by (simp add: frame_image_def frame_body_def)

lemma length_frame_image: "frame_wf f \<Longrightarrow> length (frame_image f) = 24 + payload_len f"
  by (simp add: frame_image_def frame_wf_def)

lemma frame_image_residue:
  "frame_wf f \<Longrightarrow> frame_wf g \<Longrightarrow> ipmb_crc32 (frame_image f) = ipmb_crc32 (frame_image g)"
  by (simp add: frame_image_def frame_wf_def crc32_residue)

lemma slice_outside:
  "length xs = length ys \<Longrightarrow> length a + length ys \<le> i \<or> i + n \<le> length a \<Longrightarrow>
   take n (drop i (a @ xs @ b)) = take n (drop i (a @ ys @ b))"
  by auto

lemma frame_burst:
  assumes f: "frame_wf f" "frame_image f = a @ xs @ b" and f': "frame_wf f'" "prefix (frame_image f') (a @ ys @ b @ y)"
    and burst: "length a + length ys \<le> 4 \<or> 8 \<le> length a" "length xs = length ys" "length ys \<le> 4"
  shows "xs = ys"
proof -
  obtain z where z: "(a @ ys @ b) @ y = frame_image f' @ z" using f'(2) by (auto simp: prefix_def)
  have long: "8 \<le> length (frame_image g)" for g by (simp add: frame_image_def)
  then have "take 4 (drop 4 (frame_image f')) = take 4 (drop 4 ((a @ ys @ b) @ y))"
    unfolding z by (simp add: frame_image_def)
  also have "\<dots> = take 4 (drop 4 (a @ ys @ b))"
    using long [of f] f(2) burst(2) by simp
  also have "\<dots> = take 4 (drop 4 (frame_image f))"
    unfolding f(2) by (rule slice_outside) (use burst in auto)
  finally have same: "(of_nat (payload_len f') :: 32 word) = of_nat (payload_len f)"
    unfolding frame_length_bytes by simp
  have "unat (of_nat (payload_len g) :: 32 word) = payload_len g" if "frame_wf g" for g
    using that by (simp add: frame_wf_def IPMB_MAX_PAYLOAD_def)
  with f(1) f'(1) same have "payload_len f' = payload_len f" by metis
  then have "length (frame_image f') = length (a @ ys @ b)"
    using length_frame_image [OF f(1)] length_frame_image [OF f'(1)] f(2) burst(2) by simp
  then have "frame_image f' = a @ ys @ b"
    using f'(2) by (auto simp: prefix_eq_take)
  then have "ipmb_crc32 (a @ xs @ b) = ipmb_crc32 (a @ ys @ b)"
    using frame_image_residue [OF f(1) f'(1)] f(2) by simp
  then show ?thesis using crc32_burst [OF burst(2, 3)] by simp
qed

section \<open>Searching a message\<close>

lemma first_frame_loop_find:
  "i + n = length fs \<Longrightarrow>
   first_frame_loop (Some fs) t i n = Ok (find (\<lambda>f. frame_type f = t) (drop i fs))"
  by (induction n arbitrary: i) (simp_all add: rd8_def Cons_nth_drop_Suc [symmetric])

lemma first_frame_loop_null: "first_frame_loop None t i n = (if n = 0 then Ok None else Fault Null_deref)"
  by (cases n) simp_all

section \<open>A message to try the properties on\<close>

definition sample_frame :: ipmb_frame where
  "sample_frame = (let f = \<lparr>frame_type = 1, frame_flags = 0, source_addr = 10, dest_addr = 20,
     priority = 5, ttl = 64, payload = [7, 8, 9], payload_len = 3, crc = 0\<rparr> in f\<lparr>crc := ipmb_crc32 (frame_body f)\<rparr>)"

definition sample_message :: ipmb_message where
  "sample_message = \<lparr>version = 1, flags = 0, session_id = 77, sequence = 3, frame_count = 1,
     frames = Some [sample_frame]\<rparr>"

lemma sample_wf: "message_wf sample_message"
  by (simp add: message_wf_eq sample_message_def frame_wf_def sample_frame_def frame_body_def
      IPMB_MAX_FRAMES_def IPMB_MAX_PAYLOAD_def)

lemma sample_image:
  "message_image sample_message = take 28 (message_image sample_message) @
     concat (map frame_image []) @ frame_image sample_frame @ []"
  by (simp add: message_image_def sample_message_def)

lemma sample_parses: "ipmb_parse_message (\<lambda>_. True) (message_image sample_message) = Ok sample_message"
  by (simp add: parse_message_Ok sample_wf)

section \<open>Properties\<close>

text \<open>C1: \<^verbatim>\<open>ipmb_parse_message\<close> succeeds with the message \<open>m\<close> exactly when \<open>m\<close> is a message of the
  documented format (one to 1024 frames, payloads of at most 1 MiB, every frame checksum right) or a
  message without frames, the input starts with the wire image of \<open>m\<close>, header checksum included,
  and the allocations of the frame array and of each payload succeed.  The frameless message
  is where the code is laxer than its documents, and such an input is parsed.\<close>

theorem parse_message_iff:
  "(ipmb_parse_message al data = Ok m \<longleftrightarrow> (documented_wf m \<or> frameless m) \<and>
      list_all al [0..<Suc (unat (frame_count m))] \<and> prefix (message_image m) data) \<and>
   (\<exists>d n. ipmb_parse_message (\<lambda>_. True) d = Ok n \<and> frameless n \<and> \<not> documented_wf n)"
proof (rule conjI)
  let ?n = "zero_message\<lparr>frames := Some []\<rparr>"
  have "frameless ?n" "\<not> documented_wf ?n"
    by (simp_all add: frameless_def documented_wf_def zero_message_def)
  then show "\<exists>d n. ipmb_parse_message (\<lambda>_. True) d = Ok n \<and> frameless n \<and> \<not> documented_wf n"
    by (intro exI [of _ "message_image ?n"] exI [of _ ?n]) (simp add: parse_message_Ok message_wf_def)
qed (auto simp: parse_message_Ok message_wf_def list_all_iff simp del: upt_Suc)

text \<open>C11: for every input and every behaviour of the allocator the parser stays inside its buffers,
  and when it fails it leaves no frame array behind.\<close>

theorem parse_message_safe:
  "case ipmb_parse_message al data of
     Ok m \<Rightarrow> frames m \<noteq> None | Err (s, m) \<Rightarrow> frames m = None | Fault u \<Rightarrow> False"
  using parse_message_no_fault [of al data] parse_message_Err [of al data]
  by (auto simp: message_wf_eq parse_message_Ok split: res.split)

text \<open>C16: the image of a message cut short at any byte is reported as a short read, with a
  zeroed message.\<close>

theorem parse_message_cut:
  assumes "message_wf m" "\<forall>k. al k" "strict_prefix data (message_image m)"
  shows "ipmb_parse_message al data = Err (IPMB_ERR_SHORT_READ, zero_message)"
  using assms by (rule parse_message_truncated)

theorem parse_message_cut_witness:
  "ipmb_parse_message (\<lambda>_. True) (take 40 (message_image sample_message))
     = Err (IPMB_ERR_SHORT_READ, zero_message)"
proof (rule parse_message_cut [OF sample_wf])
  have "length (message_image sample_message) = 55"
    by (simp add: message_image_def sample_message_def sample_frame_def frame_image_def)
  then have "length (take 40 (message_image sample_message)) < length (message_image sample_message)"
    by simp
  then show "strict_prefix (take 40 (message_image sample_message)) (message_image sample_message)"
    by (metis strict_prefixI less_irrefl take_is_prefix)
qed simp

text \<open>A message that parses no longer parses when up to four consecutive bytes of its 28-byte
  header change: magic, version, flags, frame count, session, sequence or header checksum.\<close>

theorem header_corruption_rejected:
  assumes "ipmb_parse_message al (p @ xs @ s) = Ok m" "xs \<noteq> ys"
    and "length xs = length ys" "length ys \<le> 4" "length p + length ys \<le> 28"
  shows "ipmb_parse_message al' (p @ ys @ s) \<noteq> Ok m'"
proof
  assume "ipmb_parse_message al' (p @ ys @ s) = Ok m'"
  with assms(1) have img: "prefix (message_image m) (p @ xs @ s)" "prefix (message_image m') (p @ ys @ s)"
    by (simp_all add: parse_message_Ok)
  let ?q = "take (28 - length p - length ys) s"
  have head: "take 28 (p @ zs @ s) = p @ zs @ ?q" if "length zs = length ys" for zs
    using assms(5) that by simp
  have "ipmb_crc32 (take 28 (p @ xs @ s)) = ipmb_crc32 (take 28 (p @ ys @ s))"
    using image_header_residue [OF img(1)] image_header_residue [OF img(2)] by simp
  then have "ipmb_crc32 (p @ xs @ ?q) = ipmb_crc32 (p @ ys @ ?q)"
    unfolding head [OF assms(3)] head [OF refl] .
  with crc32_burst [OF assms(3, 4)] assms(2) show False by simp
qed

theorem header_corruption_rejected_witness:
  "\<forall>m'. ipmb_parse_message (\<lambda>_. True)
     (take 8 (message_image sample_message) @ [2] @ drop 9 (message_image sample_message)) \<noteq> Ok m'"
proof -
  let ?d = "message_image sample_message"
  have split: "?d = take 8 ?d @ [1] @ drop 9 ?d"
    by (simp add: message_image_def sample_message_def header_body_def ascii_def le16_bytes_def
        le32_bytes_def)
  have "ipmb_parse_message (\<lambda>_. True) (take 8 ?d @ [1] @ drop 9 ?d) = Ok sample_message"
    using sample_parses unfolding split [symmetric] .
  from header_corruption_rejected [OF this, of "[2]"] show ?thesis by simp
qed

text \<open>C15: a message no longer parses when up to four consecutive bytes of a frame change that lie
  outside its four payload-length bytes: type and flags, addresses, priority, ttl, payload or
  checksum, in any frame of the message.  (A change of the length bytes moves the checksum and
  every frame behind it, which four bytes cannot rule out.)\<close>

theorem frame_corruption_rejected:
  assumes "ipmb_parse_message al (take 28 data @ concat (map frame_image fs1) @ (a @ xs @ b) @ s) = Ok m"
    and "frames m = Some (fs1 @ f # fs2)" "frame_image f = a @ xs @ b" "xs \<noteq> ys"
    and "length xs = length ys" "length ys \<le> 4" "length a + length ys \<le> 4 \<or> 8 \<le> length a" "28 \<le> length data"
  shows "ipmb_parse_message al' (take 28 data @ concat (map frame_image fs1) @ (a @ ys @ b) @ s) \<noteq> Ok m'"
proof
  let ?d = "\<lambda>zs. take 28 data @ concat (map frame_image fs1) @ (a @ zs @ b) @ s"
  assume *: "ipmb_parse_message al' (?d ys) = Ok m'"
  have heads: "take 24 (?d xs) = take 24 (?d ys)" "drop 28 (?d zs) = concat (map frame_image fs1) @ (a @ zs @ b) @ s" for zs
    using assms(8) by (simp_all add: min_def)
  have "header_body m = header_body m'"
    using assms(1) * by (simp only: parse_message_Ok message_image_prefix heads(1))
  then have cnt: "frame_count m = frame_count m'" by (simp add: header_body_def)
  from * obtain fs' where fs': "frames m' = Some fs'" "length fs' = unat (frame_count m')"
      "\<forall>f \<in> set fs'. frame_wf f"
      "prefix (concat (map frame_image fs')) (concat (map frame_image fs1) @ (a @ ys @ b) @ s)"
    using heads(2) [of ys] by (auto simp: parse_message_Ok message_wf_eq message_image_prefix)
  from assms(1, 2) have wf: "\<forall>f \<in> set (fs1 @ f # fs2). frame_wf f" "length (fs1 @ f # fs2) = unat (frame_count m)"
    by (auto simp: parse_message_Ok message_wf_eq)
  have len: "length fs1 < length fs'" using wf(2) fs'(2) cnt by simp
  then obtain f' gs where "drop (length fs1) fs' = f' # gs"
    by (metis Cons_nth_drop_Suc)
  moreover have "prefix (concat (map frame_image (drop (length fs1) fs'))) ((a @ ys @ b) @ s)"
    using wf(1) fs'(3, 4) len by (intro frame_images_split) auto
  moreover have "\<forall>f \<in> set (drop (length fs1) fs'). frame_wf f"
    using fs'(3) by (meson in_set_dropD)
  ultimately have "frame_wf f'" "prefix (frame_image f') (a @ ys @ b @ s)"
    by (auto simp: prefix_append_iff)
  from frame_burst [OF _ assms(3) this assms(7, 5, 6)] wf(1) assms(4) show False by simp
qed

theorem frame_corruption_rejected_witness:
  "\<forall>m'. ipmb_parse_message (\<lambda>_. True) (take 28 (message_image sample_message) @
     concat (map frame_image []) @ (take 8 (frame_image sample_frame) @ [11] @
       drop 9 (frame_image sample_frame)) @ []) \<noteq> Ok m'"
proof -
  let ?f = "frame_image sample_frame"
  have f: "?f = take 8 ?f @ [10] @ drop 9 ?f"
    by (simp add: sample_frame_def frame_image_def frame_body_def le16_bytes_def le32_bytes_def)
  have len: "length ?f = 27" "28 \<le> length (message_image sample_message)"
    by (simp_all add: sample_frame_def frame_image_def message_image_def)
  have "ipmb_parse_message (\<lambda>_. True) (take 28 (message_image sample_message) @
      concat (map frame_image []) @ (take 8 ?f @ [10] @ drop 9 ?f) @ []) = Ok sample_message"
    unfolding f [symmetric] sample_image [symmetric] by (rule sample_parses)
  from frame_corruption_rejected [where ?fs2.0 = "[]" and ys = "[11]", OF this _ f] len
  show ?thesis by (simp add: sample_message_def)
qed

text \<open>C39: after a successful parse \<^verbatim>\<open>ipmb_message_first_frame\<close> finds the first frame of the type, if
  there is one.  After a failed parse the message has no frames but may keep the frame count of
  the header (it does when the count is over the limit): then the search reads through the
  null pointer.\<close>

theorem first_frame_after_parse:
  "(case ipmb_parse_message al data of
      Ok m \<Rightarrow> ipmb_message_first_frame (Some m) t = Ok (find (\<lambda>f. frame_type f = t) (the (frames m)))
    | Err (s, m) \<Rightarrow> ipmb_message_first_frame (Some m) t =
        (if frame_count m = 0 then Ok None else Fault Null_deref)
    | Fault u \<Rightarrow> False) \<and>
   (\<exists>d m. ipmb_parse_message al d = Err (IPMB_ERR_LIMIT, m) \<and>
      ipmb_message_first_frame (Some m) t = Fault Null_deref)"
proof (rule conjI)
  show "case ipmb_parse_message al data of
      Ok m \<Rightarrow> ipmb_message_first_frame (Some m) t = Ok (find (\<lambda>f. frame_type f = t) (the (frames m)))
    | Err (s, m) \<Rightarrow> ipmb_message_first_frame (Some m) t =
        (if frame_count m = 0 then Ok None else Fault Null_deref)
    | Fault u \<Rightarrow> False"
    using parse_message_no_fault [of al data] parse_message_Err [of al data]
    by (auto simp: ipmb_message_first_frame_def first_frame_loop_find first_frame_loop_null message_wf_eq
        parse_message_Ok unat_eq_zero split: res.split)
  define d where "d = ascii ''IPMB'' @ le16_bytes 0 @ le16_bytes 0 @ le32_bytes 2000 @ le64_bytes 0 @
    le32_bytes 0 @ le32_bytes 0"
  have d: "28 \<le> length d" "take 4 d = ascii ''IPMB''" by (simp_all add: d_def)
  then obtain m c where m: "take 24 d = header_body m" "frames m = None"
      "ipmb_parse_message al d = after_header al d m c"
    by (rule read_header)
  have "frame_count m = 2000"
    using m(1) by (simp add: d_def header_body_def)
  with m show "\<exists>d m. ipmb_parse_message al d = Err (IPMB_ERR_LIMIT, m) \<and>
      ipmb_message_first_frame (Some m) t = Fault Null_deref"
    by (intro exI [of _ d] exI [of _ m])
      (simp add: after_header_def IPMB_MAX_FRAMES_def ipmb_message_first_frame_def first_frame_loop_null)
qed

end
