(* ===== verification/Journal.thy ===== *)
theory Journal
  imports Byte_Read
begin

text \<open>
  The journal parser of \<^verbatim>\<open>src/session/journal.c\<close>, over the record interface of
  \<open>Byte_Read\<close>: \<open>journal_image\<close> is the wire format, and parsing succeeds with \<open>j\<close> exactly on
  the inputs that start with the image of a well-formed \<open>j\<close>.  Allocation \<open>0\<close> is that of
  the record array, allocation \<open>k + 1\<close> that of the payload of record \<open>k\<close>.
\<close>

section \<open>The code\<close>

record ipmb_journal_record =
  jtype :: byte
  jsession_id :: "32 word"
  jpeer_id :: "32 word"
  jpayload :: "byte list"

record ipmb_journal =
  jversion :: "16 word"
  record_count :: "16 word"
  records :: "ipmb_journal_record list option"

definition zero_journal :: ipmb_journal where
  "zero_journal = \<lparr>jversion = 0, record_count = 0, records = None\<rparr>"

definition ipmb_journal_free :: "ipmb_journal \<Rightarrow> ipmb_journal" where
  "ipmb_journal_free journal = zero_journal"

definition parse_record :: "allocs \<Rightarrow> nat \<Rightarrow> ipmb_reader \<Rightarrow> ipmb_journal_record rd_result" where
  "parse_record al i r =
     rbind (or_fail (ipmb_read_u8 r) IPMB_ERR_SHORT_READ) (\<lambda>(t, r).
     rbind (or_fail (ipmb_read_le32 r) IPMB_ERR_SHORT_READ) (\<lambda>(sid, r).
     rbind (or_fail (ipmb_read_le32 r) IPMB_ERR_SHORT_READ) (\<lambda>(peer, r).
     rbind (or_fail (ipmb_read_le16 r) IPMB_ERR_SHORT_READ) (\<lambda>(plen, r).
     rbind (or_fail (ipmb_read_bytes (unat plen) r) IPMB_ERR_SHORT_READ) (\<lambda>(pl, r).
     rbind (alloc al (i + 1) IPMB_ERR_ALLOC) (\<lambda>_.
       Ok (\<lparr>jtype = t, jsession_id = sid, jpeer_id = peer, jpayload = pl\<rparr>, r)))))))"

definition ipmb_journal_parse ::
  "allocs \<Rightarrow> byte list \<Rightarrow> (ipmb_status \<times> ipmb_journal, ipmb_journal) res" where
  "ipmb_journal_parse al data =
     (let out = zero_journal in
      if length data < 8 then Err (IPMB_ERR_BAD_MAGIC, out)
      else rbind (has_magic data ''IJRN'') (\<lambda>magic.
      if \<not> magic then Err (IPMB_ERR_BAD_MAGIC, out)
      else
        let r = ipmb_reader_init (drop 4 data) (length data - 4) in
        rbind (or_fail (ipmb_read_le16 r) (IPMB_ERR_SHORT_READ, out)) (\<lambda>(v, r).
        let out = out\<lparr>jversion := v\<rparr> in
        rbind (or_fail (ipmb_read_le16 r) (IPMB_ERR_SHORT_READ, out)) (\<lambda>(v, r).
        let out = out\<lparr>record_count := v\<rparr> in
        rbind (guard (unat (record_count out) \<le> 4096) (IPMB_ERR_LIMIT, out)) (\<lambda>_.
        rbind (alloc al 0 (IPMB_ERR_ALLOC, out)) (\<lambda>_.
        rbind (map_err (\<lambda>status. (status, ipmb_journal_free out))
                 (repeat_rd (parse_record al) 0 (unat (record_count out)) r)) (\<lambda>(rs, r).
          Ok (out\<lparr>records := Some rs\<rparr>))))))))"

section \<open>The wire format\<close>

definition record_image :: "ipmb_journal_record \<Rightarrow> byte list" where
  "record_image x = [jtype x] @ le32_bytes (jsession_id x) @ le32_bytes (jpeer_id x) @
     le16_bytes (of_nat (length (jpayload x))) @ jpayload x"

definition record_ok :: "allocs \<Rightarrow> nat \<Rightarrow> ipmb_journal_record \<Rightarrow> bool" where
  "record_ok al i x \<longleftrightarrow> length (jpayload x) < 2 ^ 16 \<and> al (i + 1)"

definition journal_image :: "ipmb_journal \<Rightarrow> byte list" where
  "journal_image j = ascii ''IJRN'' @ le16_bytes (jversion j) @ le16_bytes (record_count j) @
     concat (map record_image (the (records j)))"

definition journal_wf :: "ipmb_journal \<Rightarrow> bool" where
  "journal_wf j \<longleftrightarrow> (\<exists>rs. records j = Some rs \<and> length rs = unat (record_count j) \<and>
     length rs \<le> 4096 \<and> list_all (\<lambda>x. length (jpayload x) < 2 ^ 16) rs)"

section \<open>Records\<close>

lemma parse_record_codec:
  "reader_codec (parse_record al i) record_image (record_ok al i) IPMB_ERR_SHORT_READ"
  unfolding parse_record_def alloc_guard
  apply (rule codec_image)
    apply (rule u8_step [where f = jtype])
     apply (rule le32_step [where f = jsession_id])
      apply (rule le32_step [where f = jpeer_id])
       apply (rule le16_step [where f = "\<lambda>x. of_nat (length (jpayload x))"])
        apply (rule bytes_step [where f = jpayload])
         apply (rule codec_guard)
         apply (rule codec_return)
        apply (simp_all only: ipmb_journal_record.splits)
        apply (auto simp: record_image_def record_ok_def)
  apply (metis unat16_less)
  done

interpretation journal_loop: record_loop "parse_record al" record_image "record_ok al" IPMB_ERR_SHORT_READ
  for al
  by (rule record_loop.intro) (rule parse_record_codec)

lemma records_oks:
  "journal_loop.oks al i n rs \<longleftrightarrow> length rs = n \<and> list_all (\<lambda>x. length (jpayload x) < 2 ^ 16) rs \<and>
     (\<forall>k < n. al (i + k + 1))"
  by (auto simp: journal_loop.oks_def record_ok_def list_all_length)

section \<open>Journals\<close>

definition after_journal_header ::
  "allocs \<Rightarrow> byte list \<Rightarrow> ipmb_journal \<Rightarrow> (ipmb_status \<times> ipmb_journal, ipmb_journal) res" where
  "after_journal_header al data j =
     (if 4096 < unat (record_count j) then Err (IPMB_ERR_LIMIT, j)
      else if \<not> al 0 then Err (IPMB_ERR_ALLOC, j)
      else rbind (map_err (\<lambda>status. (status, zero_journal))
             (repeat_rd (parse_record al) 0 (unat (record_count j))
                (advance 4 (ipmb_reader_init (drop 4 data) (length data - 4)))))
           (\<lambda>(rs, r). Ok (j\<lparr>records := Some rs\<rparr>)))"

lemma read_journal_header:
  assumes "8 \<le> length data" "take 4 data = ascii ''IJRN''"
  obtains j where "take 4 (drop 4 data) = le16_bytes (jversion j) @ le16_bytes (record_count j)"
    and "records j = None" and "ipmb_journal_parse al data = after_journal_header al data j"
proof -
  obtain v c where hd:
    "ipmb_read_le16 (ipmb_reader_init (drop 4 data) (length data - 4))
       = Ok (v, advance 2 (ipmb_reader_init (drop 4 data) (length data - 4)))"
    "ipmb_read_le16 (advance 2 (ipmb_reader_init (drop 4 data) (length data - 4)))
       = Ok (c, advance 4 (ipmb_reader_init (drop 4 data) (length data - 4)))"
    "take 4 (drop 4 data) = le16_bytes v @ le16_bytes c"
    using read_small_header [OF assms(1)] by metis
  show ?thesis
    by (rule that [of "\<lparr>jversion = v, record_count = c, records = None\<rparr>"])
      (use assms hd in \<open>simp_all add: ipmb_journal_parse_def after_journal_header_def zero_journal_def
        ipmb_journal_free_def guard_def alloc_guard\<close>)
qed

lemma journal_short_or_magic:
  "\<not> (8 \<le> length data \<and> take 4 data = ascii ''IJRN'') \<Longrightarrow>
   ipmb_journal_parse al data = Err (IPMB_ERR_BAD_MAGIC, zero_journal)"
  by (auto simp: ipmb_journal_parse_def Let_def)

lemma journal_image_prefix:
  "prefix (journal_image j) data \<longleftrightarrow> 8 \<le> length data \<and> take 4 data = ascii ''IJRN'' \<and>
     take 4 (drop 4 data) = le16_bytes (jversion j) @ le16_bytes (record_count j) \<and>
     prefix (concat (map record_image (the (records j)))) (drop 8 data)"
  unfolding journal_image_def
  using prefix_small_header [of "''IJRN''" "le16_bytes (jversion j) @ le16_bytes (record_count j)"] by simp

lemma journal_parse_Ok:
  "ipmb_journal_parse al data = Ok j \<longleftrightarrow>
     journal_wf j \<and> (\<forall>k \<le> unat (record_count j). al k) \<and> prefix (journal_image j) data"
proof (cases "8 \<le> length data \<and> take 4 data = ascii ''IJRN''")
  case False
  then show ?thesis by (auto simp: journal_short_or_magic journal_image_prefix)
next
  case True
  then have ok: "8 \<le> length data" "take 4 data = ascii ''IJRN''" by auto
  obtain j0 where hd: "take 4 (drop 4 data) = le16_bytes (jversion j0) @ le16_bytes (record_count j0)"
      "records j0 = None" and run: "ipmb_journal_parse al data = after_journal_header al data j0"
    by (rule read_journal_header [OF ok])
  obtain rd: "reader_wf (advance 4 (ipmb_reader_init (drop 4 data) (length data - 4)))"
      "unread (advance 4 (ipmb_reader_init (drop 4 data) (length data - 4))) = drop 8 data"
    by (rule read_small_header [OF ok(1)])
  have al: "(\<forall>k \<le> n. al k) \<longleftrightarrow> al 0 \<and> (\<forall>k < n. al (Suc k))" for n
    by (metis Suc_leI Suc_le_D Suc_le_lessD le0 not0_implies_Suc)
  have j: "take 4 (drop 4 data) = le16_bytes (jversion j) @ le16_bytes (record_count j) \<and> records j = Some rs
      \<longleftrightarrow> j = j0\<lparr>records := Some rs\<rparr>" for rs
    unfolding hd(1) by (cases j; cases j0) auto
  have "ipmb_journal_parse al data = Ok j \<longleftrightarrow>
    (\<exists>rs. j = j0\<lparr>records := Some rs\<rparr> \<and> unat (record_count j0) \<le> 4096 \<and> al 0 \<and>
       journal_loop.oks al 0 (unat (record_count j0)) rs \<and>
       prefix (concat (map record_image rs)) (drop 8 data))"
    using reader_codec.rd_Ok [OF journal_loop.loop_codec rd(1)] unfolding run after_journal_header_def rd(2)
    by auto
  also have "\<dots> \<longleftrightarrow> (\<exists>rs. take 4 (drop 4 data) = le16_bytes (jversion j) @ le16_bytes (record_count j) \<and>
       records j = Some rs \<and> unat (record_count j) \<le> 4096 \<and> al 0 \<and>
       journal_loop.oks al 0 (unat (record_count j)) rs \<and>
       prefix (concat (map record_image rs)) (drop 8 data))"
    unfolding conj_assoc [symmetric] j by (intro ex_cong1) auto
  also have "\<dots> \<longleftrightarrow> journal_wf j \<and> (\<forall>k \<le> unat (record_count j). al k) \<and> prefix (journal_image j) data"
    using ok unfolding journal_image_prefix al by (auto simp: journal_wf_def records_oks)
  finally show ?thesis .
qed

lemma journal_parse_no_fault: "no_fault (ipmb_journal_parse al data)"
proof (cases "8 \<le> length data \<and> take 4 data = ascii ''IJRN''")
  case False
  then show ?thesis by (simp add: journal_short_or_magic)
next
  case True
  then have ok: "8 \<le> length data" "take 4 data = ascii ''IJRN''" by auto
  obtain j0 where run: "ipmb_journal_parse al data = after_journal_header al data j0"
    by (rule read_journal_header [OF ok])
  obtain rd: "reader_wf (advance 4 (ipmb_reader_init (drop 4 data) (length data - 4)))"
    by (rule read_small_header [OF ok(1)])
  show ?thesis
    unfolding run after_journal_header_def using reader_codec.rd_safe [OF journal_loop.loop_codec rd]
    by (auto intro!: no_fault_rbind split: prod.split)
qed

section \<open>Properties\<close>

text \<open>C14: \<^verbatim>\<open>ipmb_journal_parse\<close> succeeds with the journal \<open>j\<close> exactly when \<open>j\<close> has at most 4096
  records with payloads its 16-bit lengths can say, the input starts with the wire image of
  \<open>j\<close> (bytes behind it are ignored), and every allocation succeeds; on any other input it reports an error and stays
  inside its buffers.\<close>

theorem journal_parse_iff:
  "(ipmb_journal_parse al data = Ok j \<longleftrightarrow>
     journal_wf j \<and> list_all al [0..<Suc (unat (record_count j))] \<and> prefix (journal_image j) data) \<and>
   no_fault (ipmb_journal_parse al data)"
  by (auto simp: journal_parse_Ok journal_parse_no_fault list_all_iff simp del: upt_Suc)

end
