(* ===== verification/Telemetry_Extractor.thy ===== *)
theory Telemetry_Extractor
  imports Byte_Read
begin

text \<open>
  The telemetry parser of \<^verbatim>\<open>src/telemetry/extractor.c\<close>, over the record interface of
  \<open>Byte_Read\<close>.  The block of a point's name ends with a zero byte the parser adds.  Allocation
  \<open>0\<close> is that of the point array; point \<open>k\<close> makes two, for its name and for its value.
\<close>

section \<open>The code\<close>

record ipmb_telemetry_point =
  ttype :: byte
  tname :: "byte list"
  tvalue :: "byte list"

record ipmb_telemetry_batch =
  schema :: "16 word"
  point_count :: "16 word"
  points :: "ipmb_telemetry_point list option"

definition zero_batch :: ipmb_telemetry_batch where
  "zero_batch = \<lparr>schema = 0, point_count = 0, points = None\<rparr>"

definition copy_name :: "allocs \<Rightarrow> nat \<Rightarrow> byte list \<Rightarrow> byte list option" where
  "copy_name al k src = (if al k then Some (src @ [0]) else None)"

definition ipmb_telemetry_batch_free :: "ipmb_telemetry_batch \<Rightarrow> ipmb_telemetry_batch" where
  "ipmb_telemetry_batch_free batch = zero_batch"

definition parse_point :: "allocs \<Rightarrow> nat \<Rightarrow> ipmb_reader \<Rightarrow> ipmb_telemetry_point rd_result" where
  "parse_point al i r =
     rbind (or_fail (ipmb_read_u8 r) IPMB_ERR_SHORT_READ) (\<lambda>(t, r).
     rbind (or_fail (ipmb_read_le16 r) IPMB_ERR_SHORT_READ) (\<lambda>(name_len, r).
     rbind (or_fail (ipmb_read_bytes (unat name_len) r) IPMB_ERR_SHORT_READ) (\<lambda>(name, r).
     rbind (or_fail (ipmb_read_le32 r) IPMB_ERR_SHORT_READ) (\<lambda>(value_len, r).
     rbind (or_fail (ipmb_read_bytes (unat value_len) r) IPMB_ERR_SHORT_READ) (\<lambda>(val, r).
     let name_block = copy_name al (2 * i + 1) name in
     rbind (guard (name_block \<noteq> None \<and> al (2 * i + 2)) IPMB_ERR_ALLOC) (\<lambda>_.
       Ok (\<lparr>ttype = t, tname = the name_block, tvalue = val\<rparr>, r)))))))"

definition ipmb_extract_telemetry ::
  "allocs \<Rightarrow> byte list \<Rightarrow> (ipmb_status \<times> ipmb_telemetry_batch, ipmb_telemetry_batch) res" where
  "ipmb_extract_telemetry al data =
     (let out = zero_batch in
      if length data < 8 then Err (IPMB_ERR_BAD_MAGIC, out)
      else rbind (has_magic data ''ITLM'') (\<lambda>magic.
      if \<not> magic then Err (IPMB_ERR_BAD_MAGIC, out)
      else
        let r = ipmb_reader_init (drop 4 data) (length data - 4) in
        rbind (or_fail (ipmb_read_le16 r) (IPMB_ERR_SHORT_READ, out)) (\<lambda>(v, r).
        let out = out\<lparr>schema := v\<rparr> in
        rbind (or_fail (ipmb_read_le16 r) (IPMB_ERR_SHORT_READ, out)) (\<lambda>(v, r).
        let out = out\<lparr>point_count := v\<rparr> in
        rbind (guard (unat (point_count out) \<le> 2048) (IPMB_ERR_LIMIT, out)) (\<lambda>_.
        rbind (alloc al 0 (IPMB_ERR_ALLOC, out)) (\<lambda>_.
        rbind (map_err (\<lambda>status. (status, ipmb_telemetry_batch_free out))
                 (repeat_rd (parse_point al) 0 (unat (point_count out)) r)) (\<lambda>(ps, r).
          Ok (out\<lparr>points := Some ps\<rparr>))))))))"

section \<open>The wire format\<close>

definition point_image :: "ipmb_telemetry_point \<Rightarrow> byte list" where
  "point_image p = [ttype p] @ le16_bytes (of_nat (length (butlast (tname p)))) @ butlast (tname p) @
     le32_bytes (of_nat (length (tvalue p))) @ tvalue p"

definition point_wf :: "ipmb_telemetry_point \<Rightarrow> bool" where
  "point_wf p \<longleftrightarrow> tname p \<noteq> [] \<and> last (tname p) = 0 \<and> length (butlast (tname p)) < 2 ^ 16 \<and>
     length (tvalue p) < 2 ^ 32"

definition point_ok :: "allocs \<Rightarrow> nat \<Rightarrow> ipmb_telemetry_point \<Rightarrow> bool" where
  "point_ok al i p \<longleftrightarrow> point_wf p \<and> al (2 * i + 1) \<and> al (2 * i + 2)"

definition batch_image :: "ipmb_telemetry_batch \<Rightarrow> byte list" where
  "batch_image b = ascii ''ITLM'' @ le16_bytes (schema b) @ le16_bytes (point_count b) @
     concat (map point_image (the (points b)))"

definition batch_wf :: "ipmb_telemetry_batch \<Rightarrow> bool" where
  "batch_wf b \<longleftrightarrow> (\<exists>ps. points b = Some ps \<and> length ps = unat (point_count b) \<and>
     length ps \<le> 2048 \<and> list_all point_wf ps)"

section \<open>Points\<close>

lemma name_block_guard:
  "(let name_block = copy_name al k name in
      rbind (guard (name_block \<noteq> None \<and> p) e) (\<lambda>_. Ok (\<lparr>ttype = t, tname = the name_block, tvalue = v\<rparr>, r)))
   = rbind (guard (al k \<and> p) e) (\<lambda>_. Ok (\<lparr>ttype = t, tname = name @ [0], tvalue = v\<rparr>, r))"
  by (simp add: copy_name_def Let_def)

lemma unat32_less: "unat (w :: 32 word) < 4294967296"
  using unsigned_less [of w] by simp

lemma parse_point_codec:
  "reader_codec (parse_point al i) point_image (point_ok al i) IPMB_ERR_SHORT_READ"
  unfolding parse_point_def name_block_guard
  apply (rule codec_image)
    apply (rule u8_step [where f = ttype])
     apply (rule le16_step [where f = "\<lambda>p. of_nat (length (butlast (tname p)))"])
      apply (rule bytes_step [where f = "\<lambda>p. butlast (tname p)"])
       apply (rule le32_step [where f = "\<lambda>p. of_nat (length (tvalue p))"])
        apply (rule bytes_step [where f = tvalue])
         apply (rule codec_guard)
         apply (rule codec_return)
        apply (simp_all only: ipmb_telemetry_point.splits)
        apply (auto simp: point_image_def point_ok_def point_wf_def)
     apply (metis append_butlast_last_id)
    apply (metis last_snoc)
   apply (metis unat16_less)
  apply (metis unat32_less)
  done

interpretation point_loop: record_loop "parse_point al" point_image "point_ok al" IPMB_ERR_SHORT_READ
  for al
  by (rule record_loop.intro) (rule parse_point_codec)

lemma points_oks:
  "point_loop.oks al i n ps \<longleftrightarrow> length ps = n \<and> list_all point_wf ps \<and>
     (\<forall>k < n. al (2 * (i + k) + 1) \<and> al (2 * (i + k) + 2))"
  by (auto simp: point_loop.oks_def point_ok_def list_all_length)

lemma all_pairs:
  "(\<forall>k \<le> 2 * n. al k) \<longleftrightarrow> al 0 \<and> (\<forall>k < n. al (2 * k + 1) \<and> al (2 * k + 2))" for n :: nat
proof (induction n)
  case (Suc n)
  have "(\<forall>k \<le> 2 * Suc n. al k) \<longleftrightarrow> (\<forall>k \<le> 2 * n. al k) \<and> al (2 * n + 1) \<and> al (2 * n + 2)"
    by (auto simp: le_Suc_eq)
  with Suc show ?case by (auto simp: less_Suc_eq)
qed auto

section \<open>Batches\<close>

definition after_batch_header ::
  "allocs \<Rightarrow> byte list \<Rightarrow> ipmb_telemetry_batch \<Rightarrow> (ipmb_status \<times> ipmb_telemetry_batch, ipmb_telemetry_batch) res" where
  "after_batch_header al data b =
     (if 2048 < unat (point_count b) then Err (IPMB_ERR_LIMIT, b)
      else if \<not> al 0 then Err (IPMB_ERR_ALLOC, b)
      else rbind (map_err (\<lambda>status. (status, zero_batch))
             (repeat_rd (parse_point al) 0 (unat (point_count b))
                (advance 4 (ipmb_reader_init (drop 4 data) (length data - 4)))))
           (\<lambda>(ps, r). Ok (b\<lparr>points := Some ps\<rparr>)))"

lemma read_batch_header:
  assumes "8 \<le> length data" "take 4 data = ascii ''ITLM''"
  obtains b where "take 4 (drop 4 data) = le16_bytes (schema b) @ le16_bytes (point_count b)"
    and "points b = None" and "ipmb_extract_telemetry al data = after_batch_header al data b"
proof -
  obtain v c where hd:
    "ipmb_read_le16 (ipmb_reader_init (drop 4 data) (length data - 4))
       = Ok (v, advance 2 (ipmb_reader_init (drop 4 data) (length data - 4)))"
    "ipmb_read_le16 (advance 2 (ipmb_reader_init (drop 4 data) (length data - 4)))
       = Ok (c, advance 4 (ipmb_reader_init (drop 4 data) (length data - 4)))"
    "take 4 (drop 4 data) = le16_bytes v @ le16_bytes c"
    using read_small_header [OF assms(1)] by metis
  show ?thesis
    by (rule that [of "\<lparr>schema = v, point_count = c, points = None\<rparr>"])
      (use assms hd in \<open>simp_all add: ipmb_extract_telemetry_def after_batch_header_def zero_batch_def
        ipmb_telemetry_batch_free_def guard_def alloc_guard\<close>)
qed

lemma batch_short_or_magic:
  "\<not> (8 \<le> length data \<and> take 4 data = ascii ''ITLM'') \<Longrightarrow>
   ipmb_extract_telemetry al data = Err (IPMB_ERR_BAD_MAGIC, zero_batch)"
  by (auto simp: ipmb_extract_telemetry_def Let_def)

lemma batch_image_prefix:
  "prefix (batch_image b) data \<longleftrightarrow> 8 \<le> length data \<and> take 4 data = ascii ''ITLM'' \<and>
     take 4 (drop 4 data) = le16_bytes (schema b) @ le16_bytes (point_count b) \<and>
     prefix (concat (map point_image (the (points b)))) (drop 8 data)"
  unfolding batch_image_def
  using prefix_small_header [of "''ITLM''" "le16_bytes (schema b) @ le16_bytes (point_count b)"] by simp

lemma batch_parse_Ok:
  "ipmb_extract_telemetry al data = Ok b \<longleftrightarrow>
     batch_wf b \<and> (\<forall>k \<le> 2 * unat (point_count b). al k) \<and> prefix (batch_image b) data"
proof (cases "8 \<le> length data \<and> take 4 data = ascii ''ITLM''")
  case False
  then show ?thesis by (auto simp: batch_short_or_magic batch_image_prefix)
next
  case True
  then have ok: "8 \<le> length data" "take 4 data = ascii ''ITLM''" by auto
  obtain b0 where hd: "take 4 (drop 4 data) = le16_bytes (schema b0) @ le16_bytes (point_count b0)"
      "points b0 = None" and run: "ipmb_extract_telemetry al data = after_batch_header al data b0"
    by (rule read_batch_header [OF ok])
  obtain rd: "reader_wf (advance 4 (ipmb_reader_init (drop 4 data) (length data - 4)))"
      "unread (advance 4 (ipmb_reader_init (drop 4 data) (length data - 4))) = drop 8 data"
    by (rule read_small_header [OF ok(1)])
  have b: "take 4 (drop 4 data) = le16_bytes (schema b) @ le16_bytes (point_count b) \<and> points b = Some ps
      \<longleftrightarrow> b = b0\<lparr>points := Some ps\<rparr>" for ps
    unfolding hd(1) by (cases b; cases b0) auto
  have "ipmb_extract_telemetry al data = Ok b \<longleftrightarrow>
    (\<exists>ps. b = b0\<lparr>points := Some ps\<rparr> \<and> unat (point_count b0) \<le> 2048 \<and> al 0 \<and>
       point_loop.oks al 0 (unat (point_count b0)) ps \<and>
       prefix (concat (map point_image ps)) (drop 8 data))"
    using reader_codec.rd_Ok [OF point_loop.loop_codec rd(1)] unfolding run after_batch_header_def rd(2)
    by auto
  also have "\<dots> \<longleftrightarrow> (\<exists>ps. take 4 (drop 4 data) = le16_bytes (schema b) @ le16_bytes (point_count b) \<and>
       points b = Some ps \<and> unat (point_count b) \<le> 2048 \<and> al 0 \<and>
       point_loop.oks al 0 (unat (point_count b)) ps \<and>
       prefix (concat (map point_image ps)) (drop 8 data))"
    unfolding conj_assoc [symmetric] b by (intro ex_cong1) auto
  also have "\<dots> \<longleftrightarrow> batch_wf b \<and> (\<forall>k \<le> 2 * unat (point_count b). al k) \<and> prefix (batch_image b) data"
    using ok unfolding batch_image_prefix all_pairs by (auto simp: batch_wf_def points_oks)
  finally show ?thesis .
qed

lemma batch_parse_no_fault: "no_fault (ipmb_extract_telemetry al data)"
proof (cases "8 \<le> length data \<and> take 4 data = ascii ''ITLM''")
  case False
  then show ?thesis by (simp add: batch_short_or_magic)
next
  case True
  then have ok: "8 \<le> length data" "take 4 data = ascii ''ITLM''" by auto
  obtain b0 where run: "ipmb_extract_telemetry al data = after_batch_header al data b0"
    by (rule read_batch_header [OF ok])
  obtain rd: "reader_wf (advance 4 (ipmb_reader_init (drop 4 data) (length data - 4)))"
    by (rule read_small_header [OF ok(1)])
  show ?thesis
    unfolding run after_batch_header_def using reader_codec.rd_safe [OF point_loop.loop_codec rd]
    by (auto intro!: no_fault_rbind split: prod.split)
qed

section \<open>Properties\<close>

text \<open>C20: \<^verbatim>\<open>ipmb_extract_telemetry\<close> succeeds with the batch \<open>b\<close> exactly when \<open>b\<close> has at most
  2048 points whose names and values the format can hold, every name block ends with the
  added zero byte, the input starts with the wire image of \<open>b\<close> (bytes behind it are ignored), and
  every allocation (two per point) succeeds; on any other input it reports an error and stays inside its buffers.\<close>

theorem extract_telemetry_iff:
  "(ipmb_extract_telemetry al data = Ok b \<longleftrightarrow>
     batch_wf b \<and> list_all al [0..<Suc (2 * unat (point_count b))] \<and> prefix (batch_image b) data) \<and>
   no_fault (ipmb_extract_telemetry al data)"
  by (auto simp: batch_parse_Ok batch_parse_no_fault list_all_iff simp del: upt_Suc)

end
