(* ===== verification/Field_Decoder.thy ===== *)
theory Field_Decoder
  imports Endian
begin

text \<open>
  The register map decoder of \<^verbatim>\<open>src/protocol/field_decoder.c\<close>.  Allocation \<open>0\<close> is that of the
  field array, allocation \<open>i + 1\<close> that of the bytes of field \<open>i\<close>.  A field's offset is checked
  against the start of the payload but used from the end of the field table, so the copy can
  leave the payload; the outcome lemma says for which tables it does.
\<close>

section \<open>The code\<close>

record ipmb_register_field =
  rf_offset :: "16 word"
  rf_length :: "16 word"
  rf_bytes :: "byte list"

record ipmb_register_map =
  map_id :: "16 word"
  field_count :: "16 word"
  map_fields :: "ipmb_register_field list option"

definition zero_register_map :: ipmb_register_map where
  "zero_register_map = \<lparr>map_id = 0, field_count = 0, map_fields = None\<rparr>"

definition ipmb_register_map_free :: "ipmb_register_map \<Rightarrow> ipmb_register_map" where
  "ipmb_register_map_free m = zero_register_map"

text \<open>The loop over the fields, with \<open>n\<close> rounds left; \<open>table\<close> and \<open>cursor\<close> are the offsets in
  \<open>payload\<close> of the two pointers.\<close>

fun decode_fields ::
  "allocs \<Rightarrow> byte list \<Rightarrow> nat \<Rightarrow> nat \<Rightarrow> nat \<Rightarrow> nat \<Rightarrow> (ipmb_status, ipmb_register_field list) res" where
  "decode_fields al payload table cursor i 0 = Ok []"
| "decode_fields al payload table cursor i (Suc n) =
     rbind (ipmb_load_le16 payload (table + i * 4)) (\<lambda>off.
     rbind (ipmb_load_le16 payload (table + i * 4 + 2)) (\<lambda>len.
     rbind (guard (unat off + unat len \<le> length payload) IPMB_ERR_INVALID) (\<lambda>_.
     rbind (alloc al (i + 1) IPMB_ERR_ALLOC) (\<lambda>_.
     rbind (rd_bytes payload (cursor + unat off) (unat len)) (\<lambda>bytes.
     rbind (decode_fields al payload table cursor (i + 1) n) (\<lambda>fs.
       Ok (\<lparr>rf_offset = off, rf_length = len, rf_bytes = bytes\<rparr> # fs)))))))"

definition ipmb_decode_register_map ::
  "allocs \<Rightarrow> byte list \<Rightarrow> (ipmb_status \<times> ipmb_register_map, ipmb_register_map) res" where
  "ipmb_decode_register_map al payload =
     (let out = zero_register_map in
      if length payload < 10 then Err (IPMB_ERR_SHORT_READ, out)
      else rbind (has_magic payload ''RMAP'') (\<lambda>magic.
      if \<not> magic then Err (IPMB_ERR_BAD_MAGIC, out)
      else rbind (ipmb_load_le16 payload 4) (\<lambda>v.
      let out = out\<lparr>map_id := v\<rparr> in
      rbind (ipmb_load_le16 payload 6) (\<lambda>header_len.
      rbind (ipmb_load_le16 payload 8) (\<lambda>fcount.
      if unat fcount > 512 then Err (IPMB_ERR_LIMIT, out)
      else
        let table_off = 10 + unat header_len; table_len = unat fcount * 4 in
        if table_off > length payload \<or> table_len > length payload - table_off
        then Err (IPMB_ERR_SHORT_READ, out)
        else
          let out = out\<lparr>field_count := fcount\<rparr> in
          rbind (alloc al 0 (IPMB_ERR_ALLOC, out)) (\<lambda>_.
          rbind (map_err (\<lambda>status. (status, ipmb_register_map_free out))
                   (decode_fields al payload table_off (table_off + table_len) 0 (unat fcount))) (\<lambda>fs.
            Ok (out\<lparr>map_fields := Some fs\<rparr>))))))))"

section \<open>What the table asks for\<close>

definition le16_at :: "byte list \<Rightarrow> nat \<Rightarrow> 16 word" where
  "le16_at p i = ucast (p ! i) OR push_bit 8 (ucast (p ! (i + 1)))"

definition table_entries :: "byte list \<Rightarrow> nat \<Rightarrow> nat \<Rightarrow> nat \<Rightarrow> (16 word \<times> 16 word) list" where
  "table_entries p table i n =
     map (\<lambda>k. (le16_at p (table + k * 4), le16_at p (table + k * 4 + 2))) [i..<i + n]"

text \<open>Whether the copy of an entry stays inside the payload, and what it copies.\<close>

definition entry_inside :: "byte list \<Rightarrow> nat \<Rightarrow> 16 word \<times> 16 word \<Rightarrow> bool" where
  "entry_inside p cursor e \<longleftrightarrow> cursor + unat (fst e) + unat (snd e) \<le> length p"

definition entry_checked :: "byte list \<Rightarrow> 16 word \<times> 16 word \<Rightarrow> bool" where
  "entry_checked p e \<longleftrightarrow> unat (fst e) + unat (snd e) \<le> length p"

definition entry_field :: "byte list \<Rightarrow> nat \<Rightarrow> 16 word \<times> 16 word \<Rightarrow> ipmb_register_field" where
  "entry_field p cursor e = \<lparr>rf_offset = fst e, rf_length = snd e,
     rf_bytes = take (unat (snd e)) (drop (cursor + unat (fst e)) p)\<rparr>"

lemma load_le16_at: "i + 2 \<le> length p \<Longrightarrow> ipmb_load_le16 p i = Ok (le16_at p i)"
  unfolding ipmb_load_le16_def le16_at_def by (simp add: rd8_def)

lemma table_entries_Suc:
  "table_entries p table i (Suc n) =
     (le16_at p (table + i * 4), le16_at p (table + i * 4 + 2)) # table_entries p table (Suc i) n"
  by (simp add: table_entries_def upt_conv_Cons del: upt_Suc)

lemma length_table_entries [simp]: "length (table_entries p table i n) = n"
  by (simp add: table_entries_def)

text \<open>The first entry that does not stay inside the payload, or whose allocation fails, decides: it is
  refused by the check, has no memory, or is copied from outside the payload.\<close>

definition entry_stops :: "allocs \<Rightarrow> byte list \<Rightarrow> nat \<times> 16 word \<times> 16 word \<Rightarrow> (ipmb_status, 'a) res" where
  "entry_stops al p x =
     (if \<not> entry_checked p (snd x) then Err IPMB_ERR_INVALID
      else if \<not> al (fst x + 1) then Err IPMB_ERR_ALLOC else Fault Oob_read)"

lemma decode_fields_outcome:
  assumes "table + (i + n) * 4 \<le> length p"
  shows "decode_fields al p table cursor i n =
    (case find (\<lambda>(k, e). \<not> (entry_inside p cursor e \<and> al (k + 1))) (enumerate i (table_entries p table i n)) of
       None \<Rightarrow> Ok (map (entry_field p cursor) (table_entries p table i n))
     | Some x \<Rightarrow> entry_stops al p x)"
  using assms
proof (induction n arbitrary: i)
  case 0
  then show ?case by (simp add: table_entries_def)
next
  case (Suc n)
  let ?off = "le16_at p (table + i * 4)" and ?len = "le16_at p (table + i * 4 + 2)"
  have loads: "ipmb_load_le16 p (table + i * 4) = Ok ?off" "ipmb_load_le16 p (table + i * 4 + 2) = Ok ?len"
    using Suc.prems by (intro load_le16_at; simp)+
  have ih: "decode_fields al p table cursor (i + 1) n =
    (case find (\<lambda>(k, e). \<not> (entry_inside p cursor e \<and> al (k + 1))) (enumerate (Suc i) (table_entries p table (Suc i) n)) of
       None \<Rightarrow> Ok (map (entry_field p cursor) (table_entries p table (Suc i) n))
     | Some x \<Rightarrow> entry_stops al p x)"
    using Suc.prems Suc.IH [of "Suc i"] by simp
  have "entry_inside p cursor e \<Longrightarrow> entry_checked p e" for e
    by (simp add: entry_inside_def entry_checked_def)
  then show ?case
    unfolding decode_fields.simps loads rbind.simps ih table_entries_Suc
    by (auto simp: guard_def alloc_def rd_bytes_def entry_inside_def entry_checked_def entry_stops_def
        entry_field_def add.assoc split: option.split)
qed

text \<open>The entries of a payload, and where the copies count from.\<close>

definition map_entries :: "byte list \<Rightarrow> (16 word \<times> 16 word) list" where
  "map_entries p = table_entries p (10 + unat (le16_at p 6)) 0 (unat (le16_at p 8))"

definition map_cursor :: "byte list \<Rightarrow> nat" where
  "map_cursor p = 10 + unat (le16_at p 6) + unat (le16_at p 8) * 4"

lemma decode_map_cases:
  "ipmb_decode_register_map al p =
    (let out = zero_register_map\<lparr>map_id := le16_at p 4\<rparr> in
     if length p < 10 then Err (IPMB_ERR_SHORT_READ, zero_register_map)
     else if take 4 p \<noteq> ascii ''RMAP'' then Err (IPMB_ERR_BAD_MAGIC, zero_register_map)
     else if unat (le16_at p 8) > 512 then Err (IPMB_ERR_LIMIT, out)
     else if length p < map_cursor p then Err (IPMB_ERR_SHORT_READ, out)
     else if \<not> al 0 then Err (IPMB_ERR_ALLOC, out\<lparr>field_count := le16_at p 8\<rparr>)
     else case find (\<lambda>(k, e). \<not> (entry_inside p (map_cursor p) e \<and> al (k + 1))) (enumerate 0 (map_entries p)) of
       None \<Rightarrow> Ok \<lparr>map_id = le16_at p 4, field_count = le16_at p 8,
                  map_fields = Some (map (entry_field p (map_cursor p)) (map_entries p))\<rparr>
     | Some x \<Rightarrow> map_err (\<lambda>status. (status, zero_register_map)) (entry_stops al p x))"
proof (cases "10 \<le> length p \<and> take 4 p = ascii ''RMAP''")
  case True
  then have loads: "(ipmb_load_le16 p 4 :: (ipmb_status \<times> ipmb_register_map, 16 word) res) = Ok (le16_at p 4)"
      "(ipmb_load_le16 p 6 :: (ipmb_status \<times> ipmb_register_map, 16 word) res) = Ok (le16_at p 6)"
      "(ipmb_load_le16 p 8 :: (ipmb_status \<times> ipmb_register_map, 16 word) res) = Ok (le16_at p 8)"
    by (intro load_le16_at; simp)+
  have magic: "(has_magic p ''RMAP'' :: (ipmb_status \<times> ipmb_register_map, bool) res) = Ok True"
    using True by simp
  have short: "10 + unat (le16_at p 6) > length p \<or> unat (le16_at p 8) * 4 > length p - (10 + unat (le16_at p 6)) \<longleftrightarrow>
      length p < map_cursor p"
    by (auto simp: map_cursor_def)
  have fields: "decode_fields al p (10 + unat (le16_at p 6)) (map_cursor p) 0 (unat (le16_at p 8)) =
      (case find (\<lambda>(k, e). \<not> (entry_inside p (map_cursor p) e \<and> al (k + 1))) (enumerate 0 (map_entries p)) of
         None \<Rightarrow> Ok (map (entry_field p (map_cursor p)) (map_entries p)) | Some x \<Rightarrow> entry_stops al p x)"
    if "\<not> length p < map_cursor p"
    unfolding map_entries_def by (rule decode_fields_outcome) (use that in \<open>simp add: map_cursor_def\<close>)
  have "\<not> length p < 10" using True by simp
  with True fields show ?thesis
    unfolding ipmb_decode_register_map_def Let_def magic loads rbind.simps short map_cursor_def [symmetric]
    by (simp add: zero_register_map_def ipmb_register_map_free_def alloc_def entry_stops_def
        del: length_greater_0_conv
        split: option.split)
next
  case False
  then show ?thesis by (auto simp: ipmb_decode_register_map_def Let_def)
qed

text \<open>With memory available the first entry that does not stay inside decides.\<close>

lemma find_enumerate: "find Q xs = map_option snd (find (\<lambda>(k, e). Q e) (enumerate i xs))"
  by (induction xs arbitrary: i) simp_all

text \<open>A payload whose header or field table is not complete is refused.\<close>

definition table_complete :: "byte list \<Rightarrow> bool" where
  "table_complete p \<longleftrightarrow> 10 \<le> length p \<and> take 4 p = ascii ''RMAP'' \<and> unat (le16_at p 8) \<le> 512 \<and>
     10 + unat (le16_at p 6) + unat (le16_at p 8) * 4 \<le> length p"

lemma decode_map_incomplete:
  "\<not> table_complete p \<Longrightarrow> \<exists>e. ipmb_decode_register_map al p = Err e"
  by (auto simp: decode_map_cases table_complete_def map_cursor_def Let_def)

lemma decode_map_complete:
  assumes "table_complete p" "\<forall>k. al k"
  shows "ipmb_decode_register_map al p =
    (case find (\<lambda>e. \<not> entry_inside p (map_cursor p) e) (map_entries p) of
       None \<Rightarrow> Ok \<lparr>map_id = le16_at p 4, field_count = le16_at p 8,
                  map_fields = Some (map (entry_field p (map_cursor p)) (map_entries p))\<rparr>
     | Some e \<Rightarrow> if entry_checked p e then Fault Oob_read else Err (IPMB_ERR_INVALID, zero_register_map))"
  using assms
  by (auto simp: decode_map_cases table_complete_def map_cursor_def Let_def entry_stops_def
      find_enumerate [of _ "map_entries p" 0] split: option.split)

section \<open>Properties\<close>

text \<open>C19: every outcome of \<^verbatim>\<open>ipmb_decode_register_map\<close>, for every payload and every allocator, with the map the
  caller is left with.  A short or foreign header, more than 512 fields, an incomplete field
  table and a failed allocation of the field array are refused in this order.  Otherwise the
  entries \<open>(offset, length)\<close> are taken in their order, each with the \<open>length\<close> bytes found \<open>offset\<close>
  bytes behind the table.  The first entry that does not end inside the payload, or has no
  memory, decides: it is refused if it would not fit counted from the start of the payload; a
  failed allocation is reported; and else the copy reads outside the payload, because the
  check counts from the start and the copy from the end of the table.\<close>

theorem register_map_outcome:
  "ipmb_decode_register_map al p =
    (let n = unat (le16_at p 8); table = 10 + unat (le16_at p 6); cursor = table + n * 4;
         entries = table_entries p table 0 n; out = zero_register_map\<lparr>map_id := le16_at p 4\<rparr> in
     if length p < 10 then Err (IPMB_ERR_SHORT_READ, zero_register_map)
     else if take 4 p \<noteq> ascii ''RMAP'' then Err (IPMB_ERR_BAD_MAGIC, zero_register_map)
     else if n > 512 then Err (IPMB_ERR_LIMIT, out)
     else if length p < cursor then Err (IPMB_ERR_SHORT_READ, out)
     else if \<not> al 0 then Err (IPMB_ERR_ALLOC, out\<lparr>field_count := le16_at p 8\<rparr>)
     else case find (\<lambda>(k, e). \<not> (entry_inside p cursor e \<and> al (k + 1))) (enumerate 0 entries) of
       None \<Rightarrow> Ok \<lparr>map_id = le16_at p 4, field_count = le16_at p 8,
                  map_fields = Some (map (entry_field p cursor) entries)\<rparr>
     | Some (k, e) \<Rightarrow>
         if \<not> entry_checked p e then Err (IPMB_ERR_INVALID, zero_register_map)
         else if \<not> al (k + 1) then Err (IPMB_ERR_ALLOC, zero_register_map)
         else Fault Oob_read)"
  unfolding decode_map_cases Let_def map_cursor_def map_entries_def
  by (simp add: entry_stops_def split: option.split)

text \<open>A field that passes the check and is read from outside.\<close>

theorem register_map_outcome_witness:
  "ipmb_decode_register_map (\<lambda>_. True) (ascii ''RMAP'' @ [1, 0, 0, 0, 1, 0, 0, 0, 4, 0, 9, 9])
     = Fault Oob_read"
  unfolding register_map_outcome
  by (simp add: Let_def le16_at_def ascii_def table_entries_def entry_inside_def entry_checked_def)

end
