(* ===== verification/Transport_Layer.thy ===== *)
theory Transport_Layer
  imports Endian
begin

text \<open>
  Fragment reassembly, \<^verbatim>\<open>src/protocol/transport_layer.c\<close>.  A fragment's data pointer is the list
  of the bytes of the payload from there on.  The lemmas characterise every outcome of
  reassembly, wrap-around of the 32-bit bound included, and show that fragments cut from one
  message rebuild it whatever their order and overlap, once they cover it.
\<close>

section \<open>The code\<close>

record ipmb_fragment =
  frag_offset :: "32 word"
  frag_length :: "32 word"
  frag_data :: "byte list"

text \<open>The bound is computed in \<^verbatim>\<open>uint32_t\<close>, the copy in \<^verbatim>\<open>size_t\<close>.\<close>

fun reassemble_loop ::
  "ipmb_fragment list \<Rightarrow> 32 word \<Rightarrow> byte cells \<Rightarrow> (ipmb_status, byte cells) res" where
  "reassemble_loop [] total_size buf = Ok buf"
| "reassemble_loop (frag # frags) total_size buf =
     rbind (guard (frag_offset frag + frag_length frag \<le> total_size) IPMB_ERR_INVALID) (\<lambda>_.
     rbind (rd_bytes (frag_data frag) 0 (unat (frag_length frag))) (\<lambda>bytes.
     rbind (store_cells buf (unat (frag_offset frag)) bytes) (\<lambda>buf.
       reassemble_loop frags total_size buf)))"

definition ipmb_reassemble_fragments ::
  "allocs \<Rightarrow> nat \<Rightarrow> ipmb_fragment list \<Rightarrow> 32 word \<Rightarrow> (ipmb_status, byte cells \<times> nat) res" where
  "ipmb_reassemble_fragments al k frags total_size =
     (if unat total_size > 4 * 1024 * 1024 \<or> length frags > 4096 then Err IPMB_ERR_LIMIT
      else rbind (alloc al k IPMB_ERR_ALLOC) (\<lambda>_.
           rbind (reassemble_loop frags total_size
                    (calloc_cells 0 (if total_size = 0 then 1 else unat total_size))) (\<lambda>buf.
             Ok (buf, unat total_size))))"

text \<open>The loop that fills the fragment array, with \<open>n\<close> rounds left.\<close>

fun parse_fragments :: "byte list \<Rightarrow> nat \<Rightarrow> nat \<Rightarrow> (ipmb_status, ipmb_fragment list) res" where
  "parse_fragments payload pos 0 = Ok []"
| "parse_fragments payload pos (Suc n) =
     rbind (usub (length payload) pos) (\<lambda>left.
     rbind (guard (8 \<le> left) IPMB_ERR_SHORT_READ) (\<lambda>_.
     rbind (ipmb_load_le32 payload pos) (\<lambda>off.
     rbind (ipmb_load_le32 payload (pos + 4)) (\<lambda>len.
     rbind (usub (length payload) (pos + 8)) (\<lambda>left.
     rbind (guard (unat len \<le> left) IPMB_ERR_SHORT_READ) (\<lambda>_.
     rbind (parse_fragments payload (pos + 8 + unat len) n) (\<lambda>fs.
       Ok (\<lparr>frag_offset = off, frag_length = len, frag_data = drop (pos + 8) payload\<rparr> # fs))))))))"

definition ipmb_parse_fragment_payload ::
  "allocs \<Rightarrow> byte list \<Rightarrow> (ipmb_status, byte cells \<times> nat) res" where
  "ipmb_parse_fragment_payload al payload =
     (if length payload < 10 then Err IPMB_ERR_BAD_MAGIC
      else rbind (has_magic payload ''IFRG'') (\<lambda>magic.
      if \<not> magic then Err IPMB_ERR_BAD_MAGIC
      else rbind (ipmb_load_le32 payload 4) (\<lambda>tot.
           rbind (ipmb_load_le16 payload 8) (\<lambda>count.
           rbind (alloc al 0 IPMB_ERR_ALLOC) (\<lambda>_.
           rbind (parse_fragments payload 10 (unat count)) (\<lambda>frags.
             ipmb_reassemble_fragments al 1 frags tot))))))"

section \<open>What reassembly computes\<close>

definition frag_bytes :: "ipmb_fragment \<Rightarrow> byte list" where
  "frag_bytes f = take (unat (frag_length f)) (frag_data f)"

definition frag_wf :: "ipmb_fragment \<Rightarrow> bool" where
  "frag_wf f \<longleftrightarrow> unat (frag_length f) \<le> length (frag_data f)"

definition frag_fits :: "32 word \<Rightarrow> ipmb_fragment \<Rightarrow> bool" where
  "frag_fits tot f \<longleftrightarrow> unat (frag_offset f) + unat (frag_length f) \<le> unat tot"

definition overlay :: "byte list \<Rightarrow> ipmb_fragment \<Rightarrow> byte list" where
  "overlay out f = take (unat (frag_offset f)) out @ frag_bytes f @
     drop (unat (frag_offset f) + unat (frag_length f)) out"

lemma length_frag_bytes: "frag_wf f \<Longrightarrow> length (frag_bytes f) = unat (frag_length f)"
  by (simp add: frag_bytes_def frag_wf_def)

lemma length_overlay:
  "frag_wf f \<Longrightarrow> unat (frag_offset f) + unat (frag_length f) \<le> length out \<Longrightarrow>
   length (overlay out f) = length out"
  by (simp add: overlay_def length_frag_bytes)

lemma nth_overlay:
  assumes "frag_wf f" "unat (frag_offset f) + unat (frag_length f) \<le> length out" "j < length out"
  shows "overlay out f ! j =
    (if unat (frag_offset f) \<le> j \<and> j < unat (frag_offset f) + unat (frag_length f)
     then frag_data f ! (j - unat (frag_offset f)) else out ! j)"
  using assms by (auto simp: overlay_def nth_append length_frag_bytes) (auto simp: frag_bytes_def)

lemma word_sum_wraps:
  fixes a b tot :: "32 word"
  assumes "a + b \<le> tot" "unat tot < unat a + unat b"
  shows "2 ^ 32 \<le> unat a + unat b"
proof (rule ccontr)
  assume "\<not> 2 ^ 32 \<le> unat a + unat b"
  then have "unat (a + b) = unat a + unat b"
    by (intro unat_add_lem [THEN iffD1]) simp
  with assms show False by (simp add: word_le_nat_alt)
qed

text \<open>A fragment that fits passes the 32-bit check; one that does not passes it exactly when the
  sum wraps around far enough.\<close>

lemma frag_fits_check: "frag_fits tot f \<Longrightarrow> frag_offset f + frag_length f \<le> tot"
proof -
  assume fits: "frag_fits tot f"
  have "unat tot < 2 ^ 32" using unsigned_less [of tot] by simp
  with fits have "unat (frag_offset f + frag_length f) = unat (frag_offset f) + unat (frag_length f)"
    by (intro unat_add_lem [THEN iffD1]) (simp add: frag_fits_def)
  with fits show ?thesis by (simp add: frag_fits_def word_le_nat_alt)
qed

text \<open>What stops the loop at a fragment: the check, its data ending too early, or the buffer.\<close>

definition frag_stops :: "32 word \<Rightarrow> ipmb_fragment \<Rightarrow> (ipmb_status, 'a) res" where
  "frag_stops tot f =
     (if \<not> frag_offset f + frag_length f \<le> tot then Err IPMB_ERR_INVALID
      else if \<not> frag_wf f then Fault Oob_read else Fault Oob_write)"

lemma reassemble_loop_outcome:
  assumes "unat tot \<le> length out" "length out \<le> max 1 (unat tot)"
  shows "reassemble_loop frags tot (map Some out) =
    (case find (\<lambda>f. \<not> (frag_wf f \<and> frag_fits tot f)) frags of
       None \<Rightarrow> Ok (map Some (fold (\<lambda>f out. overlay out f) frags out))
     | Some f \<Rightarrow> frag_stops tot f)"
  using assms
proof (induction frags arbitrary: out)
  case (Cons f frags)
  have rd: "(rd_bytes (frag_data f) 0 (unat (frag_length f)) :: (ipmb_status, byte list) res) =
      (if frag_wf f then Ok (frag_bytes f) else Fault Oob_read)"
    by (simp add: rd_bytes_def frag_wf_def frag_bytes_def)
  note len = length_frag_bytes [of f]
  show ?case
  proof (cases "frag_wf f \<and> frag_fits tot f")
    case True
    then have room: "unat (frag_offset f) + unat (frag_length f) \<le> length out"
      using Cons.prems(1) by (simp add: frag_fits_def)
    have st: "(store_cells (map Some out) (unat (frag_offset f)) (frag_bytes f) :: (ipmb_status, byte cells) res)
        = Ok (map Some (overlay out f))"
      using room len True by (simp add: store_cells_def overlay_def take_map drop_map)
    have "length (overlay out f) = length out"
      using True room by (simp add: length_overlay)
    then have ih: "reassemble_loop frags tot (map Some (overlay out f)) =
      (case find (\<lambda>f. \<not> (frag_wf f \<and> frag_fits tot f)) frags of
         None \<Rightarrow> Ok (map Some (fold (\<lambda>f out. overlay out f) frags (overlay out f)))
       | Some f \<Rightarrow> frag_stops tot f)"
      using Cons.prems by (intro Cons.IH) simp_all
    show ?thesis
      unfolding reassemble_loop.simps rd using True frag_fits_check [of tot f] st ih
      by (simp add: guard_def split: option.split)
  next
    case False
    have st: "(store_cells (map Some out) (unat (frag_offset f)) (frag_bytes f) :: (ipmb_status, byte cells) res)
        = Fault Oob_write" if ok: "frag_offset f + frag_length f \<le> tot" "frag_wf f"
    proof -
      have "2 ^ 32 \<le> unat (frag_offset f) + unat (frag_length f)"
        using word_sum_wraps [OF ok(1)] False ok(2) by (simp add: frag_fits_def)
      moreover have "length out < 2 ^ 32"
        using Cons.prems(2) unsigned_less [of tot, where ?'a = nat] by simp
      ultimately show ?thesis using len ok(2) by (simp add: store_cells_def)
    qed
    show ?thesis
      unfolding reassemble_loop.simps rd using False st by (auto simp: guard_def frag_stops_def)
  qed
qed simp

lemma reassemble_cases:
  "ipmb_reassemble_fragments al k frags tot =
    (if unat tot > 4 * 1024 * 1024 \<or> length frags > 4096 then Err IPMB_ERR_LIMIT
     else if \<not> al k then Err IPMB_ERR_ALLOC
     else case find (\<lambda>f. \<not> (frag_wf f \<and> frag_fits tot f)) frags of
       None \<Rightarrow> Ok (map Some (fold (\<lambda>f out. overlay out f) frags
                    (replicate (max 1 (unat tot)) 0)), unat tot)
     | Some f \<Rightarrow> frag_stops tot f)"
proof -
  let ?z = "replicate (max 1 (unat tot)) (0 :: byte)"
  have z: "calloc_cells 0 (if tot = 0 then 1 else unat tot) = map Some ?z"
    by (cases "tot = 0") (simp_all add: calloc_cells_def max_def Suc_le_eq unat_gt_0)
  have "unat tot \<le> length ?z" "length ?z \<le> max 1 (unat tot)" by simp_all
  note loop = reassemble_loop_outcome [OF this]
  show ?thesis
    unfolding ipmb_reassemble_fragments_def z loop
    by (simp add: alloc_def frag_stops_def split: option.split)
qed

section \<open>Fragments of one message\<close>

text \<open>A slice of \<open>msg\<close>, as the pair of its offset and its bytes.\<close>

definition is_slice :: "byte list \<Rightarrow> nat \<times> byte list \<Rightarrow> bool" where
  "is_slice msg s \<longleftrightarrow> fst s + length (snd s) \<le> length msg \<and>
     snd s = take (length (snd s)) (drop (fst s) msg)"

definition in_slice :: "nat \<Rightarrow> nat \<times> byte list \<Rightarrow> bool" where
  "in_slice j s \<longleftrightarrow> fst s \<le> j \<and> j < fst s + length (snd s)"

definition slice_image :: "nat \<times> byte list \<Rightarrow> byte list" where
  "slice_image s = le32_bytes (of_nat (fst s)) @ le32_bytes (of_nat (length (snd s))) @ snd s"

definition fragment_payload :: "nat \<Rightarrow> (nat \<times> byte list) list \<Rightarrow> byte list" where
  "fragment_payload tot ss = ascii ''IFRG'' @ le32_bytes (of_nat tot) @
     le16_bytes (of_nat (length ss)) @ concat (map slice_image ss)"

definition frag_of :: "nat \<times> byte list \<Rightarrow> byte list \<Rightarrow> ipmb_fragment" where
  "frag_of s rest = \<lparr>frag_offset = of_nat (fst s), frag_length = of_nat (length (snd s)),
     frag_data = snd s @ rest\<rparr>"

lemma overlay_slices:
  assumes "list_all (is_slice msg) ss" "length msg < 2 ^ 32" "length out = length msg"
    and "list_all2 (\<lambda>f s. \<exists>rest. f = frag_of s rest) fs ss"
  shows "length (fold (\<lambda>f out. overlay out f) fs out) = length msg \<and>
    (\<forall>j < length msg. fold (\<lambda>f out. overlay out f) fs out ! j =
       (if \<exists>s \<in> set ss. in_slice j s then msg ! j else out ! j))"
  using assms(4, 1, 3)
proof (induction fs ss arbitrary: out rule: list_all2_induct)
  case (Cons f fs s ss)
  then obtain rest where f: "f = frag_of s rest" by blast
  from Cons.prems have s: "fst s + length (snd s) \<le> length msg" "snd s = take (length (snd s)) (drop (fst s) msg)"
    by (auto simp: is_slice_def)
  with assms(2) have u: "unat (frag_offset f) = fst s" "unat (frag_length f) = length (snd s)"
    by (simp_all add: f frag_of_def)
  have wf: "frag_wf f" using u by (simp add: frag_wf_def f frag_of_def)
  let ?out = "overlay out f"
  have len: "length ?out = length msg"
    using s Cons.prems(2) u by (simp add: length_overlay [OF wf])
  have byte: "snd s ! (j - fst s) = msg ! j" if "in_slice j s" for j
  proof -
    have "(take (length (snd s)) (drop (fst s) msg)) ! (j - fst s) = msg ! j"
    proof -
      have "j - fst s < length (snd s)" "fst s + (j - fst s) = j" "fst s \<le> length msg"
        using that s(1) by (auto simp: in_slice_def)
      then show ?thesis by simp
    qed
    with s(2) show ?thesis by simp
  qed
  have nth: "?out ! j = (if in_slice j s then msg ! j else out ! j)" if "j < length msg" for j
    using that s Cons.prems(2) u byte [of j]
    by (subst nth_overlay [OF wf]) (auto simp: in_slice_def f frag_of_def nth_append)
  from Cons.IH [of ?out] Cons.prems len nth show ?case
    by auto
qed simp

lemma parse_fragments_image:
  assumes "list_all (\<lambda>s. fst s < 2 ^ 32 \<and> length (snd s) < 2 ^ 32) ss" "drop pos payload = concat (map slice_image ss) @ z"
    and "pos \<le> length payload"
  shows "\<exists>fs. parse_fragments payload pos (length ss) = Ok fs \<and>
    list_all2 (\<lambda>f s. \<exists>rest. f = frag_of s rest) fs ss"
  using assms
proof (induction ss arbitrary: pos)
  case (Cons s ss)
  let ?n = "length (snd s)"
  have d: "drop pos payload = le32_bytes (of_nat (fst s)) @ le32_bytes (of_nat ?n) @ snd s @
      concat (map slice_image ss) @ z"
    using Cons.prems(2) by (simp add: slice_image_def [of s])
  have len: "length payload = pos + 8 + ?n + length (concat (map slice_image ss)) + length z"
    using arg_cong [OF d, of length] Cons.prems(3) by simp
  have d4: "drop (pos + 4) payload = le32_bytes (of_nat ?n) @ snd s @ concat (map slice_image ss) @ z"
    using arg_cong [OF d, of "drop 4"] by (simp add: add.commute)
  have d8: "drop (pos + 8) payload = snd s @ concat (map slice_image ss) @ z"
    using arg_cong [OF d, of "drop 8"] by (simp add: add.commute)
  have dn: "drop (pos + 8 + ?n) payload = concat (map slice_image ss) @ z"
    using arg_cong [OF d8, of "drop ?n"] by (simp add: add.commute)
  have "ipmb_load_le32 payload pos = (Ok (of_nat (fst s)) :: (ipmb_status, _) res)"
      "ipmb_load_le32 payload (pos + 4) = (Ok (of_nat ?n) :: (ipmb_status, _) res)"
    using len d d4 by simp_all
  note loads = this
  obtain fs where fs: "parse_fragments payload (pos + 8 + ?n) (length ss) = Ok fs"
      "list_all2 (\<lambda>f s. \<exists>rest. f = frag_of s rest) fs ss"
    using Cons.IH [OF _ dn] Cons.prems(1) len by auto
  have n: "unat (of_nat ?n :: 32 word) = ?n" using Cons.prems(1) by simp
  have "parse_fragments payload pos (length (s # ss)) = Ok (frag_of s (concat (map slice_image ss) @ z) # fs)"
    unfolding list.size add_Suc_right add_0_right parse_fragments.simps loads rbind.simps n fs(1)
    using len by (simp add: usub_def guard_def frag_of_def d8)
  with fs(2) show ?case by auto
qed simp

text \<open>Fragments that carry slices of a message are well formed and inside it, and rebuild it.\<close>

lemma slices_fit:
  assumes "list_all (is_slice msg) ss" "length msg \<le> 4 * 1024 * 1024"
    and "list_all2 (\<lambda>f s. \<exists>rest. f = frag_of s rest) fs ss"
  shows "find (\<lambda>f. \<not> (frag_wf f \<and> frag_fits (of_nat (length msg)) f)) fs = None"
proof -
  have "unat (of_nat (length msg) :: 32 word) = length msg" using assms(2) by simp
  moreover have "\<exists>s rest. s \<in> set ss \<and> f = frag_of s rest" if "f \<in> set fs" for f
    using that list_all2_nthD [OF assms(3)] list_all2_lengthD [OF assms(3)] by (metis in_set_conv_nth nth_mem)
  ultimately have "frag_wf f \<and> frag_fits (of_nat (length msg)) f" if "f \<in> set fs" for f
    using that assms(1,2) by (fastforce simp: list_all_iff is_slice_def frag_wf_def frag_fits_def frag_of_def)
  then show ?thesis
    by (auto simp: find_None_iff)
qed

lemma reassemble_slices:
  assumes "list_all (is_slice msg) ss" "\<forall>j < length msg. \<exists>s \<in> set ss. in_slice j s"
    and "msg \<noteq> []" "length msg \<le> 4 * 1024 * 1024" "length ss \<le> 4096" "al k"
    and "list_all2 (\<lambda>f s. \<exists>rest. f = frag_of s rest) fs ss"
  shows "ipmb_reassemble_fragments al k fs (of_nat (length msg)) = Ok (map Some msg, length msg)"
proof -
  let ?tot = "of_nat (length msg) :: 32 word" and ?z = "replicate (length msg) (0 :: byte)"
  have tot: "unat ?tot = length msg" using assms(4) by simp
  have one: "max 1 (length msg) = length msg" using assms(3) by (cases msg) simp_all
  have "length fs = length ss" using assms(7) by (rule list_all2_lengthD)
  then have "ipmb_reassemble_fragments al k fs ?tot = Ok (map Some (fold (\<lambda>f out. overlay out f) fs ?z), length msg)"
    unfolding reassemble_cases slices_fit [OF assms(1,4,7)] tot one using assms(4,5,6) by simp
  moreover have "fold (\<lambda>f out. overlay out f) fs ?z = msg"
  proof (rule nth_equalityI)
    have "length msg < 2 ^ 32" "length ?z = length msg" using assms(4) by simp_all
    note o = overlay_slices [OF assms(1) this assms(7)]
    show len: "length (fold (\<lambda>f out. overlay out f) fs ?z) = length msg" using o by (rule conjunct1)
    fix j assume "j < length (fold (\<lambda>f out. overlay out f) fs ?z)"
    with len have j: "j < length msg" by simp
    with o assms(2) show "fold (\<lambda>f out. overlay out f) fs ?z ! j = msg ! j" by presburger
  qed
  ultimately show ?thesis by simp
qed

lemma parse_slices:
  assumes "list_all (is_slice msg) ss" "\<forall>j < length msg. \<exists>s \<in> set ss. in_slice j s"
    and "msg \<noteq> []" "length msg \<le> 4 * 1024 * 1024" "length ss \<le> 4096" "al 0" "al 1"
  shows "ipmb_parse_fragment_payload al (fragment_payload (length msg) ss @ z) = Ok (map Some msg, length msg)"
proof -
  let ?p = "fragment_payload (length msg) ss @ z"
  let ?tot = "of_nat (length msg) :: 32 word" and ?count = "of_nat (length ss) :: 16 word"
  have count: "unat ?count = length ss" using assms(5) by simp
  have small: "list_all (\<lambda>s. fst s < 2 ^ 32 \<and> length (snd s) < 2 ^ 32) ss"
    using assms(1, 4) by (auto simp: list_all_iff is_slice_def)
  have len: "10 \<le> length ?p" by (simp add: fragment_payload_def)
  have d: "take 4 ?p = ascii ''IFRG''" "take 4 (drop 4 ?p) = le32_bytes ?tot" "take 2 (drop 8 ?p) = le16_bytes ?count"
      "drop 10 ?p = concat (map slice_image ss) @ z"
    by (simp_all add: fragment_payload_def)
  have loads: "ipmb_load_le32 ?p 4 = (Ok ?tot :: (ipmb_status, _) res)"
      "ipmb_load_le16 ?p 8 = (Ok ?count :: (ipmb_status, _) res)"
      "has_magic ?p ''IFRG'' = (Ok True :: (ipmb_status, _) res)"
    using len d by simp_all
  obtain fs where fs: "parse_fragments ?p 10 (length ss) = Ok fs"
      "list_all2 (\<lambda>f s. \<exists>rest. f = frag_of s rest) fs ss"
    using parse_fragments_image [OF small d(4) len] by blast
  have "\<not> length ?p < 10" using len by simp
  with reassemble_slices [where al = al and k = 1, OF assms(1-5,7) fs(2)] show ?thesis
    unfolding ipmb_parse_fragment_payload_def loads rbind.simps count fs(1)
    using assms(6) by simp
qed

section \<open>Properties\<close>

text \<open>C18: every outcome of \<^verbatim>\<open>ipmb_reassemble_fragments\<close>, for all fragments, sizes and allocators.  A total
  over 4 MiB or more than 4096 fragments are refused as \<^verbatim>\<open>IPMB_ERR_LIMIT\<close>, then a failed
  allocation is reported; otherwise, when every fragment has its data and fits, the result is the
  zeroed buffer overlaid with the fragments in their order.  The first fragment that does
  not decides: it is refused unless its offset and length overflow 32 bits far enough to pass
  the check, when the copy reads behind its data or writes outside the buffer.\<close>

theorem reassemble_outcome:
  "ipmb_reassemble_fragments al k frags tot =
    (if unat tot > 4 * 1024 * 1024 \<or> length frags > 4096 then Err IPMB_ERR_LIMIT
     else if \<not> al k then Err IPMB_ERR_ALLOC
     else case find (\<lambda>f. \<not> (frag_wf f \<and> frag_fits tot f)) frags of
       None \<Rightarrow> Ok (map Some (fold (\<lambda>f out. overlay out f) frags
                    (replicate (max 1 (unat tot)) 0)), unat tot)
     | Some f \<Rightarrow>
         if \<not> frag_offset f + frag_length f \<le> tot then Err IPMB_ERR_INVALID
         else if \<not> frag_wf f then Fault Oob_read else Fault Oob_write)"
  unfolding reassemble_cases frag_stops_def ..

text \<open>Two fragments, one of them at an offset that passes the check by wrapping around.\<close>

theorem reassemble_outcome_witness:
  "ipmb_reassemble_fragments (\<lambda>_. True) 0
     [\<lparr>frag_offset = 1, frag_length = 1, frag_data = [5]\<rparr>,
      \<lparr>frag_offset = 0xffffffff, frag_length = 2, frag_data = [1, 2]\<rparr>] 4 = Fault Oob_write"
  unfolding reassemble_outcome
  by (simp add: frag_wf_def frag_fits_def)

text \<open>C17: fragments cut from one message rebuild it, in any order and with any overlap, as soon as
  they cover it: parsing the fragment payload returns exactly the message.\<close>

theorem fragments_rebuild_message:
  assumes "list_all (is_slice msg) ss" "\<forall>j < length msg. \<exists>s \<in> set ss. in_slice j s"
    and "msg \<noteq> []" "length msg \<le> 4 * 1024 * 1024" "length ss \<le> 4096" "al 0" "al 1"
  shows "ipmb_parse_fragment_payload al (fragment_payload (length msg) ss @ z) = Ok (map Some msg, length msg)"
  using assms by (rule parse_slices)

theorem fragments_rebuild_message_witness:
  "ipmb_parse_fragment_payload (\<lambda>_. True) (fragment_payload 4 [(2, [12, 13]), (0, [10, 11, 12])] @ [])
     = Ok (map Some [10, 11, 12, 13], 4)"
proof -
  have cover: "\<forall>j < length [10, 11, 12, 13 :: byte]. \<exists>s \<in> set [(2, [12, 13 :: byte]), (0, [10, 11, 12])]. in_slice j s"
    by (auto simp: in_slice_def)
  have four: "length [10, 11, 12, 13 :: byte] = 4" by simp
  show ?thesis
    using fragments_rebuild_message [OF _ cover, of "\<lambda>_. True" "[]"]
    unfolding four by (simp add: is_slice_def)
qed

end
