(* ===== verification/Rule_Lexer.thy ===== *)
theory Rule_Lexer
  imports C_Memory
begin

text \<open>
  C strings, the rule lexer of \<^verbatim>\<open>src/routing/rule_lexer.c\<close>, and the conversions of the C library
  the rule language uses: \<^verbatim>\<open>isspace\<close>, \<^verbatim>\<open>strncpy\<close>, \<^verbatim>\<open>strtol\<close> with base 0 and the \<^verbatim>\<open>%d\<close> of
  \<^verbatim>\<open>snprintf\<close>.  A C string is the list of its characters before the terminating zero.  The lexer
  works in memory: it reads its text by position and writes its tokens into rows of characters.
  \<open>rule_tokens\<close> says what the tokens of a text are; the main lemma is that the lexer never leaves
  its buffers and that its rows hold these tokens.
\<close>

section \<open>The C library\<close>

definition c_string :: "string \<Rightarrow> string" where
  "c_string s = takeWhile (\<lambda>c. c \<noteq> CHR 0x00) s"

text \<open>The string in an array of characters, for a call that takes a string.\<close>

fun read_cstring :: "char cells \<Rightarrow> ('e, string) res" where
  "read_cstring [] = Fault Oob_read"
| "read_cstring (None # cs) = Fault Uninit_read"
| "read_cstring (Some c # cs) =
     (if c = CHR 0x00 then Ok [] else rbind (read_cstring cs) (\<lambda>s. Ok (c # s)))"

text \<open>\<^verbatim>\<open>strncpy(dst, src, n)\<close> reads up to \<open>n\<close> characters and fills with zeroes.\<close>

fun strncpy_chars :: "nat \<Rightarrow> char cells \<Rightarrow> ('e, string) res" where
  "strncpy_chars 0 cs = Ok []"
| "strncpy_chars (Suc n) [] = Fault Oob_read"
| "strncpy_chars (Suc n) (None # cs) = Fault Uninit_read"
| "strncpy_chars (Suc n) (Some c # cs) =
     (if c = CHR 0x00 then Ok (replicate (Suc n) (CHR 0x00))
      else rbind (strncpy_chars n cs) (\<lambda>s. Ok (c # s)))"

definition strncpy :: "char cells \<Rightarrow> char cells \<Rightarrow> nat \<Rightarrow> ('e, char cells) res" where
  "strncpy dst src n = rbind (strncpy_chars n src) (\<lambda>s. store_cells dst 0 s)"

definition isspace :: "char \<Rightarrow> bool" where
  "isspace c \<longleftrightarrow> (of_char c :: nat) = 32 \<or> (9 \<le> (of_char c :: nat) \<and> (of_char c :: nat) \<le> 13)"

text \<open>The value of a character as a digit; 36 for no digit of any base.\<close>

definition digit_value :: "char \<Rightarrow> nat" where
  "digit_value c =
     (let n = of_char c in
      if 48 \<le> n \<and> n \<le> 57 then n - 48
      else if 97 \<le> n \<and> n \<le> 122 then n - 87
      else if 65 \<le> n \<and> n \<le> 90 then n - 55
      else 36)"

definition number_value :: "nat \<Rightarrow> string \<Rightarrow> nat" where
  "number_value base ds = foldl (\<lambda>acc c. acc * base + digit_value c) 0 ds"

definition digits_of :: "nat \<Rightarrow> string \<Rightarrow> string" where
  "digits_of base s = takeWhile (\<lambda>c. digit_value c < base) s"

text \<open>The unsigned part of a number whose base its prefix tells: \<^verbatim>\<open>0x\<close> for 16 (when a digit
  follows), \<^verbatim>\<open>0\<close> for 8, and 10 otherwise.\<close>

definition strtol_magnitude :: "string \<Rightarrow> nat" where
  "strtol_magnitude s =
     (if length s \<ge> 3 \<and> s ! 0 = CHR ''0'' \<and> (s ! 1 = CHR ''x'' \<or> s ! 1 = CHR ''X'')
         \<and> digit_value (s ! 2) < 16
      then number_value 16 (digits_of 16 (drop 2 s))
      else if s \<noteq> [] \<and> s ! 0 = CHR ''0'' then number_value 8 (digits_of 8 s)
      else number_value 10 (digits_of 10 s))"

definition clamp_long :: "int \<Rightarrow> int" where
  "clamp_long x = max (- (2 ^ 63)) (min (2 ^ 63 - 1) x)"

definition strtol :: "string \<Rightarrow> int" where
  "strtol s =
     (let s = dropWhile isspace s in
      if s \<noteq> [] \<and> s ! 0 = CHR ''-'' then clamp_long (- int (strtol_magnitude (tl s)))
      else if s \<noteq> [] \<and> s ! 0 = CHR ''+'' then clamp_long (int (strtol_magnitude (tl s)))
      else clamp_long (int (strtol_magnitude s)))"

text \<open>The string in a zeroed array of 32 after \<^verbatim>\<open>strncpy(dst, src, 31)\<close> of a string.\<close>

definition strncpy31 :: "string \<Rightarrow> string" where
  "strncpy31 s = take 31 s"

text \<open>\<^verbatim>\<open>%d\<close>.\<close>

definition digit_char :: "nat \<Rightarrow> char" where
  "digit_char n = char_of (48 + n)"

fun dec_digits :: "nat \<Rightarrow> string" where
  "dec_digits n = (if n < 10 then [digit_char n] else dec_digits (n div 10) @ [digit_char (n mod 10)])"

declare dec_digits.simps [simp del]

definition format_d :: "int \<Rightarrow> string" where
  "format_d x = (if x < 0 then CHR ''-'' # dec_digits (nat (- x)) else dec_digits (nat x))"

section \<open>The lexer\<close>

text \<open>\<open>p\<close> is the text with its terminating zero, \<open>i\<close> the position of the code's \<^verbatim>\<open>p\<close> in it, and
  \<open>tokens\<close> an array of rows.\<close>

function skip_space :: "string \<Rightarrow> nat \<Rightarrow> ('e, nat) res" where
  "skip_space p i = rbind (rd8 p i) (\<lambda>c.
     if c \<noteq> CHR 0x00 \<and> isspace c then skip_space p (i + 1) else Ok i)"
  by pat_completeness auto
termination by (relation "measure (\<lambda>(p, i). length p - i)") auto

function skip_token :: "string \<Rightarrow> nat \<Rightarrow> ('e, nat) res" where
  "skip_token p i = rbind (rd8 p i) (\<lambda>c.
     if c \<noteq> CHR 0x00 \<and> \<not> isspace c then skip_token p (i + 1) else Ok i)"
  by pat_completeness auto
termination by (relation "measure (\<lambda>(p, i). length p - i)") auto

function token_length :: "string \<Rightarrow> nat \<Rightarrow> nat \<Rightarrow> ('e, nat) res" where
  "token_length p i n = rbind (rd8 p (i + n)) (\<lambda>c.
     if c \<noteq> CHR 0x00 \<and> \<not> isspace c \<and> n < 31 then token_length p i (n + 1) else Ok n)"
  by pat_completeness auto
termination by (relation "measure (\<lambda>(p, i, n). length p - (i + n))") auto

declare skip_space.simps [simp del] skip_token.simps [simp del] token_length.simps [simp del]

definition write_row :: "char cells list \<Rightarrow> nat \<Rightarrow> nat \<Rightarrow> string \<Rightarrow> ('e, char cells list) res" where
  "write_row tokens k n xs =
     (if k < length tokens
      then rbind (store_cells (tokens ! k) n xs) (\<lambda>row. Ok (tokens[k := row]))
      else Fault Oob_write)"

function lex_loop ::
  "string \<Rightarrow> nat \<Rightarrow> char cells list \<Rightarrow> nat \<Rightarrow> nat \<Rightarrow> ('e, char cells list \<times> nat) res" where
  "lex_loop p max_tokens tokens count i =
     rbind (rd8 p i) (\<lambda>c.
       if c \<noteq> CHR 0x00 \<and> count < max_tokens then
         rbind (skip_space p i) (\<lambda>i.
         rbind (rd8 p i) (\<lambda>c.
           if c = CHR 0x00 then Ok (tokens, count)
           else
             rbind (token_length p i 0) (\<lambda>n.
             rbind (rd_bytes p i n) (\<lambda>bytes.
             rbind (write_row tokens count 0 bytes) (\<lambda>tokens.
             rbind (write_row tokens count n [CHR 0x00]) (\<lambda>tokens.
             rbind (skip_token p i) (\<lambda>i.
               lex_loop p max_tokens tokens (count + 1) i)))))))
       else Ok (tokens, count))"
  by pat_completeness auto
termination by (relation "measure (\<lambda>(_, max_tokens, _, count, _). max_tokens - count)") auto

declare lex_loop.simps [simp del]

definition ipmb_rule_lex :: "string \<Rightarrow> char cells list \<Rightarrow> nat \<Rightarrow> ('e, char cells list \<times> nat) res" where
  "ipmb_rule_lex text tokens max_tokens = lex_loop (text @ [CHR 0x00]) max_tokens tokens 0 0"

section \<open>The tokens of a text\<close>

text \<open>What the lexer computes: the words between the blanks, cut to 31 characters, as many as there
  are rows.\<close>

function token_list :: "string \<Rightarrow> nat \<Rightarrow> string list" where
  "token_list p room =
     (if p \<noteq> [] \<and> 0 < room then
        let p = dropWhile isspace p in
        if p = [] then []
        else take 31 (takeWhile (\<lambda>c. \<not> isspace c) p) #
             token_list (dropWhile (\<lambda>c. \<not> isspace c) p) (room - 1)
      else [])"
  by pat_completeness auto
termination
  by (relation "measure snd") auto

declare token_list.simps [simp del]

definition rule_tokens :: "string \<Rightarrow> nat \<Rightarrow> string list" where
  "rule_tokens text max_tokens = token_list (c_string text) max_tokens"

section \<open>Tokens\<close>

text \<open>What a token can be, and the text that separates tokens by single blanks.\<close>

definition is_token :: "string \<Rightarrow> bool" where
  "is_token s \<longleftrightarrow> s \<noteq> [] \<and> length s \<le> 31 \<and> list_all (\<lambda>c. \<not> isspace c \<and> c \<noteq> CHR 0x00) s"

fun join_tokens :: "string list \<Rightarrow> string" where
  "join_tokens [] = []"
| "join_tokens [t] = t"
| "join_tokens (t # u # ts) = t @ CHR '' '' # join_tokens (u # ts)"

lemma isspace_blank [simp]: "isspace (CHR '' '')"
  by (simp add: isspace_def)

lemma join_tokens_Cons: "ts \<noteq> [] \<Longrightarrow> join_tokens (t # ts) = t @ CHR '' '' # join_tokens ts"
  by (cases ts) auto

lemma c_string_id: "list_all (\<lambda>c. c \<noteq> CHR 0x00) s \<Longrightarrow> c_string s = s"
  by (auto simp: c_string_def list_all_iff takeWhile_eq_all_conv)

lemma join_tokens_no_nul:
  "list_all is_token ts \<Longrightarrow> list_all (\<lambda>c. c \<noteq> CHR 0x00) (join_tokens ts)"
  by (induction ts rule: join_tokens.induct) (auto simp: is_token_def list_all_iff)

lemma token_list_token:
  assumes "is_token t" "rest = [] \<or> isspace (hd rest)" "0 < room"
  shows "token_list (t @ rest) room = t # token_list rest (room - 1)"
proof -
  from assms(1) have t: "t \<noteq> []" "length t \<le> 31" "\<forall>c \<in> set t. \<not> isspace c"
    by (auto simp: is_token_def list_all_iff)
  have dw: "dropWhile isspace (t @ rest) = t @ rest"
    using t by (cases t) auto
  have tw: "takeWhile (\<lambda>c. \<not> isspace c) (t @ rest) = t"
    using t(3) assms(2) by (cases rest) (auto simp: takeWhile_append)
  have dr: "dropWhile (\<lambda>c. \<not> isspace c) (t @ rest) = rest"
    using t(3) assms(2) by (cases rest) (auto simp: dropWhile_append)
  show ?thesis
    using t assms(3) by (subst token_list.simps) (simp add: dw tw dr Let_def)
qed

lemma token_list_blank: "token_list (CHR '' '' # s) room = (if s = [] then [] else token_list s room)"
proof (cases "s = [] \<or> room = 0")
  case True
  then show ?thesis by (auto simp: token_list.simps [of "CHR '' '' # s"] token_list.simps [of s])
next
  case False
  then show ?thesis by (simp add: token_list.simps [of "CHR '' '' # s"] token_list.simps [of s])
qed

lemma token_list_join:
  "list_all is_token ts \<Longrightarrow> token_list (join_tokens ts) room = take room ts"
proof (induction ts arbitrary: room rule: join_tokens.induct)
  case 1
  then show ?case by (simp add: token_list.simps)
next
  case (2 t)
  then show ?case
    using token_list_token [of t "[]" room] by (cases room) (auto simp: token_list.simps)
next
  case (3 t u ts)
  show ?case
  proof (cases room)
    case 0
    then show ?thesis by (simp add: token_list.simps)
  next
    case (Suc n)
    have "join_tokens (u # ts) \<noteq> []"
      using "3.prems" by (cases ts) (auto simp: is_token_def)
    then show ?thesis
      using 3 Suc token_list_token [of t "CHR '' '' # join_tokens (u # ts)" room]
      by (simp add: token_list_blank)
  qed
qed

lemma lex_join: "list_all is_token ts \<Longrightarrow> rule_tokens (join_tokens ts) n = take n ts"
  by (simp add: rule_tokens_def c_string_id join_tokens_no_nul token_list_join)

declare join_tokens.simps [simp del]

text \<open>Every row the lexer fills holds a token, and it fills no more rows than there are.\<close>

lemma token_list_tokens:
  "list_all (\<lambda>c. c \<noteq> CHR 0x00) p \<Longrightarrow> list_all is_token (token_list p room) \<and> length (token_list p room) \<le> room"
proof (induction p room rule: token_list.induct)
  case (1 p room)
  show ?case
  proof (cases "p \<noteq> [] \<and> 0 < room \<and> dropWhile isspace p \<noteq> []")
    case False
    then show ?thesis by (subst (1 2) token_list.simps) (auto simp: Let_def)
  next
    case True
    let ?q = "dropWhile isspace p"
    let ?r = "dropWhile (\<lambda>c. \<not> isspace c) ?q"
    have hd: "\<not> isspace (hd ?q)" using True hd_dropWhile by blast
    have q: "list_all (\<lambda>c. c \<noteq> CHR 0x00) ?q" "list_all (\<lambda>c. c \<noteq> CHR 0x00) ?r"
      using "1.prems" by (auto simp: list_all_iff dest!: set_dropWhileD)
    have "is_token (take 31 (takeWhile (\<lambda>c. \<not> isspace c) ?q))"
      using True hd q(1)
      by (cases ?q) (auto simp: is_token_def list_all_iff dest!: in_set_takeD set_takeWhileD)
    moreover have "list_all is_token (token_list ?r (room - 1)) \<and> length (token_list ?r (room - 1)) \<le> room - 1"
      using True q(2) by (intro "1.IH") auto
    moreover have "token_list p room = take 31 (takeWhile (\<lambda>c. \<not> isspace c) ?q) # token_list ?r (room - 1)"
      using True by (subst token_list.simps) (simp add: Let_def)
    ultimately show ?thesis using True by auto
  qed
qed

section \<open>The lexer in its buffers\<close>

text \<open>The memory from position \<open>i\<close> on holds a string.\<close>

definition string_at :: "string \<Rightarrow> nat \<Rightarrow> bool" where
  "string_at p i \<longleftrightarrow> CHR 0x00 \<in> set (drop i p)"

lemma string_at_in: "string_at p i \<Longrightarrow> i < length p"
  by (auto simp: string_at_def intro: ccontr)

lemma string_at_next: "string_at p i \<Longrightarrow> p ! i \<noteq> CHR 0x00 \<Longrightarrow> string_at p (i + 1)"
  using string_at_in [of p i] by (auto simp: string_at_def Cons_nth_drop_Suc [symmetric])

lemma c_string_at:
  "string_at p i \<Longrightarrow>
   c_string (drop i p) = (if p ! i = CHR 0x00 then [] else p ! i # c_string (drop (i + 1) p))"
  using string_at_in [of p i] by (simp add: c_string_def Cons_nth_drop_Suc [symmetric])

lemma skip_space_run:
  "string_at p i \<Longrightarrow> \<exists>j. skip_space p i = Ok j \<and> string_at p j \<and>
     c_string (drop j p) = dropWhile isspace (c_string (drop i p))"
proof (induction "length p - i" arbitrary: i rule: less_induct)
  case less
  note i = string_at_in [OF less.prems]
  show ?case
  proof (cases "p ! i \<noteq> CHR 0x00 \<and> isspace (p ! i)")
    case True
    with less.hyps [of "i + 1"] i string_at_next [OF less.prems] show ?thesis
      unfolding skip_space.simps [of p i] by (simp add: rd8_def c_string_at [OF less.prems])
  next
    case False
    with i less.prems show ?thesis
      unfolding skip_space.simps [of p i] by (auto simp: rd8_def c_string_at [OF less.prems])
  qed
qed

lemma skip_token_run:
  "string_at p i \<Longrightarrow> \<exists>j. skip_token p i = Ok j \<and> string_at p j \<and>
     c_string (drop j p) = dropWhile (\<lambda>c. \<not> isspace c) (c_string (drop i p))"
proof (induction "length p - i" arbitrary: i rule: less_induct)
  case less
  note i = string_at_in [OF less.prems]
  show ?case
  proof (cases "p ! i \<noteq> CHR 0x00 \<and> \<not> isspace (p ! i)")
    case True
    with less.hyps [of "i + 1"] i string_at_next [OF less.prems] show ?thesis
      unfolding skip_token.simps [of p i] by (simp add: rd8_def c_string_at [OF less.prems])
  next
    case False
    with i less.prems show ?thesis
      unfolding skip_token.simps [of p i] by (auto simp: rd8_def c_string_at [OF less.prems])
  qed
qed

lemma token_length_run:
  "string_at p (i + n) \<Longrightarrow> n \<le> 31 \<Longrightarrow>
   token_length p i n =
     Ok (n + length (take (31 - n) (takeWhile (\<lambda>c. \<not> isspace c) (c_string (drop (i + n) p)))))"
proof (induction "31 - n" arbitrary: n)
  case 0
  then show ?case
    using string_at_in [of p "i + n"] by (subst token_length.simps) (simp add: rd8_def)
next
  case (Suc m)
  note i = string_at_in [OF Suc.prems(1)]
  have n: "n < 31" "31 - n = Suc (31 - Suc n)" using Suc.hyps(2) by simp_all
  show ?case
  proof (cases "p ! (i + n) \<noteq> CHR 0x00 \<and> \<not> isspace (p ! (i + n))")
    case True
    with Suc.hyps i n string_at_next [OF Suc.prems(1)] show ?thesis
      unfolding token_length.simps [of p i n] n(2) by (simp add: rd8_def c_string_at [OF Suc.prems(1)])
  next
    case False
    with i show ?thesis
      unfolding token_length.simps [of p i n] by (auto simp: rd8_def c_string_at [OF Suc.prems(1)])
  qed
qed

text \<open>A row that holds a string.\<close>

definition row_holds :: "char cells \<Rightarrow> string \<Rightarrow> bool" where
  "row_holds row s \<longleftrightarrow> length row = 32 \<and> (\<exists>rest. row = map Some s @ Some (CHR 0x00) # rest)"

lemma read_token:
  assumes "j \<le> length p"
  shows "rd_bytes p j (length (take k (takeWhile P (c_string (drop j p))))) =
    Ok (take k (takeWhile P (c_string (drop j p))))"
proof -
  have "prefix (take k (takeWhile P (c_string (drop j p)))) (drop j p)"
    unfolding c_string_def
    by (meson prefix_order.trans take_is_prefix takeWhile_is_prefix)
  with assms show ?thesis unfolding prefix_eq_take rd_bytes_def by auto
qed

lemma write_token:
  assumes "count < length tokens" "length (tokens ! count) = 32" "length w \<le> 31"
  shows "\<exists>row. rbind (write_row tokens count 0 w) (\<lambda>tokens. write_row tokens count (length w) [CHR 0x00]) =
      Ok (tokens[count := row]) \<and> row_holds row w"
  using assms
  by (auto simp: write_row_def store_cells_def row_holds_def)

lemma lex_loop_rows:
  assumes "string_at p i" "max_tokens \<le> length tokens" "\<forall>row \<in> set tokens. length row = 32" "count \<le> max_tokens"
  shows "\<exists>tokens'. (lex_loop p max_tokens tokens count i :: ('e, char cells list \<times> nat) res) =
      Ok (tokens', count + length (token_list (c_string (drop i p)) (max_tokens - count))) \<and>
    length tokens' = length tokens \<and> (\<forall>k < count. tokens' ! k = tokens ! k) \<and>
    (\<forall>k < length (token_list (c_string (drop i p)) (max_tokens - count)).
       row_holds (tokens' ! (count + k)) (token_list (c_string (drop i p)) (max_tokens - count) ! k))"
  using assms
proof (induction "max_tokens - count" arbitrary: tokens count i)
  case 0
  then show ?case
    using string_at_in [of p i]
    by (subst lex_loop.simps) (simp add: rd8_def token_list.simps)
next
  case (Suc m)
  note i = string_at_in [OF Suc.prems(1)]
  have room: "count < max_tokens" "max_tokens - count = Suc m" "m = max_tokens - (count + 1)"
    using Suc.hyps(2) by simp_all
  obtain j where j: "(skip_space p i :: ('e, nat) res) = Ok j" "string_at p j"
      "c_string (drop j p) = dropWhile isspace (c_string (drop i p))"
    using skip_space_run [OF Suc.prems(1)] by blast
  note j_in = string_at_in [OF j(2)]
  let ?q = "c_string (drop j p)"
  show ?case
  proof (cases "p ! i \<noteq> CHR 0x00 \<and> p ! j \<noteq> CHR 0x00")
    case False
    then have "token_list (c_string (drop i p)) (max_tokens - count) = []"
      using c_string_at [OF Suc.prems(1)] c_string_at [OF j(2)] j(3)
      by (subst token_list.simps) auto
    with False i j_in j(1) show ?thesis by (subst lex_loop.simps) (auto simp: rd8_def)
  next
    case True
    define w where "w = take 31 (takeWhile (\<lambda>c. \<not> isspace c) ?q)"
    obtain k where k: "(skip_token p j :: ('e, nat) res) = Ok k" "string_at p k"
        "c_string (drop k p) = dropWhile (\<lambda>c. \<not> isspace c) ?q"
      using skip_token_run [OF j(2)] by blast
    have nth: "count < length tokens" "length (tokens ! count) = 32"
      using room(1) Suc.prems(2,3) by (auto simp: all_set_conv_all_nth)
    obtain row where row: "(rbind (write_row tokens count 0 w) (\<lambda>tokens.
          write_row tokens count (length w) [CHR 0x00]) :: ('e, char cells list) res) = Ok (tokens[count := row])"
        "row_holds row w"
      using write_token [OF nth, of w] by (auto simp: w_def)
    let ?tokens = "tokens[count := row]"
    have rows: "\<forall>row \<in> set ?tokens. length row = 32"
      using Suc.prems(3) row(2) by (auto simp: row_holds_def dest!: set_update_subset_insert [THEN subsetD])
    have len: "(token_length p j 0 :: ('e, nat) res) = Ok (length w)"
      using token_length_run [of p j 0] j(2) by (simp add: w_def)
    have rd: "(rd_bytes p j (length w) :: ('e, string) res) = Ok w"
      unfolding w_def by (rule read_token) (use j_in in simp)
    have step: "(lex_loop p max_tokens tokens count i :: ('e, char cells list \<times> nat) res) =
        lex_loop p max_tokens ?tokens (count + 1) k"
    proof -
      from row(1) obtain t where "write_row tokens count 0 w = (Ok t :: ('e, char cells list) res)"
          "write_row t count (length w) [CHR 0x00] = (Ok ?tokens :: ('e, char cells list) res)"
        by auto
      with True i j_in room(1) j(1) k(1) len show ?thesis
        unfolding lex_loop.simps [of p max_tokens tokens count i] by (simp add: rd8_def rd)
    qed
    have toks: "token_list (c_string (drop i p)) (max_tokens - count) =
        w # token_list (c_string (drop k p)) m"
      using True c_string_at [OF Suc.prems(1)] c_string_at [OF j(2)] j(3) k(3) room(2)
      by (subst token_list.simps) (simp add: Let_def w_def)
    have "max_tokens \<le> length ?tokens" "count + 1 \<le> max_tokens" using Suc.prems(2) room(1) by simp_all
    from Suc.hyps(1) [OF room(3) k(2) this(1) rows this(2)] obtain t where
      "(lex_loop p max_tokens ?tokens (count + 1) k :: ('e, char cells list \<times> nat) res) =
         Ok (t, count + 1 + length (token_list (c_string (drop k p)) m))"
      "length t = length tokens" "\<forall>x < count + 1. t ! x = ?tokens ! x"
      "\<forall>x < length (token_list (c_string (drop k p)) m).
         row_holds (t ! (count + 1 + x)) (token_list (c_string (drop k p)) m ! x)"
      unfolding room(3) [symmetric] by auto
    note t = this
    from t(3) nth(1) row(2) have "\<forall>x < count. t ! x = tokens ! x" "row_holds (t ! count) w"
      by auto
    moreover from this(2) t(4) have "\<forall>x < length (w # token_list (c_string (drop k p)) m).
        row_holds (t ! (count + x)) ((w # token_list (c_string (drop k p)) m) ! x)"
      by (auto simp: less_Suc_eq_0_disj)
    ultimately show ?thesis
      using step t(1,2) unfolding toks by (intro exI [of _ t]) simp
  qed
qed

text \<open>For every text the lexer stays in its rows, and they hold the tokens of the text.\<close>

lemma rule_lex_tokens:
  "\<exists>tok. (ipmb_rule_lex line (replicate 10 (malloc_cells 32)) 10 :: ('e, char cells list \<times> nat) res) =
      Ok (tok, length (rule_tokens line 10)) \<and> length tok = 10 \<and>
    (\<forall>k < length (rule_tokens line 10). row_holds (tok ! k) (rule_tokens line 10 ! k))"
proof -
  have "string_at (line @ [CHR 0x00]) 0" by (simp add: string_at_def)
  moreover have "c_string (line @ [CHR 0x00]) = c_string line"
    by (induction line) (simp_all add: c_string_def)
  ultimately show ?thesis
    using lex_loop_rows [of "line @ [CHR 0x00]" 0 10 "replicate 10 (malloc_cells 32)" 0, where 'e = 'e]
    by (simp add: ipmb_rule_lex_def rule_tokens_def)
qed

lemma read_cstring_string: "list_all (\<lambda>c. c \<noteq> CHR 0x00) s \<Longrightarrow> read_cstring (map Some s @ Some (CHR 0x00) # rest) = Ok s"
  by (induction s) simp_all

lemma strncpy_string:
  "list_all (\<lambda>c. c \<noteq> CHR 0x00) s \<Longrightarrow> length s \<le> n \<Longrightarrow>
   strncpy_chars n (map Some s @ Some (CHR 0x00) # rest) = Ok (s @ replicate (n - length s) (CHR 0x00))"
proof (induction s arbitrary: n)
  case Nil
  then show ?case by (cases n) simp_all
next
  case (Cons c s)
  then show ?case by (cases n) simp_all
qed

lemma row_reads:
  assumes "row_holds row s" "is_token s"
  shows "read_cstring row = Ok s"
    and "rbind (strncpy (calloc_cells (CHR 0x00) 32) row 31) read_cstring = Ok s"
proof -
  obtain rest where row: "row = map Some s @ Some (CHR 0x00) # rest" using assms(1) by (auto simp: row_holds_def)
  have s: "list_all (\<lambda>c. c \<noteq> CHR 0x00) s" "length s \<le> 31"
    using assms(2) by (auto simp: is_token_def list_all_iff)
  show "read_cstring row = Ok s" unfolding row by (rule read_cstring_string [OF s(1)])
  have "32 - length s = Suc (31 - length s)" using s(2) by simp
  then have "map Some (s @ replicate (31 - length s) (CHR 0x00)) @ [Some (CHR 0x00)] =
      map Some s @ Some (CHR 0x00) # replicate (31 - length s) (Some (CHR 0x00))"
    by (simp add: replicate_append_same)
  with s show "rbind (strncpy (calloc_cells (CHR 0x00) 32) row 31) read_cstring = Ok s"
    unfolding strncpy_def row strncpy_string [OF s]
    by (simp add: store_cells_def calloc_cells_def read_cstring_string)
qed


section \<open>Numbers\<close>

lemma digit_value_char: "d < 10 \<Longrightarrow> digit_value (digit_char d) = d"
  by (auto simp: digit_value_def digit_char_def Let_def)

lemma number_value_snoc:
  "number_value b (ds @ [c]) = number_value b ds * b + digit_value c"
  by (simp add: number_value_def)

lemma dec_digits_value: "number_value 10 (dec_digits n) = n"
proof (induction n rule: dec_digits.induct)
  case (1 n)
  then show ?case
    by (subst dec_digits.simps) (auto simp: number_value_snoc digit_value_char number_value_def)
qed

lemma dec_digits_set: "c \<in> set (dec_digits n) \<Longrightarrow> \<exists>d < 10. c = digit_char d"
proof (induction n rule: dec_digits.induct)
  case (1 n)
  then show ?case
    by (subst (asm) dec_digits.simps) (auto split: if_splits intro: exI [of _ "n mod 10"])
qed

lemma dec_digits_hd: "0 < n \<Longrightarrow> \<exists>d. 0 < d \<and> d < 10 \<and> hd (dec_digits n) = digit_char d"
proof (induction n rule: dec_digits.induct)
  case (1 n)
  have "dec_digits (n div 10) \<noteq> []" by (subst dec_digits.simps) auto
  with 1 show ?case
    by (subst dec_digits.simps) (auto simp: hd_append)
qed

lemma dec_digits_nonempty [simp]: "dec_digits n \<noteq> []"
  by (subst dec_digits.simps) auto

lemma length_dec_digits: "n < 10 ^ k \<Longrightarrow> 0 < k \<Longrightarrow> length (dec_digits n) \<le> k"
proof (induction n arbitrary: k rule: dec_digits.induct)
  case (1 n)
  show ?case
  proof (cases "n < 10")
    case True
    with "1.prems" show ?thesis by (subst dec_digits.simps) simp
  next
    case False
    with "1.prems" obtain j where j: "k = Suc j" "0 < j"
      by (cases k; cases "k = 1") auto
    then have "n div 10 < 10 ^ j" using "1.prems" by (simp add: less_mult_imp_div_less mult.commute)
    with False "1.IH" j show ?thesis by (subst dec_digits.simps) simp
  qed
qed

lemma digit_char_0: "digit_char 0 = CHR ''0''"
  by code_simp

lemma digit_char_simps:
  assumes "d < 10"
  shows "\<not> isspace (digit_char d)" "digit_char d \<noteq> CHR ''-''" "digit_char d \<noteq> CHR ''+''"
    "digit_char d \<noteq> CHR ''x''" "digit_char d \<noteq> CHR ''X''" "digit_char d \<noteq> CHR 0x00"
    "digit_char d = CHR ''0'' \<longleftrightarrow> d = 0"
proof -
  have n: "(of_char (digit_char d) :: nat) = 48 + d" using assms by (simp add: digit_char_def)
  have c: "c = digit_char d \<Longrightarrow> (of_char c :: nat) = 48 + d" for c using n by simp
  show "\<not> isspace (digit_char d)" using n by (simp add: isspace_def)
  show "digit_char d \<noteq> CHR ''-''" "digit_char d \<noteq> CHR ''+''" "digit_char d \<noteq> CHR ''x''"
    "digit_char d \<noteq> CHR ''X''" "digit_char d \<noteq> CHR 0x00"
    using assms c [of "CHR ''-''"] c [of "CHR ''+''"] c [of "CHR ''x''"] c [of "CHR ''X''"] c [of "CHR 0x00"]
    by auto
  show "digit_char d = CHR ''0'' \<longleftrightarrow> d = 0"
    using c [OF sym, of "CHR ''0''"] by (auto simp: digit_char_0)
qed

lemma magnitude_dec: "strtol_magnitude (dec_digits n) = n"
proof -
  have all: "digits_of b (dec_digits n) = dec_digits n" if "10 \<le> b" for b
    unfolding digits_of_def takeWhile_eq_all_conv
    using that by (auto dest!: dec_digits_set simp: digit_value_char)
  show ?thesis
  proof (cases "n = 0")
    case True
    have "dec_digits 0 = [CHR ''0'']" by (subst dec_digits.simps) (simp add: digit_char_0)
    with True show ?thesis
      by (simp add: strtol_magnitude_def digits_of_def number_value_def digit_value_def)
  next
    case False
    then obtain d where "0 < d" "d < 10" "hd (dec_digits n) = digit_char d"
      using dec_digits_hd by blast
    then have "dec_digits n ! 0 \<noteq> CHR ''0''"
      by (simp add: hd_conv_nth digit_char_simps(7))
    then show ?thesis
      by (simp add: strtol_magnitude_def all dec_digits_value)
  qed
qed

lemma strtol_format_d: "i32_fits x \<Longrightarrow> strtol (format_d x) = x"
proof -
  assume x: "i32_fits x"
  have no: "dropWhile isspace (dec_digits n) = dec_digits n" "dec_digits n ! 0 \<noteq> CHR ''-''"
      "dec_digits n ! 0 \<noteq> CHR ''+''" for n
    using dec_digits_set [of "hd (dec_digits n)" n]
    by (cases "dec_digits n"; auto simp: digit_char_simps)+
  have "\<not> isspace (CHR ''-'')" by (simp add: isspace_def)
  with x show ?thesis
    by (auto simp: strtol_def format_d_def no magnitude_dec clamp_long_def i32_fits_def)
qed

lemma format_d_token: "i32_fits x \<Longrightarrow> is_token (format_d x)"
proof -
  assume x: "i32_fits x"
  have "nat (- x) < 10 ^ 10" "nat x < 10 ^ 10" using x by (auto simp: i32_fits_def)
  then have "length (dec_digits (nat (- x))) \<le> 10" "length (dec_digits (nat x)) \<le> 10"
    by (auto intro: length_dec_digits)
  moreover have "\<not> isspace (CHR ''-'')" by (simp add: isspace_def)
  ultimately show ?thesis
    by (auto simp: is_token_def format_d_def list_all_iff digit_char_simps dest!: dec_digits_set)
qed

end
