(* ===== verification/Rule_Parser.thy ===== *)
theory Rule_Parser
  imports Rule_Lexer
begin

text \<open>
  The rule language: the parser of \<^verbatim>\<open>src/routing/rule_parser.c\<close>, the printer of
  \<^verbatim>\<open>src/routing/rule_explain.c\<close> and the preset rules of \<^verbatim>\<open>src/routing/rule_catalog.c\<close>.  A
  \<^verbatim>\<open>char[32]\<close> member holds the string up to its zero byte.  The parser works on the rows the lexer
  filled; \<open>rule_of_tokens\<close> is the same on the tokens of the text, and the two always agree.
\<close>

section \<open>The code\<close>

datatype ipmb_rule_op = IPMB_RULE_CMP_EQ | IPMB_RULE_CMP_GT | IPMB_RULE_CMP_LT | IPMB_RULE_RANGE

record ipmb_rule_ast =
  rule_field :: string
  rule_op :: ipmb_rule_op
  rule_value :: "32 word"
  rule_high :: "32 word"
  rule_action :: string
  rule_priority :: "32 word"

definition zero_ast :: ipmb_rule_ast where
  "zero_ast = \<lparr>rule_field = [], rule_op = IPMB_RULE_CMP_EQ, rule_value = 0, rule_high = 0,
               rule_action = [], rule_priority = 0\<rparr>"

definition parse_op :: "string \<Rightarrow> ipmb_rule_op" where
  "parse_op s =
     (if s = ''>'' \<or> s = ''gt'' then IPMB_RULE_CMP_GT
      else if s = ''<'' \<or> s = ''lt'' then IPMB_RULE_CMP_LT
      else IPMB_RULE_CMP_EQ)"

text \<open>\<^verbatim>\<open>(int32_t)strtol(s, NULL, 0)\<close>.\<close>

definition strtol_i32 :: "string \<Rightarrow> 32 word" where
  "strtol_i32 s = word_of_int (strtol s)"

text \<open>Row \<open>k\<close> as an argument of \<^verbatim>\<open>strcmp\<close> or \<^verbatim>\<open>strtol\<close>, and as the source of
  \<^verbatim>\<open>strncpy(member, tok[k], sizeof(member) - 1)\<close> into a zeroed \<^verbatim>\<open>char[32]\<close>.\<close>

definition tok_string :: "char cells list \<Rightarrow> nat \<Rightarrow> ('e, string) res" where
  "tok_string tok k = rbind (rd8 tok k) read_cstring"

definition tok_member :: "char cells list \<Rightarrow> nat \<Rightarrow> ('e, string) res" where
  "tok_member tok k = rbind (rd8 tok k) (\<lambda>row.
     rbind (strncpy (calloc_cells (CHR 0x00) 32) row (32 - 1)) read_cstring)"

definition ipmb_rule_parse :: "string \<Rightarrow> (ipmb_status \<times> ipmb_rule_ast, ipmb_rule_ast) res" where
  "ipmb_rule_parse text =
     (let tok = replicate 10 (malloc_cells 32); out = zero_ast in
      rbind (ipmb_rule_lex text tok 10) (\<lambda>(tok, n).
      if n < 3 then Err (IPMB_ERR_INVALID, out)
      else
        let out = out\<lparr>rule_priority := 10\<rparr> in
        rbind (tok_string tok 0) (\<lambda>t0.
        if t0 = ''range'' then
          if n < 4 then Err (IPMB_ERR_INVALID, out)
          else
            rbind (tok_member tok 1) (\<lambda>s. let out = out\<lparr>rule_field := s, rule_op := IPMB_RULE_RANGE\<rparr> in
            rbind (tok_string tok 2) (\<lambda>s. let out = out\<lparr>rule_value := strtol_i32 s\<rparr> in
            rbind (tok_string tok 3) (\<lambda>s. let out = out\<lparr>rule_high := strtol_i32 s\<rparr> in
            if n > 4 then rbind (tok_member tok 4) (\<lambda>s. Ok (out\<lparr>rule_action := s\<rparr>))
            else Ok out)))
        else
          rbind (tok_member tok 0) (\<lambda>s. let out = out\<lparr>rule_field := s\<rparr> in
          rbind (tok_string tok 1) (\<lambda>s. let out = out\<lparr>rule_op := parse_op s\<rparr> in
          rbind (tok_string tok 2) (\<lambda>s. let out = out\<lparr>rule_value := strtol_i32 s\<rparr> in
          rbind (if n > 3 then rbind (tok_member tok 3) (\<lambda>s. Ok (out\<lparr>rule_action := s\<rparr>))
                 else Ok out) (\<lambda>out.
          if n > 4 then rbind (tok_string tok 4) (\<lambda>s. Ok (out\<lparr>rule_priority := strtol_i32 s\<rparr>))
          else Ok out)))))))"

definition explain_op :: "ipmb_rule_op \<Rightarrow> string" where
  "explain_op op =
     (if op = IPMB_RULE_RANGE then ''range'' else if op = IPMB_RULE_CMP_GT then ''>''
      else if op = IPMB_RULE_CMP_LT then ''<'' else ''=='')"

text \<open>\<^verbatim>\<open>snprintf\<close> returns the length of the whole text and writes what fits, if there is room for
  at least the terminating zero.\<close>

definition ipmb_rule_explain :: "ipmb_rule_ast \<Rightarrow> nat \<Rightarrow> nat \<times> string option" where
  "ipmb_rule_explain ast len =
     (let s = rule_field ast @ '' '' @ explain_op (rule_op ast) @ '' '' @ format_d (sint (rule_value ast))
      in (length s, if len = 0 then None else Some (take (len - 1) s)))"

definition ipmb_rule_presets :: "string option list" where
  "ipmb_rule_presets =
    [Some ''rule preset_1: priority > 10 forward zone_1;'',
     Some ''rule preset_2: drop if source_ip == 192.168.1.100;'',
     Some ''rule preset_3: priority > 50 forward emergency_zone;'',
     None]"

section \<open>The parser on tokens\<close>

definition rule_of_tokens :: "string list \<Rightarrow> (ipmb_status \<times> ipmb_rule_ast, ipmb_rule_ast) res" where
  "rule_of_tokens ts =
     (let n = length ts; base = zero_ast\<lparr>rule_priority := 10\<rparr> in
      if n < 3 then Err (IPMB_ERR_INVALID, zero_ast)
      else if ts ! 0 = ''range'' then
        if n < 4 then Err (IPMB_ERR_INVALID, base)
        else Ok (base\<lparr>rule_field := ts ! 1, rule_op := IPMB_RULE_RANGE, rule_value := strtol_i32 (ts ! 2),
               rule_high := strtol_i32 (ts ! 3), rule_action := (if n > 4 then ts ! 4 else [])\<rparr>)
      else Ok (base\<lparr>rule_field := ts ! 0, rule_op := parse_op (ts ! 1), rule_value := strtol_i32 (ts ! 2),
             rule_action := (if n > 3 then ts ! 3 else []),
             rule_priority := (if n > 4 then strtol_i32 (ts ! 4) else 10)\<rparr>))"

lemma rule_parse_eq: "ipmb_rule_parse line = rule_of_tokens (rule_tokens line 10)"
proof -
  let ?ts = "rule_tokens line 10"
  obtain tok where lex: "(ipmb_rule_lex line (replicate 10 (malloc_cells 32)) 10 ::
        (ipmb_status \<times> ipmb_rule_ast, _) res) = Ok (tok, length ?ts)"
      "length tok = 10" "\<forall>k < length ?ts. row_holds (tok ! k) (?ts ! k)"
    using rule_lex_tokens [where 'e = "ipmb_status \<times> ipmb_rule_ast", of line] by blast
  have ts: "list_all is_token ?ts" "length ?ts \<le> 10"
    using token_list_tokens [of "c_string line" 10] unfolding rule_tokens_def
    by (auto simp: c_string_def list_all_iff dest: set_takeWhileD)
  have row: "row_holds (tok ! k) (?ts ! k)" "is_token (?ts ! k)" "k < length tok" if "k < length ?ts" for k
    using that lex(2,3) ts by (auto simp: list_all_length)
  have read: "tok_string tok k = Ok (?ts ! k)" "tok_member tok k = Ok (?ts ! k)" if "k < length ?ts" for k
    using row_reads [OF row(1,2) [OF that]] row(3) [OF that]
    by (simp_all add: tok_string_def tok_member_def rd8_def)
  have r3: "tok_string tok 0 = Ok (?ts ! 0)" "tok_string tok (Suc 0) = Ok (?ts ! Suc 0)" "tok_string tok 2 = Ok (?ts ! 2)"
      "tok_member tok 0 = Ok (?ts ! 0)" "tok_member tok (Suc 0) = Ok (?ts ! Suc 0)" if "3 \<le> length ?ts"
    using that by (auto intro!: read)
  have r4: "tok_string tok 3 = Ok (?ts ! 3)" "tok_member tok 3 = Ok (?ts ! 3)" if "4 \<le> length ?ts"
    using that by (auto intro!: read)
  have r5: "tok_string tok 4 = Ok (?ts ! 4)" "tok_member tok 4 = Ok (?ts ! 4)" if "5 \<le> length ?ts"
    using that by (auto intro!: read)
  consider "length ?ts < 3" | "length ?ts = 3" | "length ?ts = 4" | "5 \<le> length ?ts" by linarith
  then show ?thesis
  proof cases
    case 1
    then show ?thesis by (simp add: ipmb_rule_parse_def rule_of_tokens_def lex(1))
  next
    case 2
    then show ?thesis
      by (simp add: ipmb_rule_parse_def rule_of_tokens_def lex(1) r3 Let_def zero_ast_def)
  next
    case 3
    then show ?thesis
      by (simp add: ipmb_rule_parse_def rule_of_tokens_def lex(1) r3 r4 Let_def zero_ast_def)
  next
    case 4
    then have "\<not> length ?ts < 4" "3 < length ?ts" "4 < length ?ts" "\<not> length ?ts < 3" "3 \<le> length ?ts" "4 \<le> length ?ts"
      by simp_all
    with 4 show ?thesis
      by (simp add: ipmb_rule_parse_def rule_of_tokens_def lex(1) r3 r4 r5 Let_def zero_ast_def)
  qed
qed

section \<open>Statements\<close>

text \<open>The text of a rule: its tokens separated by blanks, the action and the priority when there
  is an action.\<close>

definition rule_text :: "ipmb_rule_ast \<Rightarrow> string" where
  "rule_text a =
     (let extra = (if rule_action a = [] then [] else [rule_action a]) in
      if rule_op a = IPMB_RULE_RANGE
      then join_tokens ([''range'', rule_field a, format_d (sint (rule_value a)),
                         format_d (sint (rule_high a))] @ extra)
      else join_tokens ([rule_field a, explain_op (rule_op a), format_d (sint (rule_value a))] @
             (if rule_action a = [] then [] else [rule_action a, format_d (sint (rule_priority a))])))"

text \<open>The rules a text can say: their field and action are tokens, a range keeps the default
  priority, as does a rule without action, and only a range has an upper bound.\<close>

definition rule_sayable :: "ipmb_rule_ast \<Rightarrow> bool" where
  "rule_sayable a \<longleftrightarrow> is_token (rule_field a) \<and> (rule_action a = [] \<or> is_token (rule_action a)) \<and>
     (if rule_op a = IPMB_RULE_RANGE then rule_priority a = 10
      else rule_field a \<noteq> ''range'' \<and> rule_high a = 0 \<and> (rule_action a = [] \<longrightarrow> rule_priority a = 10))"

lemma rule_parse_safe: "no_fault (ipmb_rule_parse line)"
  by (simp add: rule_parse_eq rule_of_tokens_def Let_def)

lemma strtol_i32_format: "strtol_i32 (format_d (sint w)) = w"
  by (simp add: strtol_i32_def strtol_format_d)

lemma is_token_words [simp]:
  "is_token ''range''" "is_token (explain_op op)" "is_token (format_d (sint (w :: 32 word)))"
  by (simp_all add: format_d_token) (simp_all add: is_token_def explain_op_def isspace_def)

text \<open>The default priority, whose \<open>sint\<close> the simplifier computes.\<close>

lemma format_10 [simp]: "is_token (format_d 10)" "strtol_i32 (format_d 10) = 10"
  using is_token_words(3) [of 10] strtol_i32_format [of 10] by simp_all

lemma parse_op_explain: "op \<noteq> IPMB_RULE_RANGE \<Longrightarrow> parse_op (explain_op op) = op"
  by (cases op) (auto simp: parse_op_def explain_op_def)

lemma parse_rule_text: "rule_sayable a \<Longrightarrow> ipmb_rule_parse (rule_text a) = Ok a"
proof -
  assume a: "rule_sayable a"
  show ?thesis
  proof (cases "rule_op a = IPMB_RULE_RANGE")
    case True
    with a show ?thesis
      by (cases a)
        (auto simp: rule_text_def rule_sayable_def rule_parse_eq rule_of_tokens_def lex_join Let_def zero_ast_def
          strtol_i32_format)
  next
    case False
    with a show ?thesis
      by (cases a)
        (auto simp: rule_text_def rule_sayable_def rule_parse_eq rule_of_tokens_def lex_join Let_def zero_ast_def
          strtol_i32_format parse_op_explain)
  qed
qed

lemma parse_statement:
  assumes "list_all is_token (f # o1 # v # ts)" "f \<noteq> ''range''"
  shows "\<exists>a. ipmb_rule_parse (join_tokens (f # o1 # v # ts)) = Ok a \<and> rule_field a = f \<and>
    rule_op a = parse_op o1 \<and> rule_value a = strtol_i32 v"
  using assms by (auto simp: rule_parse_eq rule_of_tokens_def lex_join Let_def)

section \<open>Properties\<close>

text \<open>C27: the parser reads back the text of every rule the language can say: field, operator,
  bounds in decimal (negative ones included), action and priority.\<close>

theorem rule_text_roundtrip:
  assumes "rule_sayable a"
  shows "ipmb_rule_parse (rule_text a) = Ok a"
  using assms by (rule parse_rule_text)

theorem rule_text_roundtrip_witness:
  "ipmb_rule_parse (rule_text \<lparr>rule_field = ''ttl'', rule_op = IPMB_RULE_CMP_LT, rule_value = - 5,
     rule_high = 0, rule_action = ''drop'', rule_priority = 7\<rparr>) =
   Ok \<lparr>rule_field = ''ttl'', rule_op = IPMB_RULE_CMP_LT, rule_value = - 5, rule_high = 0,
     rule_action = ''drop'', rule_priority = 7\<rparr>"
  by (rule rule_text_roundtrip) (simp add: rule_sayable_def is_token_def isspace_def)

text \<open>C37: for every text the parser, working in its row and member buffers, stays inside them and
  returns what the reading of the text as words says: fewer than three words (four for a
  range) are refused, and the words after the fifth are ignored.\<close>

theorem rule_parse_reference:
  "ipmb_rule_parse line = rule_of_tokens (rule_tokens line 10) \<and> no_fault (ipmb_rule_parse line)"
  using rule_parse_safe [of line] by (simp add: rule_parse_eq)

text \<open>A comparison printed by \<^verbatim>\<open>ipmb_rule_explain\<close> into a large enough buffer parses back to the
  same field, operator and value.\<close>

theorem explain_roundtrip:
  assumes "is_token (rule_field a)" "rule_field a \<noteq> ''range''" "rule_op a \<noteq> IPMB_RULE_RANGE"
    and "ipmb_rule_explain a len = (n, Some s)" "n < len"
  shows "ipmb_rule_parse s =
    Ok (a\<lparr>rule_high := 0, rule_action := [], rule_priority := 10\<rparr>)"
proof -
  let ?b = "a\<lparr>rule_high := 0, rule_action := [], rule_priority := 10\<rparr>"
  have "s = rule_text ?b"
    using assms(3-5)
    by (auto simp: ipmb_rule_explain_def rule_text_def join_tokens.simps Let_def split: if_splits)
  moreover have "rule_sayable ?b"
    using assms(1-3) by (simp add: rule_sayable_def)
  ultimately show ?thesis by (simp add: parse_rule_text)
qed

theorem explain_roundtrip_witness:
  "ipmb_rule_parse ''ttl < -5'' = Ok \<lparr>rule_field = ''ttl'', rule_op = IPMB_RULE_CMP_LT,
     rule_value = - 5, rule_high = 0, rule_action = [], rule_priority = 10\<rparr>"
proof -
  let ?a = "\<lparr>rule_field = ''ttl'', rule_op = IPMB_RULE_CMP_LT, rule_value = - 5, rule_high = 0,
     rule_action = [], rule_priority = 10\<rparr>"
  have e: "ipmb_rule_explain ?a 64 = (8, Some ''ttl < -5'')"
    by code_simp
  from explain_roundtrip [OF _ _ _ e] show ?thesis
    by (simp add: is_token_def isspace_def)
qed

end
