(* ===== verification/Route_Vm.thy ===== *)
theory Route_Vm
  imports Frame_Reader
begin

text \<open>
  The rule machine of \<^verbatim>\<open>src/routing/route_vm.c\<close>: \<open>vm_loop\<close> is the loop over the code bytes with
  its array of 64 stack cells and its stack pointer.  \<open>vm_run\<close> is the same machine on decoded
  instructions and a list as stack, with \<open>vm_step\<close> as its transition relation.  The lemmas show
  that the array machine implements it on assembled code and that on any bytes it stays inside
  the code and the stack and ends.
\<close>

section \<open>The code\<close>

definition IPMB_OP_PUSH_INT :: byte where "IPMB_OP_PUSH_INT = 1"
definition IPMB_OP_LOAD_FIELD :: byte where "IPMB_OP_LOAD_FIELD = 3"
definition IPMB_OP_CMP_EQ :: byte where "IPMB_OP_CMP_EQ = 4"
definition IPMB_OP_CMP_GT :: byte where "IPMB_OP_CMP_GT = 5"
definition IPMB_OP_CMP_LT :: byte where "IPMB_OP_CMP_LT = 6"
definition IPMB_OP_RANGE :: byte where "IPMB_OP_RANGE = 7"
definition IPMB_OP_AND :: byte where "IPMB_OP_AND = 8"
definition IPMB_OP_OR :: byte where "IPMB_OP_OR = 9"
definition IPMB_OP_NOT :: byte where "IPMB_OP_NOT = 10"
definition IPMB_OP_FORWARD :: byte where "IPMB_OP_FORWARD = 11"
definition IPMB_OP_TAG :: byte where "IPMB_OP_TAG = 12"
definition IPMB_OP_END :: byte where "IPMB_OP_END = 13"

lemmas opcodes = IPMB_OP_PUSH_INT_def IPMB_OP_LOAD_FIELD_def IPMB_OP_CMP_EQ_def IPMB_OP_CMP_GT_def
  IPMB_OP_CMP_LT_def IPMB_OP_RANGE_def IPMB_OP_AND_def IPMB_OP_OR_def IPMB_OP_NOT_def
  IPMB_OP_FORWARD_def IPMB_OP_TAG_def IPMB_OP_END_def

record ipmb_vm_value =
  vi :: "32 word"
  is_bool :: bool

definition load_field :: "ipmb_frame \<Rightarrow> byte \<Rightarrow> 32 word" where
  "load_field f i =
     (if i = 1 then ucast (frame_type f)
      else if i = 2 then ucast (frame_flags f)
      else if i = 3 then source_addr f
      else if i = 4 then dest_addr f
      else if i = 5 then ucast (priority f)
      else if i = 6 then ucast (ttl f)
      else if i = 7 then of_nat (payload_len f)
      else 0)"

text \<open>\<^verbatim>\<open>stack[i].i = v; stack[i].is_bool = b;\<close> and the conversion of a C truth value.\<close>

definition put :: "ipmb_vm_value list \<Rightarrow> nat \<Rightarrow> 32 word \<Rightarrow> bool \<Rightarrow> (ipmb_status, ipmb_vm_value list) res" where
  "put stack i v b =
     (if i < length stack then Ok (stack[i := \<lparr>vi = v, is_bool = b\<rparr>]) else Fault Oob_write)"

definition c_bool :: "bool \<Rightarrow> 32 word" where
  "c_bool b = (if b then 1 else 0)"

lemma put_eq_Ok [simp]:
  "put stack i v b = Ok s \<longleftrightarrow> i < length stack \<and> s = stack[i := \<lparr>vi = v, is_bool = b\<rparr>]"
  by (auto simp: put_def)

text \<open>The body of the loop after the opcode was read and \<open>pc\<close> advanced past it: the next state, or
  the answer.\<close>

type_synonym vm_state = "nat \<times> nat \<times> ipmb_vm_value list"

definition vm_body ::
  "byte list \<Rightarrow> ipmb_frame \<Rightarrow> byte \<Rightarrow> nat \<Rightarrow> nat \<Rightarrow> ipmb_vm_value list \<Rightarrow>
   (ipmb_status, vm_state + bool) res" where
  "vm_body code frame op pc sp stack =
    (if op = IPMB_OP_PUSH_INT then
       if pc + 4 > length code \<or> sp \<ge> 64 then Err IPMB_ERR_EVAL
       else rbind (ipmb_load_le32 code pc) (\<lambda>v.
            rbind (put stack sp v False) (\<lambda>stack. Ok (Inl (pc + 4, sp + 1, stack))))
     else if op = IPMB_OP_LOAD_FIELD then
       if pc \<ge> length code \<or> sp \<ge> 64 then Err IPMB_ERR_EVAL
       else rbind (rd8 code pc) (\<lambda>i.
            rbind (put stack sp (load_field frame i) False) (\<lambda>stack. Ok (Inl (pc + 1, sp + 1, stack))))
     else if op = IPMB_OP_CMP_EQ \<or> op = IPMB_OP_CMP_GT \<or> op = IPMB_OP_CMP_LT then
       if sp < 2 then Err IPMB_ERR_EVAL
       else rbind (rd8 stack (sp - 1)) (\<lambda>rhs.
            rbind (rd8 stack (sp - 2)) (\<lambda>lhs.
            rbind (put stack (sp - 2)
                     (c_bool (if op = IPMB_OP_CMP_EQ then vi lhs = vi rhs
                              else if op = IPMB_OP_CMP_GT then sint (vi lhs) > sint (vi rhs)
                              else sint (vi lhs) < sint (vi rhs))) True) (\<lambda>stack.
              Ok (Inl (pc, sp - 1, stack)))))
     else if op = IPMB_OP_RANGE then
       if sp < 3 \<or> sp \<ge> 64 then Err IPMB_ERR_EVAL
       else rbind (rd8 stack (sp - 1)) (\<lambda>high.
            rbind (rd8 stack (sp - 2)) (\<lambda>low.
            rbind (rd8 stack (sp - 3)) (\<lambda>val.
            rbind (put stack (sp - 3) (c_bool (sint (vi val) \<ge> sint (vi low))) True) (\<lambda>stack.
            rbind (put stack (sp - 2) (c_bool (sint (vi val) \<le> sint (vi high))) True) (\<lambda>stack.
              Ok (Inl (pc, sp - 1, stack)))))))
     else if op = IPMB_OP_AND \<or> op = IPMB_OP_OR then
       if sp < 2 then Err IPMB_ERR_EVAL
       else rbind (rd8 stack (sp - 1)) (\<lambda>b.
            rbind (rd8 stack (sp - 2)) (\<lambda>a.
            rbind (put stack (sp - 2)
                     (c_bool (if op = IPMB_OP_AND then vi a \<noteq> 0 \<and> vi b \<noteq> 0
                              else vi a \<noteq> 0 \<or> vi b \<noteq> 0)) True) (\<lambda>stack.
              Ok (Inl (pc, sp - 1, stack)))))
     else if op = IPMB_OP_NOT then
       if sp < 1 then Err IPMB_ERR_EVAL
       else rbind (rd8 stack (sp - 1)) (\<lambda>a.
            rbind (put stack (sp - 1) (c_bool (vi a = 0)) True) (\<lambda>stack. Ok (Inl (pc, sp, stack))))
     else if op = IPMB_OP_FORWARD \<or> op = IPMB_OP_TAG then
       if pc \<ge> length code then Err IPMB_ERR_EVAL
       else rbind (rd8 code pc) (\<lambda>n. Ok (Inl (pc + (unat n + 1), sp, stack)))
     else if op = IPMB_OP_END then
       if sp = 0 then Err IPMB_ERR_EVAL
       else rbind (rd8 stack (sp - 1)) (\<lambda>a. Ok (Inr (vi a \<noteq> 0)))
     else Err IPMB_ERR_EVAL)"

lemma vm_body_inv:
  assumes "vm_body code frame op pc sp stack = Ok (Inl (pc', sp', stack'))" "length stack = 64" "sp \<le> 64"
  shows "pc \<le> pc' \<and> sp' \<le> 64 \<and> length stack' = 64"
  using assms by (auto simp: vm_body_def split: if_splits)

lemma vm_body_pc: "vm_body code frame op pc sp stack = Ok (Inl (pc', sp', stack')) \<Longrightarrow> pc \<le> pc'"
  by (auto simp: vm_body_def split: if_splits)

function vm_loop ::
  "byte list \<Rightarrow> ipmb_frame \<Rightarrow> nat \<Rightarrow> nat \<Rightarrow> ipmb_vm_value list \<Rightarrow> (ipmb_status, bool) res" where
  "vm_loop code frame pc sp stack =
     (if pc < length code then
        rbind (rd8 code pc) (\<lambda>op.
        rbind (vm_body code frame op (pc + 1) sp stack) (\<lambda>next. case next of
            Inl (pc, sp, stack) \<Rightarrow> vm_loop code frame pc sp stack
          | Inr matched \<Rightarrow> Ok matched))
      else Err IPMB_ERR_EVAL)"
  by pat_completeness auto
termination
  by (relation "measure (\<lambda>(code, frame, pc, sp, stack). length code - pc)")
    (auto dest!: vm_body_pc)

declare vm_loop.simps [simp del]

text \<open>On an error \<^verbatim>\<open>*matched\<close> is false.\<close>

definition ipmb_vm_evaluate :: "byte list \<Rightarrow> ipmb_frame \<Rightarrow> (ipmb_status, bool) res" where
  "ipmb_vm_evaluate code frame = vm_loop code frame 0 0 (replicate 64 \<lparr>vi = 0, is_bool = False\<rparr>)"

section \<open>Safety on any bytes\<close>

lemma put_eq_Err [simp]: "put stack i v b \<noteq> Err e"
  by (simp add: put_def)

lemma put_eq_Fault [simp]: "put stack i v b = Fault u \<longleftrightarrow> length stack \<le> i \<and> u = Oob_write"
  by (auto simp: put_def)

lemma load_le_eq_Fault [simp]:
  "ipmb_load_le32 d i = Fault u \<longleftrightarrow> length d < i + 4 \<and> u = Oob_read"
  by (auto simp: ipmb_load_le32_def)

lemma no_fault_put [simp]: "no_fault (put stack i v b) \<longleftrightarrow> i < length stack"
  by (simp add: put_def)

lemma no_fault_if: "no_fault (if p then a else b) \<longleftrightarrow> (p \<longrightarrow> no_fault a) \<and> (\<not> p \<longrightarrow> no_fault b)"
  by simp

lemma vm_body_safe:
  "length stack = 64 \<Longrightarrow> sp \<le> 64 \<Longrightarrow> no_fault (vm_body code frame op pc sp stack)"
  unfolding vm_body_def no_fault_if by (intro conjI impI no_fault_rbind; simp)

lemma vm_loop_safe: "length stack = 64 \<Longrightarrow> sp \<le> 64 \<Longrightarrow> no_fault (vm_loop code frame pc sp stack)"
proof (induction code frame pc sp stack rule: vm_loop.induct)
  case (1 code frame pc sp stack)
  show ?case
  proof (cases "pc < length code")
    case False
    then show ?thesis by (subst vm_loop.simps) simp
  next
    case True
    let ?body = "vm_body code frame (code ! pc) (pc + 1) sp stack"
    have "no_fault (case next of Inl (pc, sp, stack) \<Rightarrow> vm_loop code frame pc sp stack | Inr m \<Rightarrow> Ok m)"
      if "?body = Ok next" for "next"
      using "1.IH" [OF True] True that vm_body_inv "1.prems" by (cases "next") fastforce+
    with vm_body_safe [OF "1.prems"] True show ?thesis
      by (subst vm_loop.simps) (auto simp: rd8_def intro!: no_fault_rbind)
  qed
qed

section \<open>The machine on instructions\<close>

datatype vm_instr =
    Push_int "32 word" | Load_field byte | Cmp_eq | Cmp_gt | Cmp_lt | In_range
  | And_op | Or_op | Not_op | Forward "byte list" | Tag "byte list" | End_op

fun instr_bytes :: "vm_instr \<Rightarrow> byte list" where
  "instr_bytes (Push_int v) = IPMB_OP_PUSH_INT # le32_bytes v"
| "instr_bytes (Load_field i) = [IPMB_OP_LOAD_FIELD, i]"
| "instr_bytes Cmp_eq = [IPMB_OP_CMP_EQ]"
| "instr_bytes Cmp_gt = [IPMB_OP_CMP_GT]"
| "instr_bytes Cmp_lt = [IPMB_OP_CMP_LT]"
| "instr_bytes In_range = [IPMB_OP_RANGE]"
| "instr_bytes And_op = [IPMB_OP_AND]"
| "instr_bytes Or_op = [IPMB_OP_OR]"
| "instr_bytes Not_op = [IPMB_OP_NOT]"
| "instr_bytes (Forward s) = IPMB_OP_FORWARD # of_nat (length s) # s"
| "instr_bytes (Tag s) = IPMB_OP_TAG # of_nat (length s) # s"
| "instr_bytes End_op = [IPMB_OP_END]"

definition assemble :: "vm_instr list \<Rightarrow> byte list" where
  "assemble is = concat (map instr_bytes is)"

fun instr_wf :: "vm_instr \<Rightarrow> bool" where
  "instr_wf (Forward s) \<longleftrightarrow> length s < 256"
| "instr_wf (Tag s) \<longleftrightarrow> length s < 256"
| "instr_wf _ \<longleftrightarrow> True"

text \<open>The effect of an instruction other than \<open>End_op\<close> on the stack, its top first; \<open>None\<close> when it
  fails.\<close>

fun exec_instr :: "ipmb_frame \<Rightarrow> vm_instr \<Rightarrow> 32 word list \<Rightarrow> 32 word list option" where
  "exec_instr f (Push_int v) st = (if length st < 64 then Some (v # st) else None)"
| "exec_instr f (Load_field i) st = (if length st < 64 then Some (load_field f i # st) else None)"
| "exec_instr f Cmp_eq (b # a # st) = Some (c_bool (a = b) # st)"
| "exec_instr f Cmp_gt (b # a # st) = Some (c_bool (sint a > sint b) # st)"
| "exec_instr f Cmp_lt (b # a # st) = Some (c_bool (sint a < sint b) # st)"
| "exec_instr f In_range (h # l # v # st) =
     (if length st < 61 then Some (c_bool (sint v \<le> sint h) # c_bool (sint l \<le> sint v) # st) else None)"
| "exec_instr f And_op (b # a # st) = Some (c_bool (a \<noteq> 0 \<and> b \<noteq> 0) # st)"
| "exec_instr f Or_op (b # a # st) = Some (c_bool (a \<noteq> 0 \<or> b \<noteq> 0) # st)"
| "exec_instr f Not_op (a # st) = Some (c_bool (a = 0) # st)"
| "exec_instr f (Forward s) st = Some st"
| "exec_instr f (Tag s) st = Some st"
| "exec_instr f _ st = None"

inductive vm_step :: "ipmb_frame \<Rightarrow> vm_instr list \<times> 32 word list \<Rightarrow> vm_instr list \<times> 32 word list \<Rightarrow> bool"
  for f where
  "exec_instr f i st = Some st' \<Longrightarrow> vm_step f (i # is, st) (is, st')"

inductive_cases vm_stepE: "vm_step f (is, st) c"
inductive_simps vm_step_simps: "vm_step f (i # is, st) c"

fun vm_run :: "ipmb_frame \<Rightarrow> vm_instr list \<Rightarrow> 32 word list \<Rightarrow> (ipmb_status, bool) res" where
  "vm_run f [] st = Err IPMB_ERR_EVAL"
| "vm_run f (i # is) st =
     (if i = End_op then (case st of [] \<Rightarrow> Err IPMB_ERR_EVAL | v # _ \<Rightarrow> Ok (v \<noteq> 0))
      else case exec_instr f i st of None \<Rightarrow> Err IPMB_ERR_EVAL | Some st' \<Rightarrow> vm_run f is st')"

text \<open>The answer of a run is the top of the stack in a state at \<open>End_op\<close> that steps reach.\<close>

lemma vm_run_steps:
  "vm_run f is st = Ok b \<longleftrightarrow>
     (\<exists>is' v st'. (vm_step f)\<^sup>*\<^sup>* (is, st) (End_op # is', v # st') \<and> b = (v \<noteq> 0))"
proof (induction "is" arbitrary: st)
  case Nil
  have "\<not> (vm_step f)\<^sup>*\<^sup>* ([], st) (End_op # is', v # st')" for is' v st'
    by (rule notI, erule converse_rtranclpE) (auto elim: vm_stepE)
  then show ?case by simp
next
  case (Cons i "is")
  show ?case
  proof (cases "i = End_op")
    case True
    have "(vm_step f)\<^sup>*\<^sup>* (End_op # is, st) c \<longleftrightarrow> c = (End_op # is, st)" for c
      by (rule iffI, erule converse_rtranclpE) (auto simp: vm_step_simps)
    with True show ?thesis by (cases st) auto
  next
    case False
    have "(vm_step f)\<^sup>*\<^sup>* (i # is, st) (End_op # is', v # st') \<longleftrightarrow>
        (\<exists>st1. exec_instr f i st = Some st1 \<and> (vm_step f)\<^sup>*\<^sup>* (is, st1) (End_op # is', v # st'))"
      (is "?l \<longleftrightarrow> ?r") for is' v st'
    proof
      assume ?l
      then show ?r
        by (rule converse_rtranclpE) (use False in \<open>auto simp: vm_step_simps\<close>)
    next
      assume ?r
      then show ?l
        by (auto simp: vm_step_simps intro: converse_rtranclp_into_rtranclp)
    qed
    with False Cons.IH show ?thesis by (auto split: option.split)
  qed
qed

section \<open>The array machine implements it\<close>

definition abs_stack :: "nat \<Rightarrow> ipmb_vm_value list \<Rightarrow> 32 word list" where
  "abs_stack sp stack = rev (map vi (take sp stack))"

lemma abs_stack_0 [simp]: "abs_stack 0 stack = []"
  by (simp add: abs_stack_def)

lemma length_abs_stack [simp]: "sp \<le> length stack \<Longrightarrow> length (abs_stack sp stack) = sp"
  by (simp add: abs_stack_def)

lemma abs_stack_Suc [simp]:
  "n < length stack \<Longrightarrow> abs_stack (Suc n) stack = vi (stack ! n) # abs_stack n stack"
  by (simp add: abs_stack_def take_Suc_conv_app_nth)

lemma abs_stack_update [simp]: "n \<le> i \<Longrightarrow> abs_stack n (stack[i := x]) = abs_stack n stack"
  by (simp add: abs_stack_def)

definition vm_rel :: "nat \<Rightarrow> ipmb_vm_value list \<Rightarrow> 32 word list \<Rightarrow> bool" where
  "vm_rel sp stack st \<longleftrightarrow> length stack = 64 \<and> sp \<le> 64 \<and> abs_stack sp stack = st"

lemma vm_rel_Cons:
  "vm_rel sp stack (v # st) \<longleftrightarrow> (\<exists>n. sp = Suc n \<and> n < 64 \<and> vi (stack ! n) = v \<and> vm_rel n stack st)"
  by (cases sp) (auto simp: vm_rel_def)

lemma vm_rel_Nil: "vm_rel sp stack [] \<longleftrightarrow> length stack = 64 \<and> sp = 0"
  by (cases sp) (auto simp: vm_rel_def)

lemma vm_rel_length: "vm_rel sp stack st \<Longrightarrow> length st = sp \<and> length stack = 64 \<and> sp \<le> 64"
  by (auto simp: vm_rel_def)

lemma vm_rel_push:
  "vm_rel sp stack st \<Longrightarrow> sp < 64 \<Longrightarrow> vi x = v \<Longrightarrow> vm_rel (Suc sp) (stack[sp := x]) (v # st)"
  by (auto simp: vm_rel_def)

text \<open>\<open>vm_sim\<close>: the outcome of the loop body corresponds to that of an instruction.\<close>

definition vm_sim ::
  "nat \<Rightarrow> (ipmb_status, vm_state + bool) res \<Rightarrow> 32 word list option \<Rightarrow> bool" where
  "vm_sim pc' m e = (case e of
       None \<Rightarrow> m = Err IPMB_ERR_EVAL
     | Some st' \<Rightarrow> \<exists>sp' stack'. m = Ok (Inl (pc', sp', stack')) \<and> vm_rel sp' stack' st')"

lemma vm_sim_None [simp]: "vm_sim pc' m None \<longleftrightarrow> m = Err IPMB_ERR_EVAL"
  by (simp add: vm_sim_def)

lemma vm_sim_Some [simp]:
  "vm_sim pc' (Ok (Inl (pc', sp', stack'))) (Some st') \<longleftrightarrow> vm_rel sp' stack' st'"
  by (simp add: vm_sim_def)

lemma short_stack:
  "vm_rel sp stack st \<Longrightarrow> length st < n \<longleftrightarrow> sp < n"
  by (auto dest: vm_rel_length)

lemma sim_binary:
  assumes rel: "vm_rel sp stack st"
    and op: "op = IPMB_OP_CMP_EQ \<and> g = (\<lambda>a b. a = b) \<or> op = IPMB_OP_CMP_GT \<and> g = (\<lambda>a b. sint a > sint b) \<or>
      op = IPMB_OP_CMP_LT \<and> g = (\<lambda>a b. sint a < sint b) \<or> op = IPMB_OP_AND \<and> g = (\<lambda>a b. a \<noteq> 0 \<and> b \<noteq> 0) \<or>
      op = IPMB_OP_OR \<and> g = (\<lambda>a b. a \<noteq> 0 \<or> b \<noteq> 0)"
  shows "vm_sim pc (vm_body code frame op pc sp stack)
    (case st of b # a # st \<Rightarrow> Some (c_bool (g a b) # st) | _ \<Rightarrow> None)"
proof (cases "sp < 2")
  case True
  then have "length st < 2" using short_stack [OF rel, of 2] by simp
  then have "(case st of b # a # st \<Rightarrow> Some (c_bool (g a b) # st) | _ \<Rightarrow> None) = None"
    by (cases st; cases "tl st") auto
  with True op show ?thesis by (auto simp: vm_body_def opcodes)
next
  case False
  then have "\<not> length st < 2" using short_stack [OF rel, of 2] by simp
  then obtain b a st0 where st: "st = b # a # st0"
    by (cases st; cases "tl st") auto
  with rel obtain n where n: "sp = Suc (Suc n)" "Suc n < 64" "vi (stack ! Suc n) = b" "vi (stack ! n) = a"
      "vm_rel n stack st0"
    by (auto simp: vm_rel_Cons)
  have len: "length stack = 64" using rel by (simp add: vm_rel_def)
  have "vm_rel (Suc n) (stack[n := \<lparr>vi = v, is_bool = x\<rparr>]) (v # st0)" for v x
    using n by (intro vm_rel_push) auto
  with op n len show ?thesis
    by (elim disjE conjE) (simp_all add: vm_body_def opcodes rd8_def put_def st)
qed

lemma sim_range:
  assumes rel: "vm_rel sp stack st"
  shows "vm_sim pc (vm_body code frame IPMB_OP_RANGE pc sp stack) (exec_instr frame In_range st)"
proof (cases "sp < 3")
  case True
  then have "length st < 3" using short_stack [OF rel, of 3] by simp
  then have "exec_instr frame In_range st = None"
    by (cases st; cases "tl st"; cases "tl (tl st)") auto
  with True show ?thesis by (auto simp: vm_body_def opcodes)
next
  case False
  then have "\<not> length st < 3" using short_stack [OF rel, of 3] by simp
  then obtain h l v st0 where st: "st = h # l # v # st0"
    by (cases st; cases "tl st"; cases "tl (tl st)") auto
  with rel obtain n where n: "sp = Suc (Suc (Suc n))" "Suc (Suc n) < 64" "vi (stack ! Suc (Suc n)) = h"
      "vi (stack ! Suc n) = l" "vi (stack ! n) = v" "vm_rel n stack st0"
    by (auto simp: vm_rel_Cons)
  have len: "length stack = 64" "length st0 = n" using rel n(6) by (auto dest: vm_rel_length)
  have "vm_rel (Suc (Suc n)) (stack[n := \<lparr>vi = x, is_bool = bx\<rparr>, Suc n := \<lparr>vi = y, is_bool = by\<rparr>]) (y # x # st0)"
    for x bx y "by"
    using n by (intro vm_rel_push) auto
  with n len show ?thesis
    by (simp add: vm_body_def opcodes rd8_def put_def st)
qed

lemma sim_not:
  assumes rel: "vm_rel sp stack st"
  shows "vm_sim pc (vm_body code frame IPMB_OP_NOT pc sp stack) (exec_instr frame Not_op st)"
proof (cases st)
  case Nil
  with rel show ?thesis by (auto simp: vm_body_def opcodes vm_rel_Nil)
next
  case (Cons a st0)
  with rel obtain n where n: "sp = Suc n" "n < 64" "vi (stack ! n) = a" "vm_rel n stack st0"
    by (auto simp: vm_rel_Cons)
  have len: "length stack = 64" using rel by (simp add: vm_rel_def)
  have "vm_rel (Suc n) (stack[n := \<lparr>vi = x, is_bool = b\<rparr>]) (x # st0)" for x b
    using n by (intro vm_rel_push) auto
  with n len show ?thesis by (simp add: vm_body_def opcodes rd8_def put_def Cons)
qed

text \<open>The immediate operands of an instruction in the code.\<close>

lemma code_operands:
  assumes "code = pre @ op # imm @ rest"
  shows "pre @ op # imm @ rest = code" "code ! length pre = op" "length pre < length code"
    "drop (length pre + 1) code = imm @ rest"
    "length code = length pre + 1 + length imm + length rest"
  using assms by (simp_all add: nth_append)

lemma vm_body_instr:
  assumes code: "code = pre @ instr_bytes i @ rest" and rel: "vm_rel sp stack st"
    and wf: "instr_wf i" "i \<noteq> End_op"
  shows "vm_sim (length pre + length (instr_bytes i))
    (vm_body code frame (hd (instr_bytes i)) (length pre + 1) sp stack) (exec_instr frame i st)"
proof (cases i)
  case (Push_int v)
  with code have "code = pre @ IPMB_OP_PUSH_INT # le32_bytes v @ rest" by simp
  note c = code_operands [OF this]
  have load: "ipmb_load_le32 code (length pre + 1) = (Ok v :: (ipmb_status, _) res)"
    using c(4, 5) by simp
  have "vm_body code frame IPMB_OP_PUSH_INT (length pre + 1) sp stack =
      (if 64 \<le> sp then Err IPMB_ERR_EVAL
       else Ok (Inl (length pre + 5, Suc sp, stack[sp := \<lparr>vi = v, is_bool = False\<rparr>])))"
    unfolding vm_body_def load rbind.simps
    using c(5) vm_rel_length [OF rel] by (simp add: put_def)
  then show ?thesis
    using vm_rel_length [OF rel] vm_rel_push [OF rel] unfolding Push_int by auto
next
  case (Load_field x)
  with code have "code = pre @ IPMB_OP_LOAD_FIELD # [x] @ rest" by simp
  note c = code_operands [OF this]
  have "rd8 code (length pre + 1) = (Ok x :: (ipmb_status, _) res)"
    using c(4, 5) by (simp add: nth_via_drop)
  then show ?thesis
    using rel c(5) vm_rel_length [OF rel] vm_rel_push [OF rel]
    unfolding Load_field by (auto simp: vm_body_def opcodes put_def rd8_def)
next
  case (Forward s)
  with code have "code = pre @ IPMB_OP_FORWARD # (of_nat (length s) # s) @ rest" by simp
  note c = code_operands [OF this]
  have "code ! (length pre + 1) = of_nat (length s)"
    using c(4, 5) by (simp add: nth_via_drop)
  moreover have "unat (of_nat (length s) :: byte) = length s"
    using wf(1) Forward by (simp add: unsigned_of_nat take_bit_nat_eq_self)
  ultimately show ?thesis
    using rel c(5) unfolding Forward by (simp add: vm_body_def opcodes rd8_def)
next
  case (Tag s)
  with code have "code = pre @ IPMB_OP_TAG # (of_nat (length s) # s) @ rest" by simp
  note c = code_operands [OF this]
  have "code ! (length pre + 1) = of_nat (length s)"
    using c(4, 5) by (simp add: nth_via_drop)
  moreover have "unat (of_nat (length s) :: byte) = length s"
    using wf(1) Tag by (simp add: unsigned_of_nat take_bit_nat_eq_self)
  ultimately show ?thesis
    using rel c(5) unfolding Tag by (simp add: vm_body_def opcodes rd8_def)
next
  case In_range
  then show ?thesis using sim_range [OF rel] by simp
next
  case Not_op
  then show ?thesis using sim_not [OF rel] by simp
next
  case End_op
  with wf show ?thesis by simp
qed (use sim_binary [OF rel] in \<open>(cases st; cases "tl st"; force)+\<close>)

lemma instr_bytes_hd: "instr_bytes i = hd (instr_bytes i) # tl (instr_bytes i)"
  by (cases i) simp_all

lemma vm_body_end:
  assumes "vm_rel sp stack st"
  shows "vm_body code frame IPMB_OP_END pc sp stack =
    (case st of [] \<Rightarrow> Err IPMB_ERR_EVAL | v # _ \<Rightarrow> Ok (Inr (v \<noteq> 0)))"
  using assms vm_rel_length [OF assms]
  by (cases st) (auto simp: vm_body_def opcodes rd8_def vm_rel_Cons vm_rel_Nil)

lemma vm_loop_run:
  assumes "list_all instr_wf is" "code = pre @ assemble is" "vm_rel sp stack st"
  shows "vm_loop code frame (length pre) sp stack = vm_run frame is st"
  using assms
proof (induction "is" arbitrary: pre sp stack st)
  case Nil
  then show ?case by (subst vm_loop.simps) (simp add: assemble_def)
next
  case (Cons i "is")
  let ?op = "hd (instr_bytes i)"
  have code: "code = pre @ instr_bytes i @ assemble is"
    using Cons.prems(2) by (simp add: assemble_def)
  have op: "length pre < length code" "code ! length pre = ?op"
    using code instr_bytes_hd [of i] by (metis length_append less_add_same_cancel1 length_greater_0_conv
        append_is_Nil_conv list.discI, metis nth_append_length append_Cons)
  have loop: "vm_loop code frame (length pre) sp stack =
      rbind (vm_body code frame ?op (length pre + 1) sp stack)
        (\<lambda>next. case next of Inl (pc, sp, stack) \<Rightarrow> vm_loop code frame pc sp stack | Inr m \<Rightarrow> Ok m)"
    using op by (subst vm_loop.simps) (simp add: rd8_def)
  show ?case
  proof (cases "i = End_op")
    case True
    then show ?thesis
      unfolding loop using vm_body_end [OF Cons.prems(3), of code frame "length pre + 1"]
      by (cases st) simp_all
  next
    case False
    have sim: "vm_sim (length pre + length (instr_bytes i))
        (vm_body code frame ?op (length pre + 1) sp stack) (exec_instr frame i st)"
      using Cons.prems(1) False by (intro vm_body_instr [OF code Cons.prems(3)]) simp_all
    show ?thesis
    proof (cases "exec_instr frame i st")
      case None
      with sim False show ?thesis unfolding loop by simp
    next
      case (Some st')
      with sim obtain sp' stack' where body: "vm_body code frame ?op (length pre + 1) sp stack
          = Ok (Inl (length (pre @ instr_bytes i), sp', stack'))" "vm_rel sp' stack' st'"
        by (auto simp: vm_sim_def)
      have "vm_loop code frame (length (pre @ instr_bytes i)) sp' stack' = vm_run frame is st'"
        using Cons.prems(1) code body(2) by (intro Cons.IH) simp_all
      with body Some False show ?thesis unfolding loop by simp
    qed
  qed
qed

lemma vm_evaluate_run:
  assumes "list_all instr_wf is"
  shows "ipmb_vm_evaluate (assemble is) frame = vm_run frame is []"
  unfolding ipmb_vm_evaluate_def
  using vm_loop_run [OF assms, of "assemble is" "[]" 0 "replicate 64 \<lparr>vi = 0, is_bool = False\<rparr>" "[]" frame]
  by (simp add: vm_rel_Nil)

section \<open>Properties\<close>

text \<open>C10: on any code bytes and any frame the machine ends without touching anything outside the code
  and its 64 stack cells; it answers or reports \<^verbatim>\<open>IPMB_ERR_EVAL\<close>.\<close>

theorem vm_evaluate_safe:
  "\<exists>b. ipmb_vm_evaluate code frame = Ok b \<or> ipmb_vm_evaluate code frame = Err IPMB_ERR_EVAL"
proof -
  have err: "vm_loop code frame pc sp stack = Err e \<Longrightarrow> e = IPMB_ERR_EVAL" for pc sp stack e
  proof (induction code frame pc sp stack rule: vm_loop.induct)
    case (1 code frame pc sp stack)
    have "vm_body code frame op (pc + 1) sp stack = Err e \<Longrightarrow> e = IPMB_ERR_EVAL" for op
      unfolding vm_body_def by (simp split: if_splits)
    with 1 show ?case
      unfolding vm_loop.simps [of code frame pc sp stack] by (auto split: if_splits sum.splits) (metis sum.exhaust prod_cases3)
  qed
  have "no_fault (ipmb_vm_evaluate code frame)"
    by (simp add: ipmb_vm_evaluate_def vm_loop_safe)
  then show ?thesis
    using err by (cases "ipmb_vm_evaluate code frame") (auto simp: ipmb_vm_evaluate_def)
qed

text \<open>C7: on assembled instructions the byte machine with its stack array refines the small-step
  machine on instructions: it answers \<open>b\<close> exactly when steps from the empty stack reach an end
  instruction with a top of stack that says \<open>b\<close>.\<close>

theorem vm_refines_steps:
  assumes "list_all instr_wf is"
  shows "ipmb_vm_evaluate (assemble is) f = Ok b \<longleftrightarrow>
    (\<exists>is' v st. (vm_step f)\<^sup>*\<^sup>* (is, []) (End_op # is', v # st) \<and> b = (v \<noteq> 0))"
  unfolding vm_evaluate_run [OF assms] vm_run_steps by simp

theorem vm_refines_steps_witness:
  "\<exists>is' v st. (vm_step sample_frame)\<^sup>*\<^sup>* ([Load_field 5, Push_int 5, Cmp_eq, Forward [1, 2], End_op], [])
     (End_op # is', v # st) \<and> True = (v \<noteq> 0)"
proof -
  have "ipmb_vm_evaluate (assemble [Load_field 5, Push_int 5, Cmp_eq, Forward [1, 2], End_op]) sample_frame
      = Ok True"
    by (subst vm_evaluate_run) (simp_all add: load_field_def sample_frame_def c_bool_def)
  moreover have "list_all instr_wf [Load_field 5, Push_int 5, Cmp_eq, Forward [1, 2], End_op]" by simp
  ultimately show ?thesis using vm_refines_steps by blast
qed

end
