(* ===== verification/Rule_Compiler.thy ===== *)
theory Rule_Compiler
  imports Rule_Parser Route_Vm
begin

text \<open>
  The rule compiler of \<^verbatim>\<open>src/routing/rule_compiler.c\<close>, the field table of
  \<^verbatim>\<open>src/routing/symbol_table.c\<close> and the instruction count of \<^verbatim>\<open>src/routing/rule_analyzer.c\<close>.
  \<open>rule_holds\<close> is the meaning of a rule; the main lemma is that compiled code evaluates to it.
  The k-th allocation is the k-th growth of the code block.
\<close>

section \<open>The code\<close>

type_synonym ipmb_rule_bytecode = "byte list"

definition field_id :: "string \<Rightarrow> byte" where
  "field_id field =
     (if field = ''type'' then 1
      else if field = ''flags'' then 2
      else if field = ''source'' then 3
      else if field = ''dest'' then 4
      else if field = ''priority'' then 5
      else if field = ''ttl'' then 6
      else if field = ''payload_len'' then 7
      else 0)"

text \<open>The block and the number of allocations so far.\<close>

definition emit ::
  "allocs \<Rightarrow> byte list \<Rightarrow> ipmb_rule_bytecode \<times> nat \<Rightarrow> (ipmb_status, ipmb_rule_bytecode \<times> nat) res" where
  "emit al data bc =
     (if length (fst bc) + length data > IPMB_MAX_RULE_CODE then Err IPMB_ERR_LIMIT
      else rbind (alloc al (snd bc) IPMB_ERR_ALLOC) (\<lambda>_. Ok (fst bc @ data, snd bc + 1)))"

definition emit_u8 ::
  "allocs \<Rightarrow> byte \<Rightarrow> ipmb_rule_bytecode \<times> nat \<Rightarrow> (ipmb_status, ipmb_rule_bytecode \<times> nat) res" where
  "emit_u8 al v bc = emit al [v] bc"

definition emit_i32 ::
  "allocs \<Rightarrow> 32 word \<Rightarrow> ipmb_rule_bytecode \<times> nat \<Rightarrow> (ipmb_status, ipmb_rule_bytecode \<times> nat) res" where
  "emit_i32 al v bc = emit al (le32_bytes v) bc"

text \<open>After a \<^verbatim>\<open>goto fail\<close> the block is freed; every failure of an emission is reported as
  \<^verbatim>\<open>IPMB_ERR_ALLOC\<close>.\<close>

definition ipmb_rule_bytecode_free :: "ipmb_rule_bytecode \<Rightarrow> ipmb_rule_bytecode" where
  "ipmb_rule_bytecode_free bc = []"

definition ipmb_rule_compile ::
  "allocs \<Rightarrow> ipmb_rule_ast \<Rightarrow> (ipmb_status \<times> ipmb_rule_bytecode, ipmb_rule_bytecode) res" where
  "ipmb_rule_compile al ast =
     (let out = []; fid = field_id (rule_field ast) in
      if fid = 0 then Err (IPMB_ERR_INVALID, out)
      else
        rbind (or_fail
          (rbind (emit_u8 al IPMB_OP_LOAD_FIELD (out, 0)) (\<lambda>bc.
           rbind (emit_u8 al fid bc) (\<lambda>bc.
           rbind
            (if rule_op ast = IPMB_RULE_RANGE then
               rbind (emit_u8 al IPMB_OP_PUSH_INT bc) (\<lambda>bc.
               rbind (emit_i32 al (rule_value ast) bc) (\<lambda>bc.
               rbind (emit_u8 al IPMB_OP_PUSH_INT bc) (\<lambda>bc.
               rbind (emit_i32 al (rule_high ast) bc) (\<lambda>bc.
               rbind (emit_u8 al IPMB_OP_RANGE bc) (\<lambda>bc.
                 emit_u8 al IPMB_OP_AND bc)))))
             else
               let op = (if rule_op ast = IPMB_RULE_CMP_LT then IPMB_OP_CMP_LT
                         else if rule_op ast = IPMB_RULE_CMP_GT then IPMB_OP_CMP_GT
                         else IPMB_OP_CMP_EQ) in
               rbind (emit_u8 al IPMB_OP_PUSH_INT bc) (\<lambda>bc.
               rbind (emit_i32 al (rule_value ast) bc) (\<lambda>bc.
                 emit_u8 al op bc))) (\<lambda>bc.
             emit_u8 al IPMB_OP_END bc))))
          (IPMB_ERR_ALLOC, ipmb_rule_bytecode_free out))
        (\<lambda>bc. Ok (fst bc)))"

definition ipmb_rule_bytecode_clone ::
  "allocs \<Rightarrow> nat \<Rightarrow> ipmb_rule_bytecode \<Rightarrow> (ipmb_status, ipmb_rule_bytecode) res" where
  "ipmb_rule_bytecode_clone al k src = rbind (alloc al k IPMB_ERR_ALLOC) (\<lambda>_. Ok src)"

text \<open>\<^verbatim>\<open>symbol_table.c\<close>: the index of the name in the table plus one, or zero.\<close>

fun symbol_loop :: "string \<Rightarrow> string list \<Rightarrow> nat \<Rightarrow> nat" where
  "symbol_loop name [] i = 0"
| "symbol_loop name (n # ns) i = (if name = n then i + 1 else symbol_loop name ns (i + 1))"

definition ipmb_symbol_field_id :: "string \<Rightarrow> nat" where
  "ipmb_symbol_field_id name =
     symbol_loop name [''type'', ''flags'', ''source'', ''dest'', ''priority'', ''ttl'', ''payload_len''] 0"

fun count_loop :: "byte list \<Rightarrow> nat" where
  "count_loop [] = 0"
| "count_loop (b # bs) = (if 1 \<le> b \<and> b \<le> 13 then 1 else 0) + count_loop bs"

definition ipmb_rule_bytecode_instruction_count :: "ipmb_rule_bytecode \<Rightarrow> nat" where
  "ipmb_rule_bytecode_instruction_count bc = count_loop bc"

section \<open>The meaning of rules\<close>

text \<open>The value of a named field as the signed 32-bit number the language compares, 0 for an unknown
  name; a payload length is taken modulo \<open>2 ^ 32\<close>, as the cast of the machine does.\<close>

definition field_value :: "ipmb_frame \<Rightarrow> string \<Rightarrow> int" where
  "field_value f name =
     (if name = ''type'' then uint (frame_type f)
      else if name = ''flags'' then uint (frame_flags f)
      else if name = ''source'' then sint (source_addr f)
      else if name = ''dest'' then sint (dest_addr f)
      else if name = ''priority'' then uint (priority f)
      else if name = ''ttl'' then uint (ttl f)
      else if name = ''payload_len'' then sint (word_of_nat (payload_len f) :: 32 word)
      else 0)"

definition rule_holds :: "ipmb_rule_ast \<Rightarrow> ipmb_frame \<Rightarrow> bool" where
  "rule_holds a f =
     (let v = field_value f (rule_field a); x = sint (rule_value a) in
      case rule_op a of
        IPMB_RULE_CMP_EQ \<Rightarrow> v = x
      | IPMB_RULE_CMP_GT \<Rightarrow> v > x
      | IPMB_RULE_CMP_LT \<Rightarrow> v < x
      | IPMB_RULE_RANGE \<Rightarrow> x \<le> v \<and> v \<le> sint (rule_high a))"

text \<open>The machine loads by number what the language names.\<close>

lemma sint_ucast16: "sint (ucast (w :: 16 word) :: 32 word) = uint w"
proof -
  have "- (2 ^ 31) \<le> uint w" "uint w < 2 ^ 16" using uint_lt2p [of w] by (simp_all add: order_trans [OF _ uint_ge_0])
  then have "signed_take_bit 31 (uint w) = uint w" "take_bit 32 (uint w) = uint w"
    by (simp_all add: signed_take_bit_int_eq_self take_bit_int_eq_self)
  then show ?thesis by (simp add: sint_uint unsigned_ucast_eq)
qed

lemma load_field_value: "sint (load_field f (field_id name)) = field_value f name"
  by (simp add: load_field_def field_id_def field_value_def sint_ucast16)

lemma rule_holds_load:
  "rule_holds a f =
     (let v = sint (load_field f (field_id (rule_field a))); x = sint (rule_value a) in
      case rule_op a of
        IPMB_RULE_CMP_EQ \<Rightarrow> v = x
      | IPMB_RULE_CMP_GT \<Rightarrow> v > x
      | IPMB_RULE_CMP_LT \<Rightarrow> v < x
      | IPMB_RULE_RANGE \<Rightarrow> x \<le> v \<and> v \<le> sint (rule_high a))"
  unfolding rule_holds_def load_field_value ..

definition rule_instrs :: "ipmb_rule_ast \<Rightarrow> vm_instr list" where
  "rule_instrs a = Load_field (field_id (rule_field a)) #
     (case rule_op a of
        IPMB_RULE_CMP_EQ \<Rightarrow> [Push_int (rule_value a), Cmp_eq]
      | IPMB_RULE_CMP_GT \<Rightarrow> [Push_int (rule_value a), Cmp_gt]
      | IPMB_RULE_CMP_LT \<Rightarrow> [Push_int (rule_value a), Cmp_lt]
      | IPMB_RULE_RANGE \<Rightarrow> [Push_int (rule_value a), Push_int (rule_high a), In_range, And_op]) @
     [End_op]"

text \<open>The number of emissions, which is that of the allocations.\<close>

definition rule_emits :: "ipmb_rule_ast \<Rightarrow> nat" where
  "rule_emits a = (if rule_op a = IPMB_RULE_RANGE then 9 else 6)"

lemma c_bool_neq_0 [simp]: "(c_bool b \<noteq> 0) = b"
  by (simp add: c_bool_def)

lemma run_rule_instrs: "vm_run f (rule_instrs a) [] = Ok (rule_holds a f)"
  by (cases "rule_op a") (auto simp: rule_instrs_def rule_holds_load Let_def signed_word_eqI)

lemma emit_small:
  "length (fst bc) + length data \<le> IPMB_MAX_RULE_CODE \<Longrightarrow>
   emit al data bc = (if al (snd bc) then Ok (fst bc @ data, snd bc + 1) else Err IPMB_ERR_ALLOC)"
  by (simp add: emit_def alloc_def)

lemma all_less_unfold: "(\<forall>k < Suc n. P k) \<longleftrightarrow> (\<forall>k < n. P k) \<and> P n"
  by (auto simp: less_Suc_eq)

lemma compile_outcome:
  "ipmb_rule_compile al a =
    (if field_id (rule_field a) = 0 then Err (IPMB_ERR_INVALID, [])
     else if list_all al [0..<rule_emits a] then Ok (assemble (rule_instrs a))
     else Err (IPMB_ERR_ALLOC, []))"
proof -
  have upt: "[0..<9] = [0, Suc 0, Suc (Suc 0), Suc (Suc (Suc 0)), Suc (Suc (Suc (Suc 0))), Suc (Suc (Suc (Suc (Suc 0)))), Suc (Suc (Suc (Suc (Suc (Suc 0))))), Suc (Suc (Suc (Suc (Suc (Suc (Suc 0)))))), Suc (Suc (Suc (Suc (Suc (Suc (Suc (Suc 0))))))) :: nat]"
      "[0..<6] = [0, Suc 0, Suc (Suc 0), Suc (Suc (Suc 0)), Suc (Suc (Suc (Suc 0))), Suc (Suc (Suc (Suc (Suc 0)))) :: nat]"
    by code_simp+
  show ?thesis
    by (cases "rule_op a")
      (simp_all add: ipmb_rule_compile_def Let_def emit_u8_def emit_i32_def emit_small IPMB_MAX_RULE_CODE_def
        rule_emits_def upt rule_instrs_def assemble_def ipmb_rule_bytecode_free_def)
qed

lemma rule_instrs_wf: "list_all instr_wf (rule_instrs a)"
  by (cases "rule_op a") (simp_all add: rule_instrs_def)

lemma evaluate_rule_instrs: "ipmb_vm_evaluate (assemble (rule_instrs a)) f = Ok (rule_holds a f)"
  by (simp add: vm_evaluate_run rule_instrs_wf run_rule_instrs)

lemma symbol_field_id: "ipmb_symbol_field_id name = unat (field_id name)"
  by (simp add: ipmb_symbol_field_id_def field_id_def)

text \<open>Every instruction starts with an opcode byte, so it is counted at least once.\<close>

lemma count_loop_append: "count_loop (xs @ ys) = count_loop xs + count_loop ys"
  by (induction xs) simp_all

lemma count_assemble: "length is \<le> count_loop (assemble is)"
proof (induction "is")
  case (Cons i "is")
  have "1 \<le> count_loop (instr_bytes i)" by (cases i) (simp_all add: opcodes)
  with Cons show ?case by (simp add: assemble_def count_loop_append)
qed simp

text \<open>Running instructions one step each.\<close>

fun exec_instrs :: "ipmb_frame \<Rightarrow> vm_instr list \<Rightarrow> 32 word list \<Rightarrow> 32 word list option" where
  "exec_instrs f [] st = Some st"
| "exec_instrs f (i # is) st = Option.bind (exec_instr f i st) (exec_instrs f is)"

lemma exec_instrs_steps:
  "exec_instrs f is st = Some st' \<Longrightarrow> (vm_step f ^^ length is) (is @ js, st) (js, st')"
proof (induction "is" arbitrary: st)
  case (Cons i "is")
  then obtain st1 where "exec_instr f i st = Some st1" "exec_instrs f is st1 = Some st'"
    by (auto simp: bind_eq_Some_conv)
  with Cons.IH [of st1] show ?case
    by (auto simp: vm_step_simps intro!: relpowp_Suc_I2 simp del: relpowp.simps)
qed simp

section \<open>Properties\<close>

text \<open>C2: the compiler is correct: when \<^verbatim>\<open>ipmb_rule_compile\<close> succeeds, the machine answers on every
  frame whether the rule holds of it (a comparison of the named field with the constant, as
  signed 32-bit numbers, or a range with both ends included).  It fails exactly for an unknown
  field, with \<^verbatim>\<open>IPMB_ERR_INVALID\<close>, or for a failed allocation, and then leaves no code.\<close>

theorem rule_compile_correct:
  "case ipmb_rule_compile al a of
     Ok bc \<Rightarrow> field_id (rule_field a) \<noteq> 0 \<and> ipmb_vm_evaluate bc f = Ok (rule_holds a f)
   | Err (s, bc) \<Rightarrow> bc = [] \<and>
       (if field_id (rule_field a) = 0 then s = IPMB_ERR_INVALID
        else s = IPMB_ERR_ALLOC \<and> \<not> list_all al [0..<rule_emits a])
   | Fault u \<Rightarrow> False"
  by (simp add: compile_outcome evaluate_rule_instrs)

text \<open>C9: Compiled rules make progress.  The code of a rule is a fixed number of instructions and an
  end instruction, three for a comparison and five for a range; on every frame each of them can
  be executed, and after exactly that many steps the machine stands at the end instruction with
  the truth value of the rule as its whole stack.\<close>

theorem compiled_rule_answers:
  assumes "ipmb_rule_compile al a = Ok code"
  shows "\<exists>is. code = assemble (is @ [End_op]) \<and> length is = (if rule_op a = IPMB_RULE_RANGE then 5 else 3) \<and>
    (vm_step f ^^ length is) (is @ [End_op], []) ([End_op], [c_bool (rule_holds a f)])"
proof -
  let ?is = "butlast (rule_instrs a)"
  have "code = assemble (rule_instrs a)" using assms by (auto simp: compile_outcome split: if_splits)
  moreover have "rule_instrs a = ?is @ [End_op]" by (simp add: rule_instrs_def split: ipmb_rule_op.split)
  moreover have "length ?is = (if rule_op a = IPMB_RULE_RANGE then 5 else 3)"
    by (simp add: rule_instrs_def split: ipmb_rule_op.split)
  moreover have "exec_instrs f ?is [] = Some [c_bool (rule_holds a f)]"
  proof -
    have "x = y \<longleftrightarrow> sint x = sint y" for x y :: "32 word" by (auto intro: signed_word_eqI)
    then show ?thesis
      by (cases "rule_op a") (auto simp: rule_instrs_def rule_holds_load Let_def c_bool_def)
  qed
  ultimately show ?thesis using exec_instrs_steps [of f ?is "[]" _ "[End_op]"] by metis
qed

theorem compiled_rule_answers_witness:
  "\<exists>code is. ipmb_rule_compile (\<lambda>_. True) (zero_ast\<lparr>rule_field := ''type'', rule_value := 1\<rparr>) = Ok code \<and>
     code = assemble (is @ [End_op]) \<and> length is = 3 \<and>
     (vm_step sample_frame ^^ 3) (is @ [End_op], []) ([End_op], [1])"
proof -
  let ?a = "zero_ast\<lparr>rule_field := ''type'', rule_value := 1\<rparr>"
  have compiled: "ipmb_rule_compile (\<lambda>_. True) ?a = Ok (assemble (rule_instrs ?a))"
    by (simp add: compile_outcome field_id_def list_all_iff)
  have "c_bool (rule_holds ?a sample_frame) = 1" "rule_op ?a \<noteq> IPMB_RULE_RANGE"
    by (simp_all add: c_bool_def rule_holds_load zero_ast_def field_id_def load_field_def sample_frame_def Let_def)
  with compiled_rule_answers [OF compiled, of sample_frame] compiled show ?thesis by auto
qed

text \<open>The symbol table and the compiler give every field name the same number, zero for an
  unknown one.\<close>

theorem symbol_table_agrees: "ipmb_symbol_field_id name = unat (field_id name)"
  by (rule symbol_field_id)

text \<open>The rule presets, up to the null that ends them, are not rules of the language: each parses, with \<^verbatim>\<open>rule\<close> as its field and
  its name as an equality operator, and the compiler refuses it.\<close>

theorem presets_do_not_compile:
  "\<exists>rules. ipmb_rule_presets = map Some rules @ [None] \<and> list_all (\<lambda>t. case ipmb_rule_parse t of
       Ok a \<Rightarrow> rule_field a = ''rule'' \<and> ipmb_rule_compile al a = Err (IPMB_ERR_INVALID, [])
     | _ \<Rightarrow> False) rules"
proof -
  let ?rules = "map join_tokens
      [[''rule'', ''preset_1:'', ''priority'', ''>'', ''10'', ''forward'', ''zone_1;''],
       [''rule'', ''preset_2:'', ''drop'', ''if'', ''source_ip'', ''=='', ''192.168.1.100;''],
       [''rule'', ''preset_3:'', ''priority'', ''>'', ''50'', ''forward'', ''emergency_zone;'']]"
  have presets: "ipmb_rule_presets = map Some ?rules @ [None]"
    by (simp add: ipmb_rule_presets_def join_tokens.simps)
  have rule: "case ipmb_rule_parse (join_tokens (''rule'' # o1 # v # ts)) of
       Ok a \<Rightarrow> rule_field a = ''rule'' \<and> ipmb_rule_compile al a = Err (IPMB_ERR_INVALID, [])
     | _ \<Rightarrow> False" if "list_all is_token (o1 # v # ts)" for o1 v ts
    using parse_statement [of "''rule''" o1 v ts] that
    by (auto simp: compile_outcome field_id_def is_token_def isspace_def)
  have "list_all (\<lambda>t. case ipmb_rule_parse t of
       Ok a \<Rightarrow> rule_field a = ''rule'' \<and> ipmb_rule_compile al a = Err (IPMB_ERR_INVALID, [])
     | _ \<Rightarrow> False) ?rules"
    unfolding list.map list.pred_inject
    by (intro conjI TrueI rule; simp add: is_token_def isspace_def)
  with presets show ?thesis by blast
qed

text \<open>\<^verbatim>\<open>ipmb_rule_bytecode_instruction_count\<close> never counts fewer instructions than the code has,
  but it also counts operand bytes, so it counts more for the rule \<^verbatim>\<open>type == 5\<close>.\<close>

theorem instruction_count_bound:
  "length is \<le> ipmb_rule_bytecode_instruction_count (assemble is) \<and>
   (\<exists>a bc. ipmb_rule_compile (\<lambda>_. True) a = Ok bc \<and>
      length (rule_instrs a) = 4 \<and> ipmb_rule_bytecode_instruction_count bc = 6)"
proof (rule conjI)
  show "length is \<le> ipmb_rule_bytecode_instruction_count (assemble is)"
    by (simp add: ipmb_rule_bytecode_instruction_count_def count_assemble)
  let ?a = "zero_ast\<lparr>rule_field := ''type'', rule_value := 5\<rparr>"
  have "ipmb_rule_compile (\<lambda>_. True) ?a = Ok (assemble (rule_instrs ?a))"
    by (simp add: compile_outcome field_id_def list_all_iff)
  moreover have "length (rule_instrs ?a) = 4"
      "ipmb_rule_bytecode_instruction_count (assemble (rule_instrs ?a)) = 6"
    by code_simp+
  ultimately show "\<exists>a bc. ipmb_rule_compile (\<lambda>_. True) a = Ok bc \<and>
      length (rule_instrs a) = 4 \<and> ipmb_rule_bytecode_instruction_count bc = 6"
    by blast
qed

end
