(* ===== verification/Growable.thy ===== *)
theory Growable
  imports C_Memory
begin

text \<open>
  Growing arrays.  Five components keep an array with a count and a capacity and double the
  capacity when it is full; \<open>grow_cells\<close> is that repeated piece of code.  The locale
  \<open>append_store\<close> states what their \<^verbatim>\<open>add\<close> operations promise (a successful call appends, a
  failed one only reports the allocation and forgets nothing, no call leaves the block), and
  derives the result of a sequence of calls.  Byte counts of such blocks are assumed to fit in
  \<^verbatim>\<open>size_t\<close>.
\<close>

section \<open>The doubling step\<close>

text \<open>\<^verbatim>\<open>if (count == capacity) { next_cap = capacity ? capacity * 2u : first; realloc ... }\<close>;
  the last component of the result counts the allocations made.\<close>

definition grow_cells ::
  "allocs \<Rightarrow> 'e \<Rightarrow> nat \<Rightarrow> nat \<Rightarrow> 'a cells \<Rightarrow> nat \<Rightarrow> ('e, 'a cells \<times> nat \<times> nat) res" where
  "grow_cells al e first count cells capacity =
     (if count = capacity then
        let next_cap = (if capacity \<noteq> 0 then capacity * 2 else first) in
        rbind (alloc al 0 e) (\<lambda>_. Ok (realloc_cells next_cap cells, next_cap, 1))
      else Ok (cells, capacity, 0))"

text \<open>\<open>filled cells count capacity xs\<close>: the block has the capacity and starts with the values \<open>xs\<close>.\<close>

definition filled :: "'a cells \<Rightarrow> nat \<Rightarrow> nat \<Rightarrow> 'a list \<Rightarrow> bool" where
  "filled cells count capacity xs \<longleftrightarrow> holds cells xs \<and> length xs = count \<and> length cells = capacity"

lemma filled_empty: "filled [] 0 0 []"
  by (simp add: filled_def)

lemma filled_unique: "filled cells count capacity xs \<Longrightarrow> filled cells count capacity ys \<Longrightarrow> xs = ys"
  by (auto simp: filled_def intro: holds_unique)

lemma grow_cells_cases:
  assumes "filled cells count capacity xs" "0 < first"
  obtains (no) "count = capacity" "\<not> al 0" "grow_cells al e first count cells capacity = Err e"
  | (ok) cells' capacity' k where
      "grow_cells al e first count cells capacity = Ok (cells', capacity', k)"
      "filled cells' count capacity' xs" "count < capacity'"
      "k = (if count = capacity then 1 else 0)" "count = capacity \<Longrightarrow> al 0"
proof (cases "count = capacity")
  case True
  let ?n = "if capacity \<noteq> 0 then capacity * 2 else first"
  show ?thesis
  proof (cases "al 0")
    case al: True
    have "filled (realloc_cells ?n cells) count ?n xs"
      using assms True by (auto simp: filled_def intro!: holds_realloc)
    then show ?thesis
      using ok [of "realloc_cells ?n cells" ?n 1] True al assms(2)
      by (simp add: grow_cells_def Let_def)
  qed (use no True in \<open>simp add: grow_cells_def alloc_def\<close>)
next
  case False
  with assms(1) have "count < capacity" by (auto simp: filled_def dest: holds_length)
  with False show ?thesis
    using ok [of cells capacity 0] assms(1) by (simp add: grow_cells_def)
qed

lemma filled_store:
  assumes "filled cells count capacity xs" "count < capacity"
  obtains cells' where "store_cells cells count [x] = Ok cells'"
    and "filled cells' (Suc count) capacity (xs @ [x])"
proof -
  have "holds cells xs" "length xs < length cells" using assms by (auto simp: filled_def)
  from store_holds_snoc [OF this, of x] show ?thesis
    using that assms by (auto simp: filled_def)
qed

section \<open>Calls that add\<close>

text \<open>A sequence of calls, each with its own allocator; it stops at the first that fails.\<close>

fun add_list ::
  "(allocs \<Rightarrow> 'x \<Rightarrow> 's \<Rightarrow> (ipmb_status \<times> 's, 's) res) \<Rightarrow> (allocs \<times> 'x) list \<Rightarrow> 's \<Rightarrow>
   (ipmb_status \<times> 's, 's) res" where
  "add_list add [] s = Ok s"
| "add_list add ((al, x) # calls) s = rbind (add al x s) (\<lambda>s. add_list add calls s)"

locale append_store =
  fixes add :: "allocs \<Rightarrow> 'x \<Rightarrow> 's \<Rightarrow> (ipmb_status \<times> 's, 's) res"
    and wf :: "'s \<Rightarrow> bool"
    and contents :: "'s \<Rightarrow> 'y list"
    and item :: "'x \<Rightarrow> 'y list"
    and fits :: "'x \<Rightarrow> 's \<Rightarrow> bool"
    and empty :: 's
  assumes empty_wf: "wf empty"
    and empty_contents: "contents empty = []"
    and add_cases: "wf s \<Longrightarrow> fits x s \<Longrightarrow>
      (\<exists>s'. add al x s = Ok s' \<and> wf s' \<and> contents s' = contents s @ item x) \<or>
      (\<exists>s'. add al x s = Err (IPMB_ERR_ALLOC, s') \<and> wf s' \<and> prefix (contents s) (contents s') \<and> (\<exists>k. \<not> al k))"
begin

lemma add_Ok: "wf s \<Longrightarrow> fits x s \<Longrightarrow> add al x s = Ok s' \<Longrightarrow> wf s' \<and> contents s' = contents s @ item x"
  using add_cases [of s x al] by auto

lemma add_no_fault: "wf s \<Longrightarrow> fits x s \<Longrightarrow> no_fault (add al x s)"
  using add_cases [of s x al] by auto

text \<open>Whatever was stored stays where it is.\<close>

lemma add_keeps:
  "wf s \<Longrightarrow> fits x s \<Longrightarrow> add al x s = Ok s' \<or> add al x s = Err (e, s') \<Longrightarrow>
   prefix (contents s) (contents s')"
  using add_cases [of s x al] by auto

lemma add_list_Ok:
  assumes "\<forall>x s. fits x s" "wf s" "add_list add calls s = Ok s'"
  shows "wf s' \<and> contents s' = contents s @ concat (map (\<lambda>(al, x). item x) calls)"
  using assms(2, 3)
proof (induction calls arbitrary: s)
  case (Cons c calls)
  obtain al x where c: "c = (al, x)" by (cases c)
  from Cons.prems c obtain s1 where "add al x s = Ok s1" "add_list add calls s1 = Ok s'" by auto
  with Cons c add_Ok assms(1) show ?case by fastforce
qed simp

lemma add_list_total:
  assumes "\<forall>x s. fits x s" "wf s" "\<forall>(al, x) \<in> set calls. \<forall>k. al k"
  shows "\<exists>s'. add_list add calls s = Ok s'"
  using assms(2, 3)
proof (induction calls arbitrary: s)
  case (Cons c calls)
  obtain al x where c: "c = (al, x)" by (cases c)
  with Cons.prems add_cases [of s x al] assms(1) obtain s1 where "add al x s = Ok s1" "wf s1" by auto
  with Cons c show ?case by fastforce
qed simp

lemma add_list_empty:
  assumes "\<forall>x s. fits x s" "\<forall>(al, x) \<in> set calls. \<forall>k. al k"
  shows "\<exists>s'. add_list add calls empty = Ok s' \<and> wf s' \<and> contents s' = concat (map (\<lambda>(al, x). item x) calls)"
  using add_list_total [OF assms(1) empty_wf assms(2)] add_list_Ok [OF assms(1) empty_wf]
  by (metis append_Nil empty_contents)

end

end
