(* ===== verification/Storage.thy ===== *)
theory Storage
  imports Growable
begin

text \<open>
  The block store of \<^verbatim>\<open>src/storage.c\<close>: an array of blocks that only grows.  It implements
  \<open>append_store\<close>, so a block keeps its index and its bytes for the life of the store.
\<close>

section \<open>The code\<close>

text \<open>\<^verbatim>\<open>ipmb_storage_block_t\<close>: the block \<open>data\<close> points to and its length are one list.\<close>

type_synonym ipmb_storage_block = "byte list"

record ipmb_storage =
  blocks :: "ipmb_storage_block cells"
  st_count :: nat
  st_capacity :: nat

definition ipmb_storage_init :: ipmb_storage where
  "ipmb_storage_init = \<lparr>blocks = [], st_count = 0, st_capacity = 0\<rparr>"

definition ipmb_storage_free :: "ipmb_storage \<Rightarrow> ipmb_storage" where
  "ipmb_storage_free store = ipmb_storage_init"

text \<open>Returns the store and \<^verbatim>\<open>*index_out\<close>; an error returns the store as the caller finds it.\<close>

definition ipmb_storage_put ::
  "allocs \<Rightarrow> byte list \<Rightarrow> ipmb_storage \<Rightarrow> (ipmb_status \<times> ipmb_storage, ipmb_storage \<times> nat) res" where
  "ipmb_storage_put al data store =
     rbind (grow_cells al (IPMB_ERR_ALLOC, store) 8 (st_count store) (blocks store) (st_capacity store))
       (\<lambda>(cells, cap, k).
     let store = store\<lparr>blocks := cells, st_capacity := cap\<rparr> in
     rbind (alloc al k (IPMB_ERR_ALLOC, store)) (\<lambda>_.
     rbind (store_cells (blocks store) (st_count store) [data]) (\<lambda>cells.
       Ok (store\<lparr>blocks := cells, st_count := st_count store + 1\<rparr>, st_count store))))"

text \<open>\<^verbatim>\<open>src/storage_index.c\<close>.\<close>

definition ipmb_build_storage_index :: "string option \<Rightarrow> int" where
  "ipmb_build_storage_index path = (if path = None then - 1 else 0)"

section \<open>The store as a list\<close>

definition storage_wf :: "ipmb_storage \<Rightarrow> bool" where
  "storage_wf s \<longleftrightarrow> (\<exists>xs. filled (blocks s) (st_count s) (st_capacity s) xs)"

definition storage_contents :: "ipmb_storage \<Rightarrow> byte list list" where
  "storage_contents s = map the (take (st_count s) (blocks s))"

definition storage_add :: "allocs \<Rightarrow> byte list \<Rightarrow> ipmb_storage \<Rightarrow> (ipmb_status \<times> ipmb_storage, ipmb_storage) res" where
  "storage_add al data s = rbind (ipmb_storage_put al data s) (\<lambda>(s, i). Ok s)"

lemma storage_filled:
  "filled (blocks s) (st_count s) (st_capacity s) xs \<Longrightarrow> storage_contents s = xs"
  by (auto simp: filled_def holds_def storage_contents_def)

lemma storage_put_cases:
  assumes "filled (blocks s) (st_count s) (st_capacity s) xs"
  shows "(\<exists>s'. ipmb_storage_put al data s = Ok (s', length xs) \<and>
        filled (blocks s') (st_count s') (st_capacity s') (xs @ [data])) \<or>
    (\<exists>s'. ipmb_storage_put al data s = Err (IPMB_ERR_ALLOC, s') \<and>
        filled (blocks s') (st_count s') (st_capacity s') xs \<and> (\<exists>k. \<not> al k))"
proof -
  have eight: "(0 :: nat) < 8" by simp
  show ?thesis
  proof (cases rule: grow_cells_cases [OF assms eight, of al "(IPMB_ERR_ALLOC, s)", case_names no ok])
    case no
    with assms show ?thesis by (auto simp: ipmb_storage_put_def)
  next
    case (ok cells' capacity' k)
    note grown = ok
    have count: "st_count s = length xs" using assms by (simp add: filled_def)
    show ?thesis
    proof (cases "al k")
      case True
      obtain cells2 where c: "(store_cells cells' (st_count s) [data] :: (ipmb_status \<times> ipmb_storage, _) res) = Ok cells2"
          "filled cells2 (Suc (st_count s)) capacity' (xs @ [data])"
        by (rule filled_store [OF grown(2, 3)])
      from True grown(1) c count show ?thesis
        by (intro disjI1) (simp add: ipmb_storage_put_def)
    next
      case False
      with grown show ?thesis by (auto simp: ipmb_storage_put_def alloc_def)
    qed
  qed
qed

interpretation storage: append_store storage_add storage_wf storage_contents "\<lambda>d. [d]" "\<lambda>d s. True"
  ipmb_storage_init
proof
  show "storage_wf ipmb_storage_init" "storage_contents ipmb_storage_init = []"
    using filled_empty by (auto simp: storage_wf_def ipmb_storage_init_def storage_contents_def)
next
  fix s d al assume "storage_wf s"
  then obtain xs where xs: "filled (blocks s) (st_count s) (st_capacity s) xs"
    by (auto simp: storage_wf_def)
  from storage_put_cases [OF this, of al d] xs
  show "(\<exists>s'. storage_add al d s = Ok s' \<and> storage_wf s' \<and> storage_contents s' = storage_contents s @ [d]) \<or>
      (\<exists>s'. storage_add al d s = Err (IPMB_ERR_ALLOC, s') \<and> storage_wf s' \<and>
        prefix (storage_contents s) (storage_contents s') \<and> (\<exists>k. \<not> al k))"
    by (auto simp: storage_add_def storage_wf_def storage_filled)
qed

section \<open>Properties\<close>

text \<open>With memory available, putting blocks one after the other into a new store gives a store
  whose \<open>i\<close>-th block is the \<open>i\<close>-th that was put, and every further put returns the number of
  blocks as its index and leaves all earlier blocks as they are.\<close>

theorem storage_puts:
  assumes "\<forall>(al, x) \<in> set calls. \<forall>k. al k"
  shows "\<exists>s. add_list storage_add calls ipmb_storage_init = Ok s \<and> storage_contents s = map snd calls \<and>
    (case ipmb_storage_put al d s of
       Ok (s', i) \<Rightarrow> i = length calls \<and> storage_contents s' = map snd calls @ [d]
     | Err (e, s') \<Rightarrow> e = IPMB_ERR_ALLOC \<and> storage_contents s' = map snd calls
     | Fault u \<Rightarrow> False)"
proof -
  have items: "concat (map (\<lambda>(al, x). [x]) calls) = map snd calls"
    by (induction calls) auto
  obtain s where s: "add_list storage_add calls ipmb_storage_init = Ok s" "storage_wf s"
      "storage_contents s = map snd calls"
    using storage.add_list_empty [OF _ assms] by (auto simp: items)
  then obtain xs where xs: "filled (blocks s) (st_count s) (st_capacity s) xs"
    by (auto simp: storage_wf_def)
  then have "xs = map snd calls" using s(3) by (simp add: storage_filled)
  with storage_put_cases [OF xs, of al d] s show ?thesis
    by (auto simp: storage_filled)
qed

theorem storage_puts_witness:
  "\<exists>s. add_list storage_add [(\<lambda>_. True, [1, 2]), (\<lambda>_. True, [3])] ipmb_storage_init = Ok s \<and>
     storage_contents s = [[1, 2], [3]]"
proof -
  have "\<forall>(al, x) \<in> set [(\<lambda>_ :: nat. True, [1, 2 :: byte]), (\<lambda>_. True, [3])]. \<forall>k. al k" by simp
  from storage_puts [OF this, where al = "\<lambda>_. True" and d = "[]"] show ?thesis
    by (elim exE conjE) (rule exI, rule conjI, assumption, simp)
qed

end
