(* ===== verification/Telemetry_Buffers.thy ===== *)
theory Telemetry_Buffers
  imports Growable
begin

text \<open>
  The telemetry containers: the time series of \<^verbatim>\<open>src/telemetry/timeseries.c\<close>, the byte buffer of
  \<^verbatim>\<open>src/telemetry/sample_buffer.c\<close> (both implement \<open>append_store\<close>), and the histogram of
  \<^verbatim>\<open>src/telemetry/histogram.c\<close> with the \<^verbatim>\<open>ipmb_histogram_add_sample\<close> of \<^verbatim>\<open>sample_buffer.c\<close>.  A
  \<^verbatim>\<open>double\<close> is only copied and stands as its 64 bits.
\<close>

section \<open>Time series\<close>

record ipmb_timeseries_sample =
  timestamp :: "64 word"
  sample_value :: "64 word"

record ipmb_timeseries =
  samples :: "ipmb_timeseries_sample cells"
  ts_count :: nat
  ts_capacity :: nat

definition ipmb_timeseries_init :: ipmb_timeseries where
  "ipmb_timeseries_init = \<lparr>samples = [], ts_count = 0, ts_capacity = 0\<rparr>"

definition ipmb_timeseries_free :: "ipmb_timeseries \<Rightarrow> ipmb_timeseries" where
  "ipmb_timeseries_free ts = ipmb_timeseries_init"

definition ipmb_timeseries_add ::
  "allocs \<Rightarrow> 64 word \<times> 64 word \<Rightarrow> ipmb_timeseries \<Rightarrow> (ipmb_status \<times> ipmb_timeseries, ipmb_timeseries) res" where
  "ipmb_timeseries_add al sample ts =
     rbind (grow_cells al (IPMB_ERR_ALLOC, ts) 16 (ts_count ts) (samples ts) (ts_capacity ts)) (\<lambda>(cells, cap, k).
     let ts = ts\<lparr>samples := cells, ts_capacity := cap\<rparr> in
     rbind (store_cells (samples ts) (ts_count ts) [\<lparr>timestamp = fst sample, sample_value = snd sample\<rparr>])
       (\<lambda>cells. Ok (ts\<lparr>samples := cells, ts_count := ts_count ts + 1\<rparr>)))"

definition timeseries_wf :: "ipmb_timeseries \<Rightarrow> bool" where
  "timeseries_wf ts \<longleftrightarrow> (\<exists>xs. filled (samples ts) (ts_count ts) (ts_capacity ts) xs)"

definition timeseries_contents :: "ipmb_timeseries \<Rightarrow> (64 word \<times> 64 word) list" where
  "timeseries_contents ts = map (\<lambda>x. (timestamp (the x), sample_value (the x))) (take (ts_count ts) (samples ts))"

lemma timeseries_filled:
  "filled (samples ts) (ts_count ts) (ts_capacity ts) xs \<Longrightarrow>
   timeseries_contents ts = map (\<lambda>x. (timestamp x, sample_value x)) xs"
  by (auto simp: filled_def holds_def timeseries_contents_def)

interpretation timeseries: append_store ipmb_timeseries_add timeseries_wf timeseries_contents
  "\<lambda>x. [x]" "\<lambda>x s. True" ipmb_timeseries_init
proof
  show "timeseries_wf ipmb_timeseries_init" "timeseries_contents ipmb_timeseries_init = []"
    using filled_empty by (auto simp: timeseries_wf_def ipmb_timeseries_init_def timeseries_contents_def)
next
  fix ts x al assume "timeseries_wf ts"
  then obtain xs where xs: "filled (samples ts) (ts_count ts) (ts_capacity ts) xs"
    by (auto simp: timeseries_wf_def)
  have sixteen: "(0 :: nat) < 16" by simp
  show "(\<exists>s'. ipmb_timeseries_add al x ts = Ok s' \<and> timeseries_wf s' \<and>
        timeseries_contents s' = timeseries_contents ts @ [x]) \<or>
      (\<exists>s'. ipmb_timeseries_add al x ts = Err (IPMB_ERR_ALLOC, s') \<and> timeseries_wf s' \<and>
        prefix (timeseries_contents ts) (timeseries_contents s') \<and> (\<exists>k. \<not> al k))"
  proof (cases rule: grow_cells_cases [OF xs sixteen, of al "(IPMB_ERR_ALLOC, ts)", case_names no ok])
    case no
    with xs show ?thesis by (auto simp: ipmb_timeseries_add_def timeseries_wf_def)
  next
    case (ok cells' capacity' k)
    let ?x = "\<lparr>timestamp = fst x, sample_value = snd x\<rparr>"
    obtain cells2 where c: "(store_cells cells' (ts_count ts) [?x] :: (ipmb_status \<times> ipmb_timeseries, _) res) = Ok cells2"
        "filled cells2 (Suc (ts_count ts)) capacity' (xs @ [?x])"
      by (rule filled_store [OF ok(2, 3)])
    let ?s = "ts\<lparr>samples := cells2, ts_capacity := capacity', ts_count := Suc (ts_count ts)\<rparr>"
    have f: "filled (samples ?s) (ts_count ?s) (ts_capacity ?s) (xs @ [?x])" using c(2) by simp
    have "ipmb_timeseries_add al x ts = Ok ?s"
      using ok(1) c(1) by (simp add: ipmb_timeseries_add_def)
    moreover have "timeseries_wf ?s" unfolding timeseries_wf_def using f by blast
    moreover have "timeseries_contents ?s = timeseries_contents ts @ [x]"
      using timeseries_filled [OF f] timeseries_filled [OF xs] by simp
    ultimately show ?thesis by blast
  qed
qed

section \<open>Sample buffer\<close>

record ipmb_sample_buffer =
  sb_data :: "byte cells"
  sb_capacity :: nat
  sb_used :: nat

definition ipmb_sample_buffer_init :: ipmb_sample_buffer where
  "ipmb_sample_buffer_init = \<lparr>sb_data = [], sb_capacity = 0, sb_used = 0\<rparr>"

definition ipmb_sample_buffer_free :: "ipmb_sample_buffer \<Rightarrow> ipmb_sample_buffer" where
  "ipmb_sample_buffer_free buf = ipmb_sample_buffer_init"

definition ipmb_sample_buffer_push ::
  "allocs \<Rightarrow> byte list \<Rightarrow> ipmb_sample_buffer \<Rightarrow>
   (ipmb_status \<times> ipmb_sample_buffer, ipmb_sample_buffer) res" where
  "ipmb_sample_buffer_push al data buf =
     rbind (if sb_used buf + length data > sb_capacity buf then
              let cap = (if sb_capacity buf \<noteq> 0 then sb_capacity buf * 2 mod size_modulus else 64) in
              rbind (or_hang (double_until (sb_used buf + length data) cap)) (\<lambda>cap.
              rbind (alloc al 0 (IPMB_ERR_ALLOC, buf)) (\<lambda>_.
                Ok (buf\<lparr>sb_data := realloc_cells cap (sb_data buf), sb_capacity := cap\<rparr>)))
            else Ok buf) (\<lambda>buf.
     rbind (store_cells (sb_data buf) (sb_used buf) data) (\<lambda>cells.
       Ok (buf\<lparr>sb_data := cells, sb_used := sb_used buf + length data\<rparr>)))"

definition sample_buffer_wf :: "ipmb_sample_buffer \<Rightarrow> bool" where
  "sample_buffer_wf b \<longleftrightarrow> (\<exists>xs. filled (sb_data b) (sb_used b) (sb_capacity b) xs) \<and> sb_capacity b < 2 ^ 64"

definition sample_buffer_contents :: "ipmb_sample_buffer \<Rightarrow> byte list" where
  "sample_buffer_contents b = map the (take (sb_used b) (sb_data b))"

text \<open>The bound under which the capacity does not wrap around.\<close>

definition sample_fits :: "byte list \<Rightarrow> ipmb_sample_buffer \<Rightarrow> bool" where
  "sample_fits data b \<longleftrightarrow> sb_used b + length data \<le> 2 ^ 62"

lemma sample_buffer_filled:
  "filled (sb_data b) (sb_used b) (sb_capacity b) xs \<Longrightarrow> sample_buffer_contents b = xs"
  by (auto simp: filled_def holds_def sample_buffer_contents_def)

lemma sample_buffer_push_cases:
  assumes wf: "sample_buffer_wf b" and fits: "sample_fits data b"
  shows "(\<exists>b'. ipmb_sample_buffer_push al data b = Ok b' \<and> sample_buffer_wf b' \<and>
        sample_buffer_contents b' = sample_buffer_contents b @ data) \<or>
    ipmb_sample_buffer_push al data b = Err (IPMB_ERR_ALLOC, b) \<and> \<not> al 0"
proof -
  let ?need = "sb_used b + length data"
  obtain xs where xs: "filled (sb_data b) (sb_used b) (sb_capacity b) xs"
    using wf by (auto simp: sample_buffer_wf_def)
  have store: "\<exists>cells. (store_cells cs (sb_used b) data :: (ipmb_status \<times> ipmb_sample_buffer, _) res) = Ok cells \<and>
      filled cells ?need cap (xs @ data)"
    if "holds cs xs" "length cs = cap" "?need \<le> cap" for cs cap
    using store_holds [OF that(1), of data] xs that by (auto simp: filled_def)
  show ?thesis
  proof (cases "?need > sb_capacity b")
    case True
    let ?cap0 = "if sb_capacity b \<noteq> 0 then sb_capacity b * 2 mod size_modulus else 64"
    have small: "sb_capacity b * 2 mod size_modulus = sb_capacity b * 2"
      using True fits by (simp add: sample_fits_def size_modulus_def)
    have "?need \<le> 2 ^ 63" "0 < ?cap0" using fits small by (simp_all add: sample_fits_def)
    then obtain cap where cap: "double_until ?need ?cap0 = Some cap" "?need \<le> cap" "?cap0 \<le> cap"
        "cap = ?cap0 \<or> cap < 2 * ?need"
      using double_until_stops by blast
    have lt: "cap < 2 ^ 64" using cap(4) True fits small by (auto simp: sample_fits_def split: if_splits)
    have "holds (realloc_cells cap (sb_data b)) xs"
      using xs cap(2) by (intro holds_realloc) (auto simp: filled_def)
    then obtain cells where "(store_cells (realloc_cells cap (sb_data b)) (sb_used b) data
          :: (ipmb_status \<times> ipmb_sample_buffer, _) res) = Ok cells" "filled cells ?need cap (xs @ data)"
      using store [of "realloc_cells cap (sb_data b)" cap] cap(2) by auto
    then show ?thesis
      using True cap(1) lt sample_buffer_filled [OF xs]
      by (cases "al 0") (auto simp: ipmb_sample_buffer_push_def Let_def alloc_def sample_buffer_wf_def
          sample_buffer_filled)
  next
    case False
    then obtain cells where "(store_cells (sb_data b) (sb_used b) data
          :: (ipmb_status \<times> ipmb_sample_buffer, _) res) = Ok cells" "filled cells ?need (sb_capacity b) (xs @ data)"
      using store [of "sb_data b" "sb_capacity b"] xs by (auto simp: filled_def)
    then show ?thesis
      using False wf sample_buffer_filled [OF xs]
      by (auto simp: ipmb_sample_buffer_push_def sample_buffer_wf_def sample_buffer_filled)
  qed
qed

interpretation sample_buffer: append_store ipmb_sample_buffer_push sample_buffer_wf sample_buffer_contents
  "\<lambda>d. d" sample_fits ipmb_sample_buffer_init
proof
  show "sample_buffer_wf ipmb_sample_buffer_init" "sample_buffer_contents ipmb_sample_buffer_init = []"
    using filled_empty by (auto simp: sample_buffer_wf_def ipmb_sample_buffer_init_def sample_buffer_contents_def)
next
  fix b d al assume "sample_buffer_wf b" "sample_fits d b"
  from sample_buffer_push_cases [OF this, of al] \<open>sample_buffer_wf b\<close>
  show "(\<exists>s'. ipmb_sample_buffer_push al d b = Ok s' \<and> sample_buffer_wf s' \<and>
        sample_buffer_contents s' = sample_buffer_contents b @ d) \<or>
      (\<exists>s'. ipmb_sample_buffer_push al d b = Err (IPMB_ERR_ALLOC, s') \<and> sample_buffer_wf s' \<and>
        prefix (sample_buffer_contents b) (sample_buffer_contents s') \<and> (\<exists>k. \<not> al k))"
    by auto
qed

section \<open>Histogram\<close>

record ipmb_histogram_schema =
  schema_bucket_count :: "32 word"
  bin_offset :: "32 word"

text \<open>\<open>bins\<close> is \<open>None\<close> for the null pointer.\<close>

record ipmb_histogram =
  bucket_count :: "32 word"
  bins :: "32 word list option"

definition zero_histogram :: ipmb_histogram where
  "zero_histogram = \<lparr>bucket_count = 0, bins = None\<rparr>"

definition ipmb_histogram_init :: "allocs \<Rightarrow> 32 word \<Rightarrow> (ipmb_status \<times> ipmb_histogram, ipmb_histogram) res" where
  "ipmb_histogram_init al n =
     (if n = 0 \<or> n > 1000000 then Err (IPMB_ERR_LIMIT, zero_histogram)
      else rbind (alloc al 0 (IPMB_ERR_ALLOC, zero_histogram)) (\<lambda>_.
             Ok \<lparr>bucket_count = n, bins = Some (replicate (unat n) 0)\<rparr>))"

definition ipmb_histogram_free :: "ipmb_histogram \<Rightarrow> ipmb_histogram" where
  "ipmb_histogram_free hist = zero_histogram"

definition ipmb_histogram_bin_incr :: "ipmb_histogram \<Rightarrow> 32 word \<Rightarrow> ('e, ipmb_histogram) res" where
  "ipmb_histogram_bin_incr hist index =
     (case bins hist of
        None \<Rightarrow> Fault Null_deref
      | Some bs \<Rightarrow> if unat index < length bs
                   then Ok (hist\<lparr>bins := Some (bs[unat index := bs ! unat index + 1])\<rparr>)
                   else Fault Oob_write)"

definition ipmb_histogram_add_sample ::
  "ipmb_histogram \<Rightarrow> ipmb_histogram_schema option \<Rightarrow> 32 word \<Rightarrow> (ipmb_status, ipmb_histogram) res" where
  "ipmb_histogram_add_sample hist schema bin_index =
     (if bin_index \<ge> bucket_count hist then Err IPMB_ERR_LIMIT
      else
        let bin_index = bin_index + (case schema of Some s \<Rightarrow> bin_offset s | None \<Rightarrow> 0) in
        ipmb_histogram_bin_incr hist bin_index)"

definition histogram_wf :: "ipmb_histogram \<Rightarrow> bool" where
  "histogram_wf h \<longleftrightarrow> (case bins h of None \<Rightarrow> bucket_count h = 0 | Some bs \<Rightarrow> length bs = unat (bucket_count h))"

lemma add_sample_run:
  assumes "histogram_wf h"
  shows "ipmb_histogram_add_sample h schema i =
    (let j = i + (case schema of Some s \<Rightarrow> bin_offset s | None \<Rightarrow> 0) in
     if \<not> i < bucket_count h then Err IPMB_ERR_LIMIT
     else if j < bucket_count h
     then Ok (h\<lparr>bins := Some ((the (bins h))[unat j := the (bins h) ! unat j + 1])\<rparr>)
     else Fault Oob_write)"
proof (cases "i < bucket_count h")
  case True
  then have "bucket_count h \<noteq> 0" by auto
  with assms obtain bs where "bins h = Some bs" "length bs = unat (bucket_count h)"
    by (auto simp: histogram_wf_def split: option.splits)
  with True show ?thesis
    by (simp add: ipmb_histogram_add_sample_def ipmb_histogram_bin_incr_def Let_def word_less_nat_alt not_le)
next
  case False
  then show ?thesis by (simp add: ipmb_histogram_add_sample_def Let_def not_less)
qed

section \<open>Properties\<close>

text \<open>With memory available, a time series holds exactly the samples added to it, in their
  order.\<close>

theorem timeseries_adds:
  assumes "\<forall>(al, x) \<in> set calls. \<forall>k. al k"
  shows "\<exists>ts. add_list ipmb_timeseries_add calls ipmb_timeseries_init = Ok ts \<and>
    timeseries_contents ts = map snd calls \<and> ts_count ts = length calls"
proof -
  have items: "concat (map (\<lambda>(al, x). [x]) calls) = map snd calls"
    by (induction calls) auto
  obtain ts where ts: "add_list ipmb_timeseries_add calls ipmb_timeseries_init = Ok ts" "timeseries_wf ts"
      "timeseries_contents ts = map snd calls"
    using timeseries.add_list_empty [OF _ assms] by (auto simp: items)
  moreover have "ts_count ts = length (timeseries_contents ts)"
    using ts(2) by (auto simp: timeseries_wf_def timeseries_contents_def filled_def dest: holds_length)
  ultimately show ?thesis by auto
qed

theorem timeseries_adds_witness:
  "\<exists>ts. add_list ipmb_timeseries_add [(\<lambda>_. True, (1, 10)), (\<lambda>_. True, (2, 20))] ipmb_timeseries_init = Ok ts \<and>
     timeseries_contents ts = [(1, 10), (2, 20)]"
proof -
  have "\<forall>(al, x) \<in> set [(\<lambda>_ :: nat. True, (1, 10) :: 64 word \<times> 64 word), (\<lambda>_. True, (2, 20))]. \<forall>k. al k" by simp
  from timeseries_adds [OF this] show ?thesis
    by (elim exE conjE) (rule exI, rule conjI, assumption, simp)
qed

text \<open>C36: pushing bytes into a sample buffer appends them and nothing else, or fails for lack of
  memory and changes nothing; the buffer stays large enough for what it holds, and the growth
  loop ends, as long as the buffer holds at most 2^62 bytes.\<close>

theorem sample_buffer_push_appends:
  assumes "sample_buffer_wf b" "sb_used b + length data \<le> 2 ^ 62"
  shows "case ipmb_sample_buffer_push al data b of
      Ok b' \<Rightarrow> sample_buffer_wf b' \<and> sample_buffer_contents b' = sample_buffer_contents b @ data
    | Err (e, b') \<Rightarrow> e = IPMB_ERR_ALLOC \<and> b' = b \<and> \<not> al 0
    | Fault u \<Rightarrow> False"
  using sample_buffer_push_cases [OF assms(1), of data al] assms(2) by (auto simp: sample_fits_def)

theorem sample_buffer_push_appends_witness:
  "case ipmb_sample_buffer_push (\<lambda>_. True) [1, 2, 3] ipmb_sample_buffer_init of
      Ok b' \<Rightarrow> sample_buffer_wf b' \<and>
        sample_buffer_contents b' = sample_buffer_contents ipmb_sample_buffer_init @ [1, 2, 3]
    | Err (e, b') \<Rightarrow> e = IPMB_ERR_ALLOC \<and> b' = ipmb_sample_buffer_init \<and> \<not> True
    | Fault u \<Rightarrow> False"
  using sample_buffer_push_appends [OF sample_buffer.empty_wf, of "[1, 2, 3]" "\<lambda>_. True"]
  by (simp add: ipmb_sample_buffer_init_def)

text \<open>Adding a sample to a histogram increments exactly the bin of the given index moved by the
  schema's offset when that bin exists, and refuses an index outside the histogram.  The
  offset is added after the check: a moved index outside the histogram is written to.\<close>

theorem histogram_add_outcome:
  assumes "histogram_wf h"
  shows "ipmb_histogram_add_sample h schema i =
    (let j = i + (case schema of Some s \<Rightarrow> bin_offset s | None \<Rightarrow> 0) in
     if \<not> i < bucket_count h then Err IPMB_ERR_LIMIT
     else if j < bucket_count h
     then Ok (h\<lparr>bins := Some ((the (bins h))[unat j := the (bins h) ! unat j + 1])\<rparr>)
     else Fault Oob_write)"
  using assms by (rule add_sample_run)

theorem histogram_add_outcome_witness:
  "ipmb_histogram_add_sample \<lparr>bucket_count = 4, bins = Some [0, 0, 0, 0]\<rparr>
     (Some \<lparr>schema_bucket_count = 4, bin_offset = 2\<rparr>) 3 = Fault Oob_write"
  using histogram_add_outcome [of "\<lparr>bucket_count = 4, bins = Some [0, 0, 0, 0]\<rparr>"
      "Some \<lparr>schema_bucket_count = 4, bin_offset = 2\<rparr>" 3]
  by (simp add: histogram_wf_def Let_def)

end
