(* ===== verification/Session_Tracker.thy ===== *)
theory Session_Tracker
  imports C_Memory
begin

text \<open>
  The session tracker of \<^verbatim>\<open>src/session/session_tracker.c\<close>: a linked list of heap entries.  The
  memory of the entries is a map from addresses; a freed address is no longer in its domain and
  never given out again, so an access through a dangling pointer shows.  \<open>tracker_list\<close> is the
  invariant, \<open>sessions\<close> the list of sessions a tracker stands for; the operations refine
  \<open>spec_upsert\<close> and \<open>spec_terminate\<close> on that list, and the locale \<open>session_store\<close> is the
  interface the replay engine uses.
\<close>

section \<open>The code\<close>

type_synonym addr = nat

record ipmb_session_entry =
  e_session_id :: "32 word"
  e_peer_id :: "32 word"
  e_updates :: "64 word"
  e_state :: "byte list"
  e_next :: "addr option"

text \<open>\<open>t_heap\<close> is the memory of the entries, \<open>t_fresh\<close> the next address the allocator gives.\<close>

record ipmb_session_tracker =
  t_head :: "addr option"
  t_count :: nat
  t_heap :: "addr \<rightharpoonup> ipmb_session_entry"
  t_fresh :: addr

type_synonym entry_heap = "addr \<rightharpoonup> ipmb_session_entry"

definition ipmb_session_tracker_init :: ipmb_session_tracker where
  "ipmb_session_tracker_init = \<lparr>t_head = None, t_count = 0, t_heap = Map.empty, t_fresh = 0\<rparr>"

fun returned :: "('e, 'a) res option \<Rightarrow> ('e, 'a) res" where
  "returned None = Fault Hangs"
| "returned (Some r) = r"

definition deref :: "entry_heap \<Rightarrow> addr \<Rightarrow> ('e, ipmb_session_entry) res" where
  "deref h a = (case h a of None \<Rightarrow> Fault Use_after_free | Some e \<Rightarrow> Ok e)"

text \<open>\<^verbatim>\<open>free_entry\<close>, and the loop of \<^verbatim>\<open>ipmb_session_tracker_free\<close>.\<close>

definition free_entry :: "entry_heap \<Rightarrow> addr \<Rightarrow> ('e, entry_heap) res" where
  "free_entry h a = (if h a = None then Fault Double_free else Ok (h(a := None)))"

partial_function (option) free_loop :: "entry_heap \<Rightarrow> addr option \<Rightarrow> (ipmb_status, entry_heap) res option" where
  "free_loop h cur = (case cur of
       None \<Rightarrow> Some (Ok h)
     | Some a \<Rightarrow> (case deref h a of
           Ok e \<Rightarrow> (case free_entry h a of
               Ok h' \<Rightarrow> free_loop h' (e_next e)
             | Err s \<Rightarrow> Some (Err s) | Fault u \<Rightarrow> Some (Fault u))
         | Err s \<Rightarrow> Some (Err s) | Fault u \<Rightarrow> Some (Fault u)))"

declare free_loop.simps [code]

definition ipmb_session_tracker_free :: "ipmb_session_tracker \<Rightarrow> (ipmb_status, ipmb_session_tracker) res" where
  "ipmb_session_tracker_free t =
     rbind (returned (free_loop (t_heap t) (t_head t))) (\<lambda>h.
       Ok (t\<lparr>t_heap := h, t_head := None, t_count := 0\<rparr>))"

partial_function (option) find_loop ::
  "entry_heap \<Rightarrow> addr option \<Rightarrow> 32 word \<Rightarrow> (ipmb_status, addr option) res option" where
  "find_loop h cur sid = (case cur of
       None \<Rightarrow> Some (Ok None)
     | Some a \<Rightarrow> (case h a of
           None \<Rightarrow> Some (Fault Use_after_free)
         | Some e \<Rightarrow> if e_session_id e = sid then Some (Ok (Some a)) else find_loop h (e_next e) sid))"

declare find_loop.simps [code]

definition ipmb_session_find :: "ipmb_session_tracker \<Rightarrow> 32 word \<Rightarrow> (ipmb_status, addr option) res" where
  "ipmb_session_find t sid = returned (find_loop (t_heap t) (t_head t) sid)"

text \<open>Allocation \<open>0\<close> is that of a new entry, the next one the growth of the state block.  An error
  returns the tracker as the caller finds it.\<close>

definition ipmb_session_upsert ::
  "allocs \<Rightarrow> ipmb_session_tracker \<Rightarrow> 32 word \<Rightarrow> 32 word \<Rightarrow> byte list \<Rightarrow>
   (ipmb_status \<times> ipmb_session_tracker, ipmb_session_tracker) res" where
  "ipmb_session_upsert al t sid peer payload =
     rbind (map_err (\<lambda>s. (s, t)) (ipmb_session_find t sid)) (\<lambda>found.
     rbind (case found of
              Some a \<Rightarrow> Ok (t, a, 0)
            | None \<Rightarrow> rbind (alloc al 0 (IPMB_ERR_ALLOC, t)) (\<lambda>_.
                let a = t_fresh t;
                    e = \<lparr>e_session_id = sid, e_peer_id = peer, e_updates = 0, e_state = [],
                         e_next = t_head t\<rparr> in
                Ok (t\<lparr>t_heap := (t_heap t)(a \<mapsto> e), t_fresh := a + 1, t_head := Some a,
                      t_count := t_count t + 1\<rparr>, a, 1))) (\<lambda>(t, a, k).
     rbind (deref (t_heap t) a) (\<lambda>e.
     rbind (if length payload \<noteq> 0 then
              rbind (alloc al k (IPMB_ERR_ALLOC, t)) (\<lambda>_. Ok (e\<lparr>e_state := e_state e @ payload\<rparr>))
            else Ok e) (\<lambda>e.
       Ok (t\<lparr>t_heap := (t_heap t)(a \<mapsto> e\<lparr>e_updates := e_updates e + 1\<rparr>)\<rparr>)))))"

text \<open>\<^verbatim>\<open>link\<close>: \<open>None\<close> is the address of \<^verbatim>\<open>tracker->head\<close>, \<open>Some p\<close> that of \<^verbatim>\<open>p->next\<close>.\<close>

definition read_link :: "ipmb_session_tracker \<Rightarrow> addr option \<Rightarrow> ('e, addr option) res" where
  "read_link t link = (case link of
       None \<Rightarrow> Ok (t_head t)
     | Some p \<Rightarrow> rbind (deref (t_heap t) p) (\<lambda>e. Ok (e_next e)))"

definition write_link :: "ipmb_session_tracker \<Rightarrow> addr option \<Rightarrow> addr option \<Rightarrow> ('e, ipmb_session_tracker) res" where
  "write_link t link v = (case link of
       None \<Rightarrow> Ok (t\<lparr>t_head := v\<rparr>)
     | Some p \<Rightarrow> rbind (deref (t_heap t) p) (\<lambda>e. Ok (t\<lparr>t_heap := (t_heap t)(p \<mapsto> e\<lparr>e_next := v\<rparr>)\<rparr>)))"

definition unlink :: "ipmb_session_tracker \<Rightarrow> addr option \<Rightarrow> addr \<Rightarrow> (ipmb_status, ipmb_session_tracker) res" where
  "unlink t link dead =
     rbind (deref (t_heap t) dead) (\<lambda>e.
     rbind (write_link t link (e_next e)) (\<lambda>t.
     rbind (free_entry (t_heap t) dead) (\<lambda>h. Ok (t\<lparr>t_count := t_count t - 1, t_heap := h\<rparr>))))"

partial_function (option) terminate_loop ::
  "ipmb_session_tracker \<Rightarrow> addr option \<Rightarrow> 32 word \<Rightarrow> (ipmb_status, ipmb_session_tracker) res option" where
  "terminate_loop t link sid = (case read_link t link of
       Err s \<Rightarrow> Some (Err s) | Fault u \<Rightarrow> Some (Fault u)
     | Ok None \<Rightarrow> Some (Err IPMB_ERR_NOT_FOUND)
     | Ok (Some a) \<Rightarrow> (case deref (t_heap t) a of
           Err s \<Rightarrow> Some (Err s) | Fault u \<Rightarrow> Some (Fault u)
         | Ok e \<Rightarrow> if e_session_id e = sid then Some (unlink t link a)
                   else terminate_loop t (Some a) sid))"

declare terminate_loop.simps [code]

definition ipmb_session_terminate ::
  "ipmb_session_tracker \<Rightarrow> 32 word \<Rightarrow> (ipmb_status, ipmb_session_tracker) res" where
  "ipmb_session_terminate t sid = returned (terminate_loop t None sid)"

section \<open>The specification\<close>

record session =
  s_id :: "32 word"
  s_peer :: "32 word"
  s_updates :: "64 word"
  s_state :: "byte list"

definition spec_upsert :: "32 word \<Rightarrow> 32 word \<Rightarrow> byte list \<Rightarrow> session list \<Rightarrow> session list" where
  "spec_upsert sid peer payload xs =
     (if sid \<in> s_id ` set xs
      then map (\<lambda>x. if s_id x = sid then x\<lparr>s_updates := s_updates x + 1, s_state := s_state x @ payload\<rparr> else x) xs
      else \<lparr>s_id = sid, s_peer = peer, s_updates = 1, s_state = payload\<rparr> # xs)"

definition spec_terminate :: "32 word \<Rightarrow> session list \<Rightarrow> session list" where
  "spec_terminate sid xs = filter (\<lambda>x. s_id x \<noteq> sid) xs"

definition session_of :: "ipmb_session_entry \<Rightarrow> session" where
  "session_of e = \<lparr>s_id = e_session_id e, s_peer = e_peer_id e, s_updates = e_updates e, s_state = e_state e\<rparr>"

lemma session_of_simps [simp]:
  "s_id (session_of e) = e_session_id e" "s_updates (session_of e) = e_updates e"
  "session_of (e\<lparr>e_next := p\<rparr>) = session_of e"
  by (simp_all add: session_of_def)

lemma spec_upsert_ids:
  "map s_id (spec_upsert sid peer payload xs) = (if sid \<in> s_id ` set xs then map s_id xs else sid # map s_id xs)"
  by (auto simp: spec_upsert_def)

lemma spec_terminate_ids: "s_id ` set (spec_terminate sid xs) = s_id ` set xs - {sid}"
  by (auto simp: spec_terminate_def)

section \<open>Linked lists\<close>

fun chain :: "entry_heap \<Rightarrow> addr option \<Rightarrow> addr list \<Rightarrow> bool" where
  "chain h p [] \<longleftrightarrow> p = None"
| "chain h p (a # as) \<longleftrightarrow> p = Some a \<and> (\<exists>e. h a = Some e \<and> chain h (e_next e) as)"

definition sessions_at :: "entry_heap \<Rightarrow> addr list \<Rightarrow> session list" where
  "sessions_at h as = map (\<lambda>a. session_of (the (h a))) as"

text \<open>The invariant: the list is finite and without repetitions, the count is right, the heap
  holds exactly the entries of the list, and session ids are unique.\<close>

definition tracker_list :: "ipmb_session_tracker \<Rightarrow> addr list \<Rightarrow> bool" where
  "tracker_list t as \<longleftrightarrow> chain (t_heap t) (t_head t) as \<and> distinct as \<and> t_count t = length as \<and>
     dom (t_heap t) = set as \<and> (\<forall>a \<in> set as. a < t_fresh t) \<and>
     distinct (map s_id (sessions_at (t_heap t) as))"

lemma chain_dom: "chain h p as \<Longrightarrow> set as \<subseteq> dom h"
  by (induction as arbitrary: p) auto

lemma chain_upd: "a \<notin> set as \<Longrightarrow> chain (h(a := x)) p as = chain h p as"
  by (induction as arbitrary: p) auto

lemma chain_upd_next:
  "h a = Some e \<Longrightarrow> e_next e' = e_next e \<Longrightarrow> chain (h(a \<mapsto> e')) p as = chain h p as"
  by (induction as arbitrary: p) auto

text \<open>Taking \<open>a\<close> out behind \<open>b\<close>.\<close>

lemma chain_unlink:
  "chain h p (bs @ b # a # cs) \<Longrightarrow> distinct (bs @ b # a # cs) \<Longrightarrow> h b = Some eb \<Longrightarrow> h a = Some ea \<Longrightarrow>
   chain (h(b \<mapsto> eb\<lparr>e_next := e_next ea\<rparr>, a := None)) p (bs @ b # cs)"
  by (induction bs arbitrary: p) (auto simp: chain_upd)

lemma sessions_at_simps [simp]:
  "sessions_at h [] = []" "sessions_at h (a # as) = session_of (the (h a)) # sessions_at h as"
  "sessions_at h (as @ bs) = sessions_at h as @ sessions_at h bs" "length (sessions_at h as) = length as"
  by (simp_all add: sessions_at_def)

lemma sessions_upd: "a \<notin> set as \<Longrightarrow> sessions_at (h(a := x)) as = sessions_at h as"
  by (auto simp: sessions_at_def)

lemma sessions_cong:
  "(\<And>a. a \<in> set as \<Longrightarrow> map_option session_of (h' a) = map_option session_of (h a)) \<Longrightarrow>
   set as \<subseteq> dom h \<Longrightarrow> sessions_at h' as = sessions_at h as"
  by (induction as) (fastforce simp: dom_def)+

lemma session_ids_iff:
  "sid \<in> s_id ` set (sessions_at h as) \<longleftrightarrow> (\<exists>a \<in> set as. e_session_id (the (h a)) = sid)"
  by (force simp: sessions_at_def image_iff)

section \<open>Finding\<close>

lemma find_loop_chain:
  "chain h p as \<Longrightarrow>
   find_loop h p sid = Some (Ok (find (\<lambda>a. e_session_id (the (h a)) = sid) as))"
proof (induction as arbitrary: p)
  case Nil
  then show ?case by (subst find_loop.simps) simp
next
  case (Cons a as)
  then show ?case by (subst find_loop.simps) auto
qed

lemma find_tracker:
  "tracker_list t as \<Longrightarrow>
   ipmb_session_find t sid = Ok (find (\<lambda>a. e_session_id (the (t_heap t a)) = sid) as)"
  using find_loop_chain [of "t_heap t" "t_head t" as sid]
  by (auto simp: ipmb_session_find_def tracker_list_def)

section \<open>Freeing\<close>

lemma free_loop_chain:
  "chain h p as \<Longrightarrow> distinct as \<Longrightarrow>
   \<exists>h'. free_loop h p = Some (Ok h') \<and> dom h' = dom h - set as"
proof (induction as arbitrary: h p)
  case Nil
  then show ?case by (subst free_loop.simps) simp
next
  case (Cons a as)
  then obtain e where e: "p = Some a" "h a = Some e" "chain h (e_next e) as" by auto
  have "chain (h(a := None)) (e_next e) as" using Cons.prems(2) e(3) by (simp add: chain_upd)
  then obtain h' where h': "free_loop (h(a := None)) (e_next e) = Some (Ok h')"
      "dom h' = dom (h(a := None)) - set as"
    using Cons.IH Cons.prems(2) by (metis distinct.simps(2))
  have "free_loop h p = free_loop (h(a := None)) (e_next e)"
    using e by (subst free_loop.simps) (simp add: deref_def free_entry_def)
  with h' show ?case by auto
qed

lemma tracker_free_empty:
  assumes "tracker_list t as"
  shows "ipmb_session_tracker_free t = Ok (t\<lparr>t_heap := Map.empty, t_head := None, t_count := 0\<rparr>)"
proof -
  obtain h' where "free_loop (t_heap t) (t_head t) = Some (Ok h')" "dom h' = dom (t_heap t) - set as"
    using free_loop_chain [of "t_heap t" "t_head t" as] assms by (auto simp: tracker_list_def)
  with assms show ?thesis by (simp add: ipmb_session_tracker_free_def tracker_list_def)
qed

section \<open>Terminating\<close>

lemma terminate_loop_none:
  "chain (t_heap t) q as \<Longrightarrow> (read_link t link :: (ipmb_status, addr option) res) = Ok q \<Longrightarrow> \<forall>a \<in> set as. e_session_id (the (t_heap t a)) \<noteq> sid \<Longrightarrow>
   terminate_loop t link sid = Some (Err IPMB_ERR_NOT_FOUND)"
proof (induction as arbitrary: q link)
  case Nil
  then show ?case by (subst terminate_loop.simps) simp
next
  case (Cons a as)
  then obtain e where e: "q = Some a" "t_heap t a = Some e" "chain (t_heap t) (e_next e) as" by auto
  with Cons have "terminate_loop t (Some a) sid = Some (Err IPMB_ERR_NOT_FOUND)"
    by (intro Cons.IH [OF e(3)]) (simp_all add: read_link_def deref_def)
  with Cons.prems e show ?case by (subst terminate_loop.simps) (simp add: deref_def)
qed

lemma terminate_loop_found:
  "chain (t_heap t) q (bs @ a # cs) \<Longrightarrow> (read_link t link :: (ipmb_status, addr option) res) = Ok q \<Longrightarrow> e_session_id (the (t_heap t a)) = sid \<Longrightarrow>
   \<forall>b \<in> set bs. e_session_id (the (t_heap t b)) \<noteq> sid \<Longrightarrow>
   terminate_loop t link sid = Some (unlink t (if bs = [] then link else Some (last bs)) a)"
proof (induction bs arbitrary: q link)
  case Nil
  then show ?case by (subst terminate_loop.simps) (auto simp: deref_def)
next
  case (Cons b bs)
  then obtain e where e: "q = Some b" "t_heap t b = Some e" "chain (t_heap t) (e_next e) (bs @ a # cs)" by auto
  with Cons have "terminate_loop t (Some b) sid = Some (unlink t (if bs = [] then Some b else Some (last bs)) a)"
    by (intro Cons.IH [OF e(3)]) (simp_all add: read_link_def deref_def)
  with Cons.prems e show ?case by (subst terminate_loop.simps) (simp add: deref_def)
qed

text \<open>What \<open>unlink\<close> does to the list.  Every other entry keeps its session; only the link of the
  entry before the dead one may change.\<close>

definition same_sessions :: "addr set \<Rightarrow> entry_heap \<Rightarrow> entry_heap \<Rightarrow> bool" where
  "same_sessions A h h' \<longleftrightarrow> (\<forall>a \<in> A. map_option session_of (h' a) = map_option session_of (h a))"

lemma unlink_links:
  assumes "chain (t_heap t) (t_head t) (bs @ a # cs)" "distinct (bs @ a # cs)"
    "dom (t_heap t) = set (bs @ a # cs)"
  shows "\<exists>t'. unlink t (if bs = [] then None else Some (last bs)) a = Ok t' \<and>
    chain (t_heap t') (t_head t') (bs @ cs) \<and> dom (t_heap t') = set (bs @ cs) \<and>
    t_fresh t' = t_fresh t \<and> t_count t' = t_count t - 1 \<and> same_sessions (- {a}) (t_heap t) (t_heap t')"
proof -
  obtain ea where ea: "t_heap t a = Some ea" using assms(3) by fastforce
  show ?thesis
  proof (cases bs rule: rev_cases)
    case Nil
    with assms ea show ?thesis
      by (auto simp: unlink_def write_link_def deref_def free_entry_def chain_upd same_sessions_def)
  next
    case (snoc bs' b)
    then obtain eb where eb: "t_heap t b = Some eb" using assms(3) by fastforce
    let ?h = "(t_heap t)(b \<mapsto> eb\<lparr>e_next := e_next ea\<rparr>, a := None)"
    have "chain ?h (t_head t) (bs' @ b # cs)" "dom ?h = set (bs @ cs)" "b \<noteq> a"
      using assms snoc ea eb by (auto intro!: chain_unlink)
    with snoc ea eb show ?thesis
      by (auto simp: unlink_def write_link_def deref_def free_entry_def same_sessions_def)
  qed
qed

lemma unlink_tracker:
  assumes "tracker_list t (bs @ a # cs)"
  shows "\<exists>t'. unlink t (if bs = [] then None else Some (last bs)) a = Ok t' \<and> tracker_list t' (bs @ cs) \<and>
    t_fresh t' = t_fresh t \<and> same_sessions (- {a}) (t_heap t) (t_heap t')"
proof -
  obtain t' where t': "unlink t (if bs = [] then None else Some (last bs)) a = Ok t'"
      "chain (t_heap t') (t_head t') (bs @ cs)" "dom (t_heap t') = set (bs @ cs)"
      "t_fresh t' = t_fresh t" "t_count t' = t_count t - 1" "same_sessions (- {a}) (t_heap t) (t_heap t')"
    using unlink_links [of t bs a cs] assms by (auto simp: tracker_list_def)
  have "sessions_at (t_heap t') (bs @ cs) = sessions_at (t_heap t) (bs @ cs)"
    using t'(6) assms by (intro sessions_cong) (auto simp: same_sessions_def tracker_list_def)
  then have "distinct (map s_id (sessions_at (t_heap t') (bs @ cs)))"
    using assms by (simp add: tracker_list_def)
  moreover have "distinct (bs @ cs)" "t_count t' = length (bs @ cs)" "\<forall>b \<in> set (bs @ cs). b < t_fresh t'"
    using assms t'(4,5) by (simp_all add: tracker_list_def)
  ultimately have "tracker_list t' (bs @ cs)"
    unfolding tracker_list_def using t'(2,3) by blast
  with t' show ?thesis by blast
qed

lemma terminate_tracker:
  assumes "tracker_list t as"
  shows "if \<exists>a \<in> set as. e_session_id (the (t_heap t a)) = sid
    then \<exists>t' a. ipmb_session_terminate t sid = Ok t' \<and> a \<in> set as \<and> e_session_id (the (t_heap t a)) = sid \<and>
      tracker_list t' (filter (\<lambda>a. e_session_id (the (t_heap t a)) \<noteq> sid) as) \<and> t_fresh t' = t_fresh t \<and>
      same_sessions (- {a}) (t_heap t) (t_heap t')
    else ipmb_session_terminate t sid = Err IPMB_ERR_NOT_FOUND"
proof (cases "\<exists>a \<in> set as. e_session_id (the (t_heap t a)) = sid")
  case True
  then obtain bs a cs where as: "as = bs @ a # cs" "e_session_id (the (t_heap t a)) = sid"
      "\<forall>b \<in> set bs. e_session_id (the (t_heap t b)) \<noteq> sid"
    using split_list_first_prop [of as "\<lambda>a. e_session_id (the (t_heap t a)) = sid"] by auto
  have ids: "distinct (map (\<lambda>a. e_session_id (the (t_heap t a))) as)"
    using assms by (simp add: tracker_list_def sessions_at_def comp_def)
  then have "\<forall>c \<in> set cs. e_session_id (the (t_heap t c)) \<noteq> sid" using as by (auto simp: image_iff)
  with as have filt: "filter (\<lambda>a. e_session_id (the (t_heap t a)) \<noteq> sid) as = bs @ cs" by simp
  have "terminate_loop t None sid = Some (unlink t (if bs = [] then None else Some (last bs)) a)"
    using assms as by (intro terminate_loop_found [where cs = cs]) (simp_all add: tracker_list_def read_link_def)
  with unlink_tracker [of t bs a cs] assms as filt True show ?thesis
    by (auto simp: ipmb_session_terminate_def)
next
  case False
  with assms have "terminate_loop t None sid = Some (Err IPMB_ERR_NOT_FOUND)"
    by (intro terminate_loop_none [where as = as]) (auto simp: tracker_list_def read_link_def)
  with False show ?thesis by (simp add: ipmb_session_terminate_def)
qed

section \<open>Inserting and updating\<close>

text \<open>A new entry in front.\<close>

lemma tracker_push:
  assumes "tracker_list t as" "\<not> (\<exists>a \<in> set as. e_session_id (the (t_heap t a)) = e_session_id e)"
    "e_next e = t_head t"
  shows "tracker_list (t\<lparr>t_heap := (t_heap t)(t_fresh t \<mapsto> e), t_fresh := t_fresh t + 1,
      t_head := Some (t_fresh t), t_count := t_count t + 1\<rparr>) (t_fresh t # as)"
proof -
  have "t_fresh t \<notin> set as" using assms(1) by (auto simp: tracker_list_def)
  with assms show ?thesis
    by (auto simp: tracker_list_def chain_upd sessions_upd session_ids_iff
        intro: less_SucI)
qed

text \<open>A change of an entry that keeps its session id and its link.\<close>

lemma tracker_modify:
  assumes "tracker_list t as" "t_heap t a = Some e" "e_next e' = e_next e" "e_session_id e' = e_session_id e"
  shows "tracker_list (t\<lparr>t_heap := (t_heap t)(a \<mapsto> e')\<rparr>) as"
    and "sessions_at ((t_heap t)(a \<mapsto> e')) as =
      map (\<lambda>x. if s_id x = e_session_id e then session_of e' else x) (sessions_at (t_heap t) as)"
proof -
  have a: "a \<in> set as" using assms by (auto simp: tracker_list_def)
  have ids: "distinct (map (\<lambda>a. e_session_id (the (t_heap t a))) as)"
    using assms(1) by (simp add: tracker_list_def sessions_at_def comp_def)
  have only: "b = a" if "b \<in> set as" "e_session_id (the (t_heap t b)) = e_session_id e" for b
    using ids that a assms(2) by (auto simp: distinct_map dest: inj_onD [where x = b and y = a])
  show s: "sessions_at ((t_heap t)(a \<mapsto> e')) as =
      map (\<lambda>x. if s_id x = e_session_id e then session_of e' else x) (sessions_at (t_heap t) as)"
    unfolding sessions_at_def map_map comp_def
  proof (intro map_cong refl)
    fix b assume "b \<in> set as"
    from only [OF this] show "session_of (the (((t_heap t)(a \<mapsto> e')) b)) =
        (if s_id (session_of (the (t_heap t b))) = e_session_id e then session_of e'
         else session_of (the (t_heap t b)))"
      using assms(2) by (cases "b = a") auto
  qed
  have "map s_id (sessions_at ((t_heap t)(a \<mapsto> e')) as) = map s_id (sessions_at (t_heap t) as)"
    unfolding s using assms(4) by auto
  then show "tracker_list (t\<lparr>t_heap := (t_heap t)(a \<mapsto> e')\<rparr>) as"
    using assms a chain_upd_next [of "t_heap t" a e e' "t_head t" as] by (auto simp: tracker_list_def)
qed

text \<open>The part of \<^verbatim>\<open>ipmb_session_upsert\<close> after the entry has been found or made.\<close>

definition write_entry ::
  "allocs \<Rightarrow> nat \<Rightarrow> ipmb_session_tracker \<Rightarrow> addr \<Rightarrow> byte list \<Rightarrow>
   (ipmb_status \<times> ipmb_session_tracker, ipmb_session_tracker) res" where
  "write_entry al k t a payload =
     rbind (deref (t_heap t) a) (\<lambda>e.
     rbind (if length payload \<noteq> 0 then
              rbind (alloc al k (IPMB_ERR_ALLOC, t)) (\<lambda>_. Ok (e\<lparr>e_state := e_state e @ payload\<rparr>))
            else Ok e) (\<lambda>e.
       Ok (t\<lparr>t_heap := (t_heap t)(a \<mapsto> e\<lparr>e_updates := e_updates e + 1\<rparr>)\<rparr>)))"

definition new_entry :: "ipmb_session_tracker \<Rightarrow> 32 word \<Rightarrow> 32 word \<Rightarrow> ipmb_session_tracker" where
  "new_entry t sid peer =
     t\<lparr>t_heap := (t_heap t)(t_fresh t \<mapsto> \<lparr>e_session_id = sid, e_peer_id = peer, e_updates = 0, e_state = [],
         e_next = t_head t\<rparr>),
       t_fresh := t_fresh t + 1, t_head := Some (t_fresh t), t_count := t_count t + 1\<rparr>"

lemma upsert_steps:
  assumes "tracker_list t as"
  shows "ipmb_session_upsert al t sid peer payload =
    (case find (\<lambda>a. e_session_id (the (t_heap t a)) = sid) as of
       Some a \<Rightarrow> write_entry al 0 t a payload
     | None \<Rightarrow> if al 0 then write_entry al 1 (new_entry t sid peer) (t_fresh t) payload
               else Err (IPMB_ERR_ALLOC, t))"
  unfolding ipmb_session_upsert_def find_tracker [OF assms]
  by (simp add: write_entry_def new_entry_def alloc_def guard_def Let_def split: option.split)

lemma write_entry_tracker:
  assumes "tracker_list t as" "t_heap t a = Some e"
  shows "if length payload \<noteq> 0 \<and> \<not> al k then write_entry al k t a payload = Err (IPMB_ERR_ALLOC, t)
    else \<exists>t'. write_entry al k t a payload = Ok t' \<and> tracker_list t' as \<and> t_fresh t' = t_fresh t \<and>
      sessions_at (t_heap t') as =
        map (\<lambda>x. if s_id x = e_session_id e
                 then x\<lparr>s_updates := s_updates x + 1, s_state := s_state x @ payload\<rparr> else x)
          (sessions_at (t_heap t) as)"
proof (cases "length payload \<noteq> 0 \<and> \<not> al k")
  case True
  with assms(2) show ?thesis by (simp add: write_entry_def deref_def alloc_def)
next
  case False
  let ?e = "e\<lparr>e_state := e_state e @ payload, e_updates := e_updates e + 1\<rparr>"
  have w: "write_entry al k t a payload = Ok (t\<lparr>t_heap := (t_heap t)(a \<mapsto> ?e)\<rparr>)"
    using assms(2) False by (auto simp: write_entry_def deref_def alloc_def guard_def)
  have "\<forall>x \<in> set (sessions_at (t_heap t) as). s_id x = e_session_id e \<longrightarrow> x = session_of e"
  proof (intro ballI impI)
    fix x assume x: "x \<in> set (sessions_at (t_heap t) as)" "s_id x = e_session_id e"
    have "session_of e \<in> set (sessions_at (t_heap t) as)"
      using assms by (force simp: sessions_at_def tracker_list_def image_iff)
    with x assms(1) show "x = session_of e"
      by (intro inj_onD [of s_id "set (sessions_at (t_heap t) as)"]) (simp_all add: tracker_list_def distinct_map)
  qed
  then have "map (\<lambda>x. if s_id x = e_session_id e then session_of ?e else x) (sessions_at (t_heap t) as) =
      map (\<lambda>x. if s_id x = e_session_id e
               then x\<lparr>s_updates := s_updates x + 1, s_state := s_state x @ payload\<rparr> else x)
        (sessions_at (t_heap t) as)"
    by (intro map_cong refl) (auto simp: session_of_def)
  moreover note tracker_modify [OF assms, of ?e]
  ultimately show ?thesis using w False by auto
qed

lemma find_session_none:
  "find (\<lambda>a. e_session_id (the (h a)) = sid) as = None \<longleftrightarrow> sid \<notin> s_id ` set (sessions_at h as)"
  by (auto simp: find_None_iff session_ids_iff)

lemma new_entry_tracker:
  assumes "tracker_list t as" "sid \<notin> s_id ` set (sessions_at (t_heap t) as)"
  shows "tracker_list (new_entry t sid peer) (t_fresh t # as)"
    and "sessions_at (t_heap (new_entry t sid peer)) (t_fresh t # as) =
      \<lparr>s_id = sid, s_peer = peer, s_updates = 0, s_state = []\<rparr> # sessions_at (t_heap t) as"
proof -
  show "tracker_list (new_entry t sid peer) (t_fresh t # as)"
    unfolding new_entry_def using assms by (intro tracker_push) (auto simp: session_ids_iff)
  have "t_fresh t \<notin> set as" using assms(1) by (auto simp: tracker_list_def)
  then show "sessions_at (t_heap (new_entry t sid peer)) (t_fresh t # as) =
      \<lparr>s_id = sid, s_peer = peer, s_updates = 0, s_state = []\<rparr> # sessions_at (t_heap t) as"
    by (simp add: new_entry_def sessions_upd session_of_def)
qed

text \<open>The contract of \<^verbatim>\<open>ipmb_session_upsert\<close>: what it stores when it succeeds, and what it may
  leave behind when an allocation fails.\<close>

definition upsert_contract ::
  "allocs \<Rightarrow> ipmb_session_tracker \<Rightarrow> addr list \<Rightarrow> 32 word \<Rightarrow> 32 word \<Rightarrow> byte list \<Rightarrow>
   (ipmb_status \<times> ipmb_session_tracker, ipmb_session_tracker) res \<Rightarrow> bool" where
  "upsert_contract al t as sid peer payload r \<longleftrightarrow>
     (let xs = sessions_at (t_heap t) as; old = sid \<in> s_id ` set xs in
      (\<exists>t' as'. r = Ok t' \<and> tracker_list t' as' \<and> as' = (if old then as else t_fresh t # as) \<and>
         sessions_at (t_heap t') as' = spec_upsert sid peer payload xs \<and>
         t_fresh t' = (if old then t_fresh t else t_fresh t + 1)) \<or>
      (\<exists>t' as'. r = Err (IPMB_ERR_ALLOC, t') \<and> (\<not> al 0 \<or> \<not> al 1) \<and> tracker_list t' as' \<and>
         (sessions_at (t_heap t') as' = xs \<or>
          \<not> old \<and> al 0 \<and> \<not> al 1 \<and> sessions_at (t_heap t') as' = \<lparr>s_id = sid, s_peer = peer, s_updates = 0, s_state = []\<rparr> # xs)))"

lemma upsert_old:
  assumes t: "tracker_list t as" and found: "find (\<lambda>a. e_session_id (the (t_heap t a)) = sid) as = Some a"
  shows "upsert_contract al t as sid peer payload (ipmb_session_upsert al t sid peer payload)"
proof -
  have a: "a \<in> set as" "e_session_id (the (t_heap t a)) = sid"
    using found by (auto simp: find_Some_iff)
  then obtain e where e: "t_heap t a = Some e" "e_session_id e = sid"
    using t unfolding tracker_list_def by (metis domD option.sel)
  have mem: "sid \<in> s_id ` set (sessions_at (t_heap t) as)" using a by (auto simp: session_ids_iff)
  have up: "ipmb_session_upsert al t sid peer payload = write_entry al 0 t a payload"
    using upsert_steps [OF t] found by simp
  from write_entry_tracker [OF t e(1), of payload al 0] mem t e(2) show ?thesis
    by (auto simp: upsert_contract_def up spec_upsert_def Let_def split: if_splits)
qed

lemma upsert_new:
  assumes t: "tracker_list t as" and new: "sid \<notin> s_id ` set (sessions_at (t_heap t) as)"
  shows "upsert_contract al t as sid peer payload (ipmb_session_upsert al t sid peer payload)"
proof (cases "al 0")
  case False
  with upsert_steps [OF t, of al sid peer payload] new t show ?thesis
    by (auto simp: upsert_contract_def find_session_none [symmetric] Let_def)
next
  case True
  let ?t = "new_entry t sid peer"
  note n = new_entry_tracker [OF t new, of peer]
  have up: "ipmb_session_upsert al t sid peer payload = write_entry al 1 ?t (t_fresh t) payload"
    using upsert_steps [OF t, of al sid peer payload] True new by (simp add: find_session_none [symmetric])
  have e: "t_heap ?t (t_fresh t) =
      Some \<lparr>e_session_id = sid, e_peer_id = peer, e_updates = 0, e_state = [], e_next = t_head t\<rparr>"
    and fresh: "t_fresh ?t = t_fresh t + 1"
    by (simp_all add: new_entry_def)
  have others: "map (\<lambda>x. if s_id x = sid then f x else x) (sessions_at (t_heap t) as) =
      sessions_at (t_heap t) as" for f
    using new by (intro map_idI) auto
  from write_entry_tracker [OF n(1) e, of payload al 1] show ?thesis
    unfolding n(2) upsert_contract_def up using n new True
    by (auto simp: fresh spec_upsert_def others Let_def split: if_splits)
qed

lemma upsert_tracker:
  "tracker_list t as \<Longrightarrow>
   upsert_contract al t as sid peer payload (ipmb_session_upsert al t sid peer payload)"
  using upsert_old upsert_new
  by (cases "find (\<lambda>a. e_session_id (the (t_heap t a)) = sid) as")
     (auto simp only: find_session_none)

lemma upsert_tracker_Ok:
  assumes "tracker_list t as" "al 0" "al 1"
  shows "\<exists>t' as'. ipmb_session_upsert al t sid peer payload = Ok t' \<and> tracker_list t' as' \<and>
    (as' = as \<or> as' = t_fresh t # as) \<and> t_fresh t \<le> t_fresh t' \<and>
    sessions_at (t_heap t') as' = spec_upsert sid peer payload (sessions_at (t_heap t) as)"
proof (cases "sid \<in> s_id ` set (sessions_at (t_heap t) as)")
  case True
  with upsert_tracker [OF assms(1), of al sid peer payload] assms(2,3)
  have "\<exists>t'. ipmb_session_upsert al t sid peer payload = Ok t' \<and> tracker_list t' as \<and>
      sessions_at (t_heap t') as = spec_upsert sid peer payload (sessions_at (t_heap t) as) \<and> t_fresh t' = t_fresh t"
    by (simp add: upsert_contract_def)
  then show ?thesis by auto
next
  case False
  with upsert_tracker [OF assms(1), of al sid peer payload] assms(2,3)
  have "\<exists>t'. ipmb_session_upsert al t sid peer payload = Ok t' \<and> tracker_list t' (t_fresh t # as) \<and>
      sessions_at (t_heap t') (t_fresh t # as) = spec_upsert sid peer payload (sessions_at (t_heap t) as) \<and>
      t_fresh t' = t_fresh t + 1"
    by (simp add: upsert_contract_def del: sessions_at_simps)
  then show ?thesis by (metis le_add1)
qed

section \<open>The interface\<close>

text \<open>What the users of a session store rely on.  \<open>refs s as\<close>: the live sessions of \<open>s\<close> are behind
  the references \<open>as\<close>, newest first; \<open>look\<close> reads through a reference (\<open>None\<close> when it
  dangles), and a new reference is never one that was \<open>used\<close> before.\<close>

locale session_store =
  fixes upsert :: "allocs \<Rightarrow> 's \<Rightarrow> 32 word \<Rightarrow> 32 word \<Rightarrow> byte list \<Rightarrow> (ipmb_status \<times> 's, 's) res"
    and terminate :: "'s \<Rightarrow> 32 word \<Rightarrow> (ipmb_status, 's) res"
    and refs :: "'s \<Rightarrow> 'a list \<Rightarrow> bool"
    and look :: "'s \<Rightarrow> 'a \<Rightarrow> session option"
    and used :: "'s \<Rightarrow> 'a set"
    and init :: 's
  assumes refs_init: "refs init []"
    and refs_distinct: "refs s as \<Longrightarrow> distinct (map (\<lambda>a. s_id (the (look s a))) as)"
    and refs_live: "refs s as \<Longrightarrow> look s a \<noteq> None \<longleftrightarrow> a \<in> set as"
    and refs_used: "refs s as \<Longrightarrow> set as \<subseteq> used s"
    and upsert_all: "refs s as \<Longrightarrow> (\<And>k. al k) \<Longrightarrow>
      \<exists>s' as'. upsert al s sid peer payload = Ok s' \<and> refs s' as' \<and> used s \<subseteq> used s' \<and>
        (as' = as \<or> (\<exists>a. a \<notin> used s \<and> as' = a # as)) \<and>
        map (\<lambda>a. the (look s' a)) as' = spec_upsert sid peer payload (map (\<lambda>a. the (look s a)) as)"
    and terminate_live: "refs s as \<Longrightarrow> sid \<in> s_id ` set (map (\<lambda>a. the (look s a)) as) \<Longrightarrow>
      \<exists>s' as'. terminate s sid = Ok s' \<and> as' = filter (\<lambda>a. s_id (the (look s a)) \<noteq> sid) as \<and> refs s' as' \<and>
        used s \<subseteq> used s' \<and> (\<forall>a \<in> set as'. look s' a = look s a)"
    and terminate_absent: "refs s as \<Longrightarrow> sid \<notin> s_id ` set (map (\<lambda>a. the (look s a)) as) \<Longrightarrow>
      terminate s sid = Err IPMB_ERR_NOT_FOUND"
begin

lemma look_ids: "refs s as \<Longrightarrow> map_option s_id (look s a) = (if a \<in> set as then Some (s_id (the (look s a))) else None)"
  using refs_live [of s as a] by auto

text \<open>An update keeps every reference, and the id behind it.\<close>

lemma upsert_keeps:
  assumes "refs s as" "\<And>k. al k" "a \<in> used s" "upsert al s sid peer payload = Ok s'"
  shows "map_option s_id (look s' a) = map_option s_id (look s a)"
proof -
  let ?ids = "\<lambda>s as. map (\<lambda>a. s_id (the (look s a))) as"
  obtain as' where as': "refs s' as'" "as' = as \<or> (\<exists>b. b \<notin> used s \<and> as' = b # as)"
      "map (\<lambda>a. the (look s' a)) as' = spec_upsert sid peer payload (map (\<lambda>a. the (look s a)) as)"
    using upsert_all [where al = al and sid = sid and peer = peer and payload = payload, OF assms(1,2)]
      assms(4) by auto
  have "?ids s' as' = map s_id (spec_upsert sid peer payload (map (\<lambda>a. the (look s a)) as))"
    unfolding as'(3) [symmetric] by (simp add: comp_def)
  then have "?ids s' as' = ?ids s as \<or> ?ids s' as' = sid # ?ids s as"
    unfolding spec_upsert_ids by (simp add: comp_def split: if_splits)
  with as'(2) have "?ids s' as = ?ids s as"
    by (auto dest: arg_cong [where f = length])
  moreover have "a \<in> set as' \<longleftrightarrow> a \<in> set as" using as'(2) assms(3) by auto
  ultimately show ?thesis
    using look_ids [OF assms(1)] look_ids [OF as'(1)] by auto
qed

text \<open>A termination frees the reference of its session and no other.\<close>

lemma terminate_keeps:
  assumes "refs s as" "terminate s sid = Ok s'"
  shows "map_option s_id (look s' a) =
    (if map_option s_id (look s a) = Some sid then None else map_option s_id (look s a))"
proof -
  have live: "sid \<in> s_id ` set (map (\<lambda>a. the (look s a)) as)"
    using terminate_absent [OF assms(1)] assms(2) by fastforce
  define as' where "as' = filter (\<lambda>a. s_id (the (look s a)) \<noteq> sid) as"
  have s': "refs s' as'" "\<forall>a \<in> set as'. look s' a = look s a"
    using terminate_live [OF assms(1) live] assms(2) by (auto simp: as'_def)
  have "a \<in> set as' \<longleftrightarrow> a \<in> set as \<and> s_id (the (look s a)) \<noteq> sid" by (simp add: as'_def)
  then show ?thesis
    unfolding look_ids [OF s'(1), of a] look_ids [OF assms(1), of a] using s'(2) by auto
qed

lemma terminate_view:
  assumes "refs s as" "terminate s sid = Ok s'"
  shows "\<exists>as'. refs s' as' \<and> used s \<subseteq> used s' \<and>
    map (\<lambda>a. the (look s' a)) as' = spec_terminate sid (map (\<lambda>a. the (look s a)) as)"
proof -
  have live: "sid \<in> s_id ` set (map (\<lambda>a. the (look s a)) as)"
    using terminate_absent [OF assms(1)] assms(2) by fastforce
  from terminate_live [OF assms(1) this] assms(2) show ?thesis
    by (auto simp: spec_terminate_def filter_map comp_def)
qed

lemma terminate_absent_view:
  "sid \<notin> s_id ` set (map (\<lambda>a. the (look s a)) as) \<Longrightarrow>
   spec_terminate sid (map (\<lambda>a. the (look s a)) as) = map (\<lambda>a. the (look s a)) as"
  by (auto simp: spec_terminate_def filter_id_conv)

end

definition tracker_look :: "ipmb_session_tracker \<Rightarrow> addr \<Rightarrow> session option" where
  "tracker_look t a = map_option session_of (t_heap t a)"

lemma tracker_view:
  "tracker_list t as \<Longrightarrow> map (\<lambda>a. the (tracker_look t a)) as = sessions_at (t_heap t) as"
  by (auto simp: tracker_look_def sessions_at_def tracker_list_def intro!: option.map_sel)

interpretation tracker: session_store ipmb_session_upsert ipmb_session_terminate tracker_list tracker_look
  "\<lambda>t. {..<t_fresh t}" ipmb_session_tracker_init
proof
  show "tracker_list ipmb_session_tracker_init []"
    by (simp add: tracker_list_def ipmb_session_tracker_init_def)
next
  fix t as assume t: "tracker_list t as"
  have "map (\<lambda>a. s_id (the (tracker_look t a))) as = map s_id (sessions_at (t_heap t) as)"
    using arg_cong [OF tracker_view [OF t], of "map s_id"] by (simp add: comp_def)
  with t show "distinct (map (\<lambda>a. s_id (the (tracker_look t a))) as)" by (simp add: tracker_list_def)
  show "tracker_look t a \<noteq> None \<longleftrightarrow> a \<in> set as" for a
    using t by (auto simp: tracker_look_def tracker_list_def)
  show "set as \<subseteq> {..<t_fresh t}" using t by (auto simp: tracker_list_def)
  show "\<exists>t' as'. ipmb_session_upsert al t sid peer payload = Ok t' \<and> tracker_list t' as' \<and>
      {..<t_fresh t} \<subseteq> {..<t_fresh t'} \<and> (as' = as \<or> (\<exists>a. a \<notin> {..<t_fresh t} \<and> as' = a # as)) \<and>
      map (\<lambda>a. the (tracker_look t' a)) as' = spec_upsert sid peer payload (map (\<lambda>a. the (tracker_look t a)) as)"
    if "\<And>k. al k" for al sid peer payload
  proof -
    have al: "al 0" "al 1" by (rule that)+
    obtain t' as' where t': "ipmb_session_upsert al t sid peer payload = Ok t'" "tracker_list t' as'"
        "as' = as \<or> as' = t_fresh t # as" "t_fresh t \<le> t_fresh t'"
        "sessions_at (t_heap t') as' = spec_upsert sid peer payload (sessions_at (t_heap t) as)"
      using upsert_tracker_Ok [of t as al, OF t al] by blast
    then show ?thesis
      by (intro exI [of _ t'] exI [of _ as']) (auto simp: tracker_view [OF t] tracker_view)
  qed
  show "\<exists>t' as'. ipmb_session_terminate t sid = Ok t' \<and>
      as' = filter (\<lambda>a. s_id (the (tracker_look t a)) \<noteq> sid) as \<and> tracker_list t' as' \<and>
      {..<t_fresh t} \<subseteq> {..<t_fresh t'} \<and> (\<forall>a \<in> set as'. tracker_look t' a = tracker_look t a)"
    if "sid \<in> s_id ` set (map (\<lambda>a. the (tracker_look t a)) as)" for sid
  proof -
    have filt: "filter (\<lambda>a. s_id (the (tracker_look t a)) \<noteq> sid) as =
        filter (\<lambda>a. e_session_id (the (t_heap t a)) \<noteq> sid) as"
    proof (intro filter_cong refl)
      fix a assume "a \<in> set as"
      then obtain e where "t_heap t a = Some e" using t unfolding tracker_list_def by blast
      then show "(s_id (the (tracker_look t a)) \<noteq> sid) = (e_session_id (the (t_heap t a)) \<noteq> sid)"
        by (simp add: tracker_look_def)
    qed
    have "\<exists>a \<in> set as. e_session_id (the (t_heap t a)) = sid"
      using that by (simp add: tracker_view [OF t] session_ids_iff)
    with terminate_tracker [OF t, of sid] obtain t' a where t': "ipmb_session_terminate t sid = Ok t'"
        "e_session_id (the (t_heap t a)) = sid" "t_fresh t' = t_fresh t"
        "tracker_list t' (filter (\<lambda>a. e_session_id (the (t_heap t a)) \<noteq> sid) as)"
        "same_sessions (- {a}) (t_heap t) (t_heap t')"
      by auto
    then show ?thesis
      unfolding filt by (intro exI [of _ t']) (auto simp: same_sessions_def tracker_look_def)
  qed
  show "ipmb_session_terminate t sid = Err IPMB_ERR_NOT_FOUND"
    if "sid \<notin> s_id ` set (map (\<lambda>a. the (tracker_look t a)) as)" for sid
    using terminate_tracker [OF t, of sid] that by (auto simp: tracker_view [OF t] session_ids_iff)
qed

section \<open>Sequences of operations\<close>

datatype session_op = Upsert "32 word" "32 word" "byte list" | Terminate "32 word"

text \<open>A caller that ignores the status of its calls, each with its own allocator.\<close>

fun run_session_ops ::
  "(allocs \<times> session_op) list \<Rightarrow> ipmb_session_tracker \<Rightarrow> (ipmb_status, ipmb_session_tracker) res" where
  "run_session_ops [] t = Ok t"
| "run_session_ops ((al, Upsert sid peer payload) # ops) t =
     (case ipmb_session_upsert al t sid peer payload of
        Ok t' \<Rightarrow> run_session_ops ops t'
      | Err (_, t') \<Rightarrow> run_session_ops ops t'
      | Fault u \<Rightarrow> Fault u)"
| "run_session_ops ((al, Terminate sid) # ops) t =
     (case ipmb_session_terminate t sid of
        Ok t' \<Rightarrow> run_session_ops ops t'
      | Err _ \<Rightarrow> run_session_ops ops t
      | Fault u \<Rightarrow> Fault u)"

fun spec_op :: "session_op \<Rightarrow> session list \<Rightarrow> session list" where
  "spec_op (Upsert sid peer payload) xs = spec_upsert sid peer payload xs"
| "spec_op (Terminate sid) xs = spec_terminate sid xs"

lemma upsert_cases:
  assumes "tracker_list t as"
  obtains t' as' where "ipmb_session_upsert al t sid peer payload = Ok t' \<or>
      ipmb_session_upsert al t sid peer payload = Err (IPMB_ERR_ALLOC, t')" "tracker_list t' as'"
  using upsert_tracker [OF assms, of al sid peer payload] unfolding upsert_contract_def Let_def by blast

lemma terminate_spec:
  assumes "tracker_list t as"
  shows "(\<exists>t' as'. ipmb_session_terminate t sid = Ok t' \<and> tracker_list t' as' \<and>
      sessions_at (t_heap t') as' = spec_terminate sid (sessions_at (t_heap t) as)) \<or>
    ipmb_session_terminate t sid = Err IPMB_ERR_NOT_FOUND \<and>
      spec_terminate sid (sessions_at (t_heap t) as) = sessions_at (t_heap t) as"
proof (cases "sid \<in> s_id ` set (sessions_at (t_heap t) as)")
  case True
  then obtain t' where t': "ipmb_session_terminate t sid = Ok t'"
    using tracker.terminate_live [OF assms, of sid] by (auto simp: tracker_view [OF assms])
  from tracker.terminate_view [OF assms t'] t' show ?thesis by (auto simp: tracker_view tracker_view [OF assms])
next
  case False
  with tracker.terminate_absent [OF assms, of sid] show ?thesis
    by (auto simp: tracker_view [OF assms] spec_terminate_def filter_id_conv)
qed

lemma run_session_ops_list:
  "tracker_list t as \<Longrightarrow> \<exists>t' as'. run_session_ops ops t = Ok t' \<and> tracker_list t' as'"
proof (induction ops t arbitrary: as rule: run_session_ops.induct)
  case (2 al sid peer payload ops t)
  from 2(3) obtain t' as' where "ipmb_session_upsert al t sid peer payload = Ok t' \<or>
      ipmb_session_upsert al t sid peer payload = Err (IPMB_ERR_ALLOC, t')" "tracker_list t' as'"
    by (rule upsert_cases)
  with 2(1,2) show ?case by fastforce
next
  case (3 al sid ops t)
  from terminate_spec [OF 3(3), of sid] 3 show ?case by fastforce
qed auto

lemma run_session_ops_spec:
  "tracker_list t as \<Longrightarrow>
   \<exists>t' as'. run_session_ops (map (Pair (\<lambda>_. True)) ops) t = Ok t' \<and> tracker_list t' as' \<and>
     sessions_at (t_heap t') as' = fold spec_op ops (sessions_at (t_heap t) as)"
proof (induction ops arbitrary: t as)
  case (Cons op ops)
  show ?case
  proof (cases op)
    case (Upsert sid peer payload)
    with Cons upsert_tracker_Ok [OF Cons.prems, of "\<lambda>_. True" sid peer payload] show ?thesis by fastforce
  next
    case (Terminate sid)
    from terminate_spec [OF Cons.prems, of sid] Cons Terminate show ?thesis by fastforce
  qed
qed auto

lemma find_sessions:
  assumes "tracker_list t as"
  shows "\<exists>p. ipmb_session_find t sid = Ok p \<and>
    map_option (\<lambda>a. session_of (the (t_heap t a))) p = find (\<lambda>x. s_id x = sid) (sessions_at (t_heap t) as)"
proof -
  have "map_option f (find (\<lambda>a. P (f a)) as) = find P (map f as)" for f :: "addr \<Rightarrow> session" and P
    by (induction as) auto
  from this [of "\<lambda>a. session_of (the (t_heap t a))" "\<lambda>x. s_id x = sid"] show ?thesis
    by (simp add: find_tracker [OF assms] sessions_at_def)
qed

section \<open>Properties\<close>

text \<open>C5: The linked list of sessions refines a list of sessions.  After any sequence of updates
  and terminations on a fresh tracker (with allocations that succeed) the tracker holds exactly
  the sessions of the specification, newest first: an update of a known session counts it and
  appends its payload to the state in place, an update of an unknown one puts a session in
  front, a termination removes the session and an unknown one changes nothing.  The ids are
  pairwise different, a search finds the entry of every live session and nothing else, and
  freeing the tracker frees every entry, once.\<close>

theorem session_tracker_refines:
  "\<exists>t as. run_session_ops (map (Pair (\<lambda>_. True)) ops) ipmb_session_tracker_init = Ok t \<and>
     tracker_list t as \<and> sessions_at (t_heap t) as = fold spec_op ops [] \<and>
     distinct (map s_id (fold spec_op ops [])) \<and>
     (\<exists>p. ipmb_session_find t sid = Ok p \<and>
        map_option (\<lambda>a. session_of (the (t_heap t a))) p = find (\<lambda>x. s_id x = sid) (fold spec_op ops [])) \<and>
     ipmb_session_tracker_free t = Ok (t\<lparr>t_heap := Map.empty, t_head := None, t_count := 0\<rparr>)"
proof -
  obtain t as where t: "run_session_ops (map (Pair (\<lambda>_. True)) ops) ipmb_session_tracker_init = Ok t"
      "tracker_list t as" "sessions_at (t_heap t) as = fold spec_op ops []"
    using run_session_ops_spec [OF tracker.refs_init, of ops] by auto
  moreover have "distinct (map s_id (fold spec_op ops []))"
    using t(2) by (simp add: tracker_list_def t(3))
  ultimately show ?thesis
    using find_sessions [OF t(2), of sid] tracker_free_empty [OF t(2)] by auto
qed

text \<open>C28: Whatever allocations fail, a sequence of operations on a fresh tracker never touches a
  freed entry, keeps the invariant of the list (no cycle, the right count, no entry lost) and
  leaves a tracker whose entries can all be freed.\<close>

theorem session_tracker_invariant:
  "\<exists>t as. run_session_ops ops ipmb_session_tracker_init = Ok t \<and> tracker_list t as \<and>
     ipmb_session_tracker_free t = Ok (t\<lparr>t_heap := Map.empty, t_head := None, t_count := 0\<rparr>)"
  using run_session_ops_list [OF tracker.refs_init, of ops] tracker_free_empty by blast

text \<open>What a failed update leaves behind.  When the growth of the state block fails for a new
  session, \<^verbatim>\<open>ipmb_session_upsert\<close> reports the allocation but the session is in the tracker,
  with no updates and an empty state; in every other failure the sessions are as before.\<close>

theorem session_upsert_failure:
  assumes "tracker_list t as" "ipmb_session_upsert al t sid peer payload = Err (status, t')"
  shows "status = IPMB_ERR_ALLOC \<and>
    (\<exists>as'. tracker_list t' as' \<and>
      (sessions_at (t_heap t') as' = sessions_at (t_heap t) as \<or>
       al 0 \<and> \<not> al 1 \<and> sid \<notin> s_id ` set (sessions_at (t_heap t) as) \<and>
       sessions_at (t_heap t') as' =
         \<lparr>s_id = sid, s_peer = peer, s_updates = 0, s_state = []\<rparr> # sessions_at (t_heap t) as))"
  using upsert_tracker [OF assms(1), of al sid peer payload] assms(2)
  unfolding upsert_contract_def Let_def by auto

lemma session_upsert_failure_witness:
  "\<exists>t' as'. ipmb_session_upsert (\<lambda>k. k = 0) ipmb_session_tracker_init 7 1 [9] = Err (IPMB_ERR_ALLOC, t') \<and>
     tracker_list t' as' \<and> map s_updates (sessions_at (t_heap t') as') = [0]"
proof -
  let ?t = "new_entry ipmb_session_tracker_init 7 1"
  have run: "ipmb_session_upsert (\<lambda>k. k = 0) ipmb_session_tracker_init 7 1 [9] = Err (IPMB_ERR_ALLOC, ?t)"
    using upsert_steps [OF tracker.refs_init, of "\<lambda>k. k = 0" 7 1 "[9]"]
    by (simp add: write_entry_def deref_def new_entry_def alloc_def)
  obtain as' where as': "tracker_list ?t as'" "sessions_at (t_heap ?t) as' = [] \<or>
      sessions_at (t_heap ?t) as' = [\<lparr>s_id = 7, s_peer = 1, s_updates = 0, s_state = []\<rparr>]"
    using session_upsert_failure [OF tracker.refs_init run] by auto
  have "length as' = 1" using as'(1) by (simp add: tracker_list_def new_entry_def ipmb_session_tracker_init_def)
  then have "length (sessions_at (t_heap ?t) as') = 1" by simp
  with as' run show ?thesis by fastforce
qed

end
