(* ===== verification/Event_Log.thy ===== *)
theory Event_Log
  imports Session_Tracker
begin

text \<open>
  The event log of \<^verbatim>\<open>src/replay/event_log.c\<close> and the state snapshot of
  \<^verbatim>\<open>src/replay/state_snapshot.c\<close>.  A snapshot of the log does not copy the sessions: it holds
  pointers to the entries of the tracker, which the summary reads later, so that the memory of
  the tracker is an argument of the summary.  \<open>log_holds\<close> relates a log to the lists of
  references its snapshots were taken of.
\<close>

section \<open>The code\<close>

text \<open>\<open>snap_entries\<close>: \<open>None\<close> is the null pointer, a cell \<open>None\<close> a null entry.\<close>

record ipmb_event_snapshot =
  snap_entries :: "addr option list option"
  snap_count :: nat

record ipmb_event_log =
  log_snapshots :: "ipmb_event_snapshot list"
  log_count :: nat
  log_capacity :: nat

definition zero_snapshot :: ipmb_event_snapshot where
  "zero_snapshot = \<lparr>snap_entries = None, snap_count = 0\<rparr>"

definition ipmb_event_log_init :: ipmb_event_log where
  "ipmb_event_log_init = \<lparr>log_snapshots = [], log_count = 0, log_capacity = 0\<rparr>"

definition ipmb_event_log_free :: "ipmb_event_log \<Rightarrow> ipmb_event_log" where
  "ipmb_event_log_free log = ipmb_event_log_init"

partial_function (option) fill_loop ::
  "entry_heap \<Rightarrow> addr option \<Rightarrow> nat \<Rightarrow> addr option list \<Rightarrow> (ipmb_status, addr option list) res option" where
  "fill_loop h cur i entries = (case cur of
       None \<Rightarrow> Some (Ok entries)
     | Some a \<Rightarrow>
         if i < length entries then (case h a of
             None \<Rightarrow> Some (Fault Use_after_free)
           | Some e \<Rightarrow> fill_loop h (e_next e) (i + 1) (entries[i := Some a]))
         else Some (Fault Oob_write))"

declare fill_loop.simps [code]

text \<open>Allocation \<open>0\<close> is the growth of the log when it is full; the next one that of the entries.\<close>

definition grow_log :: "allocs \<Rightarrow> ipmb_event_log \<Rightarrow> (ipmb_status \<times> ipmb_event_log, ipmb_event_log \<times> nat) res" where
  "grow_log al log =
     (if log_count log = log_capacity log then
        let next_cap = (if log_capacity log \<noteq> 0 then log_capacity log * 2 else 4) in
        rbind (alloc al 0 (IPMB_ERR_ALLOC, log)) (\<lambda>_.
          Ok (log\<lparr>log_snapshots := log_snapshots log @ replicate (next_cap - log_capacity log) zero_snapshot,
                  log_capacity := next_cap\<rparr>, 1))
      else Ok (log, 0))"

definition ipmb_event_log_snapshot ::
  "allocs \<Rightarrow> ipmb_event_log \<Rightarrow> ipmb_session_tracker \<Rightarrow> (ipmb_status \<times> ipmb_event_log, ipmb_event_log) res" where
  "ipmb_event_log_snapshot al log tracker =
     rbind (grow_log al log) (\<lambda>(log, k).
     let i = log_count log; n = t_count tracker; log = log\<lparr>log_count := i + 1\<rparr> in
     if i < length (log_snapshots log) then
       let put = \<lambda>entries. log\<lparr>log_snapshots := (log_snapshots log)[i := \<lparr>snap_entries = entries, snap_count = n\<rparr>]\<rparr> in
       rbind (alloc al k (IPMB_ERR_ALLOC, put None)) (\<lambda>_.
       rbind (map_err (\<lambda>s. (s, log))
                (returned (fill_loop (t_heap tracker) (t_head tracker) 0
                  (replicate (if n \<noteq> 0 then n else 1) None)))) (\<lambda>entries.
         Ok (put (Some entries))))
     else Fault Oob_write)"

definition hash_session :: "64 word \<Rightarrow> 32 word \<Rightarrow> 64 word \<Rightarrow> 64 word" where
  "hash_session h session_id updates =
     ((h XOR ucast session_id) * 1099511628211 XOR updates) * 1099511628211"

definition snapshot_entry :: "ipmb_event_snapshot \<Rightarrow> nat \<Rightarrow> ('e, addr) res" where
  "snapshot_entry snap j = (case snap_entries snap of
       None \<Rightarrow> Fault Null_deref
     | Some entries \<Rightarrow> rbind (rd8 entries j) (\<lambda>p. case p of None \<Rightarrow> Fault Null_deref | Some a \<Rightarrow> Ok a))"

function summarize_snapshot ::
  "entry_heap \<Rightarrow> ipmb_event_snapshot \<Rightarrow> nat \<Rightarrow> 64 word \<Rightarrow> (ipmb_status, 64 word) res" where
  "summarize_snapshot heap snap j h =
     (if j < snap_count snap then
        rbind (snapshot_entry snap j) (\<lambda>a.
        rbind (deref heap a) (\<lambda>entry.
          summarize_snapshot heap snap (j + 1) (hash_session h (e_session_id entry) (e_updates entry))))
      else Ok h)"
  by pat_completeness auto
termination by (relation "measure (\<lambda>(_, snap, j, _). snap_count snap - j)") auto

function summarize_loop :: "entry_heap \<Rightarrow> ipmb_event_log \<Rightarrow> nat \<Rightarrow> 64 word \<Rightarrow> (ipmb_status, 64 word) res" where
  "summarize_loop heap log i h =
     (if i < log_count log then
        rbind (rd8 (log_snapshots log) i) (\<lambda>snap.
        rbind (summarize_snapshot heap snap 0 h) (\<lambda>h.
          summarize_loop heap log (i + 1) h))
      else Ok h)"
  by pat_completeness auto
termination by (relation "measure (\<lambda>(_, log, i, _). log_count log - i)") auto

declare summarize_snapshot.simps [simp del] summarize_loop.simps [simp del]

definition ipmb_event_log_summarize :: "entry_heap \<Rightarrow> ipmb_event_log \<Rightarrow> (ipmb_status, 64 word) res" where
  "ipmb_event_log_summarize heap log = summarize_loop heap log 0 1469598103934665603"

record ipmb_state_snapshot =
  st_session_id :: "32 word"
  st_updates :: "64 word"
  st_state_len :: nat

text \<open>\<open>None\<close> is a null \<^verbatim>\<open>entry\<close>; the caller of the model always passes an out-parameter.\<close>

definition ipmb_state_snapshot_capture :: "ipmb_session_entry option \<Rightarrow> (ipmb_status, ipmb_state_snapshot) res" where
  "ipmb_state_snapshot_capture entry = (case entry of
       None \<Rightarrow> Err IPMB_ERR_INVALID
     | Some e \<Rightarrow> Ok \<lparr>st_session_id = e_session_id e, st_updates = e_updates e,
                     st_state_len = length (e_state e)\<rparr>)"

section \<open>Snapshots\<close>

definition snap_of :: "addr list \<Rightarrow> ipmb_event_snapshot" where
  "snap_of as = \<lparr>snap_entries = Some (if as = [] then [None] else map Some as), snap_count = length as\<rparr>"

definition log_holds :: "ipmb_event_log \<Rightarrow> addr list list \<Rightarrow> bool" where
  "log_holds log L \<longleftrightarrow> log_count log = length L \<and> length (log_snapshots log) = log_capacity log \<and>
     length L \<le> log_capacity log \<and> take (length L) (log_snapshots log) = map snap_of L"

lemma log_holds_init: "log_holds ipmb_event_log_init []"
  by (simp add: log_holds_def ipmb_event_log_init_def)

lemma log_nth: "log_holds log L \<Longrightarrow> i < length L \<Longrightarrow> log_snapshots log ! i = snap_of (L ! i)"
  unfolding log_holds_def by (metis nth_map nth_take)

lemma fill_loop_chain:
  "chain h p as \<Longrightarrow> i + length as \<le> length entries \<Longrightarrow>
   fill_loop h p i entries = Some (Ok (take i entries @ map Some as @ drop (i + length as) entries))"
proof (induction as arbitrary: p i entries)
  case Nil
  then show ?case by (subst fill_loop.simps) simp
next
  case (Cons a as)
  then obtain e where e: "p = Some a" "h a = Some e" "chain h (e_next e) as" by auto
  with Cons have "fill_loop h p i entries = fill_loop h (e_next e) (i + 1) (entries[i := Some a])"
    by (subst fill_loop.simps) simp
  with Cons.IH [OF e(3), of "i + 1" "entries[i := Some a]"] Cons.prems(2) show ?case
    by (simp add: take_Suc_conv_app_nth)
qed

lemma grow_log_cases:
  assumes "log_holds log L"
  obtains (full) "grow_log al log = Err (IPMB_ERR_ALLOC, log)" "\<not> al 0"
  | (room) log' k where "grow_log al log = Ok (log', k)" "log_holds log' L" "length L < log_capacity log'"
      "k = (if length L = log_capacity log then 1 else 0)" "k = 1 \<longrightarrow> al 0" "log_count log' = log_count log"
proof (cases "log_count log = log_capacity log")
  case True
  let ?n = "if log_capacity log \<noteq> 0 then log_capacity log * 2 else 4"
  let ?log = "log\<lparr>log_snapshots := log_snapshots log @ replicate (?n - log_capacity log) zero_snapshot,
    log_capacity := ?n\<rparr>"
  show ?thesis
  proof (cases "al 0")
    case al: True
    have "grow_log al log = Ok (?log, 1)" using True al by (simp add: grow_log_def Let_def)
    moreover have "log_holds ?log L" "length L < log_capacity ?log" using assms True by (auto simp: log_holds_def)
    moreover have "length L = log_capacity log" using assms True by (simp add: log_holds_def)
    ultimately show ?thesis by (intro room [of ?log 1]) (simp_all add: al)
  next
    case False
    then show ?thesis using full True by (simp add: grow_log_def alloc_def Let_def)
  qed
next
  case False
  with assms show ?thesis by (intro room [of log 0]) (auto simp: grow_log_def log_holds_def)
qed

lemma fill_tracker:
  assumes "tracker_list t as"
  shows "returned (fill_loop (t_heap t) (t_head t) 0 (replicate (if t_count t \<noteq> 0 then t_count t else 1) None))
    = Ok (the (snap_entries (snap_of as)))"
  using fill_loop_chain [of "t_heap t" "t_head t" as 0 "replicate (if t_count t \<noteq> 0 then t_count t else 1) None"]
    assms by (auto simp: tracker_list_def snap_of_def)

lemma log_holds_put:
  assumes "log_holds log L" "length L < log_capacity log"
  shows "log_holds (log\<lparr>log_count := log_count log + 1,
    log_snapshots := (log_snapshots log)[log_count log := snap_of as]\<rparr>) (L @ [as])"
  using assms by (auto simp: log_holds_def take_Suc_conv_app_nth)

lemma snapshot_Ok:
  assumes "log_holds log L" "tracker_list t as" "\<And>k. al k"
  shows "\<exists>log'. ipmb_event_log_snapshot al log t = Ok log' \<and> log_holds log' (L @ [as])"
  using assms(1)
proof (cases rule: grow_log_cases [of log L al, case_names full room])
  case (room log' k)
  have n: "t_count t = length as" using assms(2) by (simp add: tracker_list_def)
  have "log_count log' < length (log_snapshots log')" using room by (simp add: log_holds_def)
  then have "ipmb_event_log_snapshot al log t =
      Ok (log'\<lparr>log_count := log_count log' + 1, log_snapshots := (log_snapshots log')[log_count log' := snap_of as]\<rparr>)"
    unfolding ipmb_event_log_snapshot_def room(1) rbind.simps prod.case Let_def fill_tracker [OF assms(2)]
    using assms(3) by (simp add: n snap_of_def)
  with log_holds_put [OF room(2,3)] show ?thesis by blast
qed (use assms(3) in simp)

section \<open>Summaries\<close>

definition hash_live :: "entry_heap \<Rightarrow> 64 word \<Rightarrow> addr list \<Rightarrow> (ipmb_status, 64 word) res" where
  "hash_live heap h as =
     (if \<exists>a \<in> set as. heap a = None then Fault Use_after_free
      else Ok (foldl (\<lambda>h a. hash_session h (e_session_id (the (heap a))) (e_updates (the (heap a)))) h as))"

lemma hash_live_append: "hash_live heap h (as @ bs) = rbind (hash_live heap h as) (\<lambda>h. hash_live heap h bs)"
  by (auto simp: hash_live_def)

lemma summarize_snapshot_live:
  "j \<le> length as \<Longrightarrow> summarize_snapshot heap (snap_of as) j h = hash_live heap h (drop j as)"
proof (induction "length as - j" arbitrary: j h)
  case 0
  then show ?case by (subst summarize_snapshot.simps) (simp add: snap_of_def hash_live_def)
next
  case (Suc n)
  then have j: "j < length as" by simp
  then have "summarize_snapshot heap (snap_of as) j h = rbind (deref heap (as ! j)) (\<lambda>e.
      summarize_snapshot heap (snap_of as) (j + 1) (hash_session h (e_session_id e) (e_updates e)))"
    by (subst summarize_snapshot.simps) (auto simp: snap_of_def snapshot_entry_def rd8_def)
  also have "\<dots> = rbind (deref heap (as ! j)) (\<lambda>e.
      hash_live heap (hash_session h (e_session_id e) (e_updates e)) (drop (j + 1) as))"
    using Suc.hyps(1) [of "j + 1"] Suc.hyps(2) j by simp
  also have "\<dots> = hash_live heap h (drop j as)"
    using j by (auto simp: hash_live_def deref_def Cons_nth_drop_Suc [symmetric] split: option.split)
  finally show ?case .
qed

text \<open>The first snapshots of a log, whatever follows them.\<close>

definition log_starts :: "ipmb_event_log \<Rightarrow> addr list list \<Rightarrow> bool" where
  "log_starts log L \<longleftrightarrow> length L \<le> log_count log \<and> length L \<le> length (log_snapshots log) \<and>
     (\<forall>i < length L. log_snapshots log ! i = snap_of (L ! i))"

lemma summarize_starts:
  "log_starts log L \<Longrightarrow> i \<le> length L \<Longrightarrow> summarize_loop heap log i h =
     rbind (hash_live heap h (concat (drop i L))) (\<lambda>h. summarize_loop heap log (length L) h)"
proof (induction "length L - i" arbitrary: i h)
  case 0
  then show ?case by (simp add: hash_live_def)
next
  case (Suc n)
  then have i: "i < length L" by simp
  then have "i < log_count log" "i < length (log_snapshots log)" "log_snapshots log ! i = snap_of (L ! i)"
    using Suc.prems by (auto simp: log_starts_def)
  then have "summarize_loop heap log i h =
      rbind (summarize_snapshot heap (snap_of (L ! i)) 0 h) (\<lambda>h. summarize_loop heap log (i + 1) h)"
    by (subst summarize_loop.simps) (simp add: rd8_def)
  then show ?case
    using Suc.hyps(1) [of "i + 1"] Suc.hyps(2) Suc.prems i
    by (simp add: summarize_snapshot_live hash_live_append rbind_assoc Cons_nth_drop_Suc [symmetric])
qed

lemma log_holds_starts: "log_holds log L \<Longrightarrow> log_starts log L"
  using log_nth [of log L] by (auto simp: log_holds_def log_starts_def)

lemma summarize_live:
  assumes "log_holds log L"
  shows "ipmb_event_log_summarize heap log = hash_live heap 1469598103934665603 (concat L)"
proof -
  have "summarize_loop heap log (length L) h = Ok h" for h
    using assms by (subst summarize_loop.simps) (simp add: log_holds_def)
  moreover have "rbind m Ok = m" for m :: "(ipmb_status, 64 word) res" by (cases m) auto
  ultimately show ?thesis
    using summarize_starts [OF log_holds_starts [OF assms], of 0 heap]
    by (simp add: ipmb_event_log_summarize_def)
qed

section \<open>Properties\<close>

text \<open>C29: Every outcome of \<^verbatim>\<open>ipmb_event_log_snapshot\<close> for a tracker with live sessions.  If the full log
  cannot grow, a failed allocation is reported and nothing changes.  If the array of entries
  cannot be allocated, the failure is reported too, but the snapshot has been counted with the
  number of sessions and a null array: the log has one snapshot more, and its next summary reads
  through the null pointer (unless it meets a freed session of an older snapshot first); the
  replay engine ignores the status of the call.  Otherwise the log gains the snapshot of the
  sessions.\<close>

theorem failed_snapshot_faults:
  assumes "log_holds log L" "tracker_list t as" "as \<noteq> []"
  shows "if length L = log_capacity log \<and> \<not> al 0
     then ipmb_event_log_snapshot al log t = Err (IPMB_ERR_ALLOC, log)
     else if \<not> al (if length L = log_capacity log then 1 else 0)
     then \<exists>log'. ipmb_event_log_snapshot al log t = Err (IPMB_ERR_ALLOC, log') \<and>
       log_count log' = log_count log + 1 \<and>
       ipmb_event_log_summarize heap log' =
         Fault (if \<exists>a \<in> set (concat L). heap a = None then Use_after_free else Null_deref)
     else \<exists>log'. ipmb_event_log_snapshot al log t = Ok log' \<and> log_holds log' (L @ [as])"
  using assms(1)
proof (cases rule: grow_log_cases [of log L al, case_names full room])
  case full
  then show ?thesis using assms(1) by (auto simp: ipmb_event_log_snapshot_def grow_log_def log_holds_def alloc_def)
next
  case (room log1 k)
  have n: "t_count t = length as" using assms(2) by (simp add: tracker_list_def)
  have i: "log_count log1 = length L" "length L < length (log_snapshots log1)"
    using room by (simp_all add: log_holds_def)
  have noerr: "\<not> (length L = log_capacity log \<and> \<not> al 0)" using room(4,5) by auto
  show ?thesis
  proof (cases "al k")
    case True
    then have "ipmb_event_log_snapshot al log t =
        Ok (log1\<lparr>log_count := log_count log1 + 1, log_snapshots := (log_snapshots log1)[log_count log1 := snap_of as]\<rparr>)"
      unfolding ipmb_event_log_snapshot_def room(1) rbind.simps prod.case Let_def fill_tracker [OF assms(2)]
      using i by (simp add: n snap_of_def)
    with log_holds_put [OF room(2,3)] noerr True room(4) show ?thesis by auto
  next
    case False
    define log' where "log' = log1\<lparr>log_count := length L + 1,
      log_snapshots := (log_snapshots log1)[length L := \<lparr>snap_entries = None, snap_count = length as\<rparr>]\<rparr>"
    have run: "ipmb_event_log_snapshot al log t = Err (IPMB_ERR_ALLOC, log')"
      unfolding ipmb_event_log_snapshot_def room(1) rbind.simps prod.case Let_def
      using i False by (simp add: n log'_def alloc_def)
    have "log_starts log' L"
      using log_nth [OF room(2)] i by (auto simp: log_starts_def log'_def)
    from summarize_starts [OF this, of 0] have
      "ipmb_event_log_summarize heap log' = rbind (hash_live heap 1469598103934665603 (concat L))
         (\<lambda>h. summarize_loop heap log' (length L) h)"
      by (simp add: ipmb_event_log_summarize_def)
    moreover have "summarize_loop heap log' (length L) h = Fault Null_deref" for h
      using i assms(3)
      by (subst summarize_loop.simps, subst summarize_snapshot.simps) (simp add: log'_def rd8_def snapshot_entry_def)
    ultimately have "ipmb_event_log_summarize heap log' =
        Fault (if \<exists>a \<in> set (concat L). heap a = None then Use_after_free else Null_deref)"
      by (simp add: hash_live_def)
    moreover have "log_count log' = log_count log + 1" using i(1) room(6) by (simp add: log'_def)
    ultimately show ?thesis using run noerr False room(4) by auto
  qed
qed

theorem failed_snapshot_faults_witness:
  "\<exists>log'. ipmb_event_log_snapshot (\<lambda>k. k = 0) ipmb_event_log_init (new_entry ipmb_session_tracker_init 7 1) =
       Err (IPMB_ERR_ALLOC, log') \<and> log_count log' = 1 \<and>
     ipmb_event_log_summarize (t_heap (new_entry ipmb_session_tracker_init 7 1)) log' = Fault Null_deref"
proof -
  let ?t = "new_entry ipmb_session_tracker_init 7 1"
  have t: "tracker_list ?t [0]"
    using new_entry_tracker(1) [OF tracker.refs_init, of 7 1] by (simp add: ipmb_session_tracker_init_def)
  from failed_snapshot_faults [OF log_holds_init t, of "\<lambda>k. k = 0" "t_heap ?t"] show ?thesis
    by (simp add: ipmb_event_log_init_def)
qed

end
