(* ===== verification/Replay_Engine.thy ===== *)
theory Replay_Engine
  imports Event_Log Journal
begin

text \<open>
  The replay engine of \<^verbatim>\<open>src/replay/replay_engine.c\<close>: the records of a journal drive the session
  tracker and the event log, whose summary is taken at the end.  The summary reads the entries
  the checkpoints pointed to, in the state they have at the end; an entry terminated after a
  checkpoint is gone by then.  The main result says for every journal which of the two happens.
\<close>

section \<open>The code\<close>

definition IPMB_JOURNAL_ESTABLISH :: byte where "IPMB_JOURNAL_ESTABLISH = 1"
definition IPMB_JOURNAL_UPDATE :: byte where "IPMB_JOURNAL_UPDATE = 2"
definition IPMB_JOURNAL_MIGRATE :: byte where "IPMB_JOURNAL_MIGRATE = 3"
definition IPMB_JOURNAL_TERMINATE :: byte where "IPMB_JOURNAL_TERMINATE = 4"
definition IPMB_JOURNAL_CHECKPOINT :: byte where "IPMB_JOURNAL_CHECKPOINT = 5"

lemmas journal_types = IPMB_JOURNAL_ESTABLISH_def IPMB_JOURNAL_UPDATE_def IPMB_JOURNAL_MIGRATE_def
  IPMB_JOURNAL_TERMINATE_def IPMB_JOURNAL_CHECKPOINT_def

record ipmb_replay_summary =
  event_count :: "64 word"
  summary_hash :: "64 word"

type_synonym replay_state = "ipmb_session_tracker \<times> ipmb_event_log"

text \<open>The statuses of the three calls are ignored: \<open>ignore_status\<close> keeps the state the call leaves.\<close>

fun ignore_status :: "(ipmb_status \<times> 's, 's) res \<Rightarrow> (ipmb_status, 's) res" where
  "ignore_status (Ok s) = Ok s"
| "ignore_status (Err (_, s)) = Ok s"
| "ignore_status (Fault u) = Fault u"

definition replay_record :: "allocs \<Rightarrow> ipmb_journal_record \<Rightarrow> replay_state \<Rightarrow> (ipmb_status, replay_state) res" where
  "replay_record al r st = (case st of (tracker, log) \<Rightarrow>
     if jtype r = IPMB_JOURNAL_ESTABLISH \<or> jtype r = IPMB_JOURNAL_UPDATE \<or> jtype r = IPMB_JOURNAL_MIGRATE then
       rbind (ignore_status (ipmb_session_upsert al tracker (jsession_id r) (jpeer_id r) (jpayload r)))
         (\<lambda>tracker. Ok (tracker, log))
     else if jtype r = IPMB_JOURNAL_CHECKPOINT then
       rbind (ignore_status (ipmb_event_log_snapshot al log tracker)) (\<lambda>log. Ok (tracker, log))
     else if jtype r = IPMB_JOURNAL_TERMINATE then
       rbind (ignore_status (map_err (\<lambda>s. (s, tracker)) (ipmb_session_terminate tracker (jsession_id r))))
         (\<lambda>tracker. Ok (tracker, log))
     else Ok (tracker, log))"

text \<open>\<open>als i\<close> are the allocations made for record \<open>i\<close>; \<open>n\<close> is \<^verbatim>\<open>summary->event_count\<close>.\<close>

function replay_loop ::
  "(nat \<Rightarrow> allocs) \<Rightarrow> ipmb_journal \<Rightarrow> nat \<Rightarrow> 64 word \<Rightarrow> replay_state \<Rightarrow> (ipmb_status, 64 word \<times> replay_state) res" where
  "replay_loop als journal i n st =
     (if i < unat (record_count journal) then
        rbind (case records journal of None \<Rightarrow> Fault Null_deref | Some rs \<Rightarrow> rd8 rs i) (\<lambda>r.
        rbind (replay_record (als i) r st) (\<lambda>st.
          replay_loop als journal (i + 1) (n + 1) st))
      else Ok (n, st))"
  by pat_completeness auto
termination by (relation "measure (\<lambda>(_, journal, i, _, _). unat (record_count journal) - i)") auto

declare replay_loop.simps [simp del]

definition ipmb_replay_journal ::
  "(nat \<Rightarrow> allocs) \<Rightarrow> ipmb_journal \<Rightarrow> (ipmb_status, ipmb_replay_summary) res" where
  "ipmb_replay_journal als journal =
     rbind (replay_loop als journal 0 0 (ipmb_session_tracker_init, ipmb_event_log_init)) (\<lambda>(n, tracker, log).
     rbind (ipmb_event_log_summarize (t_heap tracker) log) (\<lambda>h.
     rbind (ipmb_session_tracker_free tracker) (\<lambda>_.
       Ok \<lparr>event_count = n, summary_hash = h\<rparr>)))"

definition ipmb_replay_bytes ::
  "allocs \<Rightarrow> (nat \<Rightarrow> allocs) \<Rightarrow> byte list \<Rightarrow> (ipmb_status, ipmb_replay_summary) res" where
  "ipmb_replay_bytes al als data =
     rbind (map_err fst (ipmb_journal_parse al data)) (\<lambda>journal. ipmb_replay_journal als journal)"

section \<open>The specification\<close>

text \<open>The live sessions and the ids captured so far, checkpoint by checkpoint.\<close>

fun spec_record :: "ipmb_journal_record \<Rightarrow> session list \<times> 32 word list \<Rightarrow> session list \<times> 32 word list" where
  "spec_record r (live, caught) =
     (if jtype r \<in> {1, 2, 3} then (spec_upsert (jsession_id r) (jpeer_id r) (jpayload r) live, caught)
      else if jtype r = 5 then (live, caught @ map s_id live)
      else if jtype r = 4 then (spec_terminate (jsession_id r) live, caught)
      else (live, caught))"

definition spec_replay :: "ipmb_journal_record list \<Rightarrow> session list \<times> 32 word list" where
  "spec_replay rs = foldl (\<lambda>st r. spec_record r st) ([], []) rs"

text \<open>A session caught by a checkpoint is terminated by a later record.\<close>

definition dangles :: "ipmb_journal_record list \<Rightarrow> bool" where
  "dangles rs \<longleftrightarrow> (\<exists>j < length rs. jtype (rs ! j) = 4 \<and> jsession_id (rs ! j) \<in> set (snd (spec_replay (take j rs))))"

definition updates_of :: "session list \<Rightarrow> 32 word \<Rightarrow> 64 word" where
  "updates_of live sid = (case find (\<lambda>x. s_id x = sid) live of Some x \<Rightarrow> s_updates x | None \<Rightarrow> 0)"

definition spec_hash :: "ipmb_journal_record list \<Rightarrow> 64 word" where
  "spec_hash rs = (case spec_replay rs of (live, caught) \<Rightarrow>
     foldl (\<lambda>h sid. hash_session h sid (updates_of live sid)) 1469598103934665603 caught)"

lemma spec_replay_snoc: "spec_replay (rs @ [r]) = spec_record r (spec_replay rs)"
  by (simp add: spec_replay_def)

lemma dangles_snoc:
  "dangles (rs @ [r]) \<longleftrightarrow> dangles rs \<or> jtype r = 4 \<and> jsession_id r \<in> set (snd (spec_replay rs))"
proof -
  have "dangles (rs @ [r]) \<longleftrightarrow> (\<exists>j < length rs. jtype (rs ! j) = 4 \<and>
      jsession_id (rs ! j) \<in> set (snd (spec_replay (take j rs)))) \<or>
      jtype r = 4 \<and> jsession_id r \<in> set (snd (spec_replay rs))"
    unfolding dangles_def length_append_singleton Ex_less_Suc by (simp add: nth_append cong: conj_cong) blast
  then show ?thesis by (simp only: dangles_def)
qed

section \<open>Captured references\<close>

text \<open>The references a log holds stand for the ids it caught: what a reference still leads to has
  the id it was caught with, and \<open>dang\<close> says whether one of them leads nowhere.\<close>

definition catches :: "('a \<Rightarrow> session option) \<Rightarrow> 'a list \<Rightarrow> 32 word list \<Rightarrow> bool \<Rightarrow> bool" where
  "catches lk cs sids dang \<longleftrightarrow>
     list_all2 (\<lambda>a sid. \<forall>x. lk a = Some x \<longrightarrow> s_id x = sid) cs sids \<and> ((\<exists>a \<in> set cs. lk a = None) \<longleftrightarrow> dang)"

lemma list_all2_left: "list_all2 R xs ys \<Longrightarrow> x \<in> set xs \<Longrightarrow> \<exists>y \<in> set ys. R x y"
  by (induction rule: list_all2_induct) auto

lemma list_all2_right: "list_all2 R xs ys \<Longrightarrow> y \<in> set ys \<Longrightarrow> \<exists>x \<in> set xs. R x y"
  by (induction rule: list_all2_induct) auto

lemma catches_cong:
  assumes "\<And>a. a \<in> set cs \<Longrightarrow> map_option s_id (lk' a) = map_option s_id (lk a)"
  shows "catches lk' cs sids dang = catches lk cs sids dang"
proof -
  have "lk' a = None \<longleftrightarrow> lk a = None" if "a \<in> set cs" for a
    using assms [OF that] by (metis option.map_disc_iff)
  moreover have "(\<forall>x. lk' a = Some x \<longrightarrow> s_id x = sid) \<longleftrightarrow> (\<forall>x. lk a = Some x \<longrightarrow> s_id x = sid)"
    if "a \<in> set cs" for a sid
    using assms [OF that] by (cases "lk a"; cases "lk' a") auto
  then have "list_all2 (\<lambda>a sid. \<forall>x. lk' a = Some x \<longrightarrow> s_id x = sid) cs sids =
      list_all2 (\<lambda>a sid. \<forall>x. lk a = Some x \<longrightarrow> s_id x = sid) cs sids"
    by (intro list.rel_cong refl) simp
  ultimately show ?thesis by (auto simp: catches_def)
qed

context session_store
begin

lemma upsert_catches:
  assumes "refs s as" "\<And>k. al k" "upsert al s sid peer payload = Ok s'" "set cs \<subseteq> used s"
    "catches (look s) cs sids dang"
  shows "catches (look s') cs sids dang"
proof -
  have "map_option s_id (look s' a) = map_option s_id (look s a)" if "a \<in> set cs" for a
    using assms(4) that by (intro upsert_keeps [OF assms(1) assms(2) _ assms(3)]) auto
  from catches_cong [of cs "look s'" "look s", OF this] assms(5) show ?thesis by simp
qed

lemma terminate_catches:
  assumes "refs s as" "terminate s sid = Ok s'" "catches (look s) cs sids dang"
  shows "catches (look s') cs sids (dang \<or> sid \<in> set sids)"
proof -
  note keep = terminate_keeps [OF assms(1,2)]
  have l: "list_all2 (\<lambda>a sid. \<forall>x. look s a = Some x \<longrightarrow> s_id x = sid) cs sids"
    and d: "(\<exists>a \<in> set cs. look s a = None) \<longleftrightarrow> dang"
    using assms(3) by (simp_all add: catches_def)
  have none: "look s' a = None \<longleftrightarrow> look s a = None \<or> map_option s_id (look s a) = Some sid" for a
    using keep [of a] by (metis option.map_disc_iff)
  have "list_all2 (\<lambda>a sid. \<forall>x. look s' a = Some x \<longrightarrow> s_id x = sid) cs sids"
    using l
  proof (rule list_all2_mono)
    fix a i assume "\<forall>x. look s a = Some x \<longrightarrow> s_id x = i"
    then show "\<forall>x. look s' a = Some x \<longrightarrow> s_id x = i" using keep [of a]
      by (cases "look s a"; cases "look s' a") (auto split: if_splits)
  qed
  moreover have "(\<exists>a \<in> set cs. look s' a = None) \<longleftrightarrow> dang \<or> sid \<in> set sids"
  proof
    assume "\<exists>a \<in> set cs. look s' a = None"
    then obtain a where a: "a \<in> set cs" "look s a = None \<or> map_option s_id (look s a) = Some sid"
      using none by blast
    obtain i where "i \<in> set sids" "\<forall>x. look s a = Some x \<longrightarrow> s_id x = i" using list_all2_left [OF l a(1)] by blast
    with a d show "dang \<or> sid \<in> set sids" by (cases "look s a") auto
  next
    assume "dang \<or> sid \<in> set sids"
    then show "\<exists>a \<in> set cs. look s' a = None"
    proof
      assume "sid \<in> set sids"
      then obtain a where a: "a \<in> set cs" "\<forall>x. look s a = Some x \<longrightarrow> s_id x = sid" using list_all2_right [OF l] by blast
      then have "look s' a = None" using none [of a] by (cases "look s a") auto
      with a(1) show ?thesis by blast
    qed (use d none in blast)
  qed
  ultimately show ?thesis by (simp add: catches_def)
qed

text \<open>A caught id that is no longer live was caught through a reference that dangles.\<close>

lemma absent_catches:
  assumes "refs s as" "sid \<notin> s_id ` set (map (\<lambda>a. the (look s a)) as)" "catches (look s) cs sids dang"
  shows "sid \<in> set sids \<Longrightarrow> dang"
proof -
  assume sid: "sid \<in> set sids"
  have "list_all2 (\<lambda>a sid. \<forall>x. look s a = Some x \<longrightarrow> s_id x = sid) cs sids"
    using assms(3) by (simp add: catches_def)
  from list_all2_right [OF this sid] obtain a where a: "a \<in> set cs" "\<forall>x. look s a = Some x \<longrightarrow> s_id x = sid"
    by blast
  then have "look s a = None"
    using assms(2) refs_live [OF assms(1), of a] by (cases "look s a") force+
  with a(1) assms(3) show dang by (auto simp: catches_def)
qed

lemma snapshot_catches:
  assumes "refs s as" "catches (look s) cs sids dang"
  shows "catches (look s) (cs @ as) (sids @ map s_id (map (\<lambda>a. the (look s a)) as)) dang"
proof -
  have "list_all2 (\<lambda>a sid. \<forall>x. look s a = Some x \<longrightarrow> s_id x = sid) as (map s_id (map (\<lambda>a. the (look s a)) as))"
    by (auto simp: list_all2_conv_all_nth)
  moreover have "\<forall>a \<in> set as. look s a \<noteq> None" using refs_live [OF assms(1)] by blast
  ultimately show ?thesis
    using assms(2) by (auto simp: catches_def intro: list_all2_appendI)
qed

end

section \<open>The replay\<close>

text \<open>The invariant between two records: the tracker holds the live sessions of the specification,
  and the log the references that stand for the caught ids.\<close>

definition replay_inv :: "ipmb_journal_record list \<Rightarrow> replay_state \<Rightarrow> bool" where
  "replay_inv rs st \<longleftrightarrow> (case st of (tracker, log) \<Rightarrow> \<exists>as L.
     tracker_list tracker as \<and> sessions_at (t_heap tracker) as = fst (spec_replay rs) \<and>
     log_holds log L \<and> (\<forall>a \<in> set (concat L). a < t_fresh tracker) \<and>
     catches (tracker_look tracker) (concat L) (snd (spec_replay rs)) (dangles rs))"

lemma replay_invI:
  assumes "tracker_list t as" "sessions_at (t_heap t) as = fst (spec_replay rs)" "log_holds log L"
    "\<forall>a \<in> set (concat L). a < m" "m \<le> t_fresh t"
    "catches (tracker_look t) (concat L) (snd (spec_replay rs)) (dangles rs)"
  shows "replay_inv rs (t, log)"
proof -
  have "\<forall>a \<in> set (concat L). a < t_fresh t" using assms(4,5) less_le_trans by blast
  with assms show ?thesis unfolding replay_inv_def by blast
qed

lemma replay_inv_init: "replay_inv [] (ipmb_session_tracker_init, ipmb_event_log_init)"
  unfolding replay_inv_def using tracker.refs_init log_holds_init
  by (auto simp: spec_replay_def catches_def dangles_def intro!: exI [of _ "[]"])

lemma replay_upsert:
  assumes "replay_inv rs (t, log)" "jtype r \<in> {1, 2, 3}" "\<And>k. al k"
  shows "\<exists>st. replay_record al r (t, log) = Ok st \<and> replay_inv (rs @ [r]) st"
proof -
  obtain as L where inv: "tracker_list t as" "sessions_at (t_heap t) as = fst (spec_replay rs)" "log_holds log L"
      "\<forall>a \<in> set (concat L). a < t_fresh t" "catches (tracker_look t) (concat L) (snd (spec_replay rs)) (dangles rs)"
    using assms(1) by (auto simp: replay_inv_def)
  obtain t' as' where t': "ipmb_session_upsert al t (jsession_id r) (jpeer_id r) (jpayload r) = Ok t'"
      "tracker_list t' as'" "t_fresh t \<le> t_fresh t'"
      "sessions_at (t_heap t') as' = spec_upsert (jsession_id r) (jpeer_id r) (jpayload r) (sessions_at (t_heap t) as)"
    using upsert_tracker_Ok [OF inv(1), of al] assms(3) by blast
  have "catches (tracker_look t') (concat L) (snd (spec_replay rs)) (dangles rs)"
    using inv(4) by (intro tracker.upsert_catches [OF inv(1) assms(3) t'(1) _ inv(5)]) auto
  moreover have "spec_replay (rs @ [r]) = (sessions_at (t_heap t') as', snd (spec_replay rs))"
    using assms(2) inv(2) t'(4) by (cases "spec_replay rs") (auto simp: spec_replay_snoc)
  moreover have "dangles (rs @ [r]) = dangles rs" using assms(2) by (auto simp: dangles_snoc)
  ultimately have "replay_inv (rs @ [r]) (t', log)"
    using t' inv by (intro replay_invI [of t' as' _ _ L "t_fresh t"]) simp_all
  then show ?thesis using t'(1) assms(2) by (auto simp: replay_record_def journal_types)
qed

lemma replay_checkpoint:
  assumes "replay_inv rs (t, log)" "jtype r = 5" "\<And>k. al k"
  shows "\<exists>st. replay_record al r (t, log) = Ok st \<and> replay_inv (rs @ [r]) st"
proof -
  obtain as L where inv: "tracker_list t as" "sessions_at (t_heap t) as = fst (spec_replay rs)" "log_holds log L"
      "\<forall>a \<in> set (concat L). a < t_fresh t" "catches (tracker_look t) (concat L) (snd (spec_replay rs)) (dangles rs)"
    using assms(1) by (auto simp: replay_inv_def)
  obtain log' where log': "ipmb_event_log_snapshot al log t = Ok log'" "log_holds log' (L @ [as])"
    using snapshot_Ok [OF inv(3,1), of al] assms(3) by blast
  have "catches (tracker_look t) (concat (L @ [as]))
      (snd (spec_replay rs) @ map s_id (sessions_at (t_heap t) as)) (dangles rs)"
    using tracker.snapshot_catches [OF inv(1,5)] by (simp add: tracker_view [OF inv(1)])
  moreover have "spec_replay (rs @ [r]) =
      (fst (spec_replay rs), snd (spec_replay rs) @ map s_id (sessions_at (t_heap t) as))"
    using assms(2) inv(2) by (cases "spec_replay rs") (simp add: spec_replay_snoc)
  moreover have "dangles (rs @ [r]) = dangles rs" using assms(2) by (auto simp: dangles_snoc)
  moreover have "\<forall>a \<in> set (concat (L @ [as])). a < t_fresh t"
    using inv(1,4) by (auto simp: tracker_list_def)
  ultimately have "replay_inv (rs @ [r]) (t, log')"
    using inv log'(2) by (intro replay_invI [of t as _ _ "L @ [as]" "t_fresh t"]) simp_all
  then show ?thesis using log'(1) assms(2) by (auto simp: replay_record_def journal_types)
qed

lemma replay_terminate:
  assumes "replay_inv rs (t, log)" "jtype r = 4"
  shows "\<exists>st. replay_record al r (t, log) = Ok st \<and> replay_inv (rs @ [r]) st"
proof -
  obtain as L where inv: "tracker_list t as" "sessions_at (t_heap t) as = fst (spec_replay rs)" "log_holds log L"
      "\<forall>a \<in> set (concat L). a < t_fresh t" "catches (tracker_look t) (concat L) (snd (spec_replay rs)) (dangles rs)"
    using assms(1) by (auto simp: replay_inv_def)
  have spec: "spec_replay (rs @ [r]) = (spec_terminate (jsession_id r) (fst (spec_replay rs)), snd (spec_replay rs))"
    using assms(2) by (cases "spec_replay rs") (simp add: spec_replay_snoc)
  show ?thesis
  proof (cases "ipmb_session_terminate t (jsession_id r)")
    case (Ok t')
    obtain as' where as': "tracker_list t' as'" "t_fresh t \<le> t_fresh t'"
        "sessions_at (t_heap t') as' = spec_terminate (jsession_id r) (sessions_at (t_heap t) as)"
      using tracker.terminate_view [OF inv(1) Ok] by (auto simp: tracker_view [OF inv(1)] tracker_view)
    have "catches (tracker_look t') (concat L) (snd (spec_replay rs)) (dangles (rs @ [r]))"
      using tracker.terminate_catches [OF inv(1) Ok inv(5)] assms(2) by (simp add: dangles_snoc)
    then have "replay_inv (rs @ [r]) (t', log)"
      using as' inv spec by (intro replay_invI [of t' as' _ _ L "t_fresh t"]) simp_all
    with Ok assms(2) show ?thesis by (auto simp: replay_record_def journal_types)
  next
    case (Err e)
    then have absent: "jsession_id r \<notin> s_id ` set (sessions_at (t_heap t) as)"
      using tracker.terminate_live [OF inv(1), of "jsession_id r"] by (auto simp: tracker_view [OF inv(1)])
    then have "spec_replay (rs @ [r]) = spec_replay rs"
      using tracker.terminate_absent_view [of "jsession_id r" t as] inv(2)
      by (simp add: spec tracker_view [OF inv(1)])
    moreover have "dangles (rs @ [r]) = dangles rs"
      using tracker.absent_catches [OF inv(1) _ inv(5), of "jsession_id r"] absent
      by (auto simp: dangles_snoc tracker_view [OF inv(1)])
    ultimately have "replay_inv (rs @ [r]) (t, log)" using assms(1) by (simp add: replay_inv_def)
    with Err assms(2) show ?thesis by (auto simp: replay_record_def journal_types)
  next
    case (Fault u)
    with terminate_spec [OF inv(1), of "jsession_id r"] show ?thesis by auto
  qed
qed

lemma replay_record_inv:
  assumes "replay_inv rs st" "\<And>k. al k"
  shows "\<exists>st'. replay_record al r st = Ok st' \<and> replay_inv (rs @ [r]) st'"
proof -
  obtain t log where st: "st = (t, log)" by (cases st)
  consider "jtype r \<in> {1, 2, 3}" | "jtype r = 5" | "jtype r = 4" | "jtype r \<notin> {1, 2, 3, 4, 5}" by auto
  then show ?thesis
  proof cases
    case 4
    then have "spec_replay (rs @ [r]) = spec_replay rs" "dangles (rs @ [r]) = dangles rs"
      by (cases "spec_replay rs"; simp add: spec_replay_snoc dangles_snoc)+
    with assms(1) have "replay_inv (rs @ [r]) st" by (simp add: replay_inv_def)
    with 4 show ?thesis by (simp add: replay_record_def journal_types st)
  qed (use assms replay_upsert replay_checkpoint replay_terminate st in blast)+
qed

lemma replay_loop_inv:
  assumes "records journal = Some rs" "length rs = unat (record_count journal)" "\<And>i k. als i k"
  shows "replay_inv (take i rs) st \<Longrightarrow> i \<le> length rs \<Longrightarrow>
    \<exists>st'. replay_loop als journal i n st = Ok (n + of_nat (length rs - i), st') \<and> replay_inv rs st'"
proof (induction "length rs - i" arbitrary: i n st)
  case 0
  then show ?case using assms(2) by (subst replay_loop.simps) simp
next
  case (Suc m)
  then have i: "i < length rs" by simp
  obtain st1 where st1: "replay_record (als i) (rs ! i) st = Ok st1" "replay_inv (take i rs @ [rs ! i]) st1"
    using replay_record_inv [OF Suc.prems(1), of "als i" "rs ! i"] assms(3) by blast
  have step: "replay_loop als journal i n st = replay_loop als journal (i + 1) (n + 1) st1"
    using i assms(1,2) st1(1) by (subst replay_loop.simps) (simp add: rd8_def)
  have "replay_inv (take (i + 1) rs) st1" using st1(2) i by (simp add: take_Suc_conv_app_nth)
  moreover have "m = length rs - (i + 1)" "i + 1 \<le> length rs" using Suc.hyps(2) i by simp_all
  ultimately obtain st' where st': "replay_loop als journal (i + 1) (n + 1) st1 =
      Ok ((n + 1) + of_nat (length rs - (i + 1)), st')" "replay_inv rs st'"
    using Suc.hyps(1) [of "i + 1" st1 "n + 1"] by blast
  moreover have "(n + 1) + of_nat (length rs - (i + 1)) = n + of_nat (length rs - i)"
    using i by (simp flip: Suc_diff_Suc)
  ultimately show ?case using step by auto
qed

text \<open>The hash over references is the hash over the ids they stand for.\<close>

lemma hash_live_spec:
  assumes "tracker_list t as" "sessions_at (t_heap t) as = live" "catches (tracker_look t) cs sids dang"
  shows "hash_live (t_heap t) h cs = (if dang then Fault Use_after_free
    else Ok (foldl (\<lambda>h sid. hash_session h sid (updates_of live sid)) h sids))"
proof (cases dang)
  case True
  with assms(3) show ?thesis by (auto simp: hash_live_def catches_def tracker_look_def)
next
  case False
  have l: "list_all2 (\<lambda>a sid. \<forall>x. tracker_look t a = Some x \<longrightarrow> s_id x = sid) cs sids"
    and live: "\<forall>a \<in> set cs. t_heap t a \<noteq> None"
    using assms(3) False by (auto simp: catches_def tracker_look_def)
  have up: "updates_of live (e_session_id e) = e_updates e" if "t_heap t a = Some e" for a e
  proof -
    have "session_of e \<in> set live" using that assms(1,2) unfolding tracker_list_def sessions_at_def by force
    moreover have "distinct (map s_id live)" using assms(1,2) by (simp add: tracker_list_def)
    ultimately have "find (\<lambda>x. s_id x = e_session_id e) live = Some (session_of e)"
      by (induction live) (auto simp: rev_image_eqI)
    then show ?thesis by (simp add: updates_of_def)
  qed
  have "foldl (\<lambda>h a. hash_session h (e_session_id (the (t_heap t a))) (e_updates (the (t_heap t a)))) h cs =
      foldl (\<lambda>h sid. hash_session h sid (updates_of live sid)) h sids"
    using l live
  proof (induction arbitrary: h rule: list_all2_induct)
    case (Cons a cs sid sids)
    then obtain e where e: "t_heap t a = Some e" by auto
    with Cons have "e_session_id e = sid" by (simp add: tracker_look_def)
    with up [OF e] e Cons show ?case by simp
  qed simp
  with False live show ?thesis by (auto simp: hash_live_def)
qed

lemma replay_journal_spec:
  assumes "records journal = Some rs" "length rs = unat (record_count journal)"
  shows "ipmb_replay_journal (\<lambda>_ _. True) journal =
    (if dangles rs then Fault Use_after_free
     else Ok \<lparr>event_count = of_nat (length rs), summary_hash = spec_hash rs\<rparr>)"
proof -
  obtain st where "replay_loop (\<lambda>_ _. True) journal 0 0 (ipmb_session_tracker_init, ipmb_event_log_init) =
      Ok (of_nat (length rs), st)" "replay_inv rs st"
    using replay_loop_inv [OF assms, of "\<lambda>_ _. True" 0 "(ipmb_session_tracker_init, ipmb_event_log_init)" 0]
      replay_inv_init by auto
  moreover obtain t log where "st = (t, log)" by (cases st)
  ultimately have st: "replay_loop (\<lambda>_ _. True) journal 0 0 (ipmb_session_tracker_init, ipmb_event_log_init) =
      Ok (of_nat (length rs), t, log)" "replay_inv rs (t, log)" by simp_all
  then obtain as L where inv: "tracker_list t as" "sessions_at (t_heap t) as = fst (spec_replay rs)"
      "log_holds log L" "catches (tracker_look t) (concat L) (snd (spec_replay rs)) (dangles rs)"
    by (auto simp: replay_inv_def)
  show ?thesis
    using tracker_free_empty [OF inv(1)] hash_live_spec [OF inv(1,2,4)]
    by (simp add: ipmb_replay_journal_def st summarize_live [OF inv(3)] spec_hash_def split: prod.split)
qed

lemma caught_iff:
  "sid \<in> set (snd (spec_replay rs)) \<longleftrightarrow>
   (\<exists>i < length rs. jtype (rs ! i) = 5 \<and> sid \<in> s_id ` set (fst (spec_replay (take i rs))))"
proof (induction rs rule: rev_induct)
  case Nil
  then show ?case by (simp add: spec_replay_def)
next
  case (snoc r rs)
  have "(\<exists>i < length (rs @ [r]). jtype ((rs @ [r]) ! i) = 5 \<and>
        sid \<in> s_id ` set (fst (spec_replay (take i (rs @ [r]))))) \<longleftrightarrow>
      (\<exists>i < length rs. jtype (rs ! i) = 5 \<and> sid \<in> s_id ` set (fst (spec_replay (take i rs)))) \<or>
      jtype r = 5 \<and> sid \<in> s_id ` set (fst (spec_replay rs))"
    unfolding length_append_singleton Ex_less_Suc by (simp add: nth_append cong: conj_cong) blast
  then show ?case
    using snoc by (cases "spec_replay rs") (auto simp: spec_replay_snoc)
qed

lemma dangles_iff:
  "dangles rs \<longleftrightarrow> (\<exists>j < length rs. \<exists>i < j. jtype (rs ! i) = 5 \<and> jtype (rs ! j) = 4 \<and>
     jsession_id (rs ! j) \<in> s_id ` set (fst (spec_replay (take i rs))))"
proof -
  have eq: "(\<exists>i < length (take j rs). jtype (take j rs ! i) = 5 \<and> sid \<in> s_id ` set (fst (spec_replay (take i (take j rs))))) \<longleftrightarrow>
      (\<exists>i < j. jtype (rs ! i) = 5 \<and> sid \<in> s_id ` set (fst (spec_replay (take i rs))))"
    if "j < length rs" for j sid
    using that by (auto simp: min_def)
  have "dangles rs \<longleftrightarrow> (\<exists>j < length rs. jtype (rs ! j) = 4 \<and> (\<exists>i < j. jtype (rs ! i) = 5 \<and>
      jsession_id (rs ! j) \<in> s_id ` set (fst (spec_replay (take i rs)))))"
    unfolding dangles_def caught_iff by (simp only: eq cong: conj_cong)
  then show ?thesis by blast
qed

section \<open>Properties\<close>

text \<open>C3: The outcome of replaying bytes, for every input (with allocations that succeed in the
  replay).  Input that is not a journal is refused with the status of the parser.  A journal is
  replayed completely, with the number of its records and the hash of the checkpointed sessions,
  each with the number of updates it has at the end, unless a record terminates a session that
  was live at an earlier checkpoint: then the summary reads the freed entry (undefined
  behaviour).\<close>

theorem replay_bytes_outcome:
  "ipmb_replay_bytes al (\<lambda>_ _. True) data =
     (case ipmb_journal_parse al data of
        Err (status, _) \<Rightarrow> Err status
      | Fault u \<Rightarrow> Fault u
      | Ok journal \<Rightarrow> (let rs = the (records journal) in
          if \<exists>j < length rs. \<exists>i < j. jtype (rs ! i) = 5 \<and> jtype (rs ! j) = 4 \<and>
               jsession_id (rs ! j) \<in> s_id ` set (fst (spec_replay (take i rs)))
          then Fault Use_after_free
          else Ok \<lparr>event_count = of_nat (length rs), summary_hash = spec_hash rs\<rparr>))"
proof (cases "ipmb_journal_parse al data")
  case (Ok journal)
  then obtain rs where "records journal = Some rs" "length rs = unat (record_count journal)"
    using journal_parse_Ok [of al data journal] by (auto simp: journal_wf_def)
  with Ok replay_journal_spec [OF this] show ?thesis
    by (simp add: ipmb_replay_bytes_def dangles_iff Let_def)
qed (auto simp: ipmb_replay_bytes_def)

end
