(* ===== verification/Match_Table.thy ===== *)
theory Match_Table
  imports Growable Rule_Compiler
begin

text \<open>
  The match table of \<^verbatim>\<open>src/routing/match_table.c\<close>: a growing array of named rules with a
  priority, and the evaluation that picks the best of the rules that match a frame.  The
  evaluation keeps its results in a block it reallocates for every match, and a pointer
  \<^verbatim>\<open>best\<close> into that block.  Whether a reallocation moves the block is not known:
  \<open>mv k\<close> says it for the one that makes room for result \<open>k\<close>.  A pointer carries the
  generation of the block it points into; the block moves to the next generation, and reading
  through a pointer of an older one is a \<open>Fault\<close>.
\<close>

section \<open>The table\<close>

record ipmb_match_result =
  result_name :: string
  result_priority :: "32 word"
  result_score :: "32 word"

record ipmb_match_rule =
  match_name :: string
  match_priority :: "32 word"
  match_code :: ipmb_rule_bytecode

record ipmb_match_table =
  match_rules :: "ipmb_match_rule cells"
  match_count :: nat
  match_capacity :: nat

definition ipmb_match_table_init :: ipmb_match_table where
  "ipmb_match_table_init = \<lparr>match_rules = [], match_count = 0, match_capacity = 0\<rparr>"

definition ipmb_match_table_free :: "ipmb_match_table \<Rightarrow> ipmb_match_table" where
  "ipmb_match_table_free t = ipmb_match_table_init"

text \<open>The rule is counted, with its name and priority and no code, before its code is cloned.\<close>

definition ipmb_match_table_add ::
  "allocs \<Rightarrow> ipmb_match_table \<Rightarrow> string \<Rightarrow> 32 word \<Rightarrow> ipmb_rule_bytecode \<Rightarrow>
   (ipmb_status \<times> ipmb_match_table, ipmb_match_table) res" where
  "ipmb_match_table_add al t name prio code =
     rbind (grow_cells al (IPMB_ERR_ALLOC, t) 4 (match_count t) (match_rules t) (match_capacity t))
       (\<lambda>(cells, capacity, k).
     let i = match_count t;
         put = (\<lambda>c. rbind (store_cells cells i
             [\<lparr>match_name = strncpy31 name, match_priority = prio, match_code = c\<rparr>]) (\<lambda>cells.
           Ok \<lparr>match_rules = cells, match_count = i + 1, match_capacity = capacity\<rparr>)) in
     rbind (put []) (\<lambda>t.
     rbind (map_err (\<lambda>s. (s, t)) (ipmb_rule_bytecode_clone al k code)) (\<lambda>c. put c)))"

section \<open>The evaluation\<close>

text \<open>The results found so far, the generation of their block and \<^verbatim>\<open>best\<close>.\<close>

type_synonym best_state = "ipmb_match_result list \<times> nat \<times> (nat \<times> nat) option"

definition read_best :: "ipmb_match_result list \<Rightarrow> nat \<Rightarrow> nat \<times> nat \<Rightarrow> ('e, ipmb_match_result) res" where
  "read_best results gen p = (if fst p = gen then rd8 results (snd p) else Fault Use_after_free)"

text \<open>The body of the loop for a rule that matches.\<close>

definition add_result ::
  "allocs \<Rightarrow> (nat \<Rightarrow> bool) \<Rightarrow> ipmb_frame \<Rightarrow> ipmb_match_rule \<Rightarrow> best_state \<Rightarrow> (ipmb_status, best_state) res" where
  "add_result al mv frame r st = (case st of (results, gen, best) \<Rightarrow>
     rbind (case best of
              None \<Rightarrow> Ok None
            | Some p \<Rightarrow> rbind (read_best results gen p) (\<lambda>b.
                if result_score b <s match_priority r
                then rbind (usub (length results) 1) (\<lambda>i. Ok (Some (gen, i)))
                else Ok best)) (\<lambda>best.
     rbind (alloc al (length results) IPMB_ERR_ALLOC) (\<lambda>_.
     let gen = (if results \<noteq> [] \<and> mv (length results) then gen + 1 else gen) in
     rbind (checked_add_i32 (match_priority r) (ucast (priority frame))) (\<lambda>score.
     let i = length results;
         results = results @ [\<lparr>result_name = strncpy31 (match_name r), result_priority = match_priority r,
                               result_score = score\<rparr>] in
     rbind (case best of
              None \<Rightarrow> Ok True
            | Some p \<Rightarrow> rbind (read_best results gen p) (\<lambda>b. Ok (result_score b <s score))) (\<lambda>better.
       Ok (results, gen, if better then Some (gen, i) else best))))))"

function match_loop ::
  "allocs \<Rightarrow> (nat \<Rightarrow> bool) \<Rightarrow> ipmb_match_table \<Rightarrow> ipmb_frame \<Rightarrow> nat \<Rightarrow> best_state \<Rightarrow> (ipmb_status, best_state) res" where
  "match_loop al mv t frame i st =
     (if i < match_count t then
        rbind (load_cells (match_rules t) i 1) (\<lambda>rs. let r = hd rs in
          case ipmb_vm_evaluate (match_code r) frame of
            Ok True \<Rightarrow> rbind (add_result al mv frame r st) (\<lambda>st. match_loop al mv t frame (i + 1) st)
          | Ok False \<Rightarrow> match_loop al mv t frame (i + 1) st
          | Err _ \<Rightarrow> match_loop al mv t frame (i + 1) st
          | Fault u \<Rightarrow> Fault u)
      else Ok st)"
  by pat_completeness auto
termination by (relation "measure (\<lambda>(_, _, t, _, i, _). match_count t - i)") auto

declare match_loop.simps [simp del]

definition ipmb_match_table_evaluate ::
  "allocs \<Rightarrow> (nat \<Rightarrow> bool) \<Rightarrow> ipmb_match_table \<Rightarrow> ipmb_frame \<Rightarrow> (ipmb_status, ipmb_match_result) res" where
  "ipmb_match_table_evaluate al mv t frame =
     rbind (match_loop al mv t frame 0 ([], 0, None)) (\<lambda>(results, gen, best).
       case best of
         None \<Rightarrow> Err IPMB_ERR_NOT_FOUND
       | Some p \<Rightarrow> read_best results gen p)"

section \<open>The table as a list of rules\<close>

definition table_wf :: "ipmb_match_table \<Rightarrow> bool" where
  "table_wf t \<longleftrightarrow> (\<exists>rs. filled (match_rules t) (match_count t) (match_capacity t) rs)"

definition table_rules :: "ipmb_match_table \<Rightarrow> ipmb_match_rule list" where
  "table_rules t = map the (take (match_count t) (match_rules t))"

lemma table_filled: "filled (match_rules t) (match_count t) (match_capacity t) rs \<Longrightarrow> table_rules t = rs"
  by (auto simp: filled_def holds_def table_rules_def)

definition table_add :: "allocs \<Rightarrow> string \<times> 32 word \<times> ipmb_rule_bytecode \<Rightarrow> ipmb_match_table \<Rightarrow>
    (ipmb_status \<times> ipmb_match_table, ipmb_match_table) res" where
  "table_add al x t = (case x of (name, prio, code) \<Rightarrow> ipmb_match_table_add al t name prio code)"

definition rule_of :: "string \<times> 32 word \<times> ipmb_rule_bytecode \<Rightarrow> ipmb_match_rule" where
  "rule_of x = (case x of (name, prio, code) \<Rightarrow>
     \<lparr>match_name = strncpy31 name, match_priority = prio, match_code = code\<rparr>)"

lemma match_table_add_cases:
  assumes "filled (match_rules t) (match_count t) (match_capacity t) rs"
  shows "(\<exists>t'. ipmb_match_table_add al t name prio code = Ok t' \<and>
        filled (match_rules t') (match_count t') (match_capacity t') (rs @ [rule_of (name, prio, code)])) \<or>
    (\<exists>t' rs'. ipmb_match_table_add al t name prio code = Err (IPMB_ERR_ALLOC, t') \<and>
        filled (match_rules t') (match_count t') (match_capacity t') (rs @ rs') \<and>
        (\<exists>k. \<not> al k) \<and> (rs' = [] \<or> rs' = [rule_of (name, prio, [])]))"
proof -
  have count: "match_count t = length rs" using assms by (simp add: filled_def)
  show ?thesis
  proof (cases rule: grow_cells_cases [OF assms, of 4 al "(IPMB_ERR_ALLOC, t)", case_names four no ok])
    case no
    with assms show ?thesis
      by (intro disjI2 exI [of _ t] exI [of _ "[]"]) (auto simp: ipmb_match_table_add_def)
  next
    case (ok cells cap k)
    let ?r = "\<lambda>c. \<lparr>match_name = strncpy31 name, match_priority = prio, match_code = c\<rparr>"
    obtain cells1 where c1: "(store_cells cells (match_count t) [?r []] :: (ipmb_status \<times> ipmb_match_table, _) res) = Ok cells1"
        "filled cells1 (Suc (match_count t)) cap (rs @ [?r []])"
      by (rule filled_store [OF ok(2,3)])
    obtain cells2 where c2: "(store_cells cells (match_count t) [?r code] :: (ipmb_status \<times> ipmb_match_table, _) res) = Ok cells2"
        "filled cells2 (Suc (match_count t)) cap (rs @ [?r code])"
      by (rule filled_store [OF ok(2,3)])
    note run = ok(1) c1(1) c2(1)
    show ?thesis
    proof (cases "al k")
      case True
      with run have "ipmb_match_table_add al t name prio code =
          Ok \<lparr>match_rules = cells2, match_count = match_count t + 1, match_capacity = cap\<rparr>"
        by (simp add: ipmb_match_table_add_def ipmb_rule_bytecode_clone_def Let_def)
      with c2(2) show ?thesis by (auto simp: rule_of_def)
    next
      case False
      with run have "ipmb_match_table_add al t name prio code = Err (IPMB_ERR_ALLOC,
          \<lparr>match_rules = cells1, match_count = match_count t + 1, match_capacity = cap\<rparr>)"
        by (simp add: ipmb_match_table_add_def ipmb_rule_bytecode_clone_def Let_def alloc_def)
      with c1(2) False show ?thesis
        by (intro disjI2 exI [of _ "\<lparr>match_rules = cells1, match_count = match_count t + 1, match_capacity = cap\<rparr>"]
            exI [of _ "[?r []]"]) (auto simp: rule_of_def)
    qed
  qed simp
qed

interpretation matches: append_store table_add table_wf table_rules "\<lambda>x. [rule_of x]" "\<lambda>x t. True"
  ipmb_match_table_init
proof
  show "table_wf ipmb_match_table_init" "table_rules ipmb_match_table_init = []"
    using filled_empty by (auto simp: table_wf_def table_rules_def ipmb_match_table_init_def)
next
  fix t al and x :: "string \<times> 32 word \<times> ipmb_rule_bytecode"
  assume "table_wf t"
  then obtain rs where rs: "filled (match_rules t) (match_count t) (match_capacity t) rs"
    by (auto simp: table_wf_def)
  obtain name prio code where x: "x = (name, prio, code)" by (cases x)
  from match_table_add_cases [OF rs, of al name prio code]
  show "(\<exists>t'. table_add al x t = Ok t' \<and> table_wf t' \<and> table_rules t' = table_rules t @ [rule_of x]) \<or>
      (\<exists>t'. table_add al x t = Err (IPMB_ERR_ALLOC, t') \<and> table_wf t' \<and>
        prefix (table_rules t) (table_rules t') \<and> (\<exists>k. \<not> al k))"
    unfolding table_add_def x prod.case table_wf_def table_filled [OF rs]
    by (auto simp: table_filled)
qed

section \<open>The evaluation of a list of rules\<close>

fun add_results ::
  "allocs \<Rightarrow> (nat \<Rightarrow> bool) \<Rightarrow> ipmb_frame \<Rightarrow> ipmb_match_rule list \<Rightarrow> best_state \<Rightarrow> (ipmb_status, best_state) res" where
  "add_results al mv frame [] st = Ok st"
| "add_results al mv frame (r # rs) st = rbind (add_result al mv frame r st) (add_results al mv frame rs)"

definition hits :: "ipmb_match_table \<Rightarrow> ipmb_frame \<Rightarrow> ipmb_match_rule list" where
  "hits t frame = filter (\<lambda>r. ipmb_vm_evaluate (match_code r) frame = Ok True) (table_rules t)"

lemma match_loop_results:
  assumes "filled (match_rules t) (match_count t) (match_capacity t) rs"
  shows "i \<le> length rs \<Longrightarrow> match_loop al mv t frame i st =
    add_results al mv frame (filter (\<lambda>r. ipmb_vm_evaluate (match_code r) frame = Ok True) (drop i rs)) st"
proof (induction "length rs - i" arbitrary: i st)
  case 0
  with assms show ?case by (subst match_loop.simps) (simp add: filled_def)
next
  case (Suc n)
  then have i: "i < length rs" by simp
  have "take (length rs) (match_rules t) = map Some rs" "length rs \<le> length (match_rules t)"
    using assms by (auto simp: filled_def holds_def)
  then have "match_rules t ! i = Some (rs ! i)" "i < length (match_rules t)"
    using i nth_take [of i "length rs" "match_rules t"] by simp_all
  then have load: "(load_cells (match_rules t) i 1 :: (ipmb_status, _) res) = Ok [rs ! i]"
    by (simp add: load_cells_def take_Suc_conv_app_nth hd_drop_conv_nth take_Suc)
  have count: "match_count t = length rs" using assms by (simp add: filled_def)
  have "\<not> (\<exists>u. ipmb_vm_evaluate (match_code (rs ! i)) frame = Fault u)"
    using vm_loop_safe [of "replicate 64 \<lparr>vi = 0, is_bool = False\<rparr>" 0 "match_code (rs ! i)" frame 0]
    by (auto simp: ipmb_vm_evaluate_def)
  moreover have "match_loop al mv t frame (i + 1) = add_results al mv frame
      (filter (\<lambda>r. ipmb_vm_evaluate (match_code r) frame = Ok True) (drop (i + 1) rs))"
    using Suc.hyps(1) [of "i + 1"] Suc.hyps(2) i by (intro ext) simp
  moreover have "drop i rs = rs ! i # drop (i + 1) rs" using i by (simp add: Cons_nth_drop_Suc)
  ultimately show ?case
    using i load count by (subst match_loop.simps) (auto simp: Let_def split: res.split bool.split)
qed

section \<open>The best result\<close>

text \<open>The score is the priority of the rule plus that of the frame.\<close>

definition result_of :: "ipmb_frame \<Rightarrow> ipmb_match_rule \<Rightarrow> ipmb_match_result" where
  "result_of frame r = \<lparr>result_name = strncpy31 (match_name r), result_priority = match_priority r,
     result_score = match_priority r + ucast (priority frame)\<rparr>"

definition score_fits :: "ipmb_frame \<Rightarrow> ipmb_match_rule \<Rightarrow> bool" where
  "score_fits frame r \<longleftrightarrow> i32_fits (sint (match_priority r) + int (unat (priority frame)))"

text \<open>\<open>first_best i rs\<close>: rule \<open>i\<close> is the first of those with the highest priority.\<close>

definition first_best :: "nat \<Rightarrow> ipmb_match_rule list \<Rightarrow> bool" where
  "first_best i rs \<longleftrightarrow> i < length rs \<and>
     (\<forall>j < length rs. sint (match_priority (rs ! j)) \<le> sint (match_priority (rs ! i))) \<and>
     (\<forall>j < i. sint (match_priority (rs ! j)) < sint (match_priority (rs ! i)))"

lemma first_best_snoc:
  "first_best i rs \<Longrightarrow>
   first_best (if sint (match_priority (rs ! i)) < sint (match_priority r) then length rs else i) (rs @ [r])"
  by (auto simp: first_best_def nth_append less_Suc_eq intro: le_less_trans)

lemma sint_frame_priority: "sint (ucast (priority f) :: 32 word) = int (unat (priority f))"
proof -
  have "uint (priority f) < 2 ^ 16" using uint_lt2p [of "priority f"] by simp
  then show ?thesis
    by (simp add: sint_uint uint_up_ucast is_up) (subst signed_take_bit_int_eq_self; simp add: order_trans [of _ 0])
qed

lemma score:
  assumes "score_fits frame r"
  shows "checked_add_i32 (match_priority r) (ucast (priority frame)) = Ok (match_priority r + ucast (priority frame))"
    and "sint (result_score (result_of frame r)) = sint (match_priority r) + int (unat (priority frame))"
proof -
  show "checked_add_i32 (match_priority r) (ucast (priority frame)) = Ok (match_priority r + ucast (priority frame))"
    using assms by (simp add: checked_add_i32_def score_fits_def sint_frame_priority)
  have "match_priority r + ucast (priority frame) =
      word_of_int (sint (match_priority r) + int (unat (priority frame)))"
    by (simp add: sint_frame_priority [symmetric])
  then show "sint (result_score (result_of frame r)) = sint (match_priority r) + int (unat (priority frame))"
    using assms by (simp add: result_of_def score_fits_def del: of_int_add)
qed

text \<open>The state after the rules \<open>rs\<close>, when no reallocation moved the block.\<close>

definition best_after :: "ipmb_frame \<Rightarrow> ipmb_match_rule list \<Rightarrow> best_state \<Rightarrow> bool" where
  "best_after frame rs st \<longleftrightarrow> (case st of (results, gen, best) \<Rightarrow>
     results = map (result_of frame) rs \<and>
     (case best of None \<Rightarrow> rs = [] | Some (g, i) \<Rightarrow> g = gen \<and> first_best i rs))"

lemma add_result_first:
  assumes "score_fits frame r" "al 0"
  shows "\<exists>st. add_result al mv frame r ([], gen, None) = Ok st \<and> best_after frame [r] st"
  using score [OF assms(1)] assms(2)
  by (simp add: add_result_def best_after_def first_best_def result_of_def Let_def)

lemma add_result_next:
  assumes "list_all (score_fits frame) (rs @ [r])" "al (length rs)" "best_after frame rs st" "rs \<noteq> []"
  shows "if mv (length rs) then add_result al mv frame r st = Fault Use_after_free
    else \<exists>st'. add_result al mv frame r st = Ok st' \<and> best_after frame (rs @ [r]) st'"
proof -
  obtain gen i where st: "st = (map (result_of frame) rs, gen, Some (gen, i))" and i: "first_best i rs"
    using assms(3,4) by (auto simp: best_after_def split: option.splits)
  have il: "i < length rs" using i by (simp add: first_best_def)
  let ?fp = "int (unat (priority frame))" and ?p = "\<lambda>r. sint (match_priority r)"
  let ?new = "map (result_of frame) rs @ [result_of frame r]"
  have fits: "score_fits frame r" "\<forall>j < length rs. score_fits frame (rs ! j)"
    using assms(1) by (auto simp: list_all_iff)
  have sc: "sint (result_score (result_of frame (rs ! j))) = ?p (rs ! j) + ?fp" if "j < length rs" for j
    using score(2) fits(2) that by blast
  define b where "b = (if result_score (result_of frame (rs ! i)) <s match_priority r then length rs - 1 else i)"
  have b: "b < length rs" using il by (auto simp: b_def)
  have adj: "(if result_score (result_of frame (rs ! i)) <s match_priority r
      then rbind (usub (length rs) 1) (\<lambda>i. Ok (Some (gen, i))) else Ok (Some (gen, i))) =
      (Ok (Some (gen, b)) :: (ipmb_status, (nat \<times> nat) option) res)"
    using assms(4) by (simp add: b_def usub_def Suc_le_eq)
  have run: "add_result al mv frame r st =
      (let g = (if mv (length rs) then gen + 1 else gen) in
       rbind (read_best ?new g (gen, b)) (\<lambda>x.
         Ok (?new, g, if result_score x <s match_priority r + ucast (priority frame) then Some (g, length rs) else Some (gen, b))))"
  proof -
    have r1: "read_best (map (result_of frame) rs) gen (gen, i) =
        (Ok (result_of frame (rs ! i)) :: (ipmb_status, ipmb_match_result) res)"
      using il by (simp add: read_best_def rd8_def)
    have new: "\<lparr>result_name = strncpy31 (match_name r), result_priority = match_priority r,
        result_score = match_priority r + ucast (priority frame)\<rparr> = result_of frame r"
      by (simp add: result_of_def)
    have ne: "map (result_of frame) rs \<noteq> []" using assms(4) by simp
    show ?thesis
      unfolding add_result_def st prod.case option.case r1 rbind.simps length_map adj
        alloc_True [of al, OF assms(2)] score(1) [OF fits(1)] Let_def new using ne
      by (simp add: rbind_assoc split: if_split)
  qed
  show ?thesis
  proof (cases "mv (length rs)")
    case True
    then show ?thesis by (simp add: run read_best_def)
  next
    case False
    have "result_score (result_of frame (rs ! b)) <s match_priority r + ucast (priority frame) \<longleftrightarrow>
        ?p (rs ! b) < ?p r"
      using sc [OF b] score(2) [OF fits(1)] by (simp add: word_sless_alt result_of_def)
    moreover have "?p (rs ! b) < ?p r \<longleftrightarrow> ?p (rs ! i) < ?p r" "\<not> ?p (rs ! i) < ?p r \<Longrightarrow> b = i"
    proof -
      have "?p (rs ! i) < ?p r" if "result_score (result_of frame (rs ! i)) <s match_priority r"
        using that sc [OF il] of_nat_0_le_iff [of "unat (priority frame)"] unfolding word_sless_alt by linarith
      moreover have "?p (rs ! b) \<le> ?p (rs ! i)" using i b by (simp add: first_best_def)
      ultimately show "?p (rs ! b) < ?p r \<longleftrightarrow> ?p (rs ! i) < ?p r" "\<not> ?p (rs ! i) < ?p r \<Longrightarrow> b = i"
        by (auto simp: b_def)
    qed
    ultimately have "add_result al mv frame r st =
        Ok (?new, gen, Some (gen, if ?p (rs ! i) < ?p r then length rs else i))"
      using False b by (auto simp: run read_best_def rd8_def nth_append)
    with False first_best_snoc [OF i, of r] show ?thesis by (auto simp: best_after_def)
  qed
qed

lemma add_results_best:
  assumes "\<forall>k. al k"
  shows "list_all (score_fits frame) (ps @ rs) \<Longrightarrow> best_after frame ps st \<Longrightarrow> ps \<noteq> [] \<Longrightarrow>
    if \<exists>k < length rs. mv (length ps + k) then add_results al mv frame rs st = Fault Use_after_free
    else \<exists>st'. add_results al mv frame rs st = Ok st' \<and> best_after frame (ps @ rs) st'"
proof (induction rs arbitrary: ps st)
  case (Cons r rs)
  have now: "(\<exists>k < length (r # rs). mv (length ps + k)) \<longleftrightarrow> mv (length ps) \<or> (\<exists>k < length rs. mv (length (ps @ [r]) + k))"
    by (simp add: Ex_less_Suc2)
  have step: "if mv (length ps) then add_result al mv frame r st = Fault Use_after_free
    else \<exists>st'. add_result al mv frame r st = Ok st' \<and> best_after frame (ps @ [r]) st'"
    using Cons.prems assms by (intro add_result_next) auto
  show ?case
  proof (cases "mv (length ps)")
    case True
    with step show ?thesis unfolding now by simp
  next
    case False
    with step obtain st1 where "add_result al mv frame r st = Ok st1" "best_after frame (ps @ [r]) st1" by auto
    with Cons.IH [of "ps @ [r]" st1] Cons.prems(1) False show ?thesis
      unfolding now by (auto split: if_splits)
  qed
qed simp

lemma evaluate_hits:
  assumes "table_wf t" "\<forall>k. al k" "list_all (score_fits frame) (hits t frame)"
  shows "if hits t frame = [] then ipmb_match_table_evaluate al mv t frame = Err IPMB_ERR_NOT_FOUND
    else if \<exists>k < length (hits t frame). 0 < k \<and> mv k
      then ipmb_match_table_evaluate al mv t frame = Fault Use_after_free
    else \<exists>i. first_best i (hits t frame) \<and>
      ipmb_match_table_evaluate al mv t frame = Ok (result_of frame (hits t frame ! i))"
proof -
  obtain rs where "filled (match_rules t) (match_count t) (match_capacity t) rs"
    using assms(1) by (auto simp: table_wf_def)
  from match_loop_results [OF this, of 0] table_filled [OF this]
  have run: "match_loop al mv t frame 0 ([], 0, None) = add_results al mv frame (hits t frame) ([], 0, None)"
    by (simp add: hits_def)
  show ?thesis
  proof (cases "hits t frame")
    case Nil
    with run show ?thesis by (simp add: ipmb_match_table_evaluate_def)
  next
    case (Cons r rs)
    obtain st where st: "add_result al mv frame r ([], 0, None) = Ok st" "best_after frame [r] st"
      using add_result_first [of frame r al mv 0] assms(2,3) Cons by auto
    have mv: "(\<exists>k < length (hits t frame). 0 < k \<and> mv k) \<longleftrightarrow> (\<exists>k < length rs. mv (length [r] + k))"
      using Cons by (simp add: Ex_less_Suc2)
    have "list_all (score_fits frame) ([r] @ rs)" using assms(3) Cons by simp
    note best = add_results_best [OF assms(2) this st(2), of mv]
    show ?thesis
    proof (cases "\<exists>k < length rs. mv (length [r] + k)")
      case True
      with best st(1) show ?thesis unfolding mv by (simp add: ipmb_match_table_evaluate_def run Cons)
    next
      case False
      with best obtain results gen best where st': "add_results al mv frame rs st = Ok (results, gen, best)"
          "best_after frame (r # rs) (results, gen, best)"
        by (auto split: if_splits)
      then obtain i where i: "best = Some (gen, i)" "first_best i (r # rs)" "results = map (result_of frame) (r # rs)"
        by (auto simp: best_after_def split: option.splits)
      then have "ipmb_match_table_evaluate al mv t frame = Ok (result_of frame ((r # rs) ! i))"
        using st(1) st'(1) by (simp add: ipmb_match_table_evaluate_def run Cons read_best_def rd8_def first_best_def
            nth_map [of i "r # rs"] del: list.map(2))
      with i(2) False show ?thesis unfolding mv by (auto simp: Cons)
    qed
  qed
qed

lemma score_fits_rule_of:
  "score_fits frame (rule_of (name, prio, code)) \<longleftrightarrow> i32_fits (sint prio + int (unat (priority frame)))"
  by (simp add: score_fits_def rule_of_def)

section \<open>Properties\<close>

text \<open>C6: What a match table answers.  Rules added to a new table (with memory available, and with
  priorities whose sum with the priority of the frame fits an \<^verbatim>\<open>int\<close>) are evaluated in the order
  they were added.  Without a match the answer is \<^verbatim>\<open>IPMB_ERR_NOT_FOUND\<close>.  Otherwise, if no
  reallocation of the result block moves it, the answer is the first of the matching rules with
  the highest priority; if one moves it, the evaluation reads \<^verbatim>\<open>best\<close>, which points into the
  freed block: two matching rules are enough for undefined behaviour.\<close>

theorem match_table_best:
  assumes "\<forall>(al, x) \<in> set calls. \<forall>k. al k" "\<forall>k. al k"
    "\<forall>(al, name, prio, code) \<in> set calls. i32_fits (sint prio + int (unat (priority frame)))"
  shows "\<exists>t. add_list table_add calls ipmb_match_table_init = Ok t \<and>
    (let hs = filter (\<lambda>r. ipmb_vm_evaluate (match_code r) frame = Ok True) (map (rule_of \<circ> snd) calls) in
     if hs = [] then ipmb_match_table_evaluate al mv t frame = Err IPMB_ERR_NOT_FOUND
     else if \<exists>k < length hs. 0 < k \<and> mv k then ipmb_match_table_evaluate al mv t frame = Fault Use_after_free
     else \<exists>i. first_best i hs \<and> ipmb_match_table_evaluate al mv t frame = Ok (result_of frame (hs ! i)))"
proof -
  have items: "concat (map (\<lambda>(al, x). [rule_of x]) calls) = map (rule_of \<circ> snd) calls"
    by (induction calls) auto
  obtain t where t: "add_list table_add calls ipmb_match_table_init = Ok t" "table_wf t"
      "table_rules t = map (rule_of \<circ> snd) calls"
    using matches.add_list_empty [OF _ assms(1)] by (auto simp: items)
  have "list_all (score_fits frame) (hits t frame)"
    using assms(3) by (auto simp: hits_def t(3) list_all_iff score_fits_rule_of)
  from evaluate_hits [OF t(2) assms(2) this, of mv] t(1) show ?thesis
    unfolding hits_def t(3) Let_def by blast
qed

lemma match_table_best_witness:
  "\<exists>code t. add_list table_add [(\<lambda>_. True, ''low'', 1, code), (\<lambda>_. True, ''high'', 7, code)] ipmb_match_table_init = Ok t \<and>
     (\<exists>r. ipmb_match_table_evaluate (\<lambda>_. True) (\<lambda>_. False) t sample_frame = Ok r \<and> result_name r = ''high'') \<and>
     ipmb_match_table_evaluate (\<lambda>_. True) (\<lambda>_. True) t sample_frame = Fault Use_after_free"
proof -
  define code where "code = assemble [Load_field 5, Push_int 5, Cmp_eq, Forward [1, 2], End_op]"
  define calls where "calls = [(\<lambda>_ :: nat. True, ''low'', 1 :: 32 word, code), (\<lambda>_. True, ''high'', 7, code)]"
  define hs where "hs = [rule_of (''low'', 1, code), rule_of (''high'', 7, code)]"
  have run: "ipmb_vm_evaluate code sample_frame = Ok True"
    unfolding code_def by (subst vm_evaluate_run) (simp_all add: load_field_def sample_frame_def c_bool_def)
  have al: "\<forall>(al, x) \<in> set calls. \<forall>k. al k" "\<forall>k :: nat. (\<lambda>_. True) k" by (simp_all add: calls_def)
  have fits: "\<forall>(al, name, prio, code) \<in> set calls. i32_fits (sint prio + int (unat (priority sample_frame)))"
    by (simp add: calls_def sample_frame_def i32_fits_def)
  have hs: "filter (\<lambda>r. ipmb_vm_evaluate (match_code r) sample_frame = Ok True) (map (rule_of \<circ> snd) calls) = hs"
    using run by (simp add: rule_of_def calls_def hs_def)
  have one: "first_best i hs \<Longrightarrow> i = 1" for i
    by (auto simp: first_best_def rule_of_def hs_def nth_Cons less_Suc_eq split: nat.splits)
  have ne: "hs \<noteq> []" and two: "\<exists>k < length hs. 0 < k" by (auto simp: hs_def intro!: exI [of _ 1])
  note best = match_table_best [OF al fits, unfolded hs Let_def]
  obtain t where t: "add_list table_add calls ipmb_match_table_init = Ok t"
      "ipmb_match_table_evaluate (\<lambda>_. True) (\<lambda>_. True) t sample_frame = Fault Use_after_free"
    using best [of "\<lambda>_. True"] ne two by auto
  with best [of "\<lambda>_. False"] ne obtain i where "first_best i hs"
      "ipmb_match_table_evaluate (\<lambda>_. True) (\<lambda>_. False) t sample_frame = Ok (result_of sample_frame (hs ! i))"
    by auto
  moreover have "i = 1" by (rule one [OF calculation(1)])
  then have "result_name (result_of sample_frame (hs ! i)) = ''high''"
    by (simp add: hs_def result_of_def rule_of_def strncpy31_def)
  ultimately show ?thesis using t unfolding calls_def by blast
qed

text \<open>What a failed addition leaves.  When \<^verbatim>\<open>ipmb_match_table_add\<close> cannot clone the code, it
  reports the allocation but the rule stays in the table, with its name and priority and no
  code; no other failure changes the rules, and the earlier rules are never touched.\<close>

theorem match_table_add_failure:
  assumes "table_wf t" "ipmb_match_table_add al t name prio code = Err (status, t')"
  shows "status = IPMB_ERR_ALLOC \<and> table_wf t' \<and>
    (table_rules t' = table_rules t \<or> table_rules t' = table_rules t @ [rule_of (name, prio, [])])"
proof -
  obtain rs where rs: "filled (match_rules t) (match_count t) (match_capacity t) rs"
    using assms(1) by (auto simp: table_wf_def)
  from match_table_add_cases [OF rs, of al name prio code] assms(2) show ?thesis
    by (auto simp: table_wf_def table_filled [OF rs] table_filled)
qed

lemma match_table_add_failure_witness:
  "\<exists>t'. ipmb_match_table_add (\<lambda>k. k = 0) ipmb_match_table_init ''r'' 1 [1] = Err (IPMB_ERR_ALLOC, t') \<and>
     table_wf t' \<and> table_rules t' = [rule_of (''r'', 1, [])]"
proof -
  obtain t' where run: "ipmb_match_table_add (\<lambda>k. k = 0) ipmb_match_table_init ''r'' 1 [1] = Err (IPMB_ERR_ALLOC, t')"
      "match_count t' = 1"
    by (simp add: ipmb_match_table_add_def ipmb_match_table_init_def grow_cells_def store_cells_def
        ipmb_rule_bytecode_clone_def alloc_def)
  have "table_wf ipmb_match_table_init" by (rule matches.empty_wf)
  from match_table_add_failure [OF this run(1)] have t': "table_wf t'"
      "table_rules t' = [] \<or> table_rules t' = [rule_of (''r'', 1, [])]"
    by (simp_all add: matches.empty_contents)
  moreover have "table_rules t' \<noteq> []"
    using t'(1) run(2) by (auto simp: table_wf_def table_filled filled_def)
  ultimately show ?thesis using run(1) by blast
qed

end
