(* ===== verification/Checkpoint_Store.thy ===== *)
theory Checkpoint_Store
  imports Growable
begin

text \<open>
  The checkpoint store of \<^verbatim>\<open>src/session/checkpoint_store.c\<close>: a growing array of byte buffers, one
  per session.  A null buffer is the empty list of cells.  \<^verbatim>\<open>ipmb_checkpoint_migrate\<close> keeps the
  pointer \<^verbatim>\<open>src\<close> across a reallocation of the array: \<open>moved\<close> says whether the reallocation
  of an array that exists moves it, and an access through \<^verbatim>\<open>src\<close> after a move is a
  \<open>Fault\<close>.  Byte counts are assumed to fit in \<^verbatim>\<open>size_t\<close>; the loop that computes the new
  capacity wraps around like \<^verbatim>\<open>size_t\<close>.
\<close>

section \<open>The code\<close>

record ipmb_checkpoint_state =
  cp_session_id :: "32 word"
  cp_buf :: "byte cells"
  cp_used :: nat
  cp_capacity :: nat

record ipmb_checkpoint_store =
  cp_items :: "ipmb_checkpoint_state list"
  cp_count :: nat
  cp_items_capacity :: nat

definition zero_state :: ipmb_checkpoint_state where
  "zero_state = \<lparr>cp_session_id = 0, cp_buf = [], cp_used = 0, cp_capacity = 0\<rparr>"

definition ipmb_checkpoint_store_init :: ipmb_checkpoint_store where
  "ipmb_checkpoint_store_init = \<lparr>cp_items = [], cp_count = 0, cp_items_capacity = 0\<rparr>"

definition ipmb_checkpoint_store_free :: "ipmb_checkpoint_store \<Rightarrow> ipmb_checkpoint_store" where
  "ipmb_checkpoint_store_free store = ipmb_checkpoint_store_init"

text \<open>The first loop of \<^verbatim>\<open>find_or_add\<close>.\<close>

function find_item :: "ipmb_checkpoint_store \<Rightarrow> 32 word \<Rightarrow> nat \<Rightarrow> (ipmb_checkpoint_store, nat option) res" where
  "find_item store sid i =
     (if i < cp_count store then
        rbind (rd8 (cp_items store) i) (\<lambda>x.
          if cp_session_id x = sid then Ok (Some i) else find_item store sid (i + 1))
      else Ok None)"
  by pat_completeness auto
termination by (relation "measure (\<lambda>(store, _, i). cp_count store - i)") auto

declare find_item.simps [simp del]

text \<open>\<open>put_item\<close> writes an element of the array.\<close>

definition put_item :: "ipmb_checkpoint_store \<Rightarrow> nat \<Rightarrow> ipmb_checkpoint_state \<Rightarrow> ('e, ipmb_checkpoint_store) res" where
  "put_item store i x =
     (if i < length (cp_items store) then Ok (store\<lparr>cp_items := (cp_items store)[i := x]\<rparr>) else Fault Oob_write)"

text \<open>The result: the store, the index of the item, whether the array moved, and the number of
  allocations made.  A null result is the error, with the store unchanged.\<close>

definition find_or_add ::
  "allocs \<Rightarrow> bool \<Rightarrow> ipmb_checkpoint_store \<Rightarrow> 32 word \<Rightarrow>
   (ipmb_checkpoint_store, ipmb_checkpoint_store \<times> nat \<times> bool \<times> nat) res" where
  "find_or_add al moved store sid =
     rbind (find_item store sid 0) (\<lambda>found. case found of
       Some i \<Rightarrow> Ok (store, i, False, 0)
     | None \<Rightarrow>
         rbind (if cp_count store = cp_items_capacity store then
                  let next_cap = (if cp_items_capacity store \<noteq> 0 then cp_items_capacity store * 2 else 4) in
                  rbind (alloc al 0 store) (\<lambda>_.
                    Ok (store\<lparr>cp_items := cp_items store @ replicate (next_cap - cp_items_capacity store) zero_state,
                              cp_items_capacity := next_cap\<rparr>,
                        moved \<and> cp_items_capacity store \<noteq> 0, 1))
                else Ok (store, False, 0)) (\<lambda>(store, m, k).
         rbind (rd8 (cp_items store) (cp_count store)) (\<lambda>x.
         rbind (put_item store (cp_count store) (x\<lparr>cp_session_id := sid\<rparr>)) (\<lambda>store.
           Ok (store\<lparr>cp_count := cp_count store + 1\<rparr>, cp_count store, m, k)))))"

text \<open>\<^verbatim>\<open>while (cap < need) cap = cap + cap / 2u + 1u;\<close>\<close>

partial_function (option) grow_until :: "nat \<Rightarrow> nat \<Rightarrow> nat option" where
  "grow_until need cap =
     (if cap < need then grow_until need ((cap + cap div 2 + 1) mod size_modulus) else Some cap)"

declare grow_until.simps [code]

definition ipmb_checkpoint_append ::
  "allocs \<Rightarrow> ipmb_checkpoint_store \<Rightarrow> 32 word \<Rightarrow> byte list \<Rightarrow>
   (ipmb_status \<times> ipmb_checkpoint_store, ipmb_checkpoint_store) res" where
  "ipmb_checkpoint_append al store session_id payload =
     rbind (map_err (\<lambda>s. (IPMB_ERR_ALLOC, s)) (find_or_add al False store session_id)) (\<lambda>(store, i, _, k).
     rbind (rd8 (cp_items store) i) (\<lambda>x.
     let need = cp_used x + length payload in
     rbind (if need > cp_capacity x then
              rbind (or_hang (grow_until need (if cp_capacity x \<noteq> 0 then cp_capacity x else 16))) (\<lambda>cap.
              rbind (alloc al k (IPMB_ERR_ALLOC, store)) (\<lambda>_.
                Ok (x\<lparr>cp_buf := realloc_cells cap (cp_buf x), cp_capacity := cap\<rparr>)))
            else Ok x) (\<lambda>x.
     rbind (store_cells (cp_buf x) (cp_used x) payload) (\<lambda>buf.
       put_item store i (x\<lparr>cp_buf := buf, cp_used := cp_used x + length payload\<rparr>)))))"

text \<open>The loop of \<^verbatim>\<open>ipmb_checkpoint_migrate\<close>, which keeps the last item of the session.\<close>

function last_item :: "ipmb_checkpoint_store \<Rightarrow> 32 word \<Rightarrow> nat \<Rightarrow> nat option \<Rightarrow>
   (ipmb_status \<times> ipmb_checkpoint_store, nat option) res" where
  "last_item store sid i src =
     (if i < cp_count store then
        rbind (rd8 (cp_items store) i) (\<lambda>x.
          last_item store sid (i + 1) (if cp_session_id x = sid then Some i else src))
      else Ok src)"
  by pat_completeness auto
termination by (relation "measure (\<lambda>(store, _, i, _). cp_count store - i)") auto

declare last_item.simps [simp del]

text \<open>An access to \<^verbatim>\<open>*src\<close>, which was taken before \<^verbatim>\<open>find_or_add\<close>.\<close>

definition via_src :: "bool \<Rightarrow> ipmb_checkpoint_store \<Rightarrow> nat \<Rightarrow> ('e, ipmb_checkpoint_state) res" where
  "via_src moved store i = (if moved then Fault Use_after_free else rd8 (cp_items store) i)"

definition ipmb_checkpoint_migrate ::
  "allocs \<Rightarrow> bool \<Rightarrow> ipmb_checkpoint_store \<Rightarrow> 32 word \<Rightarrow> 32 word \<Rightarrow>
   (ipmb_status \<times> ipmb_checkpoint_store, ipmb_checkpoint_store) res" where
  "ipmb_checkpoint_migrate al moved store src_session dst_session =
     rbind (last_item store src_session 0 None) (\<lambda>src. case src of
       None \<Rightarrow> Err (IPMB_ERR_NOT_FOUND, store)
     | Some si \<Rightarrow>
         rbind (map_err (\<lambda>s. (IPMB_ERR_ALLOC, s)) (find_or_add al moved store dst_session)) (\<lambda>(store, di, m, k).
         rbind (via_src m store si) (\<lambda>src.
         let migrated = (if cp_used src > 0 then cp_used src - 1 else cp_used src) in
         rbind (rd8 (cp_items store) di) (\<lambda>dest.
         if \<not> al k then rbind (put_item store di (dest\<lparr>cp_buf := []\<rparr>)) (\<lambda>store. Err (IPMB_ERR_ALLOC, store))
         else
           rbind (put_item store di (dest\<lparr>cp_buf := realloc_cells (if migrated \<noteq> 0 then migrated else 1) (cp_buf dest),
                                         cp_capacity := migrated\<rparr>)) (\<lambda>store.
           rbind (via_src m store si) (\<lambda>src.
           rbind (rd8 (cp_items store) di) (\<lambda>dest.
           rbind (put_item store di (dest\<lparr>cp_used := cp_used src\<rparr>)) (\<lambda>store.
           rbind (via_src m store si) (\<lambda>src.
           rbind (rd8 (cp_items store) di) (\<lambda>dest.
           rbind (load_cells (cp_buf src) 0 (cp_used src)) (\<lambda>bytes.
           rbind (store_cells (cp_buf dest) 0 bytes) (\<lambda>buf.
             put_item store di (dest\<lparr>cp_buf := buf\<rparr>)))))))))))))"

section \<open>The store as a list of sessions\<close>

definition state_holds :: "ipmb_checkpoint_state \<Rightarrow> byte list \<Rightarrow> bool" where
  "state_holds x bs \<longleftrightarrow> holds (cp_buf x) bs \<and> length bs = cp_used x \<and> cp_capacity x \<le> length (cp_buf x)"

text \<open>\<open>checkpoints s xs\<close>: the items of \<open>s\<close> are the sessions \<open>xs\<close> with their bytes, and the
  unused part of the array is zeroed.\<close>

definition checkpoints :: "ipmb_checkpoint_store \<Rightarrow> (32 word \<times> byte list) list \<Rightarrow> bool" where
  "checkpoints s xs \<longleftrightarrow> length (cp_items s) = cp_items_capacity s \<and> cp_count s = length xs \<and>
     length xs \<le> cp_items_capacity s \<and> distinct (map fst xs) \<and>
     (\<forall>i < length xs. cp_session_id (cp_items s ! i) = fst (xs ! i) \<and> state_holds (cp_items s ! i) (snd (xs ! i))) \<and>
     (\<forall>i < cp_items_capacity s. length xs \<le> i \<longrightarrow> cp_items s ! i = zero_state)"

text \<open>The index of a session.\<close>

fun index_of :: "32 word \<Rightarrow> (32 word \<times> byte list) list \<Rightarrow> nat option" where
  "index_of sid [] = None"
| "index_of sid (x # xs) = (if fst x = sid then Some 0 else map_option Suc (index_of sid xs))"

lemma index_of_Some: "index_of sid xs = Some i \<Longrightarrow> i < length xs \<and> fst (xs ! i) = sid"
  by (induction xs arbitrary: i) (auto split: if_splits)

lemma index_of_None: "index_of sid xs = None \<longleftrightarrow> sid \<notin> fst ` set xs"
  by (induction xs) auto

lemma find_item_index:
  assumes "checkpoints s xs"
  shows "i \<le> length xs \<Longrightarrow> find_item s sid i = Ok (map_option ((+) i) (index_of sid (drop i xs)))"
proof (induction "length xs - i" arbitrary: i)
  case 0
  with assms show ?case by (subst find_item.simps) (simp add: checkpoints_def)
next
  case (Suc n)
  then have i: "i < length xs" by simp
  with assms have "find_item s sid i = (if fst (xs ! i) = sid then Ok (Some i) else find_item s sid (i + 1))"
    by (subst find_item.simps) (auto simp: checkpoints_def rd8_def)
  with Suc.hyps(1) [of "i + 1"] Suc.hyps(2) i show ?case
    by (cases "index_of sid (drop (Suc i) xs)") (simp_all add: Cons_nth_drop_Suc [symmetric])
qed

lemma last_item_index:
  assumes "checkpoints s xs"
  shows "i \<le> length xs \<Longrightarrow> last_item s sid i src =
    Ok (case index_of sid (drop i xs) of Some j \<Rightarrow> Some (i + j) | None \<Rightarrow> src)"
proof (induction "length xs - i" arbitrary: i src)
  case 0
  with assms show ?case by (subst last_item.simps) (simp add: checkpoints_def)
next
  case (Suc n)
  then have i: "i < length xs" by simp
  with assms have "last_item s sid i src = last_item s sid (i + 1) (if fst (xs ! i) = sid then Some i else src)"
    by (subst last_item.simps) (auto simp: checkpoints_def rd8_def)
  moreover have "fst (xs ! i) = sid \<Longrightarrow> index_of sid (drop (i + 1) xs) = None"
  proof -
    assume "fst (xs ! i) = sid"
    moreover have "distinct (map fst (drop i xs))" using assms by (simp add: checkpoints_def distinct_drop flip: drop_map)
    ultimately show ?thesis using i by (simp add: index_of_None Cons_nth_drop_Suc [symmetric])
  qed
  ultimately show ?case
    using Suc.hyps(1) [of "i + 1"] Suc.hyps(2) i
    by (auto simp: Cons_nth_drop_Suc [symmetric] split: option.split)
qed

section \<open>Finding and adding\<close>

text \<open>The sessions and the index after \<^verbatim>\<open>find_or_add\<close>.\<close>

definition located :: "32 word \<Rightarrow> (32 word \<times> byte list) list \<Rightarrow> (32 word \<times> byte list) list \<times> nat" where
  "located sid xs = (case index_of sid xs of Some i \<Rightarrow> (xs, i) | None \<Rightarrow> (xs @ [(sid, [])], length xs))"

definition spec_append :: "32 word \<Rightarrow> byte list \<Rightarrow> (32 word \<times> byte list) list \<Rightarrow> (32 word \<times> byte list) list" where
  "spec_append sid bs xs = (case located sid xs of (ys, i) \<Rightarrow> ys[i := (sid, snd (ys ! i) @ bs)])"

lemma located_props:
  assumes "located sid xs = (ys, i)"
  shows "i < length ys" "fst (ys ! i) = sid" "ys = xs \<or> sid \<notin> fst ` set xs \<and> ys = xs @ [(sid, [])] \<and> i = length xs"
  using assms index_of_Some [of sid xs] by (auto simp: located_def index_of_None split: option.splits)

lemma map_of_update:
  "i < length xs \<Longrightarrow> distinct (map fst xs) \<Longrightarrow> map_of (xs[i := (fst (xs ! i), v)]) = (map_of xs)(fst (xs ! i) \<mapsto> v)"
proof (induction xs arbitrary: i)
  case (Cons x xs)
  then show ?case
  proof (cases i)
    case (Suc j)
    moreover have "xs ! j \<in> set xs" using Cons.prems Suc by simp
    then have "fst (xs ! j) \<in> set (map fst xs)" by simp
    then have "fst (xs ! j) \<noteq> fst x" using Cons.prems(2) by (metis distinct.simps(2) list.simps(9))
    ultimately show ?thesis using Cons by (cases x) (auto simp: fun_upd_twist)
  qed (cases x, auto)
qed simp

lemma map_of_nth: "i < length xs \<Longrightarrow> distinct (map fst xs) \<Longrightarrow> map_of xs (fst (xs ! i)) = Some (snd (xs ! i))"
  by (metis map_of_is_SomeI nth_mem prod.collapse)

text \<open>What an append means for a reader.\<close>

lemma map_of_spec_append:
  assumes "distinct (map fst xs)"
  shows "map_of (spec_append sid bs xs) =
    (map_of xs)(sid \<mapsto> (case map_of xs sid of None \<Rightarrow> bs | Some old \<Rightarrow> old @ bs))"
proof (cases "index_of sid xs")
  case None
  then have "sid \<notin> fst ` set xs" by (simp add: index_of_None)
  with None show ?thesis
    by (auto simp: spec_append_def located_def map_of_eq_None_iff [symmetric] map_add_def split: option.split)
next
  case (Some i)
  then have i: "i < length xs" "fst (xs ! i) = sid" using index_of_Some by auto
  with map_of_update [OF i(1) assms, of "snd (xs ! i) @ bs"] map_of_nth [OF i(1) assms] Some show ?thesis
    by (simp add: spec_append_def located_def)
qed

lemma state_holds_zero: "state_holds (zero_state\<lparr>cp_session_id := sid\<rparr>) []"
  by (simp add: state_holds_def zero_state_def)

lemma put_item_checkpoints:
  assumes "checkpoints s xs" "i < length xs" "cp_session_id x = fst (xs ! i)" "state_holds x bs"
  shows "put_item s i x = Ok (s\<lparr>cp_items := (cp_items s)[i := x]\<rparr>)"
    "checkpoints (s\<lparr>cp_items := (cp_items s)[i := x]\<rparr>) (xs[i := (fst (xs ! i), bs)])"
proof -
  have "map fst (xs[i := (fst (xs ! i), bs)]) = map fst xs"
    by (metis assms(2) fst_conv list_update_id map_update nth_map)
  then have "distinct (map fst (xs[i := (fst (xs ! i), bs)]))"
    using assms(1) by (simp add: checkpoints_def)
  then show "put_item s i x = Ok (s\<lparr>cp_items := (cp_items s)[i := x]\<rparr>)"
    "checkpoints (s\<lparr>cp_items := (cp_items s)[i := x]\<rparr>) (xs[i := (fst (xs ! i), bs)])"
    using assms by (auto simp: checkpoints_def put_item_def nth_list_update)
qed

text \<open>Growing the array, and taking the next item of it for a new session.\<close>

lemma checkpoints_grow:
  assumes "checkpoints s xs" "cp_items_capacity s \<le> n"
  shows "checkpoints (s\<lparr>cp_items := cp_items s @ replicate (n - cp_items_capacity s) zero_state,
    cp_items_capacity := n\<rparr>) xs"
  using assms by (auto simp: checkpoints_def nth_append)

lemma checkpoints_take:
  assumes "checkpoints s xs" "length xs < cp_items_capacity s" "sid \<notin> fst ` set xs"
  shows "checkpoints (s\<lparr>cp_items := (cp_items s)[length xs := zero_state\<lparr>cp_session_id := sid\<rparr>],
    cp_count := length xs + 1\<rparr>) (xs @ [(sid, [])])"
  using assms state_holds_zero
  by (auto simp: checkpoints_def nth_append nth_list_update less_Suc_eq zero_state_def)

lemma find_or_add_located:
  assumes s: "checkpoints s xs" and loc: "located sid xs = (ys, i)"
  defines "full \<equiv> ys \<noteq> xs \<and> length xs = cp_items_capacity s"
  shows "if full \<and> \<not> al 0 then find_or_add al moved s sid = Err s
    else \<exists>s'. find_or_add al moved s sid = Ok (s', i, full \<and> moved \<and> xs \<noteq> [], if full then 1 else 0) \<and> checkpoints s' ys"
proof (cases "index_of sid xs")
  case (Some j)
  with loc s show ?thesis
    by (auto simp: find_or_add_def find_item_index [OF s] located_def full_def)
next
  case None
  have ys: "ys = xs @ [(sid, [])]" "i = length xs" using loc None by (auto simp: located_def)
  have new: "sid \<notin> fst ` set xs" using None by (simp add: index_of_None)
  have found: "find_item s sid 0 = Ok None" using find_item_index [OF s, of 0 sid] None by simp
  have count: "cp_count s = length xs" using s by (simp add: checkpoints_def)
  have take: "rbind (rd8 (cp_items s1) (cp_count s1)) (\<lambda>x. rbind (put_item s1 (cp_count s1) (x\<lparr>cp_session_id := sid\<rparr>))
      (\<lambda>store. Ok (store\<lparr>cp_count := cp_count store + 1\<rparr>, cp_count store, m, k))) =
      (Ok (s1\<lparr>cp_items := (cp_items s1)[length xs := zero_state\<lparr>cp_session_id := sid\<rparr>], cp_count := length xs + 1\<rparr>,
          length xs, m, k) :: (ipmb_checkpoint_store, _) res)"
    if "checkpoints s1 xs" "length xs < cp_items_capacity s1" for s1 m k
    using that by (simp add: checkpoints_def rd8_def put_item_def)
  show ?thesis
  proof (cases "length xs = cp_items_capacity s")
    case True
    let ?n = "if cp_items_capacity s \<noteq> 0 then cp_items_capacity s * 2 else 4"
    let ?s1 = "s\<lparr>cp_items := cp_items s @ replicate (?n - cp_items_capacity s) zero_state, cp_items_capacity := ?n\<rparr>"
    have s1: "checkpoints ?s1 xs" "length xs < cp_items_capacity ?s1"
      using checkpoints_grow [OF s, of ?n] True by simp_all
    have nil: "xs \<noteq> [] \<longleftrightarrow> cp_items_capacity s \<noteq> 0" using True by (metis length_0_conv)
    have "find_or_add al moved s sid = (if al 0 then
        rbind (rd8 (cp_items ?s1) (cp_count ?s1)) (\<lambda>x. rbind (put_item ?s1 (cp_count ?s1) (x\<lparr>cp_session_id := sid\<rparr>))
          (\<lambda>store. Ok (store\<lparr>cp_count := cp_count store + 1\<rparr>, cp_count store, moved \<and> xs \<noteq> [], 1))) else Err s)"
      unfolding nil find_or_add_def found rbind.simps option.case using True count
      by (cases "al 0") (simp_all add: alloc_def Let_def)
    then show ?thesis
      unfolding take [OF s1] using checkpoints_take [OF s1 new] True ys by (auto simp: full_def)
  next
    case False
    then have "length xs < cp_items_capacity s" using s by (simp add: checkpoints_def)
    with take [OF s this, of False 0] checkpoints_take [OF s this new] False ys found count show ?thesis
      by (auto simp: find_or_add_def full_def)
  qed
qed

section \<open>Appending\<close>

lemma grow_until_stops:
  "need \<le> 2 ^ 63 \<Longrightarrow> 0 < cap \<Longrightarrow> \<exists>c. grow_until need cap = Some c \<and> need \<le> c"
proof (induction "need - cap" arbitrary: cap rule: less_induct)
  case less
  show ?case
  proof (cases "cap < need")
    case True
    have "cap + cap div 2 + 1 < size_modulus" using True less.prems by (simp add: size_modulus_def)
    moreover have "need - (cap + cap div 2 + 1) < need - cap" using True by linarith
    then obtain c where "grow_until need (cap + cap div 2 + 1) = Some c" "need \<le> c"
      using less.hyps less.prems(1) by (meson add_gr_0 zero_less_one)
    ultimately show ?thesis using True by (subst grow_until.simps) auto
  qed (subst grow_until.simps, auto)
qed

text \<open>The part of \<^verbatim>\<open>ipmb_checkpoint_append\<close> after the item has been found.\<close>

definition extend_item ::
  "allocs \<Rightarrow> nat \<Rightarrow> ipmb_checkpoint_store \<Rightarrow> nat \<Rightarrow> byte list \<Rightarrow>
   (ipmb_status \<times> ipmb_checkpoint_store, ipmb_checkpoint_store) res" where
  "extend_item al k store i payload =
     rbind (rd8 (cp_items store) i) (\<lambda>x.
     let need = cp_used x + length payload in
     rbind (if need > cp_capacity x then
              rbind (or_hang (grow_until need (if cp_capacity x \<noteq> 0 then cp_capacity x else 16))) (\<lambda>cap.
              rbind (alloc al k (IPMB_ERR_ALLOC, store)) (\<lambda>_.
                Ok (x\<lparr>cp_buf := realloc_cells cap (cp_buf x), cp_capacity := cap\<rparr>)))
            else Ok x) (\<lambda>x.
     rbind (store_cells (cp_buf x) (cp_used x) payload) (\<lambda>buf.
       put_item store i (x\<lparr>cp_buf := buf, cp_used := cp_used x + length payload\<rparr>))))"

lemma append_extend:
  "ipmb_checkpoint_append al store sid payload =
     rbind (map_err (\<lambda>s. (IPMB_ERR_ALLOC, s)) (find_or_add al False store sid))
       (\<lambda>(store, i, _, k). extend_item al k store i payload)"
  by (simp add: ipmb_checkpoint_append_def extend_item_def)

text \<open>A buffer with room for the payload after its bytes.\<close>

lemma store_payload:
  assumes "holds buf bs" "length bs = used" "used + length payload \<le> length buf"
  obtains buf' where "store_cells buf used payload = (Ok buf' :: (ipmb_status \<times> ipmb_checkpoint_store, byte cells) res)"
    "holds buf' (bs @ payload)" "length buf' = length buf"
  using store_holds [OF assms(1), of payload] assms(2,3) by metis

lemma extend_item_checkpoints:
  assumes s: "checkpoints s ys" and i: "i < length ys" and fits: "length (snd (ys ! i)) + length payload \<le> 2 ^ 63"
  shows "(\<exists>s'. extend_item al k s i payload = Ok s' \<and> checkpoints s' (ys[i := (fst (ys ! i), snd (ys ! i) @ payload)])) \<or>
    extend_item al k s i payload = Err (IPMB_ERR_ALLOC, s) \<and> \<not> al k"
proof -
  let ?x = "cp_items s ! i" and ?bs = "snd (ys ! i)"
  have x: "state_holds ?x ?bs" "cp_session_id ?x = fst (ys ! i)" and rd: "rd8 (cp_items s) i = (Ok ?x ::
      (ipmb_status \<times> ipmb_checkpoint_store, ipmb_checkpoint_state) res)"
    using s i by (simp_all add: checkpoints_def rd8_def)
  have used: "cp_used ?x = length ?bs" using x(1) by (simp add: state_holds_def)
  let ?need = "cp_used ?x + length payload"
  have finish: "\<exists>s'. rbind (store_cells buf (cp_used ?x) payload) (\<lambda>buf.
        put_item s i (?x\<lparr>cp_capacity := cap, cp_buf := buf, cp_used := ?need\<rparr>)) =
        (Ok s' :: (ipmb_status \<times> ipmb_checkpoint_store, ipmb_checkpoint_store) res) \<and>
      checkpoints s' (ys[i := (fst (ys ! i), ?bs @ payload)])"
    if buf: "holds buf ?bs" "?need \<le> length buf" "cap \<le> length buf" for buf cap
  proof -
    obtain buf' where b: "store_cells buf (cp_used ?x) payload =
          (Ok buf' :: (ipmb_status \<times> ipmb_checkpoint_store, byte cells) res)"
        "holds buf' (?bs @ payload)" "length buf' = length buf"
      using store_payload [OF buf(1) used [symmetric] buf(2)] .
    have "state_holds (?x\<lparr>cp_capacity := cap, cp_buf := buf', cp_used := ?need\<rparr>) (?bs @ payload)"
      using b buf used by (simp add: state_holds_def)
    from put_item_checkpoints [OF s i _ this] b(1) x(2) show ?thesis by auto
  qed
  show ?thesis
  proof (cases "?need > cp_capacity ?x")
    case True
    have pos: "0 < (if cp_capacity ?x \<noteq> 0 then cp_capacity ?x else 16)" by simp
    have "?need \<le> 2 ^ 63" using fits used by simp
    from grow_until_stops [OF this pos]
    obtain cap where cap: "grow_until ?need (if cp_capacity ?x \<noteq> 0 then cp_capacity ?x else 16) = Some cap" "?need \<le> cap"
      by blast
    have "holds (realloc_cells cap (cp_buf ?x)) ?bs"
      using x(1) used cap(2) by (intro holds_realloc) (auto simp: state_holds_def)
    from finish [OF this, of cap] cap True show ?thesis
      by (cases "al k") (simp_all add: extend_item_def rd Let_def alloc_def)
  next
    case False
    with finish [of "cp_buf ?x" "cp_capacity ?x"] x(1) show ?thesis
      by (simp add: extend_item_def rd Let_def state_holds_def)
  qed
qed

lemma checkpoint_append_cases:
  assumes s: "checkpoints s xs" and fits: "\<forall>old. map_of xs sid = Some old \<longrightarrow> length old + length payload \<le> 2 ^ 63"
    "length payload \<le> 2 ^ 63"
  shows "(\<exists>s'. ipmb_checkpoint_append al s sid payload = Ok s' \<and> checkpoints s' (spec_append sid payload xs)) \<or>
    (\<exists>s' ys. ipmb_checkpoint_append al s sid payload = Err (IPMB_ERR_ALLOC, s') \<and> (\<exists>k. \<not> al k) \<and>
       checkpoints s' ys \<and> (ys = xs \<or> sid \<notin> fst ` set xs \<and> ys = xs @ [(sid, [])]))"
proof -
  obtain ys i where loc: "located sid xs = (ys, i)" by (cases "located sid xs")
  note l = located_props [OF loc]
  have spec: "spec_append sid payload xs = ys[i := (fst (ys ! i), snd (ys ! i) @ payload)]"
    using l(2) by (simp add: spec_append_def loc)
  show ?thesis
  proof (cases "ys \<noteq> xs \<and> length xs = cp_items_capacity s \<and> \<not> al 0")
    case True
    then have "find_or_add al False s sid = Err s" using find_or_add_located [OF s loc, of al False] by auto
    with True s show ?thesis
      by (intro disjI2 exI [of _ s] exI [of _ xs]) (auto simp: append_extend)
  next
    case False
    then obtain s1 m k where s1: "find_or_add al False s sid = Ok (s1, i, m, k)" "checkpoints s1 ys"
      using find_or_add_located [OF s loc, of al False] by (auto split: if_splits)
    have "length (snd (ys ! i)) + length payload \<le> 2 ^ 63"
    proof (cases "ys = xs")
      case True
      with fits(1) l(1,2) map_of_nth [of i xs] s show ?thesis by (auto simp: checkpoints_def)
    qed (use l(3) fits(2) in \<open>simp add: nth_append\<close>)
    from extend_item_checkpoints [OF s1(2) l(1) this, of al k] s1 l(3) show ?thesis
      unfolding spec by (auto simp: append_extend)
  qed
qed

section \<open>Migrating\<close>

text \<open>The part of \<^verbatim>\<open>ipmb_checkpoint_migrate\<close> after \<^verbatim>\<open>find_or_add\<close>, when the array has not moved.\<close>

definition migrate_item ::
  "bool \<Rightarrow> ipmb_checkpoint_store \<Rightarrow> nat \<Rightarrow> nat \<Rightarrow> (ipmb_status \<times> ipmb_checkpoint_store, ipmb_checkpoint_store) res" where
  "migrate_item ok store si di =
     rbind (rd8 (cp_items store) si) (\<lambda>src.
     let migrated = (if cp_used src > 0 then cp_used src - 1 else cp_used src) in
     rbind (rd8 (cp_items store) di) (\<lambda>dest.
     if \<not> ok then rbind (put_item store di (dest\<lparr>cp_buf := []\<rparr>)) (\<lambda>store. Err (IPMB_ERR_ALLOC, store))
     else
       rbind (put_item store di (dest\<lparr>cp_buf := realloc_cells (if migrated \<noteq> 0 then migrated else 1) (cp_buf dest),
                                     cp_capacity := migrated\<rparr>)) (\<lambda>store.
       rbind (rd8 (cp_items store) si) (\<lambda>src.
       rbind (rd8 (cp_items store) di) (\<lambda>dest.
       rbind (put_item store di (dest\<lparr>cp_used := cp_used src\<rparr>)) (\<lambda>store.
       rbind (rd8 (cp_items store) si) (\<lambda>src.
       rbind (rd8 (cp_items store) di) (\<lambda>dest.
       rbind (load_cells (cp_buf src) 0 (cp_used src)) (\<lambda>bytes.
       rbind (store_cells (cp_buf dest) 0 bytes) (\<lambda>buf.
         put_item store di (dest\<lparr>cp_buf := buf\<rparr>)))))))))))"

lemma migrate_item_eq:
  assumes "ipmb_checkpoint_migrate al moved s src dst = r" "last_item s src 0 None = Ok (Some si)"
    "find_or_add al moved s dst = Ok (s', di, m, k)"
  shows "r = (if m then Fault Use_after_free else migrate_item (al k) s' si di)"
  unfolding assms(1) [symmetric] ipmb_checkpoint_migrate_def assms(2,3) rbind.simps option.case map_err.simps
    prod.case via_src_def migrate_item_def
  by (cases m) (simp_all only: if_True if_False rbind.simps)

lemma migrate_item_outcome:
  assumes s: "checkpoints s ys" and si: "si < length ys" and di: "di < length ys"
  defines "bs \<equiv> snd (ys ! si)"
  shows "if 2 \<le> length bs then migrate_item True s si di = Fault (if si = di then Oob_read else Oob_write)
    else \<exists>s'. migrate_item True s si di = Ok s' \<and> checkpoints s' (ys[di := (fst (ys ! di), bs)])"
proof -
  let ?src = "cp_items s ! si" and ?dest = "cp_items s ! di"
  let ?n = "if length bs - 1 \<noteq> 0 then length bs - 1 else 1"
  let ?buf = "realloc_cells ?n (cp_buf ?dest)"
  let ?dest1 = "?dest\<lparr>cp_buf := ?buf, cp_capacity := length bs - 1\<rparr>"
  have len: "si < length (cp_items s)" "di < length (cp_items s)" using s si di by (auto simp: checkpoints_def)
  have src: "holds (cp_buf ?src) bs" "cp_used ?src = length bs"
    using s si by (simp_all add: checkpoints_def state_holds_def bs_def)
  have dest: "cp_session_id ?dest = fst (ys ! di)" using s di by (simp add: checkpoints_def)
  define u where "u = length bs"
  have mig: "(if u > 0 then u - 1 else u) = u - 1" by simp
  have "migrate_item True s si di =
      rbind (load_cells (if si = di then ?buf else cp_buf ?src) 0 u) (\<lambda>bytes.
      rbind (store_cells ?buf 0 bytes) (\<lambda>buf.
        put_item s di (?dest1\<lparr>cp_used := u, cp_buf := buf\<rparr>)))"
    using len src(2) unfolding u_def [symmetric]
    by (cases "si = di"; cases "cp_items s ! di")
      (simp_all add: migrate_item_def rd8_def put_item_def Let_def mig nth_list_update)
  then have run: "migrate_item True s si di =
      rbind (load_cells (if si = di then ?buf else cp_buf ?src) 0 (length bs)) (\<lambda>bytes.
      rbind (store_cells ?buf 0 bytes) (\<lambda>buf.
        put_item s di (?dest1\<lparr>cp_used := length bs, cp_buf := buf\<rparr>)))"
    by (simp only: u_def)
  show ?thesis
  proof (cases "2 \<le> length bs")
    case True
    then have "length ?buf < length bs" by simp
    then have "load_cells ?buf 0 (length bs) = (Fault Oob_read :: (ipmb_status \<times> ipmb_checkpoint_store, byte list) res)"
      "store_cells ?buf 0 bs = (Fault Oob_write :: (ipmb_status \<times> ipmb_checkpoint_store, byte cells) res)"
      by (simp_all add: load_cells_def)
    moreover have "load_cells (cp_buf ?src) 0 (length bs) = (Ok bs :: (ipmb_status \<times> ipmb_checkpoint_store, byte list) res)"
      by (rule load_holds [OF src(1)])
    ultimately show ?thesis using True unfolding run by (cases "si = di") (simp_all only: if_True if_False rbind.simps refl)
  next
    case False
    then have n: "?n = 1" by simp
    have hb: "holds (if si = di then ?buf else cp_buf ?src) bs"
      using src(1) False by (auto simp: n intro: holds_realloc)
    obtain buf where buf: "store_cells ?buf 0 bs = (Ok buf :: (ipmb_status \<times> ipmb_checkpoint_store, byte cells) res)"
        "holds buf bs" "length buf = 1"
      using store_holds [of ?buf "[]" bs] False n by auto
    have x: "state_holds (?dest1\<lparr>cp_used := length bs, cp_buf := buf\<rparr>) bs"
      using buf False by (simp add: state_holds_def)
    have id: "cp_session_id (?dest1\<lparr>cp_used := length bs, cp_buf := buf\<rparr>) = fst (ys ! di)"
      using dest by simp
    have "load_cells (if si = di then ?buf else cp_buf ?src) 0 (length bs) =
        (Ok bs :: (ipmb_status \<times> ipmb_checkpoint_store, byte list) res)"
      by (rule load_holds [OF hb])
    then have "migrate_item True s si di =
        put_item s di (?dest1\<lparr>cp_used := length bs, cp_buf := buf\<rparr>)"
      by (simp only: run rbind.simps buf(1))
    with put_item_checkpoints [OF s di id x] False show ?thesis by auto
  qed
qed

text \<open>When the destination gets no new buffer, its old one is lost, and its sizes stay.\<close>

definition lost_buffer :: "ipmb_checkpoint_store \<Rightarrow> nat \<Rightarrow> ipmb_checkpoint_store" where
  "lost_buffer s i = s\<lparr>cp_items := (cp_items s)[i := (cp_items s ! i)\<lparr>cp_buf := []\<rparr>]\<rparr>"

lemma migrate_item_fails:
  "checkpoints s ys \<Longrightarrow> si < length ys \<Longrightarrow> di < length ys \<Longrightarrow>
   migrate_item False s si di = Err (IPMB_ERR_ALLOC, lost_buffer s di)"
  by (simp add: migrate_item_def checkpoints_def rd8_def put_item_def lost_buffer_def Let_def)

text \<open>The sessions after a migration that works.\<close>

definition spec_migrate :: "32 word \<Rightarrow> byte list \<Rightarrow> (32 word \<times> byte list) list \<Rightarrow> (32 word \<times> byte list) list" where
  "spec_migrate dst bs xs = (case located dst xs of (ys, i) \<Rightarrow> ys[i := (dst, bs)])"

lemma map_of_spec_migrate:
  assumes "distinct (map fst xs)"
  shows "map_of (spec_migrate dst bs xs) = (map_of xs)(dst \<mapsto> bs)"
proof (cases "index_of dst xs")
  case None
  then have "dst \<notin> fst ` set xs" by (simp add: index_of_None)
  with None show ?thesis
    by (auto simp: spec_migrate_def located_def map_of_eq_None_iff [symmetric] map_add_def split: option.split)
next
  case (Some i)
  then have i: "i < length xs" "fst (xs ! i) = dst" using index_of_Some by auto
  with map_of_update [OF i(1) assms, of bs] Some show ?thesis
    by (simp add: spec_migrate_def located_def)
qed

lemma migrate_outcome:
  fixes dst :: "32 word"
  assumes s: "checkpoints s xs"
  defines "full \<equiv> dst \<notin> fst ` set xs \<and> length xs = cp_items_capacity s"
  shows "case map_of xs src of
      None \<Rightarrow> ipmb_checkpoint_migrate al moved s src dst = Err (IPMB_ERR_NOT_FOUND, s)
    | Some bs \<Rightarrow>
        if full \<and> \<not> al 0 then ipmb_checkpoint_migrate al moved s src dst = Err (IPMB_ERR_ALLOC, s)
        else if full \<and> moved then ipmb_checkpoint_migrate al moved s src dst = Fault Use_after_free
        else if \<not> al (if full then 1 else 0)
        then \<exists>s'. ipmb_checkpoint_migrate al moved s src dst =
            Err (IPMB_ERR_ALLOC, lost_buffer s' (snd (located dst xs))) \<and> checkpoints s' (fst (located dst xs))
        else if 2 \<le> length bs
        then ipmb_checkpoint_migrate al moved s src dst = Fault (if src = dst then Oob_read else Oob_write)
        else \<exists>s'. ipmb_checkpoint_migrate al moved s src dst = Ok s' \<and> checkpoints s' (spec_migrate dst bs xs)"
proof (cases "index_of src xs")
  case None
  then have "last_item s src 0 None = Ok None" using last_item_index [OF s, of 0 src None] by simp
  moreover have "map_of xs src = None" using None by (simp add: index_of_None map_of_eq_None_iff)
  ultimately show ?thesis by (simp add: ipmb_checkpoint_migrate_def)
next
  case (Some si)
  then have si: "si < length xs" "fst (xs ! si) = src" using index_of_Some by auto
  have dist: "distinct (map fst xs)" using s by (simp add: checkpoints_def)
  have bs: "map_of xs src = Some (snd (xs ! si))" using map_of_nth [OF si(1) dist] si(2) by simp
  have last: "last_item s src 0 None = Ok (Some si)" using last_item_index [OF s, of 0 src None] Some by simp
  obtain ys di where loc: "located dst xs = (ys, di)" by (cases "located dst xs")
  note l = located_props [OF loc]
  have new: "ys \<noteq> xs \<longleftrightarrow> dst \<notin> fst ` set xs"
    using loc by (auto simp: located_def index_of_None [symmetric] split: option.splits)
  then have full: "full \<longleftrightarrow> ys \<noteq> xs \<and> length xs = cp_items_capacity s" by (auto simp: full_def)
  show ?thesis
  proof (cases "full \<and> \<not> al 0")
    case True
    then have "find_or_add al moved s dst = Err s"
      using find_or_add_located [OF s loc, of al moved] by (auto simp: full)
    with True show ?thesis by (simp add: bs ipmb_checkpoint_migrate_def last)
  next
    case False
    then obtain s' where s': "find_or_add al moved s dst = Ok (s', di, full \<and> moved \<and> xs \<noteq> [], if full then 1 else 0)"
        "checkpoints s' ys"
      using find_or_add_located [OF s loc, of al moved] by (auto simp: full split: if_splits)
    have ys: "si < length ys" "ys ! si = xs ! si" using l(3) si(1) by (auto simp: nth_append)
    have "distinct (map fst ys)" using s'(2) by (simp add: checkpoints_def)
    then have same: "si = di \<longleftrightarrow> src = dst"
      using nth_eq_iff_index_eq [of "map fst ys" si di] ys si(2) l(1,2) by simp
    have mig: "ipmb_checkpoint_migrate al moved s src dst =
        (if full \<and> moved then Fault Use_after_free else migrate_item (al (if full then 1 else 0)) s' si di)"
      using migrate_item_eq [OF refl last s'(1)] si(1) by auto
    have spec: "ys[di := (fst (ys ! di), snd (ys ! si))] = spec_migrate dst (snd (xs ! si)) xs"
      using l(2) ys(2) by (simp add: spec_migrate_def loc)
    have out: "if 2 \<le> length (snd (xs ! si)) then migrate_item True s' si di = Fault (if src = dst then Oob_read else Oob_write)
        else \<exists>s2. migrate_item True s' si di = Ok s2 \<and> checkpoints s2 (spec_migrate dst (snd (xs ! si)) xs)"
      using migrate_item_outcome [OF s'(2) ys(1) l(1)] unfolding spec [unfolded ys(2)] same ys(2) .
    show ?thesis
    proof (cases "al (if full then 1 else 0)")
      case True
      then show ?thesis unfolding bs option.case mig using out False by (cases full) simp_all
    next
      case no: False
      then show ?thesis
        unfolding bs option.case mig loc fst_conv snd_conv
        using migrate_item_fails [OF s'(2) ys(1) l(1)] s'(2) False by auto
    qed
  qed
qed

section \<open>Properties\<close>

text \<open>C22: Appending to a checkpoint.  On a well-formed store (with fewer than \<open>2 ^ 63\<close> bytes per
  session) \<^verbatim>\<open>ipmb_checkpoint_append\<close> either adds the payload to the bytes of its session, a new
  session starting empty, and changes no other session, or reports a failed allocation and
  loses nothing (a new session may stay, with no bytes).  Nothing else happens: the array and
  the buffers are always large enough and the loop that computes the capacity ends.\<close>

theorem checkpoint_append_outcome:
  assumes "checkpoints s xs" "\<forall>old. map_of xs sid = Some old \<longrightarrow> length old + length payload \<le> 2 ^ 63"
    "length payload \<le> 2 ^ 63"
  shows "(\<exists>s' ys. ipmb_checkpoint_append al s sid payload = Ok s' \<and> checkpoints s' ys \<and>
       map_of ys = (map_of xs)(sid \<mapsto> (case map_of xs sid of None \<Rightarrow> payload | Some old \<Rightarrow> old @ payload))) \<or>
    (\<exists>s' ys. ipmb_checkpoint_append al s sid payload = Err (IPMB_ERR_ALLOC, s') \<and> (\<exists>k. \<not> al k) \<and>
       checkpoints s' ys \<and> (ys = xs \<or> map_of xs sid = None \<and> ys = xs @ [(sid, [])]))"
proof -
  have "distinct (map fst xs)" using assms(1) by (simp add: checkpoints_def)
  from map_of_spec_append [OF this] checkpoint_append_cases [OF assms] show ?thesis
    by (metis map_of_eq_None_iff)
qed

lemma checkpoints_init: "checkpoints ipmb_checkpoint_store_init []"
  by (simp add: checkpoints_def ipmb_checkpoint_store_init_def)

lemma checkpoint_append_outcome_witness:
  "\<exists>s ys. ipmb_checkpoint_append (\<lambda>_. True) ipmb_checkpoint_store_init 7 [1, 2] = Ok s \<and> checkpoints s ys \<and>
     map_of ys = [7 \<mapsto> [1, 2]]"
  using checkpoint_append_outcome [OF checkpoints_init, of 7 "[1, 2]" "\<lambda>_. True"] by simp

text \<open>C21: Every outcome of \<^verbatim>\<open>ipmb_checkpoint_migrate\<close> on a well-formed store, whatever allocations fail.  An
  unknown source is reported and nothing changes.  If the destination is new and the array full,
  the array is reallocated: a failure is reported with nothing changed, and a move leaves the
  source pointer dangling (use after free).  If the buffer of the destination cannot be
  reallocated, the destination (found, or added with no bytes) loses the buffer it had and keeps
  its sizes.  Otherwise the destination gets a buffer of one byte less than the source holds and
  the copy of all bytes leaves it: every migration of two or more bytes writes outside the
  buffer (or, from a session to itself, reads outside it).  Only an empty or one-byte checkpoint
  migrates, and then the destination holds the bytes of the source.\<close>

theorem checkpoint_migrate_outcome:
  assumes "checkpoints s xs"
  shows "case map_of xs src of
      None \<Rightarrow> ipmb_checkpoint_migrate al moved s src dst = Err (IPMB_ERR_NOT_FOUND, s)
    | Some bs \<Rightarrow>
        let full = (dst \<notin> fst ` set xs \<and> length xs = cp_items_capacity s) in
        if full \<and> \<not> al 0 then ipmb_checkpoint_migrate al moved s src dst = Err (IPMB_ERR_ALLOC, s)
        else if full \<and> moved then ipmb_checkpoint_migrate al moved s src dst = Fault Use_after_free
        else if \<not> al (if full then 1 else 0)
        then \<exists>s' ys i. ipmb_checkpoint_migrate al moved s src dst = Err (IPMB_ERR_ALLOC, lost_buffer s' i) \<and>
          checkpoints s' ys \<and> i < length ys \<and> fst (ys ! i) = dst \<and>
          ys = (if dst \<in> fst ` set xs then xs else xs @ [(dst, [])])
        else if 2 \<le> length bs
        then ipmb_checkpoint_migrate al moved s src dst = Fault (if src = dst then Oob_read else Oob_write)
        else \<exists>s' ys. ipmb_checkpoint_migrate al moved s src dst = Ok s' \<and> checkpoints s' ys \<and>
          map_of ys = (map_of xs)(dst \<mapsto> bs)"
proof (cases "map_of xs src")
  case None
  with migrate_outcome [OF assms, where src = src and moved = moved and dst = dst and al = al] show ?thesis by simp
next
  case (Some bs)
  have "distinct (map fst xs)" using assms(1) by (simp add: checkpoints_def)
  note spec = map_of_spec_migrate [OF this, of dst bs]
  obtain ys i where loc: "located dst xs = (ys, i)" by (cases "located dst xs")
  have "dst \<in> fst ` set xs \<longleftrightarrow> index_of dst xs \<noteq> None" by (simp add: index_of_None)
  then have ys: "i < length ys" "fst (ys ! i) = dst" "ys = (if dst \<in> fst ` set xs then xs else xs @ [(dst, [])])"
    using located_props [OF loc] loc by (simp_all add: located_def split: option.splits)
  from Some migrate_outcome [OF assms, where src = src and moved = moved and dst = dst and al = al] ys spec
  show ?thesis unfolding Let_def loc by (auto split: if_splits)
qed

lemma checkpoint_migrate_outcome_witness:
  "\<exists>s. ipmb_checkpoint_append (\<lambda>_. True) ipmb_checkpoint_store_init 7 [1, 2] = Ok s \<and>
     ipmb_checkpoint_migrate (\<lambda>_. True) False s 7 8 = Fault Oob_write"
proof -
  have fits: "\<forall>old. map_of [] 7 = Some old \<longrightarrow> length old + length [1, 2 :: byte] \<le> 2 ^ 63" "length [1, 2 :: byte] \<le> 2 ^ 63"
    by simp_all
  obtain s ys where s: "ipmb_checkpoint_append (\<lambda>_. True) ipmb_checkpoint_store_init 7 [1, 2] = Ok s"
      "checkpoints s ys" "ys = spec_append 7 [1, 2] []"
    using checkpoint_append_cases [OF checkpoints_init fits, of "\<lambda>_. True"] by auto
  from checkpoint_migrate_outcome [OF s(2), where al = "\<lambda>_. True" and src = 7 and moved = False and dst = 8] s show ?thesis
    by (simp add: spec_append_def located_def)
qed

end
