(* ===== verification/Ring_Window.thy ===== *)
theory Ring_Window
  imports C_Memory
begin

text \<open>
  The ring of segments of \<^verbatim>\<open>src/session/ring_window.c\<close>.  The segments are heap blocks; the heap
  maps the addresses that are allocated to their bytes, a freed address leaves it and is not
  given out again.  A checkpoint copies the pointers and a rollback copies them back, while
  appending frees the blocks it replaces: the main result says after which histories a
  rollback brings back pointers to freed blocks.
\<close>

section \<open>The code\<close>

type_synonym segment = "nat option"

record ipmb_ring_window =
  segments :: "segment list option"
  lengths :: "nat list option"
  segment_count :: nat
  head :: nat
  snapshot_segments :: "segment cells option"
  snapshot_lengths :: "nat cells option"
  has_snapshot :: bool

text \<open>The heap of the segments, and the next address.\<close>

record ring_state =
  ring :: ipmb_ring_window
  seg_heap :: "nat \<rightharpoonup> byte list"
  seg_fresh :: nat

definition zero_ring :: ipmb_ring_window where
  "zero_ring = \<lparr>segments = None, lengths = None, segment_count = 0, head = 0,
     snapshot_segments = None, snapshot_lengths = None, has_snapshot = False\<rparr>"

text \<open>\<^verbatim>\<open>free(p)\<close> of a segment; freeing null does nothing.\<close>

definition free_segment :: "(nat \<rightharpoonup> byte list) \<Rightarrow> segment \<Rightarrow> ('e, nat \<rightharpoonup> byte list) res" where
  "free_segment h p = (case p of
       None \<Rightarrow> Ok h
     | Some a \<Rightarrow> if h a = None then Fault Double_free else Ok (h(a := None)))"

fun free_segments :: "(nat \<rightharpoonup> byte list) \<Rightarrow> segment list \<Rightarrow> nat \<Rightarrow> (ipmb_status, nat \<rightharpoonup> byte list) res" where
  "free_segments h segs 0 = Ok h"
| "free_segments h [] (Suc n) = Fault Oob_read"
| "free_segments h (p # segs) (Suc n) = rbind (free_segment h p) (\<lambda>h. free_segments h segs n)"

definition ipmb_ring_free :: "ring_state \<Rightarrow> (ipmb_status, ring_state) res" where
  "ipmb_ring_free s =
     rbind (case segments (ring s) of
              None \<Rightarrow> Ok (seg_heap s)
            | Some segs \<Rightarrow> free_segments (seg_heap s) segs (segment_count (ring s))) (\<lambda>h.
       Ok (s\<lparr>ring := zero_ring, seg_heap := h\<rparr>))"

text \<open>Allocation \<open>0\<close> is that of the segments, \<open>1\<close> that of the lengths; both are made.\<close>

definition ipmb_ring_init :: "allocs \<Rightarrow> ring_state \<Rightarrow> nat \<Rightarrow> (ipmb_status \<times> ring_state, ring_state) res" where
  "ipmb_ring_init al s count =
     (let s = s\<lparr>ring := zero_ring\<rparr> in
      if count = 0 \<or> count > 1024 then Err (IPMB_ERR_LIMIT, s)
      else
        let r = zero_ring\<lparr>segments := if al 0 then Some (replicate count None) else None,
                          lengths := if al 1 then Some (replicate count 0) else None\<rparr>;
            s = s\<lparr>ring := r\<rparr> in
        if segments r = None \<or> lengths r = None then
          rbind (map_err (\<lambda>e. (e, s)) (ipmb_ring_free s)) (\<lambda>s. Err (IPMB_ERR_ALLOC, s))
        else Ok (s\<lparr>ring := r\<lparr>segment_count := count\<rparr>\<rparr>))"

definition ipmb_ring_append ::
  "allocs \<Rightarrow> ring_state \<Rightarrow> byte list \<Rightarrow> (ipmb_status \<times> ring_state, ring_state) res" where
  "ipmb_ring_append al s data =
     rbind (alloc al 0 (IPMB_ERR_ALLOC, s)) (\<lambda>_.
     let copy = seg_fresh s; h = (seg_heap s)(copy \<mapsto> data); r = ring s in
     case (segments r, lengths r) of
       (Some segs, Some lens) \<Rightarrow>
         rbind (rd8 segs (head r)) (\<lambda>old.
         rbind (free_segment h old) (\<lambda>h.
         if head r < length lens then
           Ok (s\<lparr>ring := r\<lparr>segments := Some (segs[head r := Some copy]), lengths := Some (lens[head r := length data]),
                           head := (head r + 1) mod segment_count r\<rparr>,
                 seg_heap := h, seg_fresh := copy + 1\<rparr>)
         else Fault Oob_write))
     | _ \<Rightarrow> Fault Null_deref)"

text \<open>The old copies are freed first; if an allocation fails the function returns without clearing
  \<^verbatim>\<open>has_snapshot\<close>.\<close>

definition ipmb_ring_checkpoint :: "allocs \<Rightarrow> ring_state \<Rightarrow> (ipmb_status, ring_state) res" where
  "ipmb_ring_checkpoint al s =
     (let r = (ring s)\<lparr>snapshot_segments := if al 0 then Some (malloc_cells (segment_count (ring s))) else None,
                       snapshot_lengths := if al 1 then Some (malloc_cells (segment_count (ring s))) else None\<rparr> in
      case (snapshot_segments r, snapshot_lengths r) of
        (Some ss, Some sl) \<Rightarrow>
          (case (segments r, lengths r) of
             (Some segs, Some lens) \<Rightarrow>
               rbind (rd_bytes segs 0 (segment_count r)) (\<lambda>segs.
               rbind (store_cells ss 0 segs) (\<lambda>ss.
               rbind (rd_bytes lens 0 (segment_count r)) (\<lambda>lens.
               rbind (store_cells sl 0 lens) (\<lambda>sl.
                 Ok (s\<lparr>ring := r\<lparr>snapshot_segments := Some ss, snapshot_lengths := Some sl, has_snapshot := True\<rparr>\<rparr>)))))
           | _ \<Rightarrow> Fault Null_deref)
      | _ \<Rightarrow> Ok (s\<lparr>ring := r\<rparr>))"

definition ipmb_ring_rollback :: "ring_state \<Rightarrow> (ipmb_status, ring_state) res" where
  "ipmb_ring_rollback s =
     (let r = ring s in
      if \<not> has_snapshot r then Ok s
      else case (segments r, lengths r, snapshot_segments r, snapshot_lengths r) of
        (Some segs, Some lens, Some ss, Some sl) \<Rightarrow>
          rbind (load_cells ss 0 (segment_count r)) (\<lambda>old_segs.
          rbind (load_cells sl 0 (segment_count r)) (\<lambda>old_lens.
          if segment_count r \<le> length segs \<and> segment_count r \<le> length lens then
            Ok (s\<lparr>ring := r\<lparr>segments := Some (old_segs @ drop (segment_count r) segs),
                            lengths := Some (old_lens @ drop (segment_count r) lens)\<rparr>\<rparr>)
          else Fault Oob_write))
      | _ \<Rightarrow> Fault Null_deref)"

definition ipmb_ring_advance ::
  "allocs \<Rightarrow> ring_state \<Rightarrow> byte list \<Rightarrow> (ipmb_status \<times> ring_state, ring_state) res" where
  "ipmb_ring_advance al s data = ipmb_ring_append al s data"

section \<open>The ring after a history\<close>

text \<open>Which append wrote slot \<open>i\<close> last, of \<open>n\<close> appends to a ring of \<open>c\<close> slots.\<close>

fun last_in :: "nat \<Rightarrow> nat \<Rightarrow> nat \<Rightarrow> nat option" where
  "last_in c 0 i = None"
| "last_in c (Suc n) i = (if i = n mod c then Some n else last_in c n i)"

lemma last_in_Some: "last_in c n i = Some k \<Longrightarrow> 0 < c \<Longrightarrow> k < n \<and> k mod c = i \<and> n \<le> k + c"
proof (induction n)
  case (Suc n)
  show ?case
  proof (cases "i = n mod c")
    case False
    with Suc have k: "k < n" "k mod c = i" "n \<le> k + c" by auto
    moreover have "n \<noteq> k + c" using k(2) False by auto
    ultimately show ?thesis by simp
  qed (use Suc in simp)
qed simp

lemma last_in_live: "k < n \<Longrightarrow> n \<le> k + c \<Longrightarrow> last_in c n (k mod c) = Some k"
proof (induction n)
  case (Suc n)
  show ?case
  proof (cases "k = n")
    case False
    with Suc.prems have k: "k < n" "n < k + c" by simp_all
    have "k mod c \<noteq> n mod c"
    proof
      assume "k mod c = n mod c"
      then have "c dvd n - k" using k by (metis dvd_eq_mod_eq_0 mod_eq_dvd_iff_nat less_imp_le)
      with k show False by (auto dest: dvd_imp_le)
    qed
    with Suc.IH k show ?thesis by simp
  qed simp
qed simp

lemma last_in_replaced: "0 < c \<Longrightarrow> last_in c n (n mod c) = (if c \<le> n then Some (n - c) else None)"
proof (cases "c \<le> n")
  case True
  assume "0 < c"
  moreover have "(n - c) mod c = n mod c" using le_mod_geq [OF True] by simp
  ultimately show ?thesis using last_in_live [of "n - c" n c] True by simp
next
  case False
  assume "0 < c"
  with False last_in_Some [of c n "n mod c"] show ?thesis by (cases "last_in c n (n mod c)") fastforce+
qed

text \<open>The segments, their heap and their lengths after the appends \<open>ds\<close>; the block of append
  \<open>k\<close> has address \<open>k\<close> and is live while its slot has not been written again.\<close>

definition ring_holds :: "nat \<Rightarrow> byte list list \<Rightarrow> ring_state \<Rightarrow> bool" where
  "ring_holds c ds s \<longleftrightarrow> segment_count (ring s) = c \<and> head (ring s) = length ds mod c \<and> seg_fresh s = length ds \<and>
     segments (ring s) = Some (map (last_in c (length ds)) [0..<c]) \<and>
     lengths (ring s) = Some (map (\<lambda>i. case last_in c (length ds) i of None \<Rightarrow> 0 | Some k \<Rightarrow> length (ds ! k)) [0..<c]) \<and>
     seg_heap s = (\<lambda>k. if k < length ds \<and> length ds \<le> k + c then Some (ds ! k) else None)"

definition new_ring :: ring_state where
  "new_ring = \<lparr>ring = zero_ring, seg_heap = Map.empty, seg_fresh = 0\<rparr>"

lemma ring_init_holds:
  assumes "0 < c" "c \<le> 1024" "al 0" "al 1"
  shows "\<exists>s. ipmb_ring_init al new_ring c = Ok s \<and> ring_holds c [] s \<and> \<not> has_snapshot (ring s)"
proof -
  have "replicate c None = map (last_in c 0) [0..<c]" by (intro nth_equalityI) simp_all
  then show ?thesis
    using assms by (simp add: ipmb_ring_init_def new_ring_def zero_ring_def ring_holds_def map_replicate_const)
qed

lemma ring_append_holds:
  assumes s: "ring_holds c ds s" and c: "0 < c" and al: "al 0"
  shows "\<exists>s'. ipmb_ring_append al s d = Ok s' \<and> ring_holds c (ds @ [d]) s' \<and>
    has_snapshot (ring s') = has_snapshot (ring s) \<and>
    snapshot_segments (ring s') = snapshot_segments (ring s) \<and> snapshot_lengths (ring s') = snapshot_lengths (ring s)"
proof -
  let ?n = "length ds" and ?i = "length ds mod c"
  have i: "?i < c" using c by simp
  let ?h = "(seg_heap s)(?n \<mapsto> d)"
  let ?h' = "\<lambda>k. if k < length (ds @ [d]) \<and> length (ds @ [d]) \<le> k + c then Some ((ds @ [d]) ! k) else None"
  have "free_segment ?h (last_in c ?n ?i) = (Ok ?h' :: (ipmb_status \<times> ring_state, nat \<rightharpoonup> byte list) res)"
    using s c by (auto simp: ring_holds_def last_in_replaced free_segment_def fun_eq_iff nth_append)
  moreover have "(map (last_in c ?n) [0..<c])[?i := Some ?n] = map (last_in c (length (ds @ [d]))) [0..<c]"
    by (intro nth_equalityI) (auto simp: nth_list_update)
  moreover have "(map (\<lambda>i. case last_in c ?n i of None \<Rightarrow> 0 | Some k \<Rightarrow> length (ds ! k)) [0..<c])[?i := length d] =
      map (\<lambda>i. case last_in c (length (ds @ [d])) i of None \<Rightarrow> 0 | Some k \<Rightarrow> length ((ds @ [d]) ! k)) [0..<c]"
    using c by (intro nth_equalityI)
      (auto simp: nth_list_update nth_append dest: last_in_Some split: option.split)
  moreover have "(?i + 1) mod c = length (ds @ [d]) mod c" by (simp add: mod_Suc_eq)
  ultimately show ?thesis
    using s i al by (auto simp: ring_holds_def ipmb_ring_append_def Let_def rd8_def simp del: last_in.simps)
qed

text \<open>A sequence of appends, with memory available.\<close>

fun ring_appends :: "byte list list \<Rightarrow> ring_state \<Rightarrow> (ipmb_status \<times> ring_state, ring_state) res" where
  "ring_appends [] s = Ok s"
| "ring_appends (d # ds) s = rbind (ipmb_ring_append (\<lambda>_. True) s d) (ring_appends ds)"

lemma ring_appends_holds:
  "ring_holds c es s \<Longrightarrow> 0 < c \<Longrightarrow>
   \<exists>s'. ring_appends ds s = Ok s' \<and> ring_holds c (es @ ds) s' \<and> has_snapshot (ring s') = has_snapshot (ring s) \<and>
     snapshot_segments (ring s') = snapshot_segments (ring s) \<and> snapshot_lengths (ring s') = snapshot_lengths (ring s)"
proof (induction ds arbitrary: es s)
  case (Cons d ds)
  obtain s1 where s1: "ipmb_ring_append (\<lambda>_. True) s d = Ok s1" "ring_holds c (es @ [d]) s1"
      "has_snapshot (ring s1) = has_snapshot (ring s)" "snapshot_segments (ring s1) = snapshot_segments (ring s)"
      "snapshot_lengths (ring s1) = snapshot_lengths (ring s)"
    using ring_append_holds [OF Cons.prems, of "\<lambda>_. True" d] by auto
  from Cons.IH [OF s1(2) Cons.prems(2)] s1 show ?case by auto
qed simp

lemma store_all_cells: "length xs = n \<Longrightarrow> store_cells (malloc_cells n) 0 xs = Ok (map Some xs)"
  by (simp add: store_cells_def malloc_cells_def)

lemma ring_checkpoint_holds:
  assumes "ring_holds c ds s" "al 0" "al 1"
  shows "\<exists>s'. ipmb_ring_checkpoint al s = Ok s' \<and> ring_holds c ds s' \<and> has_snapshot (ring s') \<and>
    snapshot_segments (ring s') = Some (map Some (the (segments (ring s)))) \<and>
    snapshot_lengths (ring s') = Some (map Some (the (lengths (ring s))))"
  using assms by (simp add: ipmb_ring_checkpoint_def ring_holds_def rd_bytes_def store_all_cells Let_def)

lemma load_all_cells: "length xs = n \<Longrightarrow> load_cells (map Some xs) 0 n = Ok xs"
  by (auto simp: load_cells_def)

lemma ring_rollback_holds:
  assumes "ring_holds c ds s" "has_snapshot (ring s)" "snapshot_segments (ring s) = Some (map Some segs)"
    "snapshot_lengths (ring s) = Some (map Some lens)" "length segs = c" "length lens = c"
  shows "ipmb_ring_rollback s = Ok (s\<lparr>ring := (ring s)\<lparr>segments := Some segs, lengths := Some lens\<rparr>\<rparr>)"
  using assms by (simp add: ipmb_ring_rollback_def ring_holds_def load_all_cells Let_def)

text \<open>Freeing distinct pointers works exactly if none of them dangles.\<close>

lemma free_segments_distinct:
  "distinct (filter (\<lambda>p. p \<noteq> None) segs) \<Longrightarrow>
   if \<exists>a. Some a \<in> set segs \<and> h a = None then free_segments h segs (length segs) = Fault Double_free
   else \<exists>h'. free_segments h segs (length segs) = Ok h' \<and> dom h' = dom h - {a. Some a \<in> set segs}"
proof (induction segs arbitrary: h)
  case (Cons p segs)
  show ?case
  proof (cases p)
    case None
    with Cons show ?thesis by (simp add: free_segment_def)
  next
    case (Some a)
    show ?thesis
    proof (cases "h a")
      case None
      with Some show ?thesis by (auto simp: free_segment_def)
    next
      case (Some x)
      have a: "Some a \<notin> set segs" using Cons.prems \<open>p = Some a\<close> by auto
      then have "(\<exists>b. Some b \<in> set segs \<and> (h(a := None)) b = None) \<longleftrightarrow> (\<exists>b. Some b \<in> set (p # segs) \<and> h b = None)"
        using Some \<open>p = Some a\<close> by auto
      with Cons.IH [of "h(a := None)"] Cons.prems Some \<open>p = Some a\<close> show ?thesis
        by (auto simp: free_segment_def split: if_splits)
    qed
  qed
qed (auto intro: exI [of _ h])

lemma ring_free_outcome:
  assumes "segments (ring s) = Some segs" "segment_count (ring s) = length segs" "distinct (filter (\<lambda>p. p \<noteq> None) segs)"
  shows "if \<exists>a. Some a \<in> set segs \<and> seg_heap s a = None then ipmb_ring_free s = Fault Double_free
    else \<exists>h. ipmb_ring_free s = Ok (s\<lparr>ring := zero_ring, seg_heap := h\<rparr>) \<and> dom h = dom (seg_heap s) - {a. Some a \<in> set segs}"
  using free_segments_distinct [OF assms(3), of "seg_heap s"] assms(1,2)
  by (auto simp: ipmb_ring_free_def split: if_splits)

lemma last_in_distinct: "0 < c \<Longrightarrow> distinct (filter (\<lambda>p. p \<noteq> None) (map (last_in c n) [0..<c]))"
proof -
  assume c: "0 < c"
  have "inj_on (last_in c n) (set (filter ((\<lambda>p. p \<noteq> None) \<circ> last_in c n) [0..<c]))"
  proof (rule inj_onI)
    fix i j assume i: "i \<in> set (filter ((\<lambda>p. p \<noteq> None) \<circ> last_in c n) [0..<c])" and eq: "last_in c n i = last_in c n j"
    then obtain k where k: "last_in c n i = Some k" "last_in c n j = Some k" by auto
    then have "k mod c = i" "k mod c = j" using last_in_Some c by blast+
    then show "i = j" by (rule trans [OF sym])
  qed
  then show ?thesis by (simp add: filter_map distinct_map)
qed

lemma last_in_mem: "0 < c \<Longrightarrow> Some k \<in> set (map (last_in c n) [0..<c]) \<longleftrightarrow> k < n \<and> n \<le> k + c"
proof
  assume "0 < c" "Some k \<in> set (map (last_in c n) [0..<c])"
  then obtain i where "last_in c n i = Some k" by (metis imageE list.set_map)
  with \<open>0 < c\<close> last_in_Some show "k < n \<and> n \<le> k + c" by blast
next
  assume "0 < c" "k < n \<and> n \<le> k + c"
  then have "last_in c n (k mod c) = Some k" "k mod c < c" using last_in_live by auto
  then show "Some k \<in> set (map (last_in c n) [0..<c])" by (auto simp: image_iff intro!: bexI [of _ "k mod c"])
qed

text \<open>Of the blocks in the window after \<open>m\<close> appends, one is out of it after \<open>n\<close> more.\<close>

lemma window_overwritten:
  fixes c m n :: nat
  assumes "0 < c"
  shows "(\<exists>a. (a < m \<and> m \<le> a + c) \<and> \<not> (a < m + n \<and> m + n \<le> a + c)) \<longleftrightarrow> 0 < m \<and> 0 < n \<and> c < m + n"
proof
  assume "0 < m \<and> 0 < n \<and> c < m + n"
  then have "(m - c < m \<and> m \<le> m - c + c) \<and> \<not> (m - c < m + n \<and> m + n \<le> m - c + c)"
    using assms by (cases "c \<le> m") auto
  then show "\<exists>a. (a < m \<and> m \<le> a + c) \<and> \<not> (a < m + n \<and> m + n \<le> a + c)" by blast
qed auto

section \<open>Properties\<close>

text \<open>C24: A ring of \<open>c\<close> segments holds the last \<open>c\<close> payloads.  After any appends to a new ring
  (with memory available) the segment of every one of the last \<open>c\<close> is in its slot, with its
  bytes and its length, no other block is allocated, and freeing the ring frees every block
  once.\<close>

theorem ring_window_holds_last:
  assumes "0 < c" "c \<le> 1024"
  shows "\<exists>s0 s segs lens. ipmb_ring_init (\<lambda>_. True) new_ring c = Ok s0 \<and> ring_appends ds s0 = Ok s \<and>
    segments (ring s) = Some segs \<and> lengths (ring s) = Some lens \<and>
    (\<forall>k < length ds. length ds \<le> k + c \<longrightarrow>
       segs ! (k mod c) = Some k \<and> seg_heap s k = Some (ds ! k) \<and> lens ! (k mod c) = length (ds ! k)) \<and>
    dom (seg_heap s) = {k. k < length ds \<and> length ds \<le> k + c} \<and>
    ipmb_ring_free s = Ok (s\<lparr>ring := zero_ring, seg_heap := Map.empty\<rparr>)"
proof -
  obtain s0 where s0: "ipmb_ring_init (\<lambda>_. True) new_ring c = Ok s0" "ring_holds c [] s0"
    using ring_init_holds [OF assms, of "\<lambda>_. True"] by auto
  obtain s where s: "ring_appends ds s0 = Ok s" "ring_holds c ds s"
    using ring_appends_holds [OF s0(2) assms(1), of ds] by auto
  let ?segs = "map (last_in c (length ds)) [0..<c]"
  have segs: "segments (ring s) = Some ?segs" "segment_count (ring s) = length ?segs"
    using s(2) by (simp_all add: ring_holds_def)
  have dom: "dom (seg_heap s) = {k. k < length ds \<and> length ds \<le> k + c}"
    using s(2) by (auto simp: ring_holds_def dom_def)
  have slots: "\<forall>k < length ds. length ds \<le> k + c \<longrightarrow> ?segs ! (k mod c) = Some k \<and> seg_heap s k = Some (ds ! k) \<and>
      the (lengths (ring s)) ! (k mod c) = length (ds ! k)"
    using s(2) assms(1) by (auto simp: ring_holds_def last_in_live)
  have "\<not> (\<exists>a. Some a \<in> set ?segs \<and> seg_heap s a = None)" "{a. Some a \<in> set ?segs} = dom (seg_heap s)"
    using dom unfolding last_in_mem [OF assms(1)] by auto
  with ring_free_outcome [OF segs last_in_distinct [OF assms(1)]] have
    "ipmb_ring_free s = Ok (s\<lparr>ring := zero_ring, seg_heap := Map.empty\<rparr>)"
    by (auto split: if_splits)
  then show ?thesis using s0(1) s(1) s(2) segs(1) slots dom by (auto simp: ring_holds_def)
qed

lemma ring_window_holds_last_witness:
  "\<exists>s0 s. ipmb_ring_init (\<lambda>_. True) new_ring 2 = Ok s0 \<and> ring_appends [[1], [2], [3]] s0 = Ok s \<and>
    dom (seg_heap s) = {1, 2}"
proof -
  have "{k. k < length [[1], [2], [3 :: byte]] \<and> length [[1], [2], [3 :: byte]] \<le> k + 2} = {1, 2}" by auto
  then show ?thesis
    using ring_window_holds_last [of 2 "[[1], [2], [3]]"] by auto
qed

text \<open>C23: What a rollback brings back.  The history: a new ring of \<open>c\<close> segments, the appends \<open>ds\<close>,
  a checkpoint, the appends \<open>es\<close>, a rollback.  The rollback always restores the pointers and
  the lengths of the checkpoint.  But when \<open>es\<close> wrote over a segment the checkpoint had
  recorded, that is when both are non-empty and together exceed \<open>c\<close>, one of the pointers it
  restores is to a freed block, and freeing the ring frees that block again.  In the other
  histories the ring can be freed, but the blocks of \<open>es\<close> are never freed (a leak).\<close>

theorem ring_rollback_outcome:
  assumes "0 < c" "c \<le> 1024"
  shows "\<exists>s0 s1 s2 s3 s4. ipmb_ring_init (\<lambda>_. True) new_ring c = Ok s0 \<and> ring_appends ds s0 = Ok s1 \<and>
    ipmb_ring_checkpoint (\<lambda>_. True) s1 = Ok s2 \<and> ring_appends es s2 = Ok s3 \<and> ipmb_ring_rollback s3 = Ok s4 \<and>
    segments (ring s4) = segments (ring s1) \<and> lengths (ring s4) = lengths (ring s1) \<and>
    (if ds \<noteq> [] \<and> es \<noteq> [] \<and> c < length ds + length es
     then ipmb_ring_free s4 = Fault Double_free
     else \<exists>s5. ipmb_ring_free s4 = Ok s5 \<and>
       dom (seg_heap s5) = {k. length ds \<le> k \<and> k < length ds + length es \<and> length ds + length es \<le> k + c})"
proof -
  obtain s0 where s0: "ipmb_ring_init (\<lambda>_. True) new_ring c = Ok s0" "ring_holds c [] s0"
    using ring_init_holds [OF assms, of "\<lambda>_. True"] by auto
  obtain s1 where s1: "ring_appends ds s0 = Ok s1" "ring_holds c ds s1"
    using ring_appends_holds [OF s0(2) assms(1), of ds] by auto
  define segs lens where "segs = the (segments (ring s1))" and "lens = the (lengths (ring s1))"
  obtain s2 where s2: "ipmb_ring_checkpoint (\<lambda>_. True) s1 = Ok s2" "ring_holds c ds s2" "has_snapshot (ring s2)"
      "snapshot_segments (ring s2) = Some (map Some segs)" "snapshot_lengths (ring s2) = Some (map Some lens)"
    using ring_checkpoint_holds [OF s1(2), of "\<lambda>_. True"] by (auto simp: segs_def lens_def)
  obtain s3 where s3: "ring_appends es s2 = Ok s3" "ring_holds c (ds @ es) s3" "has_snapshot (ring s3)"
      "snapshot_segments (ring s3) = Some (map Some segs)" "snapshot_lengths (ring s3) = Some (map Some lens)"
    using ring_appends_holds [OF s2(2) assms(1), of es] s2 by auto
  have len: "length segs = c" "length lens = c" "segs = map (last_in c (length ds)) [0..<c]"
    "segments (ring s1) = Some segs" "lengths (ring s1) = Some lens"
    using s1(2) by (simp_all add: segs_def lens_def ring_holds_def)
  let ?s4 = "s3\<lparr>ring := (ring s3)\<lparr>segments := Some segs, lengths := Some lens\<rparr>\<rparr>"
  have s4: "ipmb_ring_rollback s3 = Ok ?s4" by (rule ring_rollback_holds [OF s3(2-5) len(1,2)])
  let ?n = "length ds + length es"
  have heap: "seg_heap ?s4 a = None \<longleftrightarrow> \<not> (a < ?n \<and> ?n \<le> a + c)" "dom (seg_heap ?s4) = {k. k < ?n \<and> ?n \<le> k + c}" for a
    using s3(2) by (auto simp: ring_holds_def dom_def)
  have mem: "Some a \<in> set segs \<longleftrightarrow> a < length ds \<and> length ds \<le> a + c" for a
    unfolding len(3) by (rule last_in_mem [OF assms(1)])
  have dang: "(\<exists>a. Some a \<in> set segs \<and> seg_heap ?s4 a = None) \<longleftrightarrow> ds \<noteq> [] \<and> es \<noteq> [] \<and> c < ?n"
    unfolding mem heap(1) using window_overwritten [OF assms(1), of "length ds" "length es"] by simp
  have s4c: "segments (ring ?s4) = Some segs" "segment_count (ring ?s4) = length segs"
    using s3(2) len by (simp_all add: ring_holds_def)
  have "distinct (filter (\<lambda>p. p \<noteq> None) segs)" unfolding len(3) by (rule last_in_distinct [OF assms(1)])
  from ring_free_outcome [OF s4c this] have free:
    "if ds \<noteq> [] \<and> es \<noteq> [] \<and> c < ?n then ipmb_ring_free ?s4 = Fault Double_free
     else \<exists>s5. ipmb_ring_free ?s4 = Ok s5 \<and> dom (seg_heap s5) = {k. length ds \<le> k \<and> k < ?n \<and> ?n \<le> k + c}"
    unfolding dang heap(2) by (auto simp: mem split: if_splits)
  show ?thesis
    using s0(1) s1(1) s2(1) s3(1) s4 free len(4,5) by (intro exI [of _ s0] exI [of _ s1] exI [of _ s2] exI [of _ s3] exI [of _ ?s4]) simp
qed

lemma ring_rollback_outcome_witness:
  "\<exists>s0 s1 s2 s3 s4. ipmb_ring_init (\<lambda>_. True) new_ring 2 = Ok s0 \<and> ring_appends [[1], [2]] s0 = Ok s1 \<and>
    ipmb_ring_checkpoint (\<lambda>_. True) s1 = Ok s2 \<and> ring_appends [[3]] s2 = Ok s3 \<and> ipmb_ring_rollback s3 = Ok s4 \<and>
    ipmb_ring_free s4 = Fault Double_free"
  using ring_rollback_outcome [of 2 "[[1], [2]]" "[[3]]"] by auto

end
