(* ===== verification/Table_Names.thy ===== *)
theory Table_Names
  imports Rule_Lexer
begin

text \<open>
  The names in the constant tables of the library carry decimal numbers, padded with zeros
  (\<^verbatim>\<open>%04d\<close>) or not (\<^verbatim>\<open>%d\<close>).  This theory relates such a text to its number, so that a
  table written row by row can be compared with the rule its rows follow; the locale
  \<open>wrapping_catalog\<close> is the interface of the tables read modulo their size.
\<close>

section \<open>Decimal texts\<close>

definition padded :: "nat \<Rightarrow> nat \<Rightarrow> string" where
  "padded w k = map (\<lambda>j. digit_char (k div 10 ^ j mod 10)) (rev [0..<w])"

definition numeral_text :: "string \<Rightarrow> nat \<Rightarrow> bool" where
  "numeral_text s k \<longleftrightarrow> list_all (\<lambda>c. digit_value c < 10) s \<and> number_value 10 s = k"

lemma digit_char_value: "digit_value c < 10 \<Longrightarrow> digit_char (digit_value c) = c"
  by (auto simp: digit_value_def digit_char_def Let_def split: if_splits)

lemma number_value_digits:
  "foldl (\<lambda>acc c. acc * 10 + digit_value c) k [] = k"
  "foldl (\<lambda>acc c. acc * 10 + digit_value c) k (c # s) =
   foldl (\<lambda>acc c. acc * 10 + digit_value c) (k * 10 + digit_value c) s"
  by simp_all

lemma padded_snoc: "padded (Suc w) k = padded w (k div 10) @ [digit_char (k mod 10)]"
proof -
  have "[0..<Suc w] = 0 # map Suc [0..<w]"
    by (simp only: map_Suc_upt) (rule upt_conv_Cons, simp)
  then show ?thesis by (simp add: padded_def rev_map div_mult2_eq del: upt_Suc)
qed

lemma numeral_text_padded: "numeral_text s k \<Longrightarrow> s = padded (length s) k"
  unfolding numeral_text_def
proof (induction s arbitrary: k rule: rev_induct)
  case (snoc c s)
  have d: "digit_value c < 10" and k: "k = number_value 10 s * 10 + digit_value c"
    using snoc.prems by (simp_all add: number_value_snoc)
  then have "k div 10 = number_value 10 s" "digit_char (k mod 10) = c"
    by (simp_all add: digit_char_value)
  with snoc show ?case by (simp add: padded_snoc)
qed (simp add: padded_def)

lemma padded_inject:
  assumes "padded w j = padded w k" "j < 10 ^ w" "k < 10 ^ w"
  shows "j = k"
  using assms
proof (induction w arbitrary: j k)
  case (Suc w)
  then have "padded w (j div 10) = padded w (k div 10)" "digit_char (j mod 10) = digit_char (k mod 10)"
    by (simp_all add: padded_snoc)
  moreover from this(2) have "j mod 10 = k mod 10"
    by (metis digit_value_char mod_less_divisor zero_less_numeral)
  ultimately show ?case
    using Suc.IH [of "j div 10" "k div 10"] Suc.prems by (metis div_less_iff_less_mult div_mod_decomp mult.commute power_Suc zero_less_numeral)
qed simp

text \<open>A number whose leading digit is not 0 is printed without padding.\<close>

lemma padded_dec_digits:
  "10 ^ w \<le> k \<Longrightarrow> k < 10 ^ Suc w \<Longrightarrow> padded (Suc w) k = dec_digits k"
proof (induction w arbitrary: k)
  case 0
  then show ?case by (subst dec_digits.simps) (simp add: padded_def)
next
  case (Suc w)
  have "10 ^ w \<le> k div 10" "k div 10 < 10 ^ Suc w"
    using Suc.prems by (simp_all add: less_eq_div_iff_mult_less_eq div_less_iff_less_mult mult.commute)
  from Suc.IH [OF this] have "padded (Suc w) (k div 10) = dec_digits (k div 10)" .
  moreover have "\<not> k < 10"
    using Suc.prems(1) one_le_power [of "10 :: nat" w] unfolding power_Suc by linarith
  ultimately show ?case
    by (subst dec_digits.simps) (simp add: padded_snoc [of "Suc w"])
qed

lemma numeral_text_dec:
  "numeral_text s k \<Longrightarrow> length s = Suc w \<Longrightarrow> 10 ^ w \<le> k \<Longrightarrow> k < 10 ^ Suc w \<Longrightarrow> s = dec_digits k"
  using numeral_text_padded [of s k] by (simp add: padded_dec_digits)

text \<open>The evaluation of \<open>numeral_text\<close> on the digits of a table row.\<close>

lemma digit_value_digits [simp]:
  "digit_value CHR ''0'' = 0" "digit_value CHR ''1'' = 1" "digit_value CHR ''2'' = 2"
  "digit_value CHR ''3'' = 3" "digit_value CHR ''4'' = 4" "digit_value CHR ''5'' = 5"
  "digit_value CHR ''6'' = 6" "digit_value CHR ''7'' = 7" "digit_value CHR ''8'' = 8"
  "digit_value CHR ''9'' = 9"
  by (simp_all add: digit_value_def)

text \<open>\<open>rows_follow law i rows\<close>: the rows have, one after the other from number \<open>i\<close>, the form
  \<open>law\<close> says.\<close>

fun rows_follow :: "(nat \<Rightarrow> 'r \<Rightarrow> bool) \<Rightarrow> nat \<Rightarrow> 'r list \<Rightarrow> bool" where
  "rows_follow law i [] \<longleftrightarrow> True"
| "rows_follow law i (r # rows) \<longleftrightarrow> law i r \<and> rows_follow law (i + 1) rows"

lemma rows_follow_append:
  "rows_follow law i (xs @ ys) \<longleftrightarrow> rows_follow law i xs \<and> rows_follow law (i + length xs) ys"
  by (induction xs arbitrary: i) (auto simp: add.commute)

lemma rows_follow_nth: "rows_follow law i rows \<Longrightarrow> j < length rows \<Longrightarrow> law (i + j) (rows ! j)"
proof (induction rows arbitrary: i j)
  case (Cons r rows)
  then show ?case by (cases j) fastforce+
qed simp

section \<open>Catalogs read modulo their size\<close>

locale wrapping_catalog =
  fixes count :: nat
    and get :: "nat \<Rightarrow> 'a"
    and line :: "nat \<Rightarrow> 'a"
  assumes count_pos: "0 < count"
    and get_line: "get i = line (i mod count)"
    and line_inject: "i < count \<Longrightarrow> j < count \<Longrightarrow> line i = line j \<Longrightarrow> i = j"
begin

lemma get_periodic: "get (i + count) = get i"
  by (simp add: get_line)

lemma get_eq_iff: "get i = get j \<longleftrightarrow> i mod count = j mod count"
  using line_inject [of "i mod count" "j mod count"] count_pos by (auto simp: get_line)

lemma card_range_get: "card (range get) = count"
proof -
  have "range get = line ` {0..<count}"
  proof (intro equalityI subsetI)
    fix x assume "x \<in> line ` {0..<count}"
    then obtain i where "i < count" "x = line i" by auto
    then have "x = get i" by (simp add: get_line)
    then show "x \<in> range get" by simp
  qed (use count_pos in \<open>auto simp: get_line\<close>)
  moreover have "inj_on line {0..<count}" by (auto intro!: inj_onI line_inject)
  ultimately show ?thesis by (simp add: card_image)
qed

end

end
