(* ===== verification/Session_Catalog.thy ===== *)
theory Session_Catalog
  imports Table_Names
begin

text \<open>
  The session presets of \<^verbatim>\<open>src/session/session_catalog.c\<close>: 260 texts, written row by row as
  in the source (\<open>preset_row\<close> puts the three numbers of a row into the text all rows share),
  the two functions that read them, and the rule the rows follow.
\<close>

section \<open>The table\<close>

definition preset_row :: "string \<Rightarrow> string \<Rightarrow> string \<Rightarrow> string" where
  "preset_row line segment checkpoint =
     ''preset industrial-line-'' @ line @ '': segment='' @ segment @ '' checkpoint='' @ checkpoint @
     '' journal=durable''"

definition session_presets_0 :: "string list" where
  "session_presets_0 = [
    preset_row ''000'' ''4'' ''32'',
    preset_row ''001'' ''5'' ''33'',
    preset_row ''002'' ''6'' ''34'',
    preset_row ''003'' ''7'' ''35'',
    preset_row ''004'' ''8'' ''36'',
    preset_row ''005'' ''9'' ''37'',
    preset_row ''006'' ''10'' ''38'',
    preset_row ''007'' ''11'' ''39'',
    preset_row ''008'' ''12'' ''40'',
    preset_row ''009'' ''13'' ''41'',
    preset_row ''010'' ''14'' ''42'',
    preset_row ''011'' ''15'' ''43'',
    preset_row ''012'' ''4'' ''44'',
    preset_row ''013'' ''5'' ''45'',
    preset_row ''014'' ''6'' ''46'',
    preset_row ''015'' ''7'' ''47'',
    preset_row ''016'' ''8'' ''48'',
    preset_row ''017'' ''9'' ''49'',
    preset_row ''018'' ''10'' ''50'',
    preset_row ''019'' ''11'' ''51'',
    preset_row ''020'' ''12'' ''52'',
    preset_row ''021'' ''13'' ''53'',
    preset_row ''022'' ''14'' ''54'',
    preset_row ''023'' ''15'' ''55'',
    preset_row ''024'' ''4'' ''56'',
    preset_row ''025'' ''5'' ''57'',
    preset_row ''026'' ''6'' ''58'',
    preset_row ''027'' ''7'' ''59'',
    preset_row ''028'' ''8'' ''60'',
    preset_row ''029'' ''9'' ''61'',
    preset_row ''030'' ''10'' ''62'',
    preset_row ''031'' ''11'' ''63'',
    preset_row ''032'' ''12'' ''64'',
    preset_row ''033'' ''13'' ''65'',
    preset_row ''034'' ''14'' ''66'',
    preset_row ''035'' ''15'' ''67'',
    preset_row ''036'' ''4'' ''68'',
    preset_row ''037'' ''5'' ''69'',
    preset_row ''038'' ''6'' ''70'',
    preset_row ''039'' ''7'' ''71'',
    preset_row ''040'' ''8'' ''72'',
    preset_row ''041'' ''9'' ''73'',
    preset_row ''042'' ''10'' ''74'',
    preset_row ''043'' ''11'' ''75'',
    preset_row ''044'' ''12'' ''76'',
    preset_row ''045'' ''13'' ''77'',
    preset_row ''046'' ''14'' ''78'',
    preset_row ''047'' ''15'' ''79'',
    preset_row ''048'' ''4'' ''80'',
    preset_row ''049'' ''5'' ''81'',
    preset_row ''050'' ''6'' ''82'',
    preset_row ''051'' ''7'' ''83'',
    preset_row ''052'' ''8'' ''84'',
    preset_row ''053'' ''9'' ''85'',
    preset_row ''054'' ''10'' ''86'',
    preset_row ''055'' ''11'' ''87'',
    preset_row ''056'' ''12'' ''88'',
    preset_row ''057'' ''13'' ''89'',
    preset_row ''058'' ''14'' ''90'',
    preset_row ''059'' ''15'' ''91'',
    preset_row ''060'' ''4'' ''92'',
    preset_row ''061'' ''5'' ''93'',
    preset_row ''062'' ''6'' ''94'',
    preset_row ''063'' ''7'' ''95'',
    preset_row ''064'' ''8'' ''32'',
    preset_row ''065'' ''9'' ''33'',
    preset_row ''066'' ''10'' ''34'',
    preset_row ''067'' ''11'' ''35'',
    preset_row ''068'' ''12'' ''36'',
    preset_row ''069'' ''13'' ''37'',
    preset_row ''070'' ''14'' ''38'',
    preset_row ''071'' ''15'' ''39'',
    preset_row ''072'' ''4'' ''40'',
    preset_row ''073'' ''5'' ''41'',
    preset_row ''074'' ''6'' ''42'',
    preset_row ''075'' ''7'' ''43'',
    preset_row ''076'' ''8'' ''44'',
    preset_row ''077'' ''9'' ''45'',
    preset_row ''078'' ''10'' ''46'',
    preset_row ''079'' ''11'' ''47'',
    preset_row ''080'' ''12'' ''48'',
    preset_row ''081'' ''13'' ''49'',
    preset_row ''082'' ''14'' ''50'',
    preset_row ''083'' ''15'' ''51'',
    preset_row ''084'' ''4'' ''52'',
    preset_row ''085'' ''5'' ''53'',
    preset_row ''086'' ''6'' ''54'',
    preset_row ''087'' ''7'' ''55'',
    preset_row ''088'' ''8'' ''56'',
    preset_row ''089'' ''9'' ''57'',
    preset_row ''090'' ''10'' ''58'',
    preset_row ''091'' ''11'' ''59'',
    preset_row ''092'' ''12'' ''60'',
    preset_row ''093'' ''13'' ''61'',
    preset_row ''094'' ''14'' ''62'',
    preset_row ''095'' ''15'' ''63'',
    preset_row ''096'' ''4'' ''64'',
    preset_row ''097'' ''5'' ''65'',
    preset_row ''098'' ''6'' ''66'',
    preset_row ''099'' ''7'' ''67'',
    preset_row ''100'' ''8'' ''68'',
    preset_row ''101'' ''9'' ''69'',
    preset_row ''102'' ''10'' ''70'',
    preset_row ''103'' ''11'' ''71'',
    preset_row ''104'' ''12'' ''72'',
    preset_row ''105'' ''13'' ''73'',
    preset_row ''106'' ''14'' ''74'',
    preset_row ''107'' ''15'' ''75'',
    preset_row ''108'' ''4'' ''76'',
    preset_row ''109'' ''5'' ''77'',
    preset_row ''110'' ''6'' ''78'',
    preset_row ''111'' ''7'' ''79'',
    preset_row ''112'' ''8'' ''80'',
    preset_row ''113'' ''9'' ''81'',
    preset_row ''114'' ''10'' ''82'',
    preset_row ''115'' ''11'' ''83'',
    preset_row ''116'' ''12'' ''84'',
    preset_row ''117'' ''13'' ''85'',
    preset_row ''118'' ''14'' ''86'',
    preset_row ''119'' ''15'' ''87'',
    preset_row ''120'' ''4'' ''88'',
    preset_row ''121'' ''5'' ''89'',
    preset_row ''122'' ''6'' ''90'',
    preset_row ''123'' ''7'' ''91'',
    preset_row ''124'' ''8'' ''92'',
    preset_row ''125'' ''9'' ''93'',
    preset_row ''126'' ''10'' ''94'',
    preset_row ''127'' ''11'' ''95'',
    preset_row ''128'' ''12'' ''32'',
    preset_row ''129'' ''13'' ''33'']"

definition session_presets_1 :: "string list" where
  "session_presets_1 = [
    preset_row ''130'' ''14'' ''34'',
    preset_row ''131'' ''15'' ''35'',
    preset_row ''132'' ''4'' ''36'',
    preset_row ''133'' ''5'' ''37'',
    preset_row ''134'' ''6'' ''38'',
    preset_row ''135'' ''7'' ''39'',
    preset_row ''136'' ''8'' ''40'',
    preset_row ''137'' ''9'' ''41'',
    preset_row ''138'' ''10'' ''42'',
    preset_row ''139'' ''11'' ''43'',
    preset_row ''140'' ''12'' ''44'',
    preset_row ''141'' ''13'' ''45'',
    preset_row ''142'' ''14'' ''46'',
    preset_row ''143'' ''15'' ''47'',
    preset_row ''144'' ''4'' ''48'',
    preset_row ''145'' ''5'' ''49'',
    preset_row ''146'' ''6'' ''50'',
    preset_row ''147'' ''7'' ''51'',
    preset_row ''148'' ''8'' ''52'',
    preset_row ''149'' ''9'' ''53'',
    preset_row ''150'' ''10'' ''54'',
    preset_row ''151'' ''11'' ''55'',
    preset_row ''152'' ''12'' ''56'',
    preset_row ''153'' ''13'' ''57'',
    preset_row ''154'' ''14'' ''58'',
    preset_row ''155'' ''15'' ''59'',
    preset_row ''156'' ''4'' ''60'',
    preset_row ''157'' ''5'' ''61'',
    preset_row ''158'' ''6'' ''62'',
    preset_row ''159'' ''7'' ''63'',
    preset_row ''160'' ''8'' ''64'',
    preset_row ''161'' ''9'' ''65'',
    preset_row ''162'' ''10'' ''66'',
    preset_row ''163'' ''11'' ''67'',
    preset_row ''164'' ''12'' ''68'',
    preset_row ''165'' ''13'' ''69'',
    preset_row ''166'' ''14'' ''70'',
    preset_row ''167'' ''15'' ''71'',
    preset_row ''168'' ''4'' ''72'',
    preset_row ''169'' ''5'' ''73'',
    preset_row ''170'' ''6'' ''74'',
    preset_row ''171'' ''7'' ''75'',
    preset_row ''172'' ''8'' ''76'',
    preset_row ''173'' ''9'' ''77'',
    preset_row ''174'' ''10'' ''78'',
    preset_row ''175'' ''11'' ''79'',
    preset_row ''176'' ''12'' ''80'',
    preset_row ''177'' ''13'' ''81'',
    preset_row ''178'' ''14'' ''82'',
    preset_row ''179'' ''15'' ''83'',
    preset_row ''180'' ''4'' ''84'',
    preset_row ''181'' ''5'' ''85'',
    preset_row ''182'' ''6'' ''86'',
    preset_row ''183'' ''7'' ''87'',
    preset_row ''184'' ''8'' ''88'',
    preset_row ''185'' ''9'' ''89'',
    preset_row ''186'' ''10'' ''90'',
    preset_row ''187'' ''11'' ''91'',
    preset_row ''188'' ''12'' ''92'',
    preset_row ''189'' ''13'' ''93'',
    preset_row ''190'' ''14'' ''94'',
    preset_row ''191'' ''15'' ''95'',
    preset_row ''192'' ''4'' ''32'',
    preset_row ''193'' ''5'' ''33'',
    preset_row ''194'' ''6'' ''34'',
    preset_row ''195'' ''7'' ''35'',
    preset_row ''196'' ''8'' ''36'',
    preset_row ''197'' ''9'' ''37'',
    preset_row ''198'' ''10'' ''38'',
    preset_row ''199'' ''11'' ''39'',
    preset_row ''200'' ''12'' ''40'',
    preset_row ''201'' ''13'' ''41'',
    preset_row ''202'' ''14'' ''42'',
    preset_row ''203'' ''15'' ''43'',
    preset_row ''204'' ''4'' ''44'',
    preset_row ''205'' ''5'' ''45'',
    preset_row ''206'' ''6'' ''46'',
    preset_row ''207'' ''7'' ''47'',
    preset_row ''208'' ''8'' ''48'',
    preset_row ''209'' ''9'' ''49'',
    preset_row ''210'' ''10'' ''50'',
    preset_row ''211'' ''11'' ''51'',
    preset_row ''212'' ''12'' ''52'',
    preset_row ''213'' ''13'' ''53'',
    preset_row ''214'' ''14'' ''54'',
    preset_row ''215'' ''15'' ''55'',
    preset_row ''216'' ''4'' ''56'',
    preset_row ''217'' ''5'' ''57'',
    preset_row ''218'' ''6'' ''58'',
    preset_row ''219'' ''7'' ''59'',
    preset_row ''220'' ''8'' ''60'',
    preset_row ''221'' ''9'' ''61'',
    preset_row ''222'' ''10'' ''62'',
    preset_row ''223'' ''11'' ''63'',
    preset_row ''224'' ''12'' ''64'',
    preset_row ''225'' ''13'' ''65'',
    preset_row ''226'' ''14'' ''66'',
    preset_row ''227'' ''15'' ''67'',
    preset_row ''228'' ''4'' ''68'',
    preset_row ''229'' ''5'' ''69'',
    preset_row ''230'' ''6'' ''70'',
    preset_row ''231'' ''7'' ''71'',
    preset_row ''232'' ''8'' ''72'',
    preset_row ''233'' ''9'' ''73'',
    preset_row ''234'' ''10'' ''74'',
    preset_row ''235'' ''11'' ''75'',
    preset_row ''236'' ''12'' ''76'',
    preset_row ''237'' ''13'' ''77'',
    preset_row ''238'' ''14'' ''78'',
    preset_row ''239'' ''15'' ''79'',
    preset_row ''240'' ''4'' ''80'',
    preset_row ''241'' ''5'' ''81'',
    preset_row ''242'' ''6'' ''82'',
    preset_row ''243'' ''7'' ''83'',
    preset_row ''244'' ''8'' ''84'',
    preset_row ''245'' ''9'' ''85'',
    preset_row ''246'' ''10'' ''86'',
    preset_row ''247'' ''11'' ''87'',
    preset_row ''248'' ''12'' ''88'',
    preset_row ''249'' ''13'' ''89'',
    preset_row ''250'' ''14'' ''90'',
    preset_row ''251'' ''15'' ''91'',
    preset_row ''252'' ''4'' ''92'',
    preset_row ''253'' ''5'' ''93'',
    preset_row ''254'' ''6'' ''94'',
    preset_row ''255'' ''7'' ''95'',
    preset_row ''256'' ''8'' ''32'',
    preset_row ''257'' ''9'' ''33'',
    preset_row ''258'' ''10'' ''34'',
    preset_row ''259'' ''11'' ''35'']"

definition ipmb_session_presets :: "string list" where
  "ipmb_session_presets = session_presets_0 @ session_presets_1"

definition ipmb_session_catalog_count :: nat where
  "ipmb_session_catalog_count = length ipmb_session_presets"

definition ipmb_session_catalog_get :: "nat \<Rightarrow> string" where
  "ipmb_session_catalog_get index = ipmb_session_presets ! (index mod ipmb_session_catalog_count)"

section \<open>The rule of the rows\<close>

text \<open>Line \<open>i\<close> has segment \<open>4 + i mod 12\<close> and checkpoint interval \<open>32 + i mod 64\<close>.\<close>

definition preset_line :: "nat \<Rightarrow> string" where
  "preset_line i = preset_row (padded 3 i) (dec_digits (4 + i mod 12)) (dec_digits (32 + i mod 64))"

text \<open>The law in the form that is checked row by row: the segment and checkpoint numbers run
  along with the line number.\<close>

fun preset_rows :: "nat \<Rightarrow> nat \<Rightarrow> nat \<Rightarrow> string list \<Rightarrow> bool" where
  "preset_rows i sg ck [] \<longleftrightarrow> True"
| "preset_rows i sg ck (r # rows) \<longleftrightarrow>
     (\<exists>a b c. r = preset_row a b c \<and> length a = 3 \<and> numeral_text a i \<and>
        numeral_text b sg \<and> length b = (if sg < 10 then 1 else 2) \<and> numeral_text c ck \<and> length c = 2) \<and>
     preset_rows (i + 1) (if sg = 15 then 4 else sg + 1) (if ck = 95 then 32 else ck + 1) rows"

lemma preset_rows_row:
  assumes "length a = 3" "numeral_text a i" "numeral_text b sg" "length b = (if sg < 10 then 1 else 2)"
    "numeral_text c ck" "length c = 2"
  shows "preset_rows i sg ck (preset_row a b c # rows) =
    preset_rows (i + 1) (if sg = 15 then 4 else sg + 1) (if ck = 95 then 32 else ck + 1) rows"
  using assms unfolding preset_rows.simps(2) by blast

lemma session_presets_0_rows: "preset_rows 0 4 32 session_presets_0"
  unfolding session_presets_0_def
  by (simp add: preset_rows_row numeral_text_def number_value_def del: preset_rows.simps(2))

lemma session_presets_1_rows: "preset_rows 130 14 34 session_presets_1"
  unfolding session_presets_1_def
  by (simp add: preset_rows_row numeral_text_def number_value_def del: preset_rows.simps(2))

lemma preset_rows_nth:
  "preset_rows i (4 + i mod 12) (32 + i mod 64) rows \<Longrightarrow> j < length rows \<Longrightarrow>
   rows ! j = preset_line (i + j)"
proof (induction rows arbitrary: i j)
  case (Cons r rows)
  let ?sg = "4 + i mod 12" and ?ck = "32 + i mod 64"
  obtain a b c where r: "r = preset_row a b c" "length a = 3" "numeral_text a i" "numeral_text b ?sg"
      "length b = (if ?sg < 10 then 1 else 2)" "numeral_text c ?ck" "length c = 2"
    using Cons.prems(1) by auto
  have sg: "?sg < 16" and ck: "?ck < 96" by simp_all
  have "a = padded 3 i" using numeral_text_padded [OF r(3)] r(2) by simp
  moreover have "b = dec_digits ?sg"
    using r(4,5) sg by (intro numeral_text_dec [where w = "if ?sg < 10 then 0 else 1"]) (auto split: if_splits)
  moreover have "c = dec_digits ?ck"
    using r(6,7) ck by (intro numeral_text_dec [where w = 1]) auto
  ultimately have line: "r = preset_line i" using r(1) by (simp add: preset_line_def)
  have "(if ?sg = 15 then 4 else ?sg + 1) = 4 + (i + 1) mod 12" by (auto simp: mod_Suc)
  moreover have "(if ?ck = 95 then 32 else ?ck + 1) = 32 + (i + 1) mod 64" by (auto simp: mod_Suc)
  ultimately have "preset_rows (i + 1) (4 + (i + 1) mod 12) (32 + (i + 1) mod 64) rows"
    using Cons.prems(1) by (simp only: preset_rows.simps(2)) 
  with Cons.IH [of "i + 1"] Cons.prems(2) line show ?case by (cases j) auto
qed simp

lemma length_session_presets:
  "length session_presets_0 = 130" "length session_presets_1 = 130"
  by (simp_all add: session_presets_0_def session_presets_1_def)

lemma count_presets: "ipmb_session_catalog_count = 260"
  by (simp add: ipmb_session_catalog_count_def ipmb_session_presets_def length_session_presets)

lemma session_presets_nth: "i < 260 \<Longrightarrow> ipmb_session_presets ! i = preset_line i"
  using preset_rows_nth [of 0 session_presets_0 i] preset_rows_nth [of 130 session_presets_1 "i - 130"]
    session_presets_0_rows session_presets_1_rows
  by (auto simp: ipmb_session_presets_def nth_append length_session_presets)

lemma preset_line_inject: "i < 260 \<Longrightarrow> j < 260 \<Longrightarrow> preset_line i = preset_line j \<Longrightarrow> i = j"
  by (rule padded_inject [of 3]) (auto simp: preset_line_def preset_row_def padded_def)

interpretation presets: wrapping_catalog ipmb_session_catalog_count ipmb_session_catalog_get preset_line
proof
  show "0 < ipmb_session_catalog_count" by (simp add: count_presets)
  show "ipmb_session_catalog_get i = preset_line (i mod ipmb_session_catalog_count)" for i
    by (simp add: ipmb_session_catalog_get_def count_presets session_presets_nth)
  show "i < ipmb_session_catalog_count \<Longrightarrow> j < ipmb_session_catalog_count \<Longrightarrow>
      preset_line i = preset_line j \<Longrightarrow> i = j" for i j
    by (simp add: count_presets preset_line_inject)
qed

section \<open>Properties\<close>

text \<open>The catalog of session presets. \<open>ipmb_session_catalog_get\<close> never leaves its table of
  260 rows: for every index it returns the text of line \<open>index mod 260\<close>, whose number, segment
  size and checkpoint interval follow the rule \<open>preset_line\<close>; two indices give the same preset
  exactly if they agree modulo the count, so that the rows are pairwise different.\<close>

theorem session_catalog_presets:
  "ipmb_session_catalog_count = 260 \<and>
   ipmb_session_catalog_get i = preset_line (i mod 260) \<and>
   (ipmb_session_catalog_get i = ipmb_session_catalog_get j \<longleftrightarrow> i mod 260 = j mod 260) \<and>
   card (range ipmb_session_catalog_get) = 260"
  using presets.get_line [of i] presets.get_eq_iff [of i j] presets.card_range_get
  by (simp add: count_presets)

end
