(* ===== verification/Protocol_Spec.thy ===== *)
theory Protocol_Spec
  imports Table_Names
begin

text \<open>
  The constant tables of the protocols: the definitions of \<^verbatim>\<open>src/protocol/protocol_catalog.c\<close>, which
  nothing reads, and the register windows of \<^verbatim>\<open>src/protocol/protocol_spec.c\<close>: 900 entries, written row by row as in
  the source (\<open>spec_row\<close> puts the number of a row into the description all rows share), the two
  functions that read them, and the rule the rows follow.
\<close>

section \<open>The table\<close>

record ipmb_protocol_spec_entry =
  spec_name :: string
  spec_code :: "16 word"
  spec_description :: string

definition spec_row :: "string \<Rightarrow> 16 word \<Rightarrow> string \<Rightarrow> ipmb_protocol_spec_entry" where
  "spec_row name code window =
     \<lparr>spec_name = name, spec_code = code,
      spec_description = ''modbus-compatible register window '' @ window @ '' with scaled telemetry''\<rparr>"

definition protocol_specs_0 :: "ipmb_protocol_spec_entry list" where
  "protocol_specs_0 = [
    spec_row ''REG_0000'' 0x0000 ''0000'',
    spec_row ''REG_0001'' 0x0001 ''0001'',
    spec_row ''REG_0002'' 0x0002 ''0002'',
    spec_row ''REG_0003'' 0x0003 ''0003'',
    spec_row ''REG_0004'' 0x0004 ''0004'',
    spec_row ''REG_0005'' 0x0005 ''0005'',
    spec_row ''REG_0006'' 0x0006 ''0006'',
    spec_row ''REG_0007'' 0x0007 ''0007'',
    spec_row ''REG_0008'' 0x0008 ''0008'',
    spec_row ''REG_0009'' 0x0009 ''0009'',
    spec_row ''REG_0010'' 0x000a ''0010'',
    spec_row ''REG_0011'' 0x000b ''0011'',
    spec_row ''REG_0012'' 0x000c ''0012'',
    spec_row ''REG_0013'' 0x000d ''0013'',
    spec_row ''REG_0014'' 0x000e ''0014'',
    spec_row ''REG_0015'' 0x000f ''0015'',
    spec_row ''REG_0016'' 0x0010 ''0016'',
    spec_row ''REG_0017'' 0x0011 ''0017'',
    spec_row ''REG_0018'' 0x0012 ''0018'',
    spec_row ''REG_0019'' 0x0013 ''0019'',
    spec_row ''REG_0020'' 0x0014 ''0020'',
    spec_row ''REG_0021'' 0x0015 ''0021'',
    spec_row ''REG_0022'' 0x0016 ''0022'',
    spec_row ''REG_0023'' 0x0017 ''0023'',
    spec_row ''REG_0024'' 0x0018 ''0024'',
    spec_row ''REG_0025'' 0x0019 ''0025'',
    spec_row ''REG_0026'' 0x001a ''0026'',
    spec_row ''REG_0027'' 0x001b ''0027'',
    spec_row ''REG_0028'' 0x001c ''0028'',
    spec_row ''REG_0029'' 0x001d ''0029'',
    spec_row ''REG_0030'' 0x001e ''0030'',
    spec_row ''REG_0031'' 0x001f ''0031'',
    spec_row ''REG_0032'' 0x0020 ''0032'',
    spec_row ''REG_0033'' 0x0021 ''0033'',
    spec_row ''REG_0034'' 0x0022 ''0034'',
    spec_row ''REG_0035'' 0x0023 ''0035'',
    spec_row ''REG_0036'' 0x0024 ''0036'',
    spec_row ''REG_0037'' 0x0025 ''0037'',
    spec_row ''REG_0038'' 0x0026 ''0038'',
    spec_row ''REG_0039'' 0x0027 ''0039'',
    spec_row ''REG_0040'' 0x0028 ''0040'',
    spec_row ''REG_0041'' 0x0029 ''0041'',
    spec_row ''REG_0042'' 0x002a ''0042'',
    spec_row ''REG_0043'' 0x002b ''0043'',
    spec_row ''REG_0044'' 0x002c ''0044'',
    spec_row ''REG_0045'' 0x002d ''0045'',
    spec_row ''REG_0046'' 0x002e ''0046'',
    spec_row ''REG_0047'' 0x002f ''0047'',
    spec_row ''REG_0048'' 0x0030 ''0048'',
    spec_row ''REG_0049'' 0x0031 ''0049'',
    spec_row ''REG_0050'' 0x0032 ''0050'',
    spec_row ''REG_0051'' 0x0033 ''0051'',
    spec_row ''REG_0052'' 0x0034 ''0052'',
    spec_row ''REG_0053'' 0x0035 ''0053'',
    spec_row ''REG_0054'' 0x0036 ''0054'',
    spec_row ''REG_0055'' 0x0037 ''0055'',
    spec_row ''REG_0056'' 0x0038 ''0056'',
    spec_row ''REG_0057'' 0x0039 ''0057'',
    spec_row ''REG_0058'' 0x003a ''0058'',
    spec_row ''REG_0059'' 0x003b ''0059'',
    spec_row ''REG_0060'' 0x003c ''0060'',
    spec_row ''REG_0061'' 0x003d ''0061'',
    spec_row ''REG_0062'' 0x003e ''0062'',
    spec_row ''REG_0063'' 0x003f ''0063'',
    spec_row ''REG_0064'' 0x0040 ''0064'',
    spec_row ''REG_0065'' 0x0041 ''0065'',
    spec_row ''REG_0066'' 0x0042 ''0066'',
    spec_row ''REG_0067'' 0x0043 ''0067'',
    spec_row ''REG_0068'' 0x0044 ''0068'',
    spec_row ''REG_0069'' 0x0045 ''0069'',
    spec_row ''REG_0070'' 0x0046 ''0070'',
    spec_row ''REG_0071'' 0x0047 ''0071'',
    spec_row ''REG_0072'' 0x0048 ''0072'',
    spec_row ''REG_0073'' 0x0049 ''0073'',
    spec_row ''REG_0074'' 0x004a ''0074'',
    spec_row ''REG_0075'' 0x004b ''0075'',
    spec_row ''REG_0076'' 0x004c ''0076'',
    spec_row ''REG_0077'' 0x004d ''0077'',
    spec_row ''REG_0078'' 0x004e ''0078'',
    spec_row ''REG_0079'' 0x004f ''0079'',
    spec_row ''REG_0080'' 0x0050 ''0080'',
    spec_row ''REG_0081'' 0x0051 ''0081'',
    spec_row ''REG_0082'' 0x0052 ''0082'',
    spec_row ''REG_0083'' 0x0053 ''0083'',
    spec_row ''REG_0084'' 0x0054 ''0084'',
    spec_row ''REG_0085'' 0x0055 ''0085'',
    spec_row ''REG_0086'' 0x0056 ''0086'',
    spec_row ''REG_0087'' 0x0057 ''0087'',
    spec_row ''REG_0088'' 0x0058 ''0088'',
    spec_row ''REG_0089'' 0x0059 ''0089'',
    spec_row ''REG_0090'' 0x005a ''0090'',
    spec_row ''REG_0091'' 0x005b ''0091'',
    spec_row ''REG_0092'' 0x005c ''0092'',
    spec_row ''REG_0093'' 0x005d ''0093'',
    spec_row ''REG_0094'' 0x005e ''0094'',
    spec_row ''REG_0095'' 0x005f ''0095'',
    spec_row ''REG_0096'' 0x0060 ''0096'',
    spec_row ''REG_0097'' 0x0061 ''0097'',
    spec_row ''REG_0098'' 0x0062 ''0098'',
    spec_row ''REG_0099'' 0x0063 ''0099'',
    spec_row ''REG_0100'' 0x0064 ''0100'',
    spec_row ''REG_0101'' 0x0065 ''0101'',
    spec_row ''REG_0102'' 0x0066 ''0102'',
    spec_row ''REG_0103'' 0x0067 ''0103'',
    spec_row ''REG_0104'' 0x0068 ''0104'',
    spec_row ''REG_0105'' 0x0069 ''0105'',
    spec_row ''REG_0106'' 0x006a ''0106'',
    spec_row ''REG_0107'' 0x006b ''0107'',
    spec_row ''REG_0108'' 0x006c ''0108'',
    spec_row ''REG_0109'' 0x006d ''0109'',
    spec_row ''REG_0110'' 0x006e ''0110'',
    spec_row ''REG_0111'' 0x006f ''0111'',
    spec_row ''REG_0112'' 0x0070 ''0112'',
    spec_row ''REG_0113'' 0x0071 ''0113'',
    spec_row ''REG_0114'' 0x0072 ''0114'',
    spec_row ''REG_0115'' 0x0073 ''0115'',
    spec_row ''REG_0116'' 0x0074 ''0116'',
    spec_row ''REG_0117'' 0x0075 ''0117'',
    spec_row ''REG_0118'' 0x0076 ''0118'',
    spec_row ''REG_0119'' 0x0077 ''0119'',
    spec_row ''REG_0120'' 0x0078 ''0120'',
    spec_row ''REG_0121'' 0x0079 ''0121'',
    spec_row ''REG_0122'' 0x007a ''0122'',
    spec_row ''REG_0123'' 0x007b ''0123'',
    spec_row ''REG_0124'' 0x007c ''0124'',
    spec_row ''REG_0125'' 0x007d ''0125'',
    spec_row ''REG_0126'' 0x007e ''0126'',
    spec_row ''REG_0127'' 0x007f ''0127'',
    spec_row ''REG_0128'' 0x0080 ''0128'',
    spec_row ''REG_0129'' 0x0081 ''0129'',
    spec_row ''REG_0130'' 0x0082 ''0130'',
    spec_row ''REG_0131'' 0x0083 ''0131'',
    spec_row ''REG_0132'' 0x0084 ''0132'',
    spec_row ''REG_0133'' 0x0085 ''0133'',
    spec_row ''REG_0134'' 0x0086 ''0134'',
    spec_row ''REG_0135'' 0x0087 ''0135'',
    spec_row ''REG_0136'' 0x0088 ''0136'',
    spec_row ''REG_0137'' 0x0089 ''0137'',
    spec_row ''REG_0138'' 0x008a ''0138'',
    spec_row ''REG_0139'' 0x008b ''0139'',
    spec_row ''REG_0140'' 0x008c ''0140'',
    spec_row ''REG_0141'' 0x008d ''0141'',
    spec_row ''REG_0142'' 0x008e ''0142'',
    spec_row ''REG_0143'' 0x008f ''0143'',
    spec_row ''REG_0144'' 0x0090 ''0144'',
    spec_row ''REG_0145'' 0x0091 ''0145'',
    spec_row ''REG_0146'' 0x0092 ''0146'',
    spec_row ''REG_0147'' 0x0093 ''0147'',
    spec_row ''REG_0148'' 0x0094 ''0148'',
    spec_row ''REG_0149'' 0x0095 ''0149'']"

definition protocol_specs_1 :: "ipmb_protocol_spec_entry list" where
  "protocol_specs_1 = [
    spec_row ''REG_0150'' 0x0096 ''0150'',
    spec_row ''REG_0151'' 0x0097 ''0151'',
    spec_row ''REG_0152'' 0x0098 ''0152'',
    spec_row ''REG_0153'' 0x0099 ''0153'',
    spec_row ''REG_0154'' 0x009a ''0154'',
    spec_row ''REG_0155'' 0x009b ''0155'',
    spec_row ''REG_0156'' 0x009c ''0156'',
    spec_row ''REG_0157'' 0x009d ''0157'',
    spec_row ''REG_0158'' 0x009e ''0158'',
    spec_row ''REG_0159'' 0x009f ''0159'',
    spec_row ''REG_0160'' 0x00a0 ''0160'',
    spec_row ''REG_0161'' 0x00a1 ''0161'',
    spec_row ''REG_0162'' 0x00a2 ''0162'',
    spec_row ''REG_0163'' 0x00a3 ''0163'',
    spec_row ''REG_0164'' 0x00a4 ''0164'',
    spec_row ''REG_0165'' 0x00a5 ''0165'',
    spec_row ''REG_0166'' 0x00a6 ''0166'',
    spec_row ''REG_0167'' 0x00a7 ''0167'',
    spec_row ''REG_0168'' 0x00a8 ''0168'',
    spec_row ''REG_0169'' 0x00a9 ''0169'',
    spec_row ''REG_0170'' 0x00aa ''0170'',
    spec_row ''REG_0171'' 0x00ab ''0171'',
    spec_row ''REG_0172'' 0x00ac ''0172'',
    spec_row ''REG_0173'' 0x00ad ''0173'',
    spec_row ''REG_0174'' 0x00ae ''0174'',
    spec_row ''REG_0175'' 0x00af ''0175'',
    spec_row ''REG_0176'' 0x00b0 ''0176'',
    spec_row ''REG_0177'' 0x00b1 ''0177'',
    spec_row ''REG_0178'' 0x00b2 ''0178'',
    spec_row ''REG_0179'' 0x00b3 ''0179'',
    spec_row ''REG_0180'' 0x00b4 ''0180'',
    spec_row ''REG_0181'' 0x00b5 ''0181'',
    spec_row ''REG_0182'' 0x00b6 ''0182'',
    spec_row ''REG_0183'' 0x00b7 ''0183'',
    spec_row ''REG_0184'' 0x00b8 ''0184'',
    spec_row ''REG_0185'' 0x00b9 ''0185'',
    spec_row ''REG_0186'' 0x00ba ''0186'',
    spec_row ''REG_0187'' 0x00bb ''0187'',
    spec_row ''REG_0188'' 0x00bc ''0188'',
    spec_row ''REG_0189'' 0x00bd ''0189'',
    spec_row ''REG_0190'' 0x00be ''0190'',
    spec_row ''REG_0191'' 0x00bf ''0191'',
    spec_row ''REG_0192'' 0x00c0 ''0192'',
    spec_row ''REG_0193'' 0x00c1 ''0193'',
    spec_row ''REG_0194'' 0x00c2 ''0194'',
    spec_row ''REG_0195'' 0x00c3 ''0195'',
    spec_row ''REG_0196'' 0x00c4 ''0196'',
    spec_row ''REG_0197'' 0x00c5 ''0197'',
    spec_row ''REG_0198'' 0x00c6 ''0198'',
    spec_row ''REG_0199'' 0x00c7 ''0199'',
    spec_row ''REG_0200'' 0x00c8 ''0200'',
    spec_row ''REG_0201'' 0x00c9 ''0201'',
    spec_row ''REG_0202'' 0x00ca ''0202'',
    spec_row ''REG_0203'' 0x00cb ''0203'',
    spec_row ''REG_0204'' 0x00cc ''0204'',
    spec_row ''REG_0205'' 0x00cd ''0205'',
    spec_row ''REG_0206'' 0x00ce ''0206'',
    spec_row ''REG_0207'' 0x00cf ''0207'',
    spec_row ''REG_0208'' 0x00d0 ''0208'',
    spec_row ''REG_0209'' 0x00d1 ''0209'',
    spec_row ''REG_0210'' 0x00d2 ''0210'',
    spec_row ''REG_0211'' 0x00d3 ''0211'',
    spec_row ''REG_0212'' 0x00d4 ''0212'',
    spec_row ''REG_0213'' 0x00d5 ''0213'',
    spec_row ''REG_0214'' 0x00d6 ''0214'',
    spec_row ''REG_0215'' 0x00d7 ''0215'',
    spec_row ''REG_0216'' 0x00d8 ''0216'',
    spec_row ''REG_0217'' 0x00d9 ''0217'',
    spec_row ''REG_0218'' 0x00da ''0218'',
    spec_row ''REG_0219'' 0x00db ''0219'',
    spec_row ''REG_0220'' 0x00dc ''0220'',
    spec_row ''REG_0221'' 0x00dd ''0221'',
    spec_row ''REG_0222'' 0x00de ''0222'',
    spec_row ''REG_0223'' 0x00df ''0223'',
    spec_row ''REG_0224'' 0x00e0 ''0224'',
    spec_row ''REG_0225'' 0x00e1 ''0225'',
    spec_row ''REG_0226'' 0x00e2 ''0226'',
    spec_row ''REG_0227'' 0x00e3 ''0227'',
    spec_row ''REG_0228'' 0x00e4 ''0228'',
    spec_row ''REG_0229'' 0x00e5 ''0229'',
    spec_row ''REG_0230'' 0x00e6 ''0230'',
    spec_row ''REG_0231'' 0x00e7 ''0231'',
    spec_row ''REG_0232'' 0x00e8 ''0232'',
    spec_row ''REG_0233'' 0x00e9 ''0233'',
    spec_row ''REG_0234'' 0x00ea ''0234'',
    spec_row ''REG_0235'' 0x00eb ''0235'',
    spec_row ''REG_0236'' 0x00ec ''0236'',
    spec_row ''REG_0237'' 0x00ed ''0237'',
    spec_row ''REG_0238'' 0x00ee ''0238'',
    spec_row ''REG_0239'' 0x00ef ''0239'',
    spec_row ''REG_0240'' 0x00f0 ''0240'',
    spec_row ''REG_0241'' 0x00f1 ''0241'',
    spec_row ''REG_0242'' 0x00f2 ''0242'',
    spec_row ''REG_0243'' 0x00f3 ''0243'',
    spec_row ''REG_0244'' 0x00f4 ''0244'',
    spec_row ''REG_0245'' 0x00f5 ''0245'',
    spec_row ''REG_0246'' 0x00f6 ''0246'',
    spec_row ''REG_0247'' 0x00f7 ''0247'',
    spec_row ''REG_0248'' 0x00f8 ''0248'',
    spec_row ''REG_0249'' 0x00f9 ''0249'',
    spec_row ''REG_0250'' 0x00fa ''0250'',
    spec_row ''REG_0251'' 0x00fb ''0251'',
    spec_row ''REG_0252'' 0x00fc ''0252'',
    spec_row ''REG_0253'' 0x00fd ''0253'',
    spec_row ''REG_0254'' 0x00fe ''0254'',
    spec_row ''REG_0255'' 0x00ff ''0255'',
    spec_row ''REG_0256'' 0x0100 ''0256'',
    spec_row ''REG_0257'' 0x0101 ''0257'',
    spec_row ''REG_0258'' 0x0102 ''0258'',
    spec_row ''REG_0259'' 0x0103 ''0259'',
    spec_row ''REG_0260'' 0x0104 ''0260'',
    spec_row ''REG_0261'' 0x0105 ''0261'',
    spec_row ''REG_0262'' 0x0106 ''0262'',
    spec_row ''REG_0263'' 0x0107 ''0263'',
    spec_row ''REG_0264'' 0x0108 ''0264'',
    spec_row ''REG_0265'' 0x0109 ''0265'',
    spec_row ''REG_0266'' 0x010a ''0266'',
    spec_row ''REG_0267'' 0x010b ''0267'',
    spec_row ''REG_0268'' 0x010c ''0268'',
    spec_row ''REG_0269'' 0x010d ''0269'',
    spec_row ''REG_0270'' 0x010e ''0270'',
    spec_row ''REG_0271'' 0x010f ''0271'',
    spec_row ''REG_0272'' 0x0110 ''0272'',
    spec_row ''REG_0273'' 0x0111 ''0273'',
    spec_row ''REG_0274'' 0x0112 ''0274'',
    spec_row ''REG_0275'' 0x0113 ''0275'',
    spec_row ''REG_0276'' 0x0114 ''0276'',
    spec_row ''REG_0277'' 0x0115 ''0277'',
    spec_row ''REG_0278'' 0x0116 ''0278'',
    spec_row ''REG_0279'' 0x0117 ''0279'',
    spec_row ''REG_0280'' 0x0118 ''0280'',
    spec_row ''REG_0281'' 0x0119 ''0281'',
    spec_row ''REG_0282'' 0x011a ''0282'',
    spec_row ''REG_0283'' 0x011b ''0283'',
    spec_row ''REG_0284'' 0x011c ''0284'',
    spec_row ''REG_0285'' 0x011d ''0285'',
    spec_row ''REG_0286'' 0x011e ''0286'',
    spec_row ''REG_0287'' 0x011f ''0287'',
    spec_row ''REG_0288'' 0x0120 ''0288'',
    spec_row ''REG_0289'' 0x0121 ''0289'',
    spec_row ''REG_0290'' 0x0122 ''0290'',
    spec_row ''REG_0291'' 0x0123 ''0291'',
    spec_row ''REG_0292'' 0x0124 ''0292'',
    spec_row ''REG_0293'' 0x0125 ''0293'',
    spec_row ''REG_0294'' 0x0126 ''0294'',
    spec_row ''REG_0295'' 0x0127 ''0295'',
    spec_row ''REG_0296'' 0x0128 ''0296'',
    spec_row ''REG_0297'' 0x0129 ''0297'',
    spec_row ''REG_0298'' 0x012a ''0298'',
    spec_row ''REG_0299'' 0x012b ''0299'']"

definition protocol_specs_2 :: "ipmb_protocol_spec_entry list" where
  "protocol_specs_2 = [
    spec_row ''REG_0300'' 0x012c ''0300'',
    spec_row ''REG_0301'' 0x012d ''0301'',
    spec_row ''REG_0302'' 0x012e ''0302'',
    spec_row ''REG_0303'' 0x012f ''0303'',
    spec_row ''REG_0304'' 0x0130 ''0304'',
    spec_row ''REG_0305'' 0x0131 ''0305'',
    spec_row ''REG_0306'' 0x0132 ''0306'',
    spec_row ''REG_0307'' 0x0133 ''0307'',
    spec_row ''REG_0308'' 0x0134 ''0308'',
    spec_row ''REG_0309'' 0x0135 ''0309'',
    spec_row ''REG_0310'' 0x0136 ''0310'',
    spec_row ''REG_0311'' 0x0137 ''0311'',
    spec_row ''REG_0312'' 0x0138 ''0312'',
    spec_row ''REG_0313'' 0x0139 ''0313'',
    spec_row ''REG_0314'' 0x013a ''0314'',
    spec_row ''REG_0315'' 0x013b ''0315'',
    spec_row ''REG_0316'' 0x013c ''0316'',
    spec_row ''REG_0317'' 0x013d ''0317'',
    spec_row ''REG_0318'' 0x013e ''0318'',
    spec_row ''REG_0319'' 0x013f ''0319'',
    spec_row ''REG_0320'' 0x0140 ''0320'',
    spec_row ''REG_0321'' 0x0141 ''0321'',
    spec_row ''REG_0322'' 0x0142 ''0322'',
    spec_row ''REG_0323'' 0x0143 ''0323'',
    spec_row ''REG_0324'' 0x0144 ''0324'',
    spec_row ''REG_0325'' 0x0145 ''0325'',
    spec_row ''REG_0326'' 0x0146 ''0326'',
    spec_row ''REG_0327'' 0x0147 ''0327'',
    spec_row ''REG_0328'' 0x0148 ''0328'',
    spec_row ''REG_0329'' 0x0149 ''0329'',
    spec_row ''REG_0330'' 0x014a ''0330'',
    spec_row ''REG_0331'' 0x014b ''0331'',
    spec_row ''REG_0332'' 0x014c ''0332'',
    spec_row ''REG_0333'' 0x014d ''0333'',
    spec_row ''REG_0334'' 0x014e ''0334'',
    spec_row ''REG_0335'' 0x014f ''0335'',
    spec_row ''REG_0336'' 0x0150 ''0336'',
    spec_row ''REG_0337'' 0x0151 ''0337'',
    spec_row ''REG_0338'' 0x0152 ''0338'',
    spec_row ''REG_0339'' 0x0153 ''0339'',
    spec_row ''REG_0340'' 0x0154 ''0340'',
    spec_row ''REG_0341'' 0x0155 ''0341'',
    spec_row ''REG_0342'' 0x0156 ''0342'',
    spec_row ''REG_0343'' 0x0157 ''0343'',
    spec_row ''REG_0344'' 0x0158 ''0344'',
    spec_row ''REG_0345'' 0x0159 ''0345'',
    spec_row ''REG_0346'' 0x015a ''0346'',
    spec_row ''REG_0347'' 0x015b ''0347'',
    spec_row ''REG_0348'' 0x015c ''0348'',
    spec_row ''REG_0349'' 0x015d ''0349'',
    spec_row ''REG_0350'' 0x015e ''0350'',
    spec_row ''REG_0351'' 0x015f ''0351'',
    spec_row ''REG_0352'' 0x0160 ''0352'',
    spec_row ''REG_0353'' 0x0161 ''0353'',
    spec_row ''REG_0354'' 0x0162 ''0354'',
    spec_row ''REG_0355'' 0x0163 ''0355'',
    spec_row ''REG_0356'' 0x0164 ''0356'',
    spec_row ''REG_0357'' 0x0165 ''0357'',
    spec_row ''REG_0358'' 0x0166 ''0358'',
    spec_row ''REG_0359'' 0x0167 ''0359'',
    spec_row ''REG_0360'' 0x0168 ''0360'',
    spec_row ''REG_0361'' 0x0169 ''0361'',
    spec_row ''REG_0362'' 0x016a ''0362'',
    spec_row ''REG_0363'' 0x016b ''0363'',
    spec_row ''REG_0364'' 0x016c ''0364'',
    spec_row ''REG_0365'' 0x016d ''0365'',
    spec_row ''REG_0366'' 0x016e ''0366'',
    spec_row ''REG_0367'' 0x016f ''0367'',
    spec_row ''REG_0368'' 0x0170 ''0368'',
    spec_row ''REG_0369'' 0x0171 ''0369'',
    spec_row ''REG_0370'' 0x0172 ''0370'',
    spec_row ''REG_0371'' 0x0173 ''0371'',
    spec_row ''REG_0372'' 0x0174 ''0372'',
    spec_row ''REG_0373'' 0x0175 ''0373'',
    spec_row ''REG_0374'' 0x0176 ''0374'',
    spec_row ''REG_0375'' 0x0177 ''0375'',
    spec_row ''REG_0376'' 0x0178 ''0376'',
    spec_row ''REG_0377'' 0x0179 ''0377'',
    spec_row ''REG_0378'' 0x017a ''0378'',
    spec_row ''REG_0379'' 0x017b ''0379'',
    spec_row ''REG_0380'' 0x017c ''0380'',
    spec_row ''REG_0381'' 0x017d ''0381'',
    spec_row ''REG_0382'' 0x017e ''0382'',
    spec_row ''REG_0383'' 0x017f ''0383'',
    spec_row ''REG_0384'' 0x0180 ''0384'',
    spec_row ''REG_0385'' 0x0181 ''0385'',
    spec_row ''REG_0386'' 0x0182 ''0386'',
    spec_row ''REG_0387'' 0x0183 ''0387'',
    spec_row ''REG_0388'' 0x0184 ''0388'',
    spec_row ''REG_0389'' 0x0185 ''0389'',
    spec_row ''REG_0390'' 0x0186 ''0390'',
    spec_row ''REG_0391'' 0x0187 ''0391'',
    spec_row ''REG_0392'' 0x0188 ''0392'',
    spec_row ''REG_0393'' 0x0189 ''0393'',
    spec_row ''REG_0394'' 0x018a ''0394'',
    spec_row ''REG_0395'' 0x018b ''0395'',
    spec_row ''REG_0396'' 0x018c ''0396'',
    spec_row ''REG_0397'' 0x018d ''0397'',
    spec_row ''REG_0398'' 0x018e ''0398'',
    spec_row ''REG_0399'' 0x018f ''0399'',
    spec_row ''REG_0400'' 0x0190 ''0400'',
    spec_row ''REG_0401'' 0x0191 ''0401'',
    spec_row ''REG_0402'' 0x0192 ''0402'',
    spec_row ''REG_0403'' 0x0193 ''0403'',
    spec_row ''REG_0404'' 0x0194 ''0404'',
    spec_row ''REG_0405'' 0x0195 ''0405'',
    spec_row ''REG_0406'' 0x0196 ''0406'',
    spec_row ''REG_0407'' 0x0197 ''0407'',
    spec_row ''REG_0408'' 0x0198 ''0408'',
    spec_row ''REG_0409'' 0x0199 ''0409'',
    spec_row ''REG_0410'' 0x019a ''0410'',
    spec_row ''REG_0411'' 0x019b ''0411'',
    spec_row ''REG_0412'' 0x019c ''0412'',
    spec_row ''REG_0413'' 0x019d ''0413'',
    spec_row ''REG_0414'' 0x019e ''0414'',
    spec_row ''REG_0415'' 0x019f ''0415'',
    spec_row ''REG_0416'' 0x01a0 ''0416'',
    spec_row ''REG_0417'' 0x01a1 ''0417'',
    spec_row ''REG_0418'' 0x01a2 ''0418'',
    spec_row ''REG_0419'' 0x01a3 ''0419'',
    spec_row ''REG_0420'' 0x01a4 ''0420'',
    spec_row ''REG_0421'' 0x01a5 ''0421'',
    spec_row ''REG_0422'' 0x01a6 ''0422'',
    spec_row ''REG_0423'' 0x01a7 ''0423'',
    spec_row ''REG_0424'' 0x01a8 ''0424'',
    spec_row ''REG_0425'' 0x01a9 ''0425'',
    spec_row ''REG_0426'' 0x01aa ''0426'',
    spec_row ''REG_0427'' 0x01ab ''0427'',
    spec_row ''REG_0428'' 0x01ac ''0428'',
    spec_row ''REG_0429'' 0x01ad ''0429'',
    spec_row ''REG_0430'' 0x01ae ''0430'',
    spec_row ''REG_0431'' 0x01af ''0431'',
    spec_row ''REG_0432'' 0x01b0 ''0432'',
    spec_row ''REG_0433'' 0x01b1 ''0433'',
    spec_row ''REG_0434'' 0x01b2 ''0434'',
    spec_row ''REG_0435'' 0x01b3 ''0435'',
    spec_row ''REG_0436'' 0x01b4 ''0436'',
    spec_row ''REG_0437'' 0x01b5 ''0437'',
    spec_row ''REG_0438'' 0x01b6 ''0438'',
    spec_row ''REG_0439'' 0x01b7 ''0439'',
    spec_row ''REG_0440'' 0x01b8 ''0440'',
    spec_row ''REG_0441'' 0x01b9 ''0441'',
    spec_row ''REG_0442'' 0x01ba ''0442'',
    spec_row ''REG_0443'' 0x01bb ''0443'',
    spec_row ''REG_0444'' 0x01bc ''0444'',
    spec_row ''REG_0445'' 0x01bd ''0445'',
    spec_row ''REG_0446'' 0x01be ''0446'',
    spec_row ''REG_0447'' 0x01bf ''0447'',
    spec_row ''REG_0448'' 0x01c0 ''0448'',
    spec_row ''REG_0449'' 0x01c1 ''0449'']"

definition protocol_specs_3 :: "ipmb_protocol_spec_entry list" where
  "protocol_specs_3 = [
    spec_row ''REG_0450'' 0x01c2 ''0450'',
    spec_row ''REG_0451'' 0x01c3 ''0451'',
    spec_row ''REG_0452'' 0x01c4 ''0452'',
    spec_row ''REG_0453'' 0x01c5 ''0453'',
    spec_row ''REG_0454'' 0x01c6 ''0454'',
    spec_row ''REG_0455'' 0x01c7 ''0455'',
    spec_row ''REG_0456'' 0x01c8 ''0456'',
    spec_row ''REG_0457'' 0x01c9 ''0457'',
    spec_row ''REG_0458'' 0x01ca ''0458'',
    spec_row ''REG_0459'' 0x01cb ''0459'',
    spec_row ''REG_0460'' 0x01cc ''0460'',
    spec_row ''REG_0461'' 0x01cd ''0461'',
    spec_row ''REG_0462'' 0x01ce ''0462'',
    spec_row ''REG_0463'' 0x01cf ''0463'',
    spec_row ''REG_0464'' 0x01d0 ''0464'',
    spec_row ''REG_0465'' 0x01d1 ''0465'',
    spec_row ''REG_0466'' 0x01d2 ''0466'',
    spec_row ''REG_0467'' 0x01d3 ''0467'',
    spec_row ''REG_0468'' 0x01d4 ''0468'',
    spec_row ''REG_0469'' 0x01d5 ''0469'',
    spec_row ''REG_0470'' 0x01d6 ''0470'',
    spec_row ''REG_0471'' 0x01d7 ''0471'',
    spec_row ''REG_0472'' 0x01d8 ''0472'',
    spec_row ''REG_0473'' 0x01d9 ''0473'',
    spec_row ''REG_0474'' 0x01da ''0474'',
    spec_row ''REG_0475'' 0x01db ''0475'',
    spec_row ''REG_0476'' 0x01dc ''0476'',
    spec_row ''REG_0477'' 0x01dd ''0477'',
    spec_row ''REG_0478'' 0x01de ''0478'',
    spec_row ''REG_0479'' 0x01df ''0479'',
    spec_row ''REG_0480'' 0x01e0 ''0480'',
    spec_row ''REG_0481'' 0x01e1 ''0481'',
    spec_row ''REG_0482'' 0x01e2 ''0482'',
    spec_row ''REG_0483'' 0x01e3 ''0483'',
    spec_row ''REG_0484'' 0x01e4 ''0484'',
    spec_row ''REG_0485'' 0x01e5 ''0485'',
    spec_row ''REG_0486'' 0x01e6 ''0486'',
    spec_row ''REG_0487'' 0x01e7 ''0487'',
    spec_row ''REG_0488'' 0x01e8 ''0488'',
    spec_row ''REG_0489'' 0x01e9 ''0489'',
    spec_row ''REG_0490'' 0x01ea ''0490'',
    spec_row ''REG_0491'' 0x01eb ''0491'',
    spec_row ''REG_0492'' 0x01ec ''0492'',
    spec_row ''REG_0493'' 0x01ed ''0493'',
    spec_row ''REG_0494'' 0x01ee ''0494'',
    spec_row ''REG_0495'' 0x01ef ''0495'',
    spec_row ''REG_0496'' 0x01f0 ''0496'',
    spec_row ''REG_0497'' 0x01f1 ''0497'',
    spec_row ''REG_0498'' 0x01f2 ''0498'',
    spec_row ''REG_0499'' 0x01f3 ''0499'',
    spec_row ''REG_0500'' 0x01f4 ''0500'',
    spec_row ''REG_0501'' 0x01f5 ''0501'',
    spec_row ''REG_0502'' 0x01f6 ''0502'',
    spec_row ''REG_0503'' 0x01f7 ''0503'',
    spec_row ''REG_0504'' 0x01f8 ''0504'',
    spec_row ''REG_0505'' 0x01f9 ''0505'',
    spec_row ''REG_0506'' 0x01fa ''0506'',
    spec_row ''REG_0507'' 0x01fb ''0507'',
    spec_row ''REG_0508'' 0x01fc ''0508'',
    spec_row ''REG_0509'' 0x01fd ''0509'',
    spec_row ''REG_0510'' 0x01fe ''0510'',
    spec_row ''REG_0511'' 0x01ff ''0511'',
    spec_row ''REG_0512'' 0x0200 ''0512'',
    spec_row ''REG_0513'' 0x0201 ''0513'',
    spec_row ''REG_0514'' 0x0202 ''0514'',
    spec_row ''REG_0515'' 0x0203 ''0515'',
    spec_row ''REG_0516'' 0x0204 ''0516'',
    spec_row ''REG_0517'' 0x0205 ''0517'',
    spec_row ''REG_0518'' 0x0206 ''0518'',
    spec_row ''REG_0519'' 0x0207 ''0519'',
    spec_row ''REG_0520'' 0x0208 ''0520'',
    spec_row ''REG_0521'' 0x0209 ''0521'',
    spec_row ''REG_0522'' 0x020a ''0522'',
    spec_row ''REG_0523'' 0x020b ''0523'',
    spec_row ''REG_0524'' 0x020c ''0524'',
    spec_row ''REG_0525'' 0x020d ''0525'',
    spec_row ''REG_0526'' 0x020e ''0526'',
    spec_row ''REG_0527'' 0x020f ''0527'',
    spec_row ''REG_0528'' 0x0210 ''0528'',
    spec_row ''REG_0529'' 0x0211 ''0529'',
    spec_row ''REG_0530'' 0x0212 ''0530'',
    spec_row ''REG_0531'' 0x0213 ''0531'',
    spec_row ''REG_0532'' 0x0214 ''0532'',
    spec_row ''REG_0533'' 0x0215 ''0533'',
    spec_row ''REG_0534'' 0x0216 ''0534'',
    spec_row ''REG_0535'' 0x0217 ''0535'',
    spec_row ''REG_0536'' 0x0218 ''0536'',
    spec_row ''REG_0537'' 0x0219 ''0537'',
    spec_row ''REG_0538'' 0x021a ''0538'',
    spec_row ''REG_0539'' 0x021b ''0539'',
    spec_row ''REG_0540'' 0x021c ''0540'',
    spec_row ''REG_0541'' 0x021d ''0541'',
    spec_row ''REG_0542'' 0x021e ''0542'',
    spec_row ''REG_0543'' 0x021f ''0543'',
    spec_row ''REG_0544'' 0x0220 ''0544'',
    spec_row ''REG_0545'' 0x0221 ''0545'',
    spec_row ''REG_0546'' 0x0222 ''0546'',
    spec_row ''REG_0547'' 0x0223 ''0547'',
    spec_row ''REG_0548'' 0x0224 ''0548'',
    spec_row ''REG_0549'' 0x0225 ''0549'',
    spec_row ''REG_0550'' 0x0226 ''0550'',
    spec_row ''REG_0551'' 0x0227 ''0551'',
    spec_row ''REG_0552'' 0x0228 ''0552'',
    spec_row ''REG_0553'' 0x0229 ''0553'',
    spec_row ''REG_0554'' 0x022a ''0554'',
    spec_row ''REG_0555'' 0x022b ''0555'',
    spec_row ''REG_0556'' 0x022c ''0556'',
    spec_row ''REG_0557'' 0x022d ''0557'',
    spec_row ''REG_0558'' 0x022e ''0558'',
    spec_row ''REG_0559'' 0x022f ''0559'',
    spec_row ''REG_0560'' 0x0230 ''0560'',
    spec_row ''REG_0561'' 0x0231 ''0561'',
    spec_row ''REG_0562'' 0x0232 ''0562'',
    spec_row ''REG_0563'' 0x0233 ''0563'',
    spec_row ''REG_0564'' 0x0234 ''0564'',
    spec_row ''REG_0565'' 0x0235 ''0565'',
    spec_row ''REG_0566'' 0x0236 ''0566'',
    spec_row ''REG_0567'' 0x0237 ''0567'',
    spec_row ''REG_0568'' 0x0238 ''0568'',
    spec_row ''REG_0569'' 0x0239 ''0569'',
    spec_row ''REG_0570'' 0x023a ''0570'',
    spec_row ''REG_0571'' 0x023b ''0571'',
    spec_row ''REG_0572'' 0x023c ''0572'',
    spec_row ''REG_0573'' 0x023d ''0573'',
    spec_row ''REG_0574'' 0x023e ''0574'',
    spec_row ''REG_0575'' 0x023f ''0575'',
    spec_row ''REG_0576'' 0x0240 ''0576'',
    spec_row ''REG_0577'' 0x0241 ''0577'',
    spec_row ''REG_0578'' 0x0242 ''0578'',
    spec_row ''REG_0579'' 0x0243 ''0579'',
    spec_row ''REG_0580'' 0x0244 ''0580'',
    spec_row ''REG_0581'' 0x0245 ''0581'',
    spec_row ''REG_0582'' 0x0246 ''0582'',
    spec_row ''REG_0583'' 0x0247 ''0583'',
    spec_row ''REG_0584'' 0x0248 ''0584'',
    spec_row ''REG_0585'' 0x0249 ''0585'',
    spec_row ''REG_0586'' 0x024a ''0586'',
    spec_row ''REG_0587'' 0x024b ''0587'',
    spec_row ''REG_0588'' 0x024c ''0588'',
    spec_row ''REG_0589'' 0x024d ''0589'',
    spec_row ''REG_0590'' 0x024e ''0590'',
    spec_row ''REG_0591'' 0x024f ''0591'',
    spec_row ''REG_0592'' 0x0250 ''0592'',
    spec_row ''REG_0593'' 0x0251 ''0593'',
    spec_row ''REG_0594'' 0x0252 ''0594'',
    spec_row ''REG_0595'' 0x0253 ''0595'',
    spec_row ''REG_0596'' 0x0254 ''0596'',
    spec_row ''REG_0597'' 0x0255 ''0597'',
    spec_row ''REG_0598'' 0x0256 ''0598'',
    spec_row ''REG_0599'' 0x0257 ''0599'']"

definition protocol_specs_4 :: "ipmb_protocol_spec_entry list" where
  "protocol_specs_4 = [
    spec_row ''REG_0600'' 0x0258 ''0600'',
    spec_row ''REG_0601'' 0x0259 ''0601'',
    spec_row ''REG_0602'' 0x025a ''0602'',
    spec_row ''REG_0603'' 0x025b ''0603'',
    spec_row ''REG_0604'' 0x025c ''0604'',
    spec_row ''REG_0605'' 0x025d ''0605'',
    spec_row ''REG_0606'' 0x025e ''0606'',
    spec_row ''REG_0607'' 0x025f ''0607'',
    spec_row ''REG_0608'' 0x0260 ''0608'',
    spec_row ''REG_0609'' 0x0261 ''0609'',
    spec_row ''REG_0610'' 0x0262 ''0610'',
    spec_row ''REG_0611'' 0x0263 ''0611'',
    spec_row ''REG_0612'' 0x0264 ''0612'',
    spec_row ''REG_0613'' 0x0265 ''0613'',
    spec_row ''REG_0614'' 0x0266 ''0614'',
    spec_row ''REG_0615'' 0x0267 ''0615'',
    spec_row ''REG_0616'' 0x0268 ''0616'',
    spec_row ''REG_0617'' 0x0269 ''0617'',
    spec_row ''REG_0618'' 0x026a ''0618'',
    spec_row ''REG_0619'' 0x026b ''0619'',
    spec_row ''REG_0620'' 0x026c ''0620'',
    spec_row ''REG_0621'' 0x026d ''0621'',
    spec_row ''REG_0622'' 0x026e ''0622'',
    spec_row ''REG_0623'' 0x026f ''0623'',
    spec_row ''REG_0624'' 0x0270 ''0624'',
    spec_row ''REG_0625'' 0x0271 ''0625'',
    spec_row ''REG_0626'' 0x0272 ''0626'',
    spec_row ''REG_0627'' 0x0273 ''0627'',
    spec_row ''REG_0628'' 0x0274 ''0628'',
    spec_row ''REG_0629'' 0x0275 ''0629'',
    spec_row ''REG_0630'' 0x0276 ''0630'',
    spec_row ''REG_0631'' 0x0277 ''0631'',
    spec_row ''REG_0632'' 0x0278 ''0632'',
    spec_row ''REG_0633'' 0x0279 ''0633'',
    spec_row ''REG_0634'' 0x027a ''0634'',
    spec_row ''REG_0635'' 0x027b ''0635'',
    spec_row ''REG_0636'' 0x027c ''0636'',
    spec_row ''REG_0637'' 0x027d ''0637'',
    spec_row ''REG_0638'' 0x027e ''0638'',
    spec_row ''REG_0639'' 0x027f ''0639'',
    spec_row ''REG_0640'' 0x0280 ''0640'',
    spec_row ''REG_0641'' 0x0281 ''0641'',
    spec_row ''REG_0642'' 0x0282 ''0642'',
    spec_row ''REG_0643'' 0x0283 ''0643'',
    spec_row ''REG_0644'' 0x0284 ''0644'',
    spec_row ''REG_0645'' 0x0285 ''0645'',
    spec_row ''REG_0646'' 0x0286 ''0646'',
    spec_row ''REG_0647'' 0x0287 ''0647'',
    spec_row ''REG_0648'' 0x0288 ''0648'',
    spec_row ''REG_0649'' 0x0289 ''0649'',
    spec_row ''REG_0650'' 0x028a ''0650'',
    spec_row ''REG_0651'' 0x028b ''0651'',
    spec_row ''REG_0652'' 0x028c ''0652'',
    spec_row ''REG_0653'' 0x028d ''0653'',
    spec_row ''REG_0654'' 0x028e ''0654'',
    spec_row ''REG_0655'' 0x028f ''0655'',
    spec_row ''REG_0656'' 0x0290 ''0656'',
    spec_row ''REG_0657'' 0x0291 ''0657'',
    spec_row ''REG_0658'' 0x0292 ''0658'',
    spec_row ''REG_0659'' 0x0293 ''0659'',
    spec_row ''REG_0660'' 0x0294 ''0660'',
    spec_row ''REG_0661'' 0x0295 ''0661'',
    spec_row ''REG_0662'' 0x0296 ''0662'',
    spec_row ''REG_0663'' 0x0297 ''0663'',
    spec_row ''REG_0664'' 0x0298 ''0664'',
    spec_row ''REG_0665'' 0x0299 ''0665'',
    spec_row ''REG_0666'' 0x029a ''0666'',
    spec_row ''REG_0667'' 0x029b ''0667'',
    spec_row ''REG_0668'' 0x029c ''0668'',
    spec_row ''REG_0669'' 0x029d ''0669'',
    spec_row ''REG_0670'' 0x029e ''0670'',
    spec_row ''REG_0671'' 0x029f ''0671'',
    spec_row ''REG_0672'' 0x02a0 ''0672'',
    spec_row ''REG_0673'' 0x02a1 ''0673'',
    spec_row ''REG_0674'' 0x02a2 ''0674'',
    spec_row ''REG_0675'' 0x02a3 ''0675'',
    spec_row ''REG_0676'' 0x02a4 ''0676'',
    spec_row ''REG_0677'' 0x02a5 ''0677'',
    spec_row ''REG_0678'' 0x02a6 ''0678'',
    spec_row ''REG_0679'' 0x02a7 ''0679'',
    spec_row ''REG_0680'' 0x02a8 ''0680'',
    spec_row ''REG_0681'' 0x02a9 ''0681'',
    spec_row ''REG_0682'' 0x02aa ''0682'',
    spec_row ''REG_0683'' 0x02ab ''0683'',
    spec_row ''REG_0684'' 0x02ac ''0684'',
    spec_row ''REG_0685'' 0x02ad ''0685'',
    spec_row ''REG_0686'' 0x02ae ''0686'',
    spec_row ''REG_0687'' 0x02af ''0687'',
    spec_row ''REG_0688'' 0x02b0 ''0688'',
    spec_row ''REG_0689'' 0x02b1 ''0689'',
    spec_row ''REG_0690'' 0x02b2 ''0690'',
    spec_row ''REG_0691'' 0x02b3 ''0691'',
    spec_row ''REG_0692'' 0x02b4 ''0692'',
    spec_row ''REG_0693'' 0x02b5 ''0693'',
    spec_row ''REG_0694'' 0x02b6 ''0694'',
    spec_row ''REG_0695'' 0x02b7 ''0695'',
    spec_row ''REG_0696'' 0x02b8 ''0696'',
    spec_row ''REG_0697'' 0x02b9 ''0697'',
    spec_row ''REG_0698'' 0x02ba ''0698'',
    spec_row ''REG_0699'' 0x02bb ''0699'',
    spec_row ''REG_0700'' 0x02bc ''0700'',
    spec_row ''REG_0701'' 0x02bd ''0701'',
    spec_row ''REG_0702'' 0x02be ''0702'',
    spec_row ''REG_0703'' 0x02bf ''0703'',
    spec_row ''REG_0704'' 0x02c0 ''0704'',
    spec_row ''REG_0705'' 0x02c1 ''0705'',
    spec_row ''REG_0706'' 0x02c2 ''0706'',
    spec_row ''REG_0707'' 0x02c3 ''0707'',
    spec_row ''REG_0708'' 0x02c4 ''0708'',
    spec_row ''REG_0709'' 0x02c5 ''0709'',
    spec_row ''REG_0710'' 0x02c6 ''0710'',
    spec_row ''REG_0711'' 0x02c7 ''0711'',
    spec_row ''REG_0712'' 0x02c8 ''0712'',
    spec_row ''REG_0713'' 0x02c9 ''0713'',
    spec_row ''REG_0714'' 0x02ca ''0714'',
    spec_row ''REG_0715'' 0x02cb ''0715'',
    spec_row ''REG_0716'' 0x02cc ''0716'',
    spec_row ''REG_0717'' 0x02cd ''0717'',
    spec_row ''REG_0718'' 0x02ce ''0718'',
    spec_row ''REG_0719'' 0x02cf ''0719'',
    spec_row ''REG_0720'' 0x02d0 ''0720'',
    spec_row ''REG_0721'' 0x02d1 ''0721'',
    spec_row ''REG_0722'' 0x02d2 ''0722'',
    spec_row ''REG_0723'' 0x02d3 ''0723'',
    spec_row ''REG_0724'' 0x02d4 ''0724'',
    spec_row ''REG_0725'' 0x02d5 ''0725'',
    spec_row ''REG_0726'' 0x02d6 ''0726'',
    spec_row ''REG_0727'' 0x02d7 ''0727'',
    spec_row ''REG_0728'' 0x02d8 ''0728'',
    spec_row ''REG_0729'' 0x02d9 ''0729'',
    spec_row ''REG_0730'' 0x02da ''0730'',
    spec_row ''REG_0731'' 0x02db ''0731'',
    spec_row ''REG_0732'' 0x02dc ''0732'',
    spec_row ''REG_0733'' 0x02dd ''0733'',
    spec_row ''REG_0734'' 0x02de ''0734'',
    spec_row ''REG_0735'' 0x02df ''0735'',
    spec_row ''REG_0736'' 0x02e0 ''0736'',
    spec_row ''REG_0737'' 0x02e1 ''0737'',
    spec_row ''REG_0738'' 0x02e2 ''0738'',
    spec_row ''REG_0739'' 0x02e3 ''0739'',
    spec_row ''REG_0740'' 0x02e4 ''0740'',
    spec_row ''REG_0741'' 0x02e5 ''0741'',
    spec_row ''REG_0742'' 0x02e6 ''0742'',
    spec_row ''REG_0743'' 0x02e7 ''0743'',
    spec_row ''REG_0744'' 0x02e8 ''0744'',
    spec_row ''REG_0745'' 0x02e9 ''0745'',
    spec_row ''REG_0746'' 0x02ea ''0746'',
    spec_row ''REG_0747'' 0x02eb ''0747'',
    spec_row ''REG_0748'' 0x02ec ''0748'',
    spec_row ''REG_0749'' 0x02ed ''0749'']"

definition protocol_specs_5 :: "ipmb_protocol_spec_entry list" where
  "protocol_specs_5 = [
    spec_row ''REG_0750'' 0x02ee ''0750'',
    spec_row ''REG_0751'' 0x02ef ''0751'',
    spec_row ''REG_0752'' 0x02f0 ''0752'',
    spec_row ''REG_0753'' 0x02f1 ''0753'',
    spec_row ''REG_0754'' 0x02f2 ''0754'',
    spec_row ''REG_0755'' 0x02f3 ''0755'',
    spec_row ''REG_0756'' 0x02f4 ''0756'',
    spec_row ''REG_0757'' 0x02f5 ''0757'',
    spec_row ''REG_0758'' 0x02f6 ''0758'',
    spec_row ''REG_0759'' 0x02f7 ''0759'',
    spec_row ''REG_0760'' 0x02f8 ''0760'',
    spec_row ''REG_0761'' 0x02f9 ''0761'',
    spec_row ''REG_0762'' 0x02fa ''0762'',
    spec_row ''REG_0763'' 0x02fb ''0763'',
    spec_row ''REG_0764'' 0x02fc ''0764'',
    spec_row ''REG_0765'' 0x02fd ''0765'',
    spec_row ''REG_0766'' 0x02fe ''0766'',
    spec_row ''REG_0767'' 0x02ff ''0767'',
    spec_row ''REG_0768'' 0x0300 ''0768'',
    spec_row ''REG_0769'' 0x0301 ''0769'',
    spec_row ''REG_0770'' 0x0302 ''0770'',
    spec_row ''REG_0771'' 0x0303 ''0771'',
    spec_row ''REG_0772'' 0x0304 ''0772'',
    spec_row ''REG_0773'' 0x0305 ''0773'',
    spec_row ''REG_0774'' 0x0306 ''0774'',
    spec_row ''REG_0775'' 0x0307 ''0775'',
    spec_row ''REG_0776'' 0x0308 ''0776'',
    spec_row ''REG_0777'' 0x0309 ''0777'',
    spec_row ''REG_0778'' 0x030a ''0778'',
    spec_row ''REG_0779'' 0x030b ''0779'',
    spec_row ''REG_0780'' 0x030c ''0780'',
    spec_row ''REG_0781'' 0x030d ''0781'',
    spec_row ''REG_0782'' 0x030e ''0782'',
    spec_row ''REG_0783'' 0x030f ''0783'',
    spec_row ''REG_0784'' 0x0310 ''0784'',
    spec_row ''REG_0785'' 0x0311 ''0785'',
    spec_row ''REG_0786'' 0x0312 ''0786'',
    spec_row ''REG_0787'' 0x0313 ''0787'',
    spec_row ''REG_0788'' 0x0314 ''0788'',
    spec_row ''REG_0789'' 0x0315 ''0789'',
    spec_row ''REG_0790'' 0x0316 ''0790'',
    spec_row ''REG_0791'' 0x0317 ''0791'',
    spec_row ''REG_0792'' 0x0318 ''0792'',
    spec_row ''REG_0793'' 0x0319 ''0793'',
    spec_row ''REG_0794'' 0x031a ''0794'',
    spec_row ''REG_0795'' 0x031b ''0795'',
    spec_row ''REG_0796'' 0x031c ''0796'',
    spec_row ''REG_0797'' 0x031d ''0797'',
    spec_row ''REG_0798'' 0x031e ''0798'',
    spec_row ''REG_0799'' 0x031f ''0799'',
    spec_row ''REG_0800'' 0x0320 ''0800'',
    spec_row ''REG_0801'' 0x0321 ''0801'',
    spec_row ''REG_0802'' 0x0322 ''0802'',
    spec_row ''REG_0803'' 0x0323 ''0803'',
    spec_row ''REG_0804'' 0x0324 ''0804'',
    spec_row ''REG_0805'' 0x0325 ''0805'',
    spec_row ''REG_0806'' 0x0326 ''0806'',
    spec_row ''REG_0807'' 0x0327 ''0807'',
    spec_row ''REG_0808'' 0x0328 ''0808'',
    spec_row ''REG_0809'' 0x0329 ''0809'',
    spec_row ''REG_0810'' 0x032a ''0810'',
    spec_row ''REG_0811'' 0x032b ''0811'',
    spec_row ''REG_0812'' 0x032c ''0812'',
    spec_row ''REG_0813'' 0x032d ''0813'',
    spec_row ''REG_0814'' 0x032e ''0814'',
    spec_row ''REG_0815'' 0x032f ''0815'',
    spec_row ''REG_0816'' 0x0330 ''0816'',
    spec_row ''REG_0817'' 0x0331 ''0817'',
    spec_row ''REG_0818'' 0x0332 ''0818'',
    spec_row ''REG_0819'' 0x0333 ''0819'',
    spec_row ''REG_0820'' 0x0334 ''0820'',
    spec_row ''REG_0821'' 0x0335 ''0821'',
    spec_row ''REG_0822'' 0x0336 ''0822'',
    spec_row ''REG_0823'' 0x0337 ''0823'',
    spec_row ''REG_0824'' 0x0338 ''0824'',
    spec_row ''REG_0825'' 0x0339 ''0825'',
    spec_row ''REG_0826'' 0x033a ''0826'',
    spec_row ''REG_0827'' 0x033b ''0827'',
    spec_row ''REG_0828'' 0x033c ''0828'',
    spec_row ''REG_0829'' 0x033d ''0829'',
    spec_row ''REG_0830'' 0x033e ''0830'',
    spec_row ''REG_0831'' 0x033f ''0831'',
    spec_row ''REG_0832'' 0x0340 ''0832'',
    spec_row ''REG_0833'' 0x0341 ''0833'',
    spec_row ''REG_0834'' 0x0342 ''0834'',
    spec_row ''REG_0835'' 0x0343 ''0835'',
    spec_row ''REG_0836'' 0x0344 ''0836'',
    spec_row ''REG_0837'' 0x0345 ''0837'',
    spec_row ''REG_0838'' 0x0346 ''0838'',
    spec_row ''REG_0839'' 0x0347 ''0839'',
    spec_row ''REG_0840'' 0x0348 ''0840'',
    spec_row ''REG_0841'' 0x0349 ''0841'',
    spec_row ''REG_0842'' 0x034a ''0842'',
    spec_row ''REG_0843'' 0x034b ''0843'',
    spec_row ''REG_0844'' 0x034c ''0844'',
    spec_row ''REG_0845'' 0x034d ''0845'',
    spec_row ''REG_0846'' 0x034e ''0846'',
    spec_row ''REG_0847'' 0x034f ''0847'',
    spec_row ''REG_0848'' 0x0350 ''0848'',
    spec_row ''REG_0849'' 0x0351 ''0849'',
    spec_row ''REG_0850'' 0x0352 ''0850'',
    spec_row ''REG_0851'' 0x0353 ''0851'',
    spec_row ''REG_0852'' 0x0354 ''0852'',
    spec_row ''REG_0853'' 0x0355 ''0853'',
    spec_row ''REG_0854'' 0x0356 ''0854'',
    spec_row ''REG_0855'' 0x0357 ''0855'',
    spec_row ''REG_0856'' 0x0358 ''0856'',
    spec_row ''REG_0857'' 0x0359 ''0857'',
    spec_row ''REG_0858'' 0x035a ''0858'',
    spec_row ''REG_0859'' 0x035b ''0859'',
    spec_row ''REG_0860'' 0x035c ''0860'',
    spec_row ''REG_0861'' 0x035d ''0861'',
    spec_row ''REG_0862'' 0x035e ''0862'',
    spec_row ''REG_0863'' 0x035f ''0863'',
    spec_row ''REG_0864'' 0x0360 ''0864'',
    spec_row ''REG_0865'' 0x0361 ''0865'',
    spec_row ''REG_0866'' 0x0362 ''0866'',
    spec_row ''REG_0867'' 0x0363 ''0867'',
    spec_row ''REG_0868'' 0x0364 ''0868'',
    spec_row ''REG_0869'' 0x0365 ''0869'',
    spec_row ''REG_0870'' 0x0366 ''0870'',
    spec_row ''REG_0871'' 0x0367 ''0871'',
    spec_row ''REG_0872'' 0x0368 ''0872'',
    spec_row ''REG_0873'' 0x0369 ''0873'',
    spec_row ''REG_0874'' 0x036a ''0874'',
    spec_row ''REG_0875'' 0x036b ''0875'',
    spec_row ''REG_0876'' 0x036c ''0876'',
    spec_row ''REG_0877'' 0x036d ''0877'',
    spec_row ''REG_0878'' 0x036e ''0878'',
    spec_row ''REG_0879'' 0x036f ''0879'',
    spec_row ''REG_0880'' 0x0370 ''0880'',
    spec_row ''REG_0881'' 0x0371 ''0881'',
    spec_row ''REG_0882'' 0x0372 ''0882'',
    spec_row ''REG_0883'' 0x0373 ''0883'',
    spec_row ''REG_0884'' 0x0374 ''0884'',
    spec_row ''REG_0885'' 0x0375 ''0885'',
    spec_row ''REG_0886'' 0x0376 ''0886'',
    spec_row ''REG_0887'' 0x0377 ''0887'',
    spec_row ''REG_0888'' 0x0378 ''0888'',
    spec_row ''REG_0889'' 0x0379 ''0889'',
    spec_row ''REG_0890'' 0x037a ''0890'',
    spec_row ''REG_0891'' 0x037b ''0891'',
    spec_row ''REG_0892'' 0x037c ''0892'',
    spec_row ''REG_0893'' 0x037d ''0893'',
    spec_row ''REG_0894'' 0x037e ''0894'',
    spec_row ''REG_0895'' 0x037f ''0895'',
    spec_row ''REG_0896'' 0x0380 ''0896'',
    spec_row ''REG_0897'' 0x0381 ''0897'',
    spec_row ''REG_0898'' 0x0382 ''0898'',
    spec_row ''REG_0899'' 0x0383 ''0899'']"

definition ipmb_protocol_specs :: "ipmb_protocol_spec_entry list" where
  "ipmb_protocol_specs = protocol_specs_0 @ protocol_specs_1 @ protocol_specs_2 @
     protocol_specs_3 @ protocol_specs_4 @ protocol_specs_5"

definition ipmb_protocol_spec_count :: nat where
  "ipmb_protocol_spec_count = length ipmb_protocol_specs"

definition ipmb_protocol_spec_name :: "nat \<Rightarrow> string" where
  "ipmb_protocol_spec_name index = spec_name (ipmb_protocol_specs ! (index mod ipmb_protocol_spec_count))"

text \<open>The protocol definitions of \<^verbatim>\<open>src/protocol/protocol_catalog.c\<close>, with their terminating null.\<close>

definition ipmb_protocol_definitions :: "string option list" where
  "ipmb_protocol_definitions = [
    Some ''{\"protocol_id\": 1, \"name\": \"MODBUS_RTU\", \"endianness\": \"little\"}'',
    Some ''{\"protocol_id\": 2, \"name\": \"DNP3\", \"endianness\": \"little\"}'',
    Some ''{\"protocol_id\": 3, \"name\": \"IEC_60870_5_104\", \"endianness\": \"little\"}'',
    Some ''{\"protocol_id\": 4, \"name\": \"OPC_UA\", \"endianness\": \"little\"}'',
    Some ''{\"protocol_id\": 5, \"name\": \"ETHERNET_IP\", \"endianness\": \"little\"}'',
    None]"

section \<open>The rule of the rows\<close>

definition spec_law :: "nat \<Rightarrow> ipmb_protocol_spec_entry \<Rightarrow> bool" where
  "spec_law i r \<longleftrightarrow> (\<exists>d. r = spec_row (''REG_'' @ d) (of_nat i) d \<and> length d = 4 \<and> numeral_text d i)"

lemma spec_law_row:
  assumes "name = ''REG_'' @ d" "code = of_nat i" "length d = 4" "numeral_text d i"
  shows "spec_law i (spec_row name code d)"
  using assms by (auto simp: spec_law_def)

lemma spec_law_padded: "spec_law i r \<Longrightarrow> r = spec_row (''REG_'' @ padded 4 i) (of_nat i) (padded 4 i)"
  using numeral_text_padded by (fastforce simp: spec_law_def)

lemma protocol_specs_0_rows: "rows_follow spec_law 0 protocol_specs_0"
  unfolding protocol_specs_0_def
  by (simp add: spec_law_row numeral_text_def number_value_def)

lemma protocol_specs_1_rows: "rows_follow spec_law 150 protocol_specs_1"
  unfolding protocol_specs_1_def
  by (simp add: spec_law_row numeral_text_def number_value_def)

lemma protocol_specs_2_rows: "rows_follow spec_law 300 protocol_specs_2"
  unfolding protocol_specs_2_def
  by (simp add: spec_law_row numeral_text_def number_value_def)

lemma protocol_specs_3_rows: "rows_follow spec_law 450 protocol_specs_3"
  unfolding protocol_specs_3_def
  by (simp add: spec_law_row numeral_text_def number_value_def)

lemma protocol_specs_4_rows: "rows_follow spec_law 600 protocol_specs_4"
  unfolding protocol_specs_4_def
  by (simp add: spec_law_row numeral_text_def number_value_def)

lemma protocol_specs_5_rows: "rows_follow spec_law 750 protocol_specs_5"
  unfolding protocol_specs_5_def
  by (simp add: spec_law_row numeral_text_def number_value_def)

lemma length_protocol_specs_chunks:
  "length protocol_specs_0 = 150"
  "length protocol_specs_1 = 150"
  "length protocol_specs_2 = 150"
  "length protocol_specs_3 = 150"
  "length protocol_specs_4 = 150"
  "length protocol_specs_5 = 150"
  by (simp_all add: protocol_specs_0_def protocol_specs_1_def protocol_specs_2_def
      protocol_specs_3_def protocol_specs_4_def protocol_specs_5_def)

lemma protocol_specs_rows: "rows_follow spec_law 0 ipmb_protocol_specs"
  unfolding ipmb_protocol_specs_def rows_follow_append length_protocol_specs_chunks
  using protocol_specs_0_rows protocol_specs_1_rows protocol_specs_2_rows
    protocol_specs_3_rows protocol_specs_4_rows protocol_specs_5_rows by simp

lemma count_specs: "ipmb_protocol_spec_count = 900"
  by (simp add: ipmb_protocol_spec_count_def ipmb_protocol_specs_def length_protocol_specs_chunks)

lemma protocol_specs_nth:
  "i < 900 \<Longrightarrow> ipmb_protocol_specs ! i = spec_row (''REG_'' @ padded 4 i) (of_nat i) (padded 4 i)"
  using rows_follow_nth [OF protocol_specs_rows, of i] spec_law_padded count_specs
  by (simp add: ipmb_protocol_spec_count_def)

interpretation specs: wrapping_catalog ipmb_protocol_spec_count ipmb_protocol_spec_name
  "\<lambda>i. ''REG_'' @ padded 4 i"
proof
  show "0 < ipmb_protocol_spec_count" by (simp add: count_specs)
  show "ipmb_protocol_spec_name i = ''REG_'' @ padded 4 (i mod ipmb_protocol_spec_count)" for i
    by (simp add: ipmb_protocol_spec_name_def count_specs protocol_specs_nth spec_row_def)
  show "i < ipmb_protocol_spec_count \<Longrightarrow> j < ipmb_protocol_spec_count \<Longrightarrow>
      ''REG_'' @ padded 4 i = ''REG_'' @ padded 4 j \<Longrightarrow> i = j" for i j
    by (auto simp: count_specs intro: padded_inject [of 4])
qed

section \<open>Properties\<close>

text \<open>The catalog of register windows.  It has 900 entries; the one at an index \<open>i\<close> below that
  has code \<open>i\<close> and carries the number of the window in its name and its description;
  \<open>ipmb_protocol_spec_name\<close> reads the name modulo the size for every index, and the names are
  pairwise different.\<close>

theorem protocol_spec_entries:
  "ipmb_protocol_spec_count = 900 \<and>
   ipmb_protocol_specs = map (\<lambda>i. spec_row (''REG_'' @ padded 4 i) (of_nat i) (padded 4 i)) [0..<900] \<and>
   ipmb_protocol_spec_name i = ''REG_'' @ padded 4 (i mod 900) \<and>
   (ipmb_protocol_spec_name i = ipmb_protocol_spec_name j \<longleftrightarrow> i mod 900 = j mod 900)"
proof -
  have "ipmb_protocol_specs = map (\<lambda>i. spec_row (''REG_'' @ padded 4 i) (of_nat i) (padded 4 i)) [0..<900]"
    using count_specs
    by (intro nth_equalityI) (simp_all add: ipmb_protocol_spec_count_def protocol_specs_nth del: upt_Suc)
  then show ?thesis
    using specs.get_line [of i] specs.get_eq_iff [of i j] by (simp add: count_specs)
qed

end
