(* ===== verification/Schema_Layout.thy ===== *)
theory Schema_Layout
  imports Table_Names
begin

text \<open>
  The rows of the schema registry (\<^verbatim>\<open>src/protocol/schema_registry.c\<close>) and the rule they follow.
  The rows themselves are in \<open>Schema_Rows_A\<close>, \<open>Schema_Rows_B\<close> and \<open>Schema_Rows_C\<close>, the
  table and its lookup in \<open>Schema_Registry\<close>.
\<close>

record ipmb_schema_field =
  field_id_of :: int
  field_name_of :: "string option"
  field_offset :: int
  field_size :: int
  field_data_type :: int

text \<open>A row; all names start alike, so a row only gives the number in its name.\<close>

definition schema_row :: "int \<Rightarrow> string \<Rightarrow> int \<Rightarrow> int \<Rightarrow> int \<Rightarrow> ipmb_schema_field" where
  "schema_row i number offset sz data_type =
     \<lparr>field_id_of = i, field_name_of = Some (''SENSOR_METRIC_'' @ number), field_offset = offset,
      field_size = sz, field_data_type = data_type\<rparr>"

text \<open>The rule: metric \<open>i\<close> is at offset \<open>4 * i mod 1024\<close>, its type is one more than \<open>i mod 3\<close>,
  and type 3 takes eight bytes, the others four.\<close>

definition schema_metric :: "nat \<Rightarrow> ipmb_schema_field" where
  "schema_metric i =
     schema_row (int i) (padded 4 i) (int (4 * i mod 1024)) (if i mod 3 = 2 then 8 else 4) (int (i mod 3) + 1)"

text \<open>The rule in the form that is checked row by row: offset and type run along with the id.\<close>

fun schema_rows :: "nat \<Rightarrow> int \<Rightarrow> int \<Rightarrow> ipmb_schema_field list \<Rightarrow> bool" where
  "schema_rows i offset ty [] \<longleftrightarrow> True"
| "schema_rows i offset ty (r # rows) \<longleftrightarrow>
     (\<exists>d. r = schema_row (int i) d offset (if ty = 3 then 8 else 4) ty \<and> length d = 4 \<and> numeral_text d i) \<and>
     schema_rows (i + 1) (if offset = 1020 then 0 else offset + 4) (if ty = 3 then 1 else ty + 1) rows"

lemma schema_rows_row:
  assumes "w = int i" "off = offset" "ty' = ty" "sz = (if ty = 3 then 8 else 4)" "length d = 4" "numeral_text d i"
  shows "schema_rows i offset ty (schema_row w d off sz ty' # rows) =
    schema_rows (i + 1) (if offset = 1020 then 0 else offset + 4) (if ty = 3 then 1 else ty + 1) rows"
  using assms unfolding schema_rows.simps(2) by blast

lemmas schema_chunk = schema_rows_row numeral_text_def number_value_def

lemma four_mod: "4 * n mod 1024 = 4 * (n mod 256)" for n :: nat
  using mult_mod_right [of 4 n 256] by simp

lemma map_upt_join: "a \<le> b \<Longrightarrow> b \<le> c \<Longrightarrow> map f [a..<b] @ map f [b..<c] = map f [a..<c]"
  by (metis le_Suc_ex map_append upt_add_eq_append trans_le_add1 add.assoc)

lemma schema_rows_metrics:
  "schema_rows i (int (4 * i mod 1024)) (int (i mod 3) + 1) rows \<Longrightarrow>
   rows = map schema_metric [i..<i + length rows]"
proof (induction rows arbitrary: i)
  case (Cons r rows)
  let ?off = "int (4 * i mod 1024)" and ?ty = "int (i mod 3) + 1"
  obtain d where r: "r = schema_row (int i) d ?off (if ?ty = 3 then 8 else 4) ?ty" "length d = 4"
      "numeral_text d i"
    using Cons.prems by auto
  have "d = padded 4 i" using numeral_text_padded [OF r(3)] r(2) by simp
  moreover have "?ty = 3 \<longleftrightarrow> i mod 3 = 2" by linarith
  ultimately have row: "r = schema_metric i" using r(1) by (simp add: schema_metric_def)
  have "(if ?off = 1020 then 0 else ?off + 4) = int (4 * (i + 1) mod 1024)"
    using four_mod [of i] four_mod [of "i + 1"] by (auto simp: mod_Suc)
  moreover have "(if ?ty = 3 then 1 else ?ty + 1) = int ((i + 1) mod 3) + 1" by (auto simp: mod_Suc)
  ultimately have "schema_rows (i + 1) (int (4 * (i + 1) mod 1024)) (int ((i + 1) mod 3) + 1) rows"
    using Cons.prems by (simp only: schema_rows.simps(2))
  from Cons.IH [OF this] have "rows = map schema_metric [Suc i..<i + length (r # rows)]" by simp
  with row show ?case by (metis add_less_cancel_left length_greater_0_conv list.distinct(1)
      list.simps(9) nat_arith.rule0 upt_conv_Cons)
qed simp

end
