(* ===== verification/Schema_Rows_A.thy ===== *)
theory Schema_Rows_A
  imports Schema_Layout
begin

text \<open>Rows 1 to 1500 of the schema registry, as in the source, and that they follow the
  rule of \<open>Schema_Layout\<close>.\<close>

definition schema_fields_0 :: "ipmb_schema_field list" where
  "schema_fields_0 = [
    schema_row 1 ''0001'' 4 4 2,
    schema_row 2 ''0002'' 8 8 3,
    schema_row 3 ''0003'' 12 4 1,
    schema_row 4 ''0004'' 16 4 2,
    schema_row 5 ''0005'' 20 8 3,
    schema_row 6 ''0006'' 24 4 1,
    schema_row 7 ''0007'' 28 4 2,
    schema_row 8 ''0008'' 32 8 3,
    schema_row 9 ''0009'' 36 4 1,
    schema_row 10 ''0010'' 40 4 2,
    schema_row 11 ''0011'' 44 8 3,
    schema_row 12 ''0012'' 48 4 1,
    schema_row 13 ''0013'' 52 4 2,
    schema_row 14 ''0014'' 56 8 3,
    schema_row 15 ''0015'' 60 4 1,
    schema_row 16 ''0016'' 64 4 2,
    schema_row 17 ''0017'' 68 8 3,
    schema_row 18 ''0018'' 72 4 1,
    schema_row 19 ''0019'' 76 4 2,
    schema_row 20 ''0020'' 80 8 3,
    schema_row 21 ''0021'' 84 4 1,
    schema_row 22 ''0022'' 88 4 2,
    schema_row 23 ''0023'' 92 8 3,
    schema_row 24 ''0024'' 96 4 1,
    schema_row 25 ''0025'' 100 4 2,
    schema_row 26 ''0026'' 104 8 3,
    schema_row 27 ''0027'' 108 4 1,
    schema_row 28 ''0028'' 112 4 2,
    schema_row 29 ''0029'' 116 8 3,
    schema_row 30 ''0030'' 120 4 1,
    schema_row 31 ''0031'' 124 4 2,
    schema_row 32 ''0032'' 128 8 3,
    schema_row 33 ''0033'' 132 4 1,
    schema_row 34 ''0034'' 136 4 2,
    schema_row 35 ''0035'' 140 8 3,
    schema_row 36 ''0036'' 144 4 1,
    schema_row 37 ''0037'' 148 4 2,
    schema_row 38 ''0038'' 152 8 3,
    schema_row 39 ''0039'' 156 4 1,
    schema_row 40 ''0040'' 160 4 2,
    schema_row 41 ''0041'' 164 8 3,
    schema_row 42 ''0042'' 168 4 1,
    schema_row 43 ''0043'' 172 4 2,
    schema_row 44 ''0044'' 176 8 3,
    schema_row 45 ''0045'' 180 4 1,
    schema_row 46 ''0046'' 184 4 2,
    schema_row 47 ''0047'' 188 8 3,
    schema_row 48 ''0048'' 192 4 1,
    schema_row 49 ''0049'' 196 4 2,
    schema_row 50 ''0050'' 200 8 3,
    schema_row 51 ''0051'' 204 4 1,
    schema_row 52 ''0052'' 208 4 2,
    schema_row 53 ''0053'' 212 8 3,
    schema_row 54 ''0054'' 216 4 1,
    schema_row 55 ''0055'' 220 4 2,
    schema_row 56 ''0056'' 224 8 3,
    schema_row 57 ''0057'' 228 4 1,
    schema_row 58 ''0058'' 232 4 2,
    schema_row 59 ''0059'' 236 8 3,
    schema_row 60 ''0060'' 240 4 1,
    schema_row 61 ''0061'' 244 4 2,
    schema_row 62 ''0062'' 248 8 3,
    schema_row 63 ''0063'' 252 4 1,
    schema_row 64 ''0064'' 256 4 2,
    schema_row 65 ''0065'' 260 8 3,
    schema_row 66 ''0066'' 264 4 1,
    schema_row 67 ''0067'' 268 4 2,
    schema_row 68 ''0068'' 272 8 3,
    schema_row 69 ''0069'' 276 4 1,
    schema_row 70 ''0070'' 280 4 2,
    schema_row 71 ''0071'' 284 8 3,
    schema_row 72 ''0072'' 288 4 1,
    schema_row 73 ''0073'' 292 4 2,
    schema_row 74 ''0074'' 296 8 3,
    schema_row 75 ''0075'' 300 4 1,
    schema_row 76 ''0076'' 304 4 2,
    schema_row 77 ''0077'' 308 8 3,
    schema_row 78 ''0078'' 312 4 1,
    schema_row 79 ''0079'' 316 4 2,
    schema_row 80 ''0080'' 320 8 3,
    schema_row 81 ''0081'' 324 4 1,
    schema_row 82 ''0082'' 328 4 2,
    schema_row 83 ''0083'' 332 8 3,
    schema_row 84 ''0084'' 336 4 1,
    schema_row 85 ''0085'' 340 4 2,
    schema_row 86 ''0086'' 344 8 3,
    schema_row 87 ''0087'' 348 4 1,
    schema_row 88 ''0088'' 352 4 2,
    schema_row 89 ''0089'' 356 8 3,
    schema_row 90 ''0090'' 360 4 1,
    schema_row 91 ''0091'' 364 4 2,
    schema_row 92 ''0092'' 368 8 3,
    schema_row 93 ''0093'' 372 4 1,
    schema_row 94 ''0094'' 376 4 2,
    schema_row 95 ''0095'' 380 8 3,
    schema_row 96 ''0096'' 384 4 1,
    schema_row 97 ''0097'' 388 4 2,
    schema_row 98 ''0098'' 392 8 3,
    schema_row 99 ''0099'' 396 4 1,
    schema_row 100 ''0100'' 400 4 2,
    schema_row 101 ''0101'' 404 8 3,
    schema_row 102 ''0102'' 408 4 1,
    schema_row 103 ''0103'' 412 4 2,
    schema_row 104 ''0104'' 416 8 3,
    schema_row 105 ''0105'' 420 4 1,
    schema_row 106 ''0106'' 424 4 2,
    schema_row 107 ''0107'' 428 8 3,
    schema_row 108 ''0108'' 432 4 1,
    schema_row 109 ''0109'' 436 4 2,
    schema_row 110 ''0110'' 440 8 3,
    schema_row 111 ''0111'' 444 4 1,
    schema_row 112 ''0112'' 448 4 2,
    schema_row 113 ''0113'' 452 8 3,
    schema_row 114 ''0114'' 456 4 1,
    schema_row 115 ''0115'' 460 4 2,
    schema_row 116 ''0116'' 464 8 3,
    schema_row 117 ''0117'' 468 4 1,
    schema_row 118 ''0118'' 472 4 2,
    schema_row 119 ''0119'' 476 8 3,
    schema_row 120 ''0120'' 480 4 1,
    schema_row 121 ''0121'' 484 4 2,
    schema_row 122 ''0122'' 488 8 3,
    schema_row 123 ''0123'' 492 4 1,
    schema_row 124 ''0124'' 496 4 2,
    schema_row 125 ''0125'' 500 8 3,
    schema_row 126 ''0126'' 504 4 1,
    schema_row 127 ''0127'' 508 4 2,
    schema_row 128 ''0128'' 512 8 3,
    schema_row 129 ''0129'' 516 4 1,
    schema_row 130 ''0130'' 520 4 2,
    schema_row 131 ''0131'' 524 8 3,
    schema_row 132 ''0132'' 528 4 1,
    schema_row 133 ''0133'' 532 4 2,
    schema_row 134 ''0134'' 536 8 3,
    schema_row 135 ''0135'' 540 4 1,
    schema_row 136 ''0136'' 544 4 2,
    schema_row 137 ''0137'' 548 8 3,
    schema_row 138 ''0138'' 552 4 1,
    schema_row 139 ''0139'' 556 4 2,
    schema_row 140 ''0140'' 560 8 3,
    schema_row 141 ''0141'' 564 4 1,
    schema_row 142 ''0142'' 568 4 2,
    schema_row 143 ''0143'' 572 8 3,
    schema_row 144 ''0144'' 576 4 1,
    schema_row 145 ''0145'' 580 4 2,
    schema_row 146 ''0146'' 584 8 3,
    schema_row 147 ''0147'' 588 4 1,
    schema_row 148 ''0148'' 592 4 2,
    schema_row 149 ''0149'' 596 8 3,
    schema_row 150 ''0150'' 600 4 1]"

definition schema_fields_1 :: "ipmb_schema_field list" where
  "schema_fields_1 = [
    schema_row 151 ''0151'' 604 4 2,
    schema_row 152 ''0152'' 608 8 3,
    schema_row 153 ''0153'' 612 4 1,
    schema_row 154 ''0154'' 616 4 2,
    schema_row 155 ''0155'' 620 8 3,
    schema_row 156 ''0156'' 624 4 1,
    schema_row 157 ''0157'' 628 4 2,
    schema_row 158 ''0158'' 632 8 3,
    schema_row 159 ''0159'' 636 4 1,
    schema_row 160 ''0160'' 640 4 2,
    schema_row 161 ''0161'' 644 8 3,
    schema_row 162 ''0162'' 648 4 1,
    schema_row 163 ''0163'' 652 4 2,
    schema_row 164 ''0164'' 656 8 3,
    schema_row 165 ''0165'' 660 4 1,
    schema_row 166 ''0166'' 664 4 2,
    schema_row 167 ''0167'' 668 8 3,
    schema_row 168 ''0168'' 672 4 1,
    schema_row 169 ''0169'' 676 4 2,
    schema_row 170 ''0170'' 680 8 3,
    schema_row 171 ''0171'' 684 4 1,
    schema_row 172 ''0172'' 688 4 2,
    schema_row 173 ''0173'' 692 8 3,
    schema_row 174 ''0174'' 696 4 1,
    schema_row 175 ''0175'' 700 4 2,
    schema_row 176 ''0176'' 704 8 3,
    schema_row 177 ''0177'' 708 4 1,
    schema_row 178 ''0178'' 712 4 2,
    schema_row 179 ''0179'' 716 8 3,
    schema_row 180 ''0180'' 720 4 1,
    schema_row 181 ''0181'' 724 4 2,
    schema_row 182 ''0182'' 728 8 3,
    schema_row 183 ''0183'' 732 4 1,
    schema_row 184 ''0184'' 736 4 2,
    schema_row 185 ''0185'' 740 8 3,
    schema_row 186 ''0186'' 744 4 1,
    schema_row 187 ''0187'' 748 4 2,
    schema_row 188 ''0188'' 752 8 3,
    schema_row 189 ''0189'' 756 4 1,
    schema_row 190 ''0190'' 760 4 2,
    schema_row 191 ''0191'' 764 8 3,
    schema_row 192 ''0192'' 768 4 1,
    schema_row 193 ''0193'' 772 4 2,
    schema_row 194 ''0194'' 776 8 3,
    schema_row 195 ''0195'' 780 4 1,
    schema_row 196 ''0196'' 784 4 2,
    schema_row 197 ''0197'' 788 8 3,
    schema_row 198 ''0198'' 792 4 1,
    schema_row 199 ''0199'' 796 4 2,
    schema_row 200 ''0200'' 800 8 3,
    schema_row 201 ''0201'' 804 4 1,
    schema_row 202 ''0202'' 808 4 2,
    schema_row 203 ''0203'' 812 8 3,
    schema_row 204 ''0204'' 816 4 1,
    schema_row 205 ''0205'' 820 4 2,
    schema_row 206 ''0206'' 824 8 3,
    schema_row 207 ''0207'' 828 4 1,
    schema_row 208 ''0208'' 832 4 2,
    schema_row 209 ''0209'' 836 8 3,
    schema_row 210 ''0210'' 840 4 1,
    schema_row 211 ''0211'' 844 4 2,
    schema_row 212 ''0212'' 848 8 3,
    schema_row 213 ''0213'' 852 4 1,
    schema_row 214 ''0214'' 856 4 2,
    schema_row 215 ''0215'' 860 8 3,
    schema_row 216 ''0216'' 864 4 1,
    schema_row 217 ''0217'' 868 4 2,
    schema_row 218 ''0218'' 872 8 3,
    schema_row 219 ''0219'' 876 4 1,
    schema_row 220 ''0220'' 880 4 2,
    schema_row 221 ''0221'' 884 8 3,
    schema_row 222 ''0222'' 888 4 1,
    schema_row 223 ''0223'' 892 4 2,
    schema_row 224 ''0224'' 896 8 3,
    schema_row 225 ''0225'' 900 4 1,
    schema_row 226 ''0226'' 904 4 2,
    schema_row 227 ''0227'' 908 8 3,
    schema_row 228 ''0228'' 912 4 1,
    schema_row 229 ''0229'' 916 4 2,
    schema_row 230 ''0230'' 920 8 3,
    schema_row 231 ''0231'' 924 4 1,
    schema_row 232 ''0232'' 928 4 2,
    schema_row 233 ''0233'' 932 8 3,
    schema_row 234 ''0234'' 936 4 1,
    schema_row 235 ''0235'' 940 4 2,
    schema_row 236 ''0236'' 944 8 3,
    schema_row 237 ''0237'' 948 4 1,
    schema_row 238 ''0238'' 952 4 2,
    schema_row 239 ''0239'' 956 8 3,
    schema_row 240 ''0240'' 960 4 1,
    schema_row 241 ''0241'' 964 4 2,
    schema_row 242 ''0242'' 968 8 3,
    schema_row 243 ''0243'' 972 4 1,
    schema_row 244 ''0244'' 976 4 2,
    schema_row 245 ''0245'' 980 8 3,
    schema_row 246 ''0246'' 984 4 1,
    schema_row 247 ''0247'' 988 4 2,
    schema_row 248 ''0248'' 992 8 3,
    schema_row 249 ''0249'' 996 4 1,
    schema_row 250 ''0250'' 1000 4 2,
    schema_row 251 ''0251'' 1004 8 3,
    schema_row 252 ''0252'' 1008 4 1,
    schema_row 253 ''0253'' 1012 4 2,
    schema_row 254 ''0254'' 1016 8 3,
    schema_row 255 ''0255'' 1020 4 1,
    schema_row 256 ''0256'' 0 4 2,
    schema_row 257 ''0257'' 4 8 3,
    schema_row 258 ''0258'' 8 4 1,
    schema_row 259 ''0259'' 12 4 2,
    schema_row 260 ''0260'' 16 8 3,
    schema_row 261 ''0261'' 20 4 1,
    schema_row 262 ''0262'' 24 4 2,
    schema_row 263 ''0263'' 28 8 3,
    schema_row 264 ''0264'' 32 4 1,
    schema_row 265 ''0265'' 36 4 2,
    schema_row 266 ''0266'' 40 8 3,
    schema_row 267 ''0267'' 44 4 1,
    schema_row 268 ''0268'' 48 4 2,
    schema_row 269 ''0269'' 52 8 3,
    schema_row 270 ''0270'' 56 4 1,
    schema_row 271 ''0271'' 60 4 2,
    schema_row 272 ''0272'' 64 8 3,
    schema_row 273 ''0273'' 68 4 1,
    schema_row 274 ''0274'' 72 4 2,
    schema_row 275 ''0275'' 76 8 3,
    schema_row 276 ''0276'' 80 4 1,
    schema_row 277 ''0277'' 84 4 2,
    schema_row 278 ''0278'' 88 8 3,
    schema_row 279 ''0279'' 92 4 1,
    schema_row 280 ''0280'' 96 4 2,
    schema_row 281 ''0281'' 100 8 3,
    schema_row 282 ''0282'' 104 4 1,
    schema_row 283 ''0283'' 108 4 2,
    schema_row 284 ''0284'' 112 8 3,
    schema_row 285 ''0285'' 116 4 1,
    schema_row 286 ''0286'' 120 4 2,
    schema_row 287 ''0287'' 124 8 3,
    schema_row 288 ''0288'' 128 4 1,
    schema_row 289 ''0289'' 132 4 2,
    schema_row 290 ''0290'' 136 8 3,
    schema_row 291 ''0291'' 140 4 1,
    schema_row 292 ''0292'' 144 4 2,
    schema_row 293 ''0293'' 148 8 3,
    schema_row 294 ''0294'' 152 4 1,
    schema_row 295 ''0295'' 156 4 2,
    schema_row 296 ''0296'' 160 8 3,
    schema_row 297 ''0297'' 164 4 1,
    schema_row 298 ''0298'' 168 4 2,
    schema_row 299 ''0299'' 172 8 3,
    schema_row 300 ''0300'' 176 4 1]"

definition schema_fields_2 :: "ipmb_schema_field list" where
  "schema_fields_2 = [
    schema_row 301 ''0301'' 180 4 2,
    schema_row 302 ''0302'' 184 8 3,
    schema_row 303 ''0303'' 188 4 1,
    schema_row 304 ''0304'' 192 4 2,
    schema_row 305 ''0305'' 196 8 3,
    schema_row 306 ''0306'' 200 4 1,
    schema_row 307 ''0307'' 204 4 2,
    schema_row 308 ''0308'' 208 8 3,
    schema_row 309 ''0309'' 212 4 1,
    schema_row 310 ''0310'' 216 4 2,
    schema_row 311 ''0311'' 220 8 3,
    schema_row 312 ''0312'' 224 4 1,
    schema_row 313 ''0313'' 228 4 2,
    schema_row 314 ''0314'' 232 8 3,
    schema_row 315 ''0315'' 236 4 1,
    schema_row 316 ''0316'' 240 4 2,
    schema_row 317 ''0317'' 244 8 3,
    schema_row 318 ''0318'' 248 4 1,
    schema_row 319 ''0319'' 252 4 2,
    schema_row 320 ''0320'' 256 8 3,
    schema_row 321 ''0321'' 260 4 1,
    schema_row 322 ''0322'' 264 4 2,
    schema_row 323 ''0323'' 268 8 3,
    schema_row 324 ''0324'' 272 4 1,
    schema_row 325 ''0325'' 276 4 2,
    schema_row 326 ''0326'' 280 8 3,
    schema_row 327 ''0327'' 284 4 1,
    schema_row 328 ''0328'' 288 4 2,
    schema_row 329 ''0329'' 292 8 3,
    schema_row 330 ''0330'' 296 4 1,
    schema_row 331 ''0331'' 300 4 2,
    schema_row 332 ''0332'' 304 8 3,
    schema_row 333 ''0333'' 308 4 1,
    schema_row 334 ''0334'' 312 4 2,
    schema_row 335 ''0335'' 316 8 3,
    schema_row 336 ''0336'' 320 4 1,
    schema_row 337 ''0337'' 324 4 2,
    schema_row 338 ''0338'' 328 8 3,
    schema_row 339 ''0339'' 332 4 1,
    schema_row 340 ''0340'' 336 4 2,
    schema_row 341 ''0341'' 340 8 3,
    schema_row 342 ''0342'' 344 4 1,
    schema_row 343 ''0343'' 348 4 2,
    schema_row 344 ''0344'' 352 8 3,
    schema_row 345 ''0345'' 356 4 1,
    schema_row 346 ''0346'' 360 4 2,
    schema_row 347 ''0347'' 364 8 3,
    schema_row 348 ''0348'' 368 4 1,
    schema_row 349 ''0349'' 372 4 2,
    schema_row 350 ''0350'' 376 8 3,
    schema_row 351 ''0351'' 380 4 1,
    schema_row 352 ''0352'' 384 4 2,
    schema_row 353 ''0353'' 388 8 3,
    schema_row 354 ''0354'' 392 4 1,
    schema_row 355 ''0355'' 396 4 2,
    schema_row 356 ''0356'' 400 8 3,
    schema_row 357 ''0357'' 404 4 1,
    schema_row 358 ''0358'' 408 4 2,
    schema_row 359 ''0359'' 412 8 3,
    schema_row 360 ''0360'' 416 4 1,
    schema_row 361 ''0361'' 420 4 2,
    schema_row 362 ''0362'' 424 8 3,
    schema_row 363 ''0363'' 428 4 1,
    schema_row 364 ''0364'' 432 4 2,
    schema_row 365 ''0365'' 436 8 3,
    schema_row 366 ''0366'' 440 4 1,
    schema_row 367 ''0367'' 444 4 2,
    schema_row 368 ''0368'' 448 8 3,
    schema_row 369 ''0369'' 452 4 1,
    schema_row 370 ''0370'' 456 4 2,
    schema_row 371 ''0371'' 460 8 3,
    schema_row 372 ''0372'' 464 4 1,
    schema_row 373 ''0373'' 468 4 2,
    schema_row 374 ''0374'' 472 8 3,
    schema_row 375 ''0375'' 476 4 1,
    schema_row 376 ''0376'' 480 4 2,
    schema_row 377 ''0377'' 484 8 3,
    schema_row 378 ''0378'' 488 4 1,
    schema_row 379 ''0379'' 492 4 2,
    schema_row 380 ''0380'' 496 8 3,
    schema_row 381 ''0381'' 500 4 1,
    schema_row 382 ''0382'' 504 4 2,
    schema_row 383 ''0383'' 508 8 3,
    schema_row 384 ''0384'' 512 4 1,
    schema_row 385 ''0385'' 516 4 2,
    schema_row 386 ''0386'' 520 8 3,
    schema_row 387 ''0387'' 524 4 1,
    schema_row 388 ''0388'' 528 4 2,
    schema_row 389 ''0389'' 532 8 3,
    schema_row 390 ''0390'' 536 4 1,
    schema_row 391 ''0391'' 540 4 2,
    schema_row 392 ''0392'' 544 8 3,
    schema_row 393 ''0393'' 548 4 1,
    schema_row 394 ''0394'' 552 4 2,
    schema_row 395 ''0395'' 556 8 3,
    schema_row 396 ''0396'' 560 4 1,
    schema_row 397 ''0397'' 564 4 2,
    schema_row 398 ''0398'' 568 8 3,
    schema_row 399 ''0399'' 572 4 1,
    schema_row 400 ''0400'' 576 4 2,
    schema_row 401 ''0401'' 580 8 3,
    schema_row 402 ''0402'' 584 4 1,
    schema_row 403 ''0403'' 588 4 2,
    schema_row 404 ''0404'' 592 8 3,
    schema_row 405 ''0405'' 596 4 1,
    schema_row 406 ''0406'' 600 4 2,
    schema_row 407 ''0407'' 604 8 3,
    schema_row 408 ''0408'' 608 4 1,
    schema_row 409 ''0409'' 612 4 2,
    schema_row 410 ''0410'' 616 8 3,
    schema_row 411 ''0411'' 620 4 1,
    schema_row 412 ''0412'' 624 4 2,
    schema_row 413 ''0413'' 628 8 3,
    schema_row 414 ''0414'' 632 4 1,
    schema_row 415 ''0415'' 636 4 2,
    schema_row 416 ''0416'' 640 8 3,
    schema_row 417 ''0417'' 644 4 1,
    schema_row 418 ''0418'' 648 4 2,
    schema_row 419 ''0419'' 652 8 3,
    schema_row 420 ''0420'' 656 4 1,
    schema_row 421 ''0421'' 660 4 2,
    schema_row 422 ''0422'' 664 8 3,
    schema_row 423 ''0423'' 668 4 1,
    schema_row 424 ''0424'' 672 4 2,
    schema_row 425 ''0425'' 676 8 3,
    schema_row 426 ''0426'' 680 4 1,
    schema_row 427 ''0427'' 684 4 2,
    schema_row 428 ''0428'' 688 8 3,
    schema_row 429 ''0429'' 692 4 1,
    schema_row 430 ''0430'' 696 4 2,
    schema_row 431 ''0431'' 700 8 3,
    schema_row 432 ''0432'' 704 4 1,
    schema_row 433 ''0433'' 708 4 2,
    schema_row 434 ''0434'' 712 8 3,
    schema_row 435 ''0435'' 716 4 1,
    schema_row 436 ''0436'' 720 4 2,
    schema_row 437 ''0437'' 724 8 3,
    schema_row 438 ''0438'' 728 4 1,
    schema_row 439 ''0439'' 732 4 2,
    schema_row 440 ''0440'' 736 8 3,
    schema_row 441 ''0441'' 740 4 1,
    schema_row 442 ''0442'' 744 4 2,
    schema_row 443 ''0443'' 748 8 3,
    schema_row 444 ''0444'' 752 4 1,
    schema_row 445 ''0445'' 756 4 2,
    schema_row 446 ''0446'' 760 8 3,
    schema_row 447 ''0447'' 764 4 1,
    schema_row 448 ''0448'' 768 4 2,
    schema_row 449 ''0449'' 772 8 3,
    schema_row 450 ''0450'' 776 4 1]"

definition schema_fields_3 :: "ipmb_schema_field list" where
  "schema_fields_3 = [
    schema_row 451 ''0451'' 780 4 2,
    schema_row 452 ''0452'' 784 8 3,
    schema_row 453 ''0453'' 788 4 1,
    schema_row 454 ''0454'' 792 4 2,
    schema_row 455 ''0455'' 796 8 3,
    schema_row 456 ''0456'' 800 4 1,
    schema_row 457 ''0457'' 804 4 2,
    schema_row 458 ''0458'' 808 8 3,
    schema_row 459 ''0459'' 812 4 1,
    schema_row 460 ''0460'' 816 4 2,
    schema_row 461 ''0461'' 820 8 3,
    schema_row 462 ''0462'' 824 4 1,
    schema_row 463 ''0463'' 828 4 2,
    schema_row 464 ''0464'' 832 8 3,
    schema_row 465 ''0465'' 836 4 1,
    schema_row 466 ''0466'' 840 4 2,
    schema_row 467 ''0467'' 844 8 3,
    schema_row 468 ''0468'' 848 4 1,
    schema_row 469 ''0469'' 852 4 2,
    schema_row 470 ''0470'' 856 8 3,
    schema_row 471 ''0471'' 860 4 1,
    schema_row 472 ''0472'' 864 4 2,
    schema_row 473 ''0473'' 868 8 3,
    schema_row 474 ''0474'' 872 4 1,
    schema_row 475 ''0475'' 876 4 2,
    schema_row 476 ''0476'' 880 8 3,
    schema_row 477 ''0477'' 884 4 1,
    schema_row 478 ''0478'' 888 4 2,
    schema_row 479 ''0479'' 892 8 3,
    schema_row 480 ''0480'' 896 4 1,
    schema_row 481 ''0481'' 900 4 2,
    schema_row 482 ''0482'' 904 8 3,
    schema_row 483 ''0483'' 908 4 1,
    schema_row 484 ''0484'' 912 4 2,
    schema_row 485 ''0485'' 916 8 3,
    schema_row 486 ''0486'' 920 4 1,
    schema_row 487 ''0487'' 924 4 2,
    schema_row 488 ''0488'' 928 8 3,
    schema_row 489 ''0489'' 932 4 1,
    schema_row 490 ''0490'' 936 4 2,
    schema_row 491 ''0491'' 940 8 3,
    schema_row 492 ''0492'' 944 4 1,
    schema_row 493 ''0493'' 948 4 2,
    schema_row 494 ''0494'' 952 8 3,
    schema_row 495 ''0495'' 956 4 1,
    schema_row 496 ''0496'' 960 4 2,
    schema_row 497 ''0497'' 964 8 3,
    schema_row 498 ''0498'' 968 4 1,
    schema_row 499 ''0499'' 972 4 2,
    schema_row 500 ''0500'' 976 8 3,
    schema_row 501 ''0501'' 980 4 1,
    schema_row 502 ''0502'' 984 4 2,
    schema_row 503 ''0503'' 988 8 3,
    schema_row 504 ''0504'' 992 4 1,
    schema_row 505 ''0505'' 996 4 2,
    schema_row 506 ''0506'' 1000 8 3,
    schema_row 507 ''0507'' 1004 4 1,
    schema_row 508 ''0508'' 1008 4 2,
    schema_row 509 ''0509'' 1012 8 3,
    schema_row 510 ''0510'' 1016 4 1,
    schema_row 511 ''0511'' 1020 4 2,
    schema_row 512 ''0512'' 0 8 3,
    schema_row 513 ''0513'' 4 4 1,
    schema_row 514 ''0514'' 8 4 2,
    schema_row 515 ''0515'' 12 8 3,
    schema_row 516 ''0516'' 16 4 1,
    schema_row 517 ''0517'' 20 4 2,
    schema_row 518 ''0518'' 24 8 3,
    schema_row 519 ''0519'' 28 4 1,
    schema_row 520 ''0520'' 32 4 2,
    schema_row 521 ''0521'' 36 8 3,
    schema_row 522 ''0522'' 40 4 1,
    schema_row 523 ''0523'' 44 4 2,
    schema_row 524 ''0524'' 48 8 3,
    schema_row 525 ''0525'' 52 4 1,
    schema_row 526 ''0526'' 56 4 2,
    schema_row 527 ''0527'' 60 8 3,
    schema_row 528 ''0528'' 64 4 1,
    schema_row 529 ''0529'' 68 4 2,
    schema_row 530 ''0530'' 72 8 3,
    schema_row 531 ''0531'' 76 4 1,
    schema_row 532 ''0532'' 80 4 2,
    schema_row 533 ''0533'' 84 8 3,
    schema_row 534 ''0534'' 88 4 1,
    schema_row 535 ''0535'' 92 4 2,
    schema_row 536 ''0536'' 96 8 3,
    schema_row 537 ''0537'' 100 4 1,
    schema_row 538 ''0538'' 104 4 2,
    schema_row 539 ''0539'' 108 8 3,
    schema_row 540 ''0540'' 112 4 1,
    schema_row 541 ''0541'' 116 4 2,
    schema_row 542 ''0542'' 120 8 3,
    schema_row 543 ''0543'' 124 4 1,
    schema_row 544 ''0544'' 128 4 2,
    schema_row 545 ''0545'' 132 8 3,
    schema_row 546 ''0546'' 136 4 1,
    schema_row 547 ''0547'' 140 4 2,
    schema_row 548 ''0548'' 144 8 3,
    schema_row 549 ''0549'' 148 4 1,
    schema_row 550 ''0550'' 152 4 2,
    schema_row 551 ''0551'' 156 8 3,
    schema_row 552 ''0552'' 160 4 1,
    schema_row 553 ''0553'' 164 4 2,
    schema_row 554 ''0554'' 168 8 3,
    schema_row 555 ''0555'' 172 4 1,
    schema_row 556 ''0556'' 176 4 2,
    schema_row 557 ''0557'' 180 8 3,
    schema_row 558 ''0558'' 184 4 1,
    schema_row 559 ''0559'' 188 4 2,
    schema_row 560 ''0560'' 192 8 3,
    schema_row 561 ''0561'' 196 4 1,
    schema_row 562 ''0562'' 200 4 2,
    schema_row 563 ''0563'' 204 8 3,
    schema_row 564 ''0564'' 208 4 1,
    schema_row 565 ''0565'' 212 4 2,
    schema_row 566 ''0566'' 216 8 3,
    schema_row 567 ''0567'' 220 4 1,
    schema_row 568 ''0568'' 224 4 2,
    schema_row 569 ''0569'' 228 8 3,
    schema_row 570 ''0570'' 232 4 1,
    schema_row 571 ''0571'' 236 4 2,
    schema_row 572 ''0572'' 240 8 3,
    schema_row 573 ''0573'' 244 4 1,
    schema_row 574 ''0574'' 248 4 2,
    schema_row 575 ''0575'' 252 8 3,
    schema_row 576 ''0576'' 256 4 1,
    schema_row 577 ''0577'' 260 4 2,
    schema_row 578 ''0578'' 264 8 3,
    schema_row 579 ''0579'' 268 4 1,
    schema_row 580 ''0580'' 272 4 2,
    schema_row 581 ''0581'' 276 8 3,
    schema_row 582 ''0582'' 280 4 1,
    schema_row 583 ''0583'' 284 4 2,
    schema_row 584 ''0584'' 288 8 3,
    schema_row 585 ''0585'' 292 4 1,
    schema_row 586 ''0586'' 296 4 2,
    schema_row 587 ''0587'' 300 8 3,
    schema_row 588 ''0588'' 304 4 1,
    schema_row 589 ''0589'' 308 4 2,
    schema_row 590 ''0590'' 312 8 3,
    schema_row 591 ''0591'' 316 4 1,
    schema_row 592 ''0592'' 320 4 2,
    schema_row 593 ''0593'' 324 8 3,
    schema_row 594 ''0594'' 328 4 1,
    schema_row 595 ''0595'' 332 4 2,
    schema_row 596 ''0596'' 336 8 3,
    schema_row 597 ''0597'' 340 4 1,
    schema_row 598 ''0598'' 344 4 2,
    schema_row 599 ''0599'' 348 8 3,
    schema_row 600 ''0600'' 352 4 1]"

definition schema_fields_4 :: "ipmb_schema_field list" where
  "schema_fields_4 = [
    schema_row 601 ''0601'' 356 4 2,
    schema_row 602 ''0602'' 360 8 3,
    schema_row 603 ''0603'' 364 4 1,
    schema_row 604 ''0604'' 368 4 2,
    schema_row 605 ''0605'' 372 8 3,
    schema_row 606 ''0606'' 376 4 1,
    schema_row 607 ''0607'' 380 4 2,
    schema_row 608 ''0608'' 384 8 3,
    schema_row 609 ''0609'' 388 4 1,
    schema_row 610 ''0610'' 392 4 2,
    schema_row 611 ''0611'' 396 8 3,
    schema_row 612 ''0612'' 400 4 1,
    schema_row 613 ''0613'' 404 4 2,
    schema_row 614 ''0614'' 408 8 3,
    schema_row 615 ''0615'' 412 4 1,
    schema_row 616 ''0616'' 416 4 2,
    schema_row 617 ''0617'' 420 8 3,
    schema_row 618 ''0618'' 424 4 1,
    schema_row 619 ''0619'' 428 4 2,
    schema_row 620 ''0620'' 432 8 3,
    schema_row 621 ''0621'' 436 4 1,
    schema_row 622 ''0622'' 440 4 2,
    schema_row 623 ''0623'' 444 8 3,
    schema_row 624 ''0624'' 448 4 1,
    schema_row 625 ''0625'' 452 4 2,
    schema_row 626 ''0626'' 456 8 3,
    schema_row 627 ''0627'' 460 4 1,
    schema_row 628 ''0628'' 464 4 2,
    schema_row 629 ''0629'' 468 8 3,
    schema_row 630 ''0630'' 472 4 1,
    schema_row 631 ''0631'' 476 4 2,
    schema_row 632 ''0632'' 480 8 3,
    schema_row 633 ''0633'' 484 4 1,
    schema_row 634 ''0634'' 488 4 2,
    schema_row 635 ''0635'' 492 8 3,
    schema_row 636 ''0636'' 496 4 1,
    schema_row 637 ''0637'' 500 4 2,
    schema_row 638 ''0638'' 504 8 3,
    schema_row 639 ''0639'' 508 4 1,
    schema_row 640 ''0640'' 512 4 2,
    schema_row 641 ''0641'' 516 8 3,
    schema_row 642 ''0642'' 520 4 1,
    schema_row 643 ''0643'' 524 4 2,
    schema_row 644 ''0644'' 528 8 3,
    schema_row 645 ''0645'' 532 4 1,
    schema_row 646 ''0646'' 536 4 2,
    schema_row 647 ''0647'' 540 8 3,
    schema_row 648 ''0648'' 544 4 1,
    schema_row 649 ''0649'' 548 4 2,
    schema_row 650 ''0650'' 552 8 3,
    schema_row 651 ''0651'' 556 4 1,
    schema_row 652 ''0652'' 560 4 2,
    schema_row 653 ''0653'' 564 8 3,
    schema_row 654 ''0654'' 568 4 1,
    schema_row 655 ''0655'' 572 4 2,
    schema_row 656 ''0656'' 576 8 3,
    schema_row 657 ''0657'' 580 4 1,
    schema_row 658 ''0658'' 584 4 2,
    schema_row 659 ''0659'' 588 8 3,
    schema_row 660 ''0660'' 592 4 1,
    schema_row 661 ''0661'' 596 4 2,
    schema_row 662 ''0662'' 600 8 3,
    schema_row 663 ''0663'' 604 4 1,
    schema_row 664 ''0664'' 608 4 2,
    schema_row 665 ''0665'' 612 8 3,
    schema_row 666 ''0666'' 616 4 1,
    schema_row 667 ''0667'' 620 4 2,
    schema_row 668 ''0668'' 624 8 3,
    schema_row 669 ''0669'' 628 4 1,
    schema_row 670 ''0670'' 632 4 2,
    schema_row 671 ''0671'' 636 8 3,
    schema_row 672 ''0672'' 640 4 1,
    schema_row 673 ''0673'' 644 4 2,
    schema_row 674 ''0674'' 648 8 3,
    schema_row 675 ''0675'' 652 4 1,
    schema_row 676 ''0676'' 656 4 2,
    schema_row 677 ''0677'' 660 8 3,
    schema_row 678 ''0678'' 664 4 1,
    schema_row 679 ''0679'' 668 4 2,
    schema_row 680 ''0680'' 672 8 3,
    schema_row 681 ''0681'' 676 4 1,
    schema_row 682 ''0682'' 680 4 2,
    schema_row 683 ''0683'' 684 8 3,
    schema_row 684 ''0684'' 688 4 1,
    schema_row 685 ''0685'' 692 4 2,
    schema_row 686 ''0686'' 696 8 3,
    schema_row 687 ''0687'' 700 4 1,
    schema_row 688 ''0688'' 704 4 2,
    schema_row 689 ''0689'' 708 8 3,
    schema_row 690 ''0690'' 712 4 1,
    schema_row 691 ''0691'' 716 4 2,
    schema_row 692 ''0692'' 720 8 3,
    schema_row 693 ''0693'' 724 4 1,
    schema_row 694 ''0694'' 728 4 2,
    schema_row 695 ''0695'' 732 8 3,
    schema_row 696 ''0696'' 736 4 1,
    schema_row 697 ''0697'' 740 4 2,
    schema_row 698 ''0698'' 744 8 3,
    schema_row 699 ''0699'' 748 4 1,
    schema_row 700 ''0700'' 752 4 2,
    schema_row 701 ''0701'' 756 8 3,
    schema_row 702 ''0702'' 760 4 1,
    schema_row 703 ''0703'' 764 4 2,
    schema_row 704 ''0704'' 768 8 3,
    schema_row 705 ''0705'' 772 4 1,
    schema_row 706 ''0706'' 776 4 2,
    schema_row 707 ''0707'' 780 8 3,
    schema_row 708 ''0708'' 784 4 1,
    schema_row 709 ''0709'' 788 4 2,
    schema_row 710 ''0710'' 792 8 3,
    schema_row 711 ''0711'' 796 4 1,
    schema_row 712 ''0712'' 800 4 2,
    schema_row 713 ''0713'' 804 8 3,
    schema_row 714 ''0714'' 808 4 1,
    schema_row 715 ''0715'' 812 4 2,
    schema_row 716 ''0716'' 816 8 3,
    schema_row 717 ''0717'' 820 4 1,
    schema_row 718 ''0718'' 824 4 2,
    schema_row 719 ''0719'' 828 8 3,
    schema_row 720 ''0720'' 832 4 1,
    schema_row 721 ''0721'' 836 4 2,
    schema_row 722 ''0722'' 840 8 3,
    schema_row 723 ''0723'' 844 4 1,
    schema_row 724 ''0724'' 848 4 2,
    schema_row 725 ''0725'' 852 8 3,
    schema_row 726 ''0726'' 856 4 1,
    schema_row 727 ''0727'' 860 4 2,
    schema_row 728 ''0728'' 864 8 3,
    schema_row 729 ''0729'' 868 4 1,
    schema_row 730 ''0730'' 872 4 2,
    schema_row 731 ''0731'' 876 8 3,
    schema_row 732 ''0732'' 880 4 1,
    schema_row 733 ''0733'' 884 4 2,
    schema_row 734 ''0734'' 888 8 3,
    schema_row 735 ''0735'' 892 4 1,
    schema_row 736 ''0736'' 896 4 2,
    schema_row 737 ''0737'' 900 8 3,
    schema_row 738 ''0738'' 904 4 1,
    schema_row 739 ''0739'' 908 4 2,
    schema_row 740 ''0740'' 912 8 3,
    schema_row 741 ''0741'' 916 4 1,
    schema_row 742 ''0742'' 920 4 2,
    schema_row 743 ''0743'' 924 8 3,
    schema_row 744 ''0744'' 928 4 1,
    schema_row 745 ''0745'' 932 4 2,
    schema_row 746 ''0746'' 936 8 3,
    schema_row 747 ''0747'' 940 4 1,
    schema_row 748 ''0748'' 944 4 2,
    schema_row 749 ''0749'' 948 8 3,
    schema_row 750 ''0750'' 952 4 1]"

definition schema_fields_5 :: "ipmb_schema_field list" where
  "schema_fields_5 = [
    schema_row 751 ''0751'' 956 4 2,
    schema_row 752 ''0752'' 960 8 3,
    schema_row 753 ''0753'' 964 4 1,
    schema_row 754 ''0754'' 968 4 2,
    schema_row 755 ''0755'' 972 8 3,
    schema_row 756 ''0756'' 976 4 1,
    schema_row 757 ''0757'' 980 4 2,
    schema_row 758 ''0758'' 984 8 3,
    schema_row 759 ''0759'' 988 4 1,
    schema_row 760 ''0760'' 992 4 2,
    schema_row 761 ''0761'' 996 8 3,
    schema_row 762 ''0762'' 1000 4 1,
    schema_row 763 ''0763'' 1004 4 2,
    schema_row 764 ''0764'' 1008 8 3,
    schema_row 765 ''0765'' 1012 4 1,
    schema_row 766 ''0766'' 1016 4 2,
    schema_row 767 ''0767'' 1020 8 3,
    schema_row 768 ''0768'' 0 4 1,
    schema_row 769 ''0769'' 4 4 2,
    schema_row 770 ''0770'' 8 8 3,
    schema_row 771 ''0771'' 12 4 1,
    schema_row 772 ''0772'' 16 4 2,
    schema_row 773 ''0773'' 20 8 3,
    schema_row 774 ''0774'' 24 4 1,
    schema_row 775 ''0775'' 28 4 2,
    schema_row 776 ''0776'' 32 8 3,
    schema_row 777 ''0777'' 36 4 1,
    schema_row 778 ''0778'' 40 4 2,
    schema_row 779 ''0779'' 44 8 3,
    schema_row 780 ''0780'' 48 4 1,
    schema_row 781 ''0781'' 52 4 2,
    schema_row 782 ''0782'' 56 8 3,
    schema_row 783 ''0783'' 60 4 1,
    schema_row 784 ''0784'' 64 4 2,
    schema_row 785 ''0785'' 68 8 3,
    schema_row 786 ''0786'' 72 4 1,
    schema_row 787 ''0787'' 76 4 2,
    schema_row 788 ''0788'' 80 8 3,
    schema_row 789 ''0789'' 84 4 1,
    schema_row 790 ''0790'' 88 4 2,
    schema_row 791 ''0791'' 92 8 3,
    schema_row 792 ''0792'' 96 4 1,
    schema_row 793 ''0793'' 100 4 2,
    schema_row 794 ''0794'' 104 8 3,
    schema_row 795 ''0795'' 108 4 1,
    schema_row 796 ''0796'' 112 4 2,
    schema_row 797 ''0797'' 116 8 3,
    schema_row 798 ''0798'' 120 4 1,
    schema_row 799 ''0799'' 124 4 2,
    schema_row 800 ''0800'' 128 8 3,
    schema_row 801 ''0801'' 132 4 1,
    schema_row 802 ''0802'' 136 4 2,
    schema_row 803 ''0803'' 140 8 3,
    schema_row 804 ''0804'' 144 4 1,
    schema_row 805 ''0805'' 148 4 2,
    schema_row 806 ''0806'' 152 8 3,
    schema_row 807 ''0807'' 156 4 1,
    schema_row 808 ''0808'' 160 4 2,
    schema_row 809 ''0809'' 164 8 3,
    schema_row 810 ''0810'' 168 4 1,
    schema_row 811 ''0811'' 172 4 2,
    schema_row 812 ''0812'' 176 8 3,
    schema_row 813 ''0813'' 180 4 1,
    schema_row 814 ''0814'' 184 4 2,
    schema_row 815 ''0815'' 188 8 3,
    schema_row 816 ''0816'' 192 4 1,
    schema_row 817 ''0817'' 196 4 2,
    schema_row 818 ''0818'' 200 8 3,
    schema_row 819 ''0819'' 204 4 1,
    schema_row 820 ''0820'' 208 4 2,
    schema_row 821 ''0821'' 212 8 3,
    schema_row 822 ''0822'' 216 4 1,
    schema_row 823 ''0823'' 220 4 2,
    schema_row 824 ''0824'' 224 8 3,
    schema_row 825 ''0825'' 228 4 1,
    schema_row 826 ''0826'' 232 4 2,
    schema_row 827 ''0827'' 236 8 3,
    schema_row 828 ''0828'' 240 4 1,
    schema_row 829 ''0829'' 244 4 2,
    schema_row 830 ''0830'' 248 8 3,
    schema_row 831 ''0831'' 252 4 1,
    schema_row 832 ''0832'' 256 4 2,
    schema_row 833 ''0833'' 260 8 3,
    schema_row 834 ''0834'' 264 4 1,
    schema_row 835 ''0835'' 268 4 2,
    schema_row 836 ''0836'' 272 8 3,
    schema_row 837 ''0837'' 276 4 1,
    schema_row 838 ''0838'' 280 4 2,
    schema_row 839 ''0839'' 284 8 3,
    schema_row 840 ''0840'' 288 4 1,
    schema_row 841 ''0841'' 292 4 2,
    schema_row 842 ''0842'' 296 8 3,
    schema_row 843 ''0843'' 300 4 1,
    schema_row 844 ''0844'' 304 4 2,
    schema_row 845 ''0845'' 308 8 3,
    schema_row 846 ''0846'' 312 4 1,
    schema_row 847 ''0847'' 316 4 2,
    schema_row 848 ''0848'' 320 8 3,
    schema_row 849 ''0849'' 324 4 1,
    schema_row 850 ''0850'' 328 4 2,
    schema_row 851 ''0851'' 332 8 3,
    schema_row 852 ''0852'' 336 4 1,
    schema_row 853 ''0853'' 340 4 2,
    schema_row 854 ''0854'' 344 8 3,
    schema_row 855 ''0855'' 348 4 1,
    schema_row 856 ''0856'' 352 4 2,
    schema_row 857 ''0857'' 356 8 3,
    schema_row 858 ''0858'' 360 4 1,
    schema_row 859 ''0859'' 364 4 2,
    schema_row 860 ''0860'' 368 8 3,
    schema_row 861 ''0861'' 372 4 1,
    schema_row 862 ''0862'' 376 4 2,
    schema_row 863 ''0863'' 380 8 3,
    schema_row 864 ''0864'' 384 4 1,
    schema_row 865 ''0865'' 388 4 2,
    schema_row 866 ''0866'' 392 8 3,
    schema_row 867 ''0867'' 396 4 1,
    schema_row 868 ''0868'' 400 4 2,
    schema_row 869 ''0869'' 404 8 3,
    schema_row 870 ''0870'' 408 4 1,
    schema_row 871 ''0871'' 412 4 2,
    schema_row 872 ''0872'' 416 8 3,
    schema_row 873 ''0873'' 420 4 1,
    schema_row 874 ''0874'' 424 4 2,
    schema_row 875 ''0875'' 428 8 3,
    schema_row 876 ''0876'' 432 4 1,
    schema_row 877 ''0877'' 436 4 2,
    schema_row 878 ''0878'' 440 8 3,
    schema_row 879 ''0879'' 444 4 1,
    schema_row 880 ''0880'' 448 4 2,
    schema_row 881 ''0881'' 452 8 3,
    schema_row 882 ''0882'' 456 4 1,
    schema_row 883 ''0883'' 460 4 2,
    schema_row 884 ''0884'' 464 8 3,
    schema_row 885 ''0885'' 468 4 1,
    schema_row 886 ''0886'' 472 4 2,
    schema_row 887 ''0887'' 476 8 3,
    schema_row 888 ''0888'' 480 4 1,
    schema_row 889 ''0889'' 484 4 2,
    schema_row 890 ''0890'' 488 8 3,
    schema_row 891 ''0891'' 492 4 1,
    schema_row 892 ''0892'' 496 4 2,
    schema_row 893 ''0893'' 500 8 3,
    schema_row 894 ''0894'' 504 4 1,
    schema_row 895 ''0895'' 508 4 2,
    schema_row 896 ''0896'' 512 8 3,
    schema_row 897 ''0897'' 516 4 1,
    schema_row 898 ''0898'' 520 4 2,
    schema_row 899 ''0899'' 524 8 3,
    schema_row 900 ''0900'' 528 4 1]"

definition schema_fields_6 :: "ipmb_schema_field list" where
  "schema_fields_6 = [
    schema_row 901 ''0901'' 532 4 2,
    schema_row 902 ''0902'' 536 8 3,
    schema_row 903 ''0903'' 540 4 1,
    schema_row 904 ''0904'' 544 4 2,
    schema_row 905 ''0905'' 548 8 3,
    schema_row 906 ''0906'' 552 4 1,
    schema_row 907 ''0907'' 556 4 2,
    schema_row 908 ''0908'' 560 8 3,
    schema_row 909 ''0909'' 564 4 1,
    schema_row 910 ''0910'' 568 4 2,
    schema_row 911 ''0911'' 572 8 3,
    schema_row 912 ''0912'' 576 4 1,
    schema_row 913 ''0913'' 580 4 2,
    schema_row 914 ''0914'' 584 8 3,
    schema_row 915 ''0915'' 588 4 1,
    schema_row 916 ''0916'' 592 4 2,
    schema_row 917 ''0917'' 596 8 3,
    schema_row 918 ''0918'' 600 4 1,
    schema_row 919 ''0919'' 604 4 2,
    schema_row 920 ''0920'' 608 8 3,
    schema_row 921 ''0921'' 612 4 1,
    schema_row 922 ''0922'' 616 4 2,
    schema_row 923 ''0923'' 620 8 3,
    schema_row 924 ''0924'' 624 4 1,
    schema_row 925 ''0925'' 628 4 2,
    schema_row 926 ''0926'' 632 8 3,
    schema_row 927 ''0927'' 636 4 1,
    schema_row 928 ''0928'' 640 4 2,
    schema_row 929 ''0929'' 644 8 3,
    schema_row 930 ''0930'' 648 4 1,
    schema_row 931 ''0931'' 652 4 2,
    schema_row 932 ''0932'' 656 8 3,
    schema_row 933 ''0933'' 660 4 1,
    schema_row 934 ''0934'' 664 4 2,
    schema_row 935 ''0935'' 668 8 3,
    schema_row 936 ''0936'' 672 4 1,
    schema_row 937 ''0937'' 676 4 2,
    schema_row 938 ''0938'' 680 8 3,
    schema_row 939 ''0939'' 684 4 1,
    schema_row 940 ''0940'' 688 4 2,
    schema_row 941 ''0941'' 692 8 3,
    schema_row 942 ''0942'' 696 4 1,
    schema_row 943 ''0943'' 700 4 2,
    schema_row 944 ''0944'' 704 8 3,
    schema_row 945 ''0945'' 708 4 1,
    schema_row 946 ''0946'' 712 4 2,
    schema_row 947 ''0947'' 716 8 3,
    schema_row 948 ''0948'' 720 4 1,
    schema_row 949 ''0949'' 724 4 2,
    schema_row 950 ''0950'' 728 8 3,
    schema_row 951 ''0951'' 732 4 1,
    schema_row 952 ''0952'' 736 4 2,
    schema_row 953 ''0953'' 740 8 3,
    schema_row 954 ''0954'' 744 4 1,
    schema_row 955 ''0955'' 748 4 2,
    schema_row 956 ''0956'' 752 8 3,
    schema_row 957 ''0957'' 756 4 1,
    schema_row 958 ''0958'' 760 4 2,
    schema_row 959 ''0959'' 764 8 3,
    schema_row 960 ''0960'' 768 4 1,
    schema_row 961 ''0961'' 772 4 2,
    schema_row 962 ''0962'' 776 8 3,
    schema_row 963 ''0963'' 780 4 1,
    schema_row 964 ''0964'' 784 4 2,
    schema_row 965 ''0965'' 788 8 3,
    schema_row 966 ''0966'' 792 4 1,
    schema_row 967 ''0967'' 796 4 2,
    schema_row 968 ''0968'' 800 8 3,
    schema_row 969 ''0969'' 804 4 1,
    schema_row 970 ''0970'' 808 4 2,
    schema_row 971 ''0971'' 812 8 3,
    schema_row 972 ''0972'' 816 4 1,
    schema_row 973 ''0973'' 820 4 2,
    schema_row 974 ''0974'' 824 8 3,
    schema_row 975 ''0975'' 828 4 1,
    schema_row 976 ''0976'' 832 4 2,
    schema_row 977 ''0977'' 836 8 3,
    schema_row 978 ''0978'' 840 4 1,
    schema_row 979 ''0979'' 844 4 2,
    schema_row 980 ''0980'' 848 8 3,
    schema_row 981 ''0981'' 852 4 1,
    schema_row 982 ''0982'' 856 4 2,
    schema_row 983 ''0983'' 860 8 3,
    schema_row 984 ''0984'' 864 4 1,
    schema_row 985 ''0985'' 868 4 2,
    schema_row 986 ''0986'' 872 8 3,
    schema_row 987 ''0987'' 876 4 1,
    schema_row 988 ''0988'' 880 4 2,
    schema_row 989 ''0989'' 884 8 3,
    schema_row 990 ''0990'' 888 4 1,
    schema_row 991 ''0991'' 892 4 2,
    schema_row 992 ''0992'' 896 8 3,
    schema_row 993 ''0993'' 900 4 1,
    schema_row 994 ''0994'' 904 4 2,
    schema_row 995 ''0995'' 908 8 3,
    schema_row 996 ''0996'' 912 4 1,
    schema_row 997 ''0997'' 916 4 2,
    schema_row 998 ''0998'' 920 8 3,
    schema_row 999 ''0999'' 924 4 1,
    schema_row 1000 ''1000'' 928 4 2,
    schema_row 1001 ''1001'' 932 8 3,
    schema_row 1002 ''1002'' 936 4 1,
    schema_row 1003 ''1003'' 940 4 2,
    schema_row 1004 ''1004'' 944 8 3,
    schema_row 1005 ''1005'' 948 4 1,
    schema_row 1006 ''1006'' 952 4 2,
    schema_row 1007 ''1007'' 956 8 3,
    schema_row 1008 ''1008'' 960 4 1,
    schema_row 1009 ''1009'' 964 4 2,
    schema_row 1010 ''1010'' 968 8 3,
    schema_row 1011 ''1011'' 972 4 1,
    schema_row 1012 ''1012'' 976 4 2,
    schema_row 1013 ''1013'' 980 8 3,
    schema_row 1014 ''1014'' 984 4 1,
    schema_row 1015 ''1015'' 988 4 2,
    schema_row 1016 ''1016'' 992 8 3,
    schema_row 1017 ''1017'' 996 4 1,
    schema_row 1018 ''1018'' 1000 4 2,
    schema_row 1019 ''1019'' 1004 8 3,
    schema_row 1020 ''1020'' 1008 4 1,
    schema_row 1021 ''1021'' 1012 4 2,
    schema_row 1022 ''1022'' 1016 8 3,
    schema_row 1023 ''1023'' 1020 4 1,
    schema_row 1024 ''1024'' 0 4 2,
    schema_row 1025 ''1025'' 4 8 3,
    schema_row 1026 ''1026'' 8 4 1,
    schema_row 1027 ''1027'' 12 4 2,
    schema_row 1028 ''1028'' 16 8 3,
    schema_row 1029 ''1029'' 20 4 1,
    schema_row 1030 ''1030'' 24 4 2,
    schema_row 1031 ''1031'' 28 8 3,
    schema_row 1032 ''1032'' 32 4 1,
    schema_row 1033 ''1033'' 36 4 2,
    schema_row 1034 ''1034'' 40 8 3,
    schema_row 1035 ''1035'' 44 4 1,
    schema_row 1036 ''1036'' 48 4 2,
    schema_row 1037 ''1037'' 52 8 3,
    schema_row 1038 ''1038'' 56 4 1,
    schema_row 1039 ''1039'' 60 4 2,
    schema_row 1040 ''1040'' 64 8 3,
    schema_row 1041 ''1041'' 68 4 1,
    schema_row 1042 ''1042'' 72 4 2,
    schema_row 1043 ''1043'' 76 8 3,
    schema_row 1044 ''1044'' 80 4 1,
    schema_row 1045 ''1045'' 84 4 2,
    schema_row 1046 ''1046'' 88 8 3,
    schema_row 1047 ''1047'' 92 4 1,
    schema_row 1048 ''1048'' 96 4 2,
    schema_row 1049 ''1049'' 100 8 3,
    schema_row 1050 ''1050'' 104 4 1]"

definition schema_fields_7 :: "ipmb_schema_field list" where
  "schema_fields_7 = [
    schema_row 1051 ''1051'' 108 4 2,
    schema_row 1052 ''1052'' 112 8 3,
    schema_row 1053 ''1053'' 116 4 1,
    schema_row 1054 ''1054'' 120 4 2,
    schema_row 1055 ''1055'' 124 8 3,
    schema_row 1056 ''1056'' 128 4 1,
    schema_row 1057 ''1057'' 132 4 2,
    schema_row 1058 ''1058'' 136 8 3,
    schema_row 1059 ''1059'' 140 4 1,
    schema_row 1060 ''1060'' 144 4 2,
    schema_row 1061 ''1061'' 148 8 3,
    schema_row 1062 ''1062'' 152 4 1,
    schema_row 1063 ''1063'' 156 4 2,
    schema_row 1064 ''1064'' 160 8 3,
    schema_row 1065 ''1065'' 164 4 1,
    schema_row 1066 ''1066'' 168 4 2,
    schema_row 1067 ''1067'' 172 8 3,
    schema_row 1068 ''1068'' 176 4 1,
    schema_row 1069 ''1069'' 180 4 2,
    schema_row 1070 ''1070'' 184 8 3,
    schema_row 1071 ''1071'' 188 4 1,
    schema_row 1072 ''1072'' 192 4 2,
    schema_row 1073 ''1073'' 196 8 3,
    schema_row 1074 ''1074'' 200 4 1,
    schema_row 1075 ''1075'' 204 4 2,
    schema_row 1076 ''1076'' 208 8 3,
    schema_row 1077 ''1077'' 212 4 1,
    schema_row 1078 ''1078'' 216 4 2,
    schema_row 1079 ''1079'' 220 8 3,
    schema_row 1080 ''1080'' 224 4 1,
    schema_row 1081 ''1081'' 228 4 2,
    schema_row 1082 ''1082'' 232 8 3,
    schema_row 1083 ''1083'' 236 4 1,
    schema_row 1084 ''1084'' 240 4 2,
    schema_row 1085 ''1085'' 244 8 3,
    schema_row 1086 ''1086'' 248 4 1,
    schema_row 1087 ''1087'' 252 4 2,
    schema_row 1088 ''1088'' 256 8 3,
    schema_row 1089 ''1089'' 260 4 1,
    schema_row 1090 ''1090'' 264 4 2,
    schema_row 1091 ''1091'' 268 8 3,
    schema_row 1092 ''1092'' 272 4 1,
    schema_row 1093 ''1093'' 276 4 2,
    schema_row 1094 ''1094'' 280 8 3,
    schema_row 1095 ''1095'' 284 4 1,
    schema_row 1096 ''1096'' 288 4 2,
    schema_row 1097 ''1097'' 292 8 3,
    schema_row 1098 ''1098'' 296 4 1,
    schema_row 1099 ''1099'' 300 4 2,
    schema_row 1100 ''1100'' 304 8 3,
    schema_row 1101 ''1101'' 308 4 1,
    schema_row 1102 ''1102'' 312 4 2,
    schema_row 1103 ''1103'' 316 8 3,
    schema_row 1104 ''1104'' 320 4 1,
    schema_row 1105 ''1105'' 324 4 2,
    schema_row 1106 ''1106'' 328 8 3,
    schema_row 1107 ''1107'' 332 4 1,
    schema_row 1108 ''1108'' 336 4 2,
    schema_row 1109 ''1109'' 340 8 3,
    schema_row 1110 ''1110'' 344 4 1,
    schema_row 1111 ''1111'' 348 4 2,
    schema_row 1112 ''1112'' 352 8 3,
    schema_row 1113 ''1113'' 356 4 1,
    schema_row 1114 ''1114'' 360 4 2,
    schema_row 1115 ''1115'' 364 8 3,
    schema_row 1116 ''1116'' 368 4 1,
    schema_row 1117 ''1117'' 372 4 2,
    schema_row 1118 ''1118'' 376 8 3,
    schema_row 1119 ''1119'' 380 4 1,
    schema_row 1120 ''1120'' 384 4 2,
    schema_row 1121 ''1121'' 388 8 3,
    schema_row 1122 ''1122'' 392 4 1,
    schema_row 1123 ''1123'' 396 4 2,
    schema_row 1124 ''1124'' 400 8 3,
    schema_row 1125 ''1125'' 404 4 1,
    schema_row 1126 ''1126'' 408 4 2,
    schema_row 1127 ''1127'' 412 8 3,
    schema_row 1128 ''1128'' 416 4 1,
    schema_row 1129 ''1129'' 420 4 2,
    schema_row 1130 ''1130'' 424 8 3,
    schema_row 1131 ''1131'' 428 4 1,
    schema_row 1132 ''1132'' 432 4 2,
    schema_row 1133 ''1133'' 436 8 3,
    schema_row 1134 ''1134'' 440 4 1,
    schema_row 1135 ''1135'' 444 4 2,
    schema_row 1136 ''1136'' 448 8 3,
    schema_row 1137 ''1137'' 452 4 1,
    schema_row 1138 ''1138'' 456 4 2,
    schema_row 1139 ''1139'' 460 8 3,
    schema_row 1140 ''1140'' 464 4 1,
    schema_row 1141 ''1141'' 468 4 2,
    schema_row 1142 ''1142'' 472 8 3,
    schema_row 1143 ''1143'' 476 4 1,
    schema_row 1144 ''1144'' 480 4 2,
    schema_row 1145 ''1145'' 484 8 3,
    schema_row 1146 ''1146'' 488 4 1,
    schema_row 1147 ''1147'' 492 4 2,
    schema_row 1148 ''1148'' 496 8 3,
    schema_row 1149 ''1149'' 500 4 1,
    schema_row 1150 ''1150'' 504 4 2,
    schema_row 1151 ''1151'' 508 8 3,
    schema_row 1152 ''1152'' 512 4 1,
    schema_row 1153 ''1153'' 516 4 2,
    schema_row 1154 ''1154'' 520 8 3,
    schema_row 1155 ''1155'' 524 4 1,
    schema_row 1156 ''1156'' 528 4 2,
    schema_row 1157 ''1157'' 532 8 3,
    schema_row 1158 ''1158'' 536 4 1,
    schema_row 1159 ''1159'' 540 4 2,
    schema_row 1160 ''1160'' 544 8 3,
    schema_row 1161 ''1161'' 548 4 1,
    schema_row 1162 ''1162'' 552 4 2,
    schema_row 1163 ''1163'' 556 8 3,
    schema_row 1164 ''1164'' 560 4 1,
    schema_row 1165 ''1165'' 564 4 2,
    schema_row 1166 ''1166'' 568 8 3,
    schema_row 1167 ''1167'' 572 4 1,
    schema_row 1168 ''1168'' 576 4 2,
    schema_row 1169 ''1169'' 580 8 3,
    schema_row 1170 ''1170'' 584 4 1,
    schema_row 1171 ''1171'' 588 4 2,
    schema_row 1172 ''1172'' 592 8 3,
    schema_row 1173 ''1173'' 596 4 1,
    schema_row 1174 ''1174'' 600 4 2,
    schema_row 1175 ''1175'' 604 8 3,
    schema_row 1176 ''1176'' 608 4 1,
    schema_row 1177 ''1177'' 612 4 2,
    schema_row 1178 ''1178'' 616 8 3,
    schema_row 1179 ''1179'' 620 4 1,
    schema_row 1180 ''1180'' 624 4 2,
    schema_row 1181 ''1181'' 628 8 3,
    schema_row 1182 ''1182'' 632 4 1,
    schema_row 1183 ''1183'' 636 4 2,
    schema_row 1184 ''1184'' 640 8 3,
    schema_row 1185 ''1185'' 644 4 1,
    schema_row 1186 ''1186'' 648 4 2,
    schema_row 1187 ''1187'' 652 8 3,
    schema_row 1188 ''1188'' 656 4 1,
    schema_row 1189 ''1189'' 660 4 2,
    schema_row 1190 ''1190'' 664 8 3,
    schema_row 1191 ''1191'' 668 4 1,
    schema_row 1192 ''1192'' 672 4 2,
    schema_row 1193 ''1193'' 676 8 3,
    schema_row 1194 ''1194'' 680 4 1,
    schema_row 1195 ''1195'' 684 4 2,
    schema_row 1196 ''1196'' 688 8 3,
    schema_row 1197 ''1197'' 692 4 1,
    schema_row 1198 ''1198'' 696 4 2,
    schema_row 1199 ''1199'' 700 8 3,
    schema_row 1200 ''1200'' 704 4 1]"

definition schema_fields_8 :: "ipmb_schema_field list" where
  "schema_fields_8 = [
    schema_row 1201 ''1201'' 708 4 2,
    schema_row 1202 ''1202'' 712 8 3,
    schema_row 1203 ''1203'' 716 4 1,
    schema_row 1204 ''1204'' 720 4 2,
    schema_row 1205 ''1205'' 724 8 3,
    schema_row 1206 ''1206'' 728 4 1,
    schema_row 1207 ''1207'' 732 4 2,
    schema_row 1208 ''1208'' 736 8 3,
    schema_row 1209 ''1209'' 740 4 1,
    schema_row 1210 ''1210'' 744 4 2,
    schema_row 1211 ''1211'' 748 8 3,
    schema_row 1212 ''1212'' 752 4 1,
    schema_row 1213 ''1213'' 756 4 2,
    schema_row 1214 ''1214'' 760 8 3,
    schema_row 1215 ''1215'' 764 4 1,
    schema_row 1216 ''1216'' 768 4 2,
    schema_row 1217 ''1217'' 772 8 3,
    schema_row 1218 ''1218'' 776 4 1,
    schema_row 1219 ''1219'' 780 4 2,
    schema_row 1220 ''1220'' 784 8 3,
    schema_row 1221 ''1221'' 788 4 1,
    schema_row 1222 ''1222'' 792 4 2,
    schema_row 1223 ''1223'' 796 8 3,
    schema_row 1224 ''1224'' 800 4 1,
    schema_row 1225 ''1225'' 804 4 2,
    schema_row 1226 ''1226'' 808 8 3,
    schema_row 1227 ''1227'' 812 4 1,
    schema_row 1228 ''1228'' 816 4 2,
    schema_row 1229 ''1229'' 820 8 3,
    schema_row 1230 ''1230'' 824 4 1,
    schema_row 1231 ''1231'' 828 4 2,
    schema_row 1232 ''1232'' 832 8 3,
    schema_row 1233 ''1233'' 836 4 1,
    schema_row 1234 ''1234'' 840 4 2,
    schema_row 1235 ''1235'' 844 8 3,
    schema_row 1236 ''1236'' 848 4 1,
    schema_row 1237 ''1237'' 852 4 2,
    schema_row 1238 ''1238'' 856 8 3,
    schema_row 1239 ''1239'' 860 4 1,
    schema_row 1240 ''1240'' 864 4 2,
    schema_row 1241 ''1241'' 868 8 3,
    schema_row 1242 ''1242'' 872 4 1,
    schema_row 1243 ''1243'' 876 4 2,
    schema_row 1244 ''1244'' 880 8 3,
    schema_row 1245 ''1245'' 884 4 1,
    schema_row 1246 ''1246'' 888 4 2,
    schema_row 1247 ''1247'' 892 8 3,
    schema_row 1248 ''1248'' 896 4 1,
    schema_row 1249 ''1249'' 900 4 2,
    schema_row 1250 ''1250'' 904 8 3,
    schema_row 1251 ''1251'' 908 4 1,
    schema_row 1252 ''1252'' 912 4 2,
    schema_row 1253 ''1253'' 916 8 3,
    schema_row 1254 ''1254'' 920 4 1,
    schema_row 1255 ''1255'' 924 4 2,
    schema_row 1256 ''1256'' 928 8 3,
    schema_row 1257 ''1257'' 932 4 1,
    schema_row 1258 ''1258'' 936 4 2,
    schema_row 1259 ''1259'' 940 8 3,
    schema_row 1260 ''1260'' 944 4 1,
    schema_row 1261 ''1261'' 948 4 2,
    schema_row 1262 ''1262'' 952 8 3,
    schema_row 1263 ''1263'' 956 4 1,
    schema_row 1264 ''1264'' 960 4 2,
    schema_row 1265 ''1265'' 964 8 3,
    schema_row 1266 ''1266'' 968 4 1,
    schema_row 1267 ''1267'' 972 4 2,
    schema_row 1268 ''1268'' 976 8 3,
    schema_row 1269 ''1269'' 980 4 1,
    schema_row 1270 ''1270'' 984 4 2,
    schema_row 1271 ''1271'' 988 8 3,
    schema_row 1272 ''1272'' 992 4 1,
    schema_row 1273 ''1273'' 996 4 2,
    schema_row 1274 ''1274'' 1000 8 3,
    schema_row 1275 ''1275'' 1004 4 1,
    schema_row 1276 ''1276'' 1008 4 2,
    schema_row 1277 ''1277'' 1012 8 3,
    schema_row 1278 ''1278'' 1016 4 1,
    schema_row 1279 ''1279'' 1020 4 2,
    schema_row 1280 ''1280'' 0 8 3,
    schema_row 1281 ''1281'' 4 4 1,
    schema_row 1282 ''1282'' 8 4 2,
    schema_row 1283 ''1283'' 12 8 3,
    schema_row 1284 ''1284'' 16 4 1,
    schema_row 1285 ''1285'' 20 4 2,
    schema_row 1286 ''1286'' 24 8 3,
    schema_row 1287 ''1287'' 28 4 1,
    schema_row 1288 ''1288'' 32 4 2,
    schema_row 1289 ''1289'' 36 8 3,
    schema_row 1290 ''1290'' 40 4 1,
    schema_row 1291 ''1291'' 44 4 2,
    schema_row 1292 ''1292'' 48 8 3,
    schema_row 1293 ''1293'' 52 4 1,
    schema_row 1294 ''1294'' 56 4 2,
    schema_row 1295 ''1295'' 60 8 3,
    schema_row 1296 ''1296'' 64 4 1,
    schema_row 1297 ''1297'' 68 4 2,
    schema_row 1298 ''1298'' 72 8 3,
    schema_row 1299 ''1299'' 76 4 1,
    schema_row 1300 ''1300'' 80 4 2,
    schema_row 1301 ''1301'' 84 8 3,
    schema_row 1302 ''1302'' 88 4 1,
    schema_row 1303 ''1303'' 92 4 2,
    schema_row 1304 ''1304'' 96 8 3,
    schema_row 1305 ''1305'' 100 4 1,
    schema_row 1306 ''1306'' 104 4 2,
    schema_row 1307 ''1307'' 108 8 3,
    schema_row 1308 ''1308'' 112 4 1,
    schema_row 1309 ''1309'' 116 4 2,
    schema_row 1310 ''1310'' 120 8 3,
    schema_row 1311 ''1311'' 124 4 1,
    schema_row 1312 ''1312'' 128 4 2,
    schema_row 1313 ''1313'' 132 8 3,
    schema_row 1314 ''1314'' 136 4 1,
    schema_row 1315 ''1315'' 140 4 2,
    schema_row 1316 ''1316'' 144 8 3,
    schema_row 1317 ''1317'' 148 4 1,
    schema_row 1318 ''1318'' 152 4 2,
    schema_row 1319 ''1319'' 156 8 3,
    schema_row 1320 ''1320'' 160 4 1,
    schema_row 1321 ''1321'' 164 4 2,
    schema_row 1322 ''1322'' 168 8 3,
    schema_row 1323 ''1323'' 172 4 1,
    schema_row 1324 ''1324'' 176 4 2,
    schema_row 1325 ''1325'' 180 8 3,
    schema_row 1326 ''1326'' 184 4 1,
    schema_row 1327 ''1327'' 188 4 2,
    schema_row 1328 ''1328'' 192 8 3,
    schema_row 1329 ''1329'' 196 4 1,
    schema_row 1330 ''1330'' 200 4 2,
    schema_row 1331 ''1331'' 204 8 3,
    schema_row 1332 ''1332'' 208 4 1,
    schema_row 1333 ''1333'' 212 4 2,
    schema_row 1334 ''1334'' 216 8 3,
    schema_row 1335 ''1335'' 220 4 1,
    schema_row 1336 ''1336'' 224 4 2,
    schema_row 1337 ''1337'' 228 8 3,
    schema_row 1338 ''1338'' 232 4 1,
    schema_row 1339 ''1339'' 236 4 2,
    schema_row 1340 ''1340'' 240 8 3,
    schema_row 1341 ''1341'' 244 4 1,
    schema_row 1342 ''1342'' 248 4 2,
    schema_row 1343 ''1343'' 252 8 3,
    schema_row 1344 ''1344'' 256 4 1,
    schema_row 1345 ''1345'' 260 4 2,
    schema_row 1346 ''1346'' 264 8 3,
    schema_row 1347 ''1347'' 268 4 1,
    schema_row 1348 ''1348'' 272 4 2,
    schema_row 1349 ''1349'' 276 8 3,
    schema_row 1350 ''1350'' 280 4 1]"

definition schema_fields_9 :: "ipmb_schema_field list" where
  "schema_fields_9 = [
    schema_row 1351 ''1351'' 284 4 2,
    schema_row 1352 ''1352'' 288 8 3,
    schema_row 1353 ''1353'' 292 4 1,
    schema_row 1354 ''1354'' 296 4 2,
    schema_row 1355 ''1355'' 300 8 3,
    schema_row 1356 ''1356'' 304 4 1,
    schema_row 1357 ''1357'' 308 4 2,
    schema_row 1358 ''1358'' 312 8 3,
    schema_row 1359 ''1359'' 316 4 1,
    schema_row 1360 ''1360'' 320 4 2,
    schema_row 1361 ''1361'' 324 8 3,
    schema_row 1362 ''1362'' 328 4 1,
    schema_row 1363 ''1363'' 332 4 2,
    schema_row 1364 ''1364'' 336 8 3,
    schema_row 1365 ''1365'' 340 4 1,
    schema_row 1366 ''1366'' 344 4 2,
    schema_row 1367 ''1367'' 348 8 3,
    schema_row 1368 ''1368'' 352 4 1,
    schema_row 1369 ''1369'' 356 4 2,
    schema_row 1370 ''1370'' 360 8 3,
    schema_row 1371 ''1371'' 364 4 1,
    schema_row 1372 ''1372'' 368 4 2,
    schema_row 1373 ''1373'' 372 8 3,
    schema_row 1374 ''1374'' 376 4 1,
    schema_row 1375 ''1375'' 380 4 2,
    schema_row 1376 ''1376'' 384 8 3,
    schema_row 1377 ''1377'' 388 4 1,
    schema_row 1378 ''1378'' 392 4 2,
    schema_row 1379 ''1379'' 396 8 3,
    schema_row 1380 ''1380'' 400 4 1,
    schema_row 1381 ''1381'' 404 4 2,
    schema_row 1382 ''1382'' 408 8 3,
    schema_row 1383 ''1383'' 412 4 1,
    schema_row 1384 ''1384'' 416 4 2,
    schema_row 1385 ''1385'' 420 8 3,
    schema_row 1386 ''1386'' 424 4 1,
    schema_row 1387 ''1387'' 428 4 2,
    schema_row 1388 ''1388'' 432 8 3,
    schema_row 1389 ''1389'' 436 4 1,
    schema_row 1390 ''1390'' 440 4 2,
    schema_row 1391 ''1391'' 444 8 3,
    schema_row 1392 ''1392'' 448 4 1,
    schema_row 1393 ''1393'' 452 4 2,
    schema_row 1394 ''1394'' 456 8 3,
    schema_row 1395 ''1395'' 460 4 1,
    schema_row 1396 ''1396'' 464 4 2,
    schema_row 1397 ''1397'' 468 8 3,
    schema_row 1398 ''1398'' 472 4 1,
    schema_row 1399 ''1399'' 476 4 2,
    schema_row 1400 ''1400'' 480 8 3,
    schema_row 1401 ''1401'' 484 4 1,
    schema_row 1402 ''1402'' 488 4 2,
    schema_row 1403 ''1403'' 492 8 3,
    schema_row 1404 ''1404'' 496 4 1,
    schema_row 1405 ''1405'' 500 4 2,
    schema_row 1406 ''1406'' 504 8 3,
    schema_row 1407 ''1407'' 508 4 1,
    schema_row 1408 ''1408'' 512 4 2,
    schema_row 1409 ''1409'' 516 8 3,
    schema_row 1410 ''1410'' 520 4 1,
    schema_row 1411 ''1411'' 524 4 2,
    schema_row 1412 ''1412'' 528 8 3,
    schema_row 1413 ''1413'' 532 4 1,
    schema_row 1414 ''1414'' 536 4 2,
    schema_row 1415 ''1415'' 540 8 3,
    schema_row 1416 ''1416'' 544 4 1,
    schema_row 1417 ''1417'' 548 4 2,
    schema_row 1418 ''1418'' 552 8 3,
    schema_row 1419 ''1419'' 556 4 1,
    schema_row 1420 ''1420'' 560 4 2,
    schema_row 1421 ''1421'' 564 8 3,
    schema_row 1422 ''1422'' 568 4 1,
    schema_row 1423 ''1423'' 572 4 2,
    schema_row 1424 ''1424'' 576 8 3,
    schema_row 1425 ''1425'' 580 4 1,
    schema_row 1426 ''1426'' 584 4 2,
    schema_row 1427 ''1427'' 588 8 3,
    schema_row 1428 ''1428'' 592 4 1,
    schema_row 1429 ''1429'' 596 4 2,
    schema_row 1430 ''1430'' 600 8 3,
    schema_row 1431 ''1431'' 604 4 1,
    schema_row 1432 ''1432'' 608 4 2,
    schema_row 1433 ''1433'' 612 8 3,
    schema_row 1434 ''1434'' 616 4 1,
    schema_row 1435 ''1435'' 620 4 2,
    schema_row 1436 ''1436'' 624 8 3,
    schema_row 1437 ''1437'' 628 4 1,
    schema_row 1438 ''1438'' 632 4 2,
    schema_row 1439 ''1439'' 636 8 3,
    schema_row 1440 ''1440'' 640 4 1,
    schema_row 1441 ''1441'' 644 4 2,
    schema_row 1442 ''1442'' 648 8 3,
    schema_row 1443 ''1443'' 652 4 1,
    schema_row 1444 ''1444'' 656 4 2,
    schema_row 1445 ''1445'' 660 8 3,
    schema_row 1446 ''1446'' 664 4 1,
    schema_row 1447 ''1447'' 668 4 2,
    schema_row 1448 ''1448'' 672 8 3,
    schema_row 1449 ''1449'' 676 4 1,
    schema_row 1450 ''1450'' 680 4 2,
    schema_row 1451 ''1451'' 684 8 3,
    schema_row 1452 ''1452'' 688 4 1,
    schema_row 1453 ''1453'' 692 4 2,
    schema_row 1454 ''1454'' 696 8 3,
    schema_row 1455 ''1455'' 700 4 1,
    schema_row 1456 ''1456'' 704 4 2,
    schema_row 1457 ''1457'' 708 8 3,
    schema_row 1458 ''1458'' 712 4 1,
    schema_row 1459 ''1459'' 716 4 2,
    schema_row 1460 ''1460'' 720 8 3,
    schema_row 1461 ''1461'' 724 4 1,
    schema_row 1462 ''1462'' 728 4 2,
    schema_row 1463 ''1463'' 732 8 3,
    schema_row 1464 ''1464'' 736 4 1,
    schema_row 1465 ''1465'' 740 4 2,
    schema_row 1466 ''1466'' 744 8 3,
    schema_row 1467 ''1467'' 748 4 1,
    schema_row 1468 ''1468'' 752 4 2,
    schema_row 1469 ''1469'' 756 8 3,
    schema_row 1470 ''1470'' 760 4 1,
    schema_row 1471 ''1471'' 764 4 2,
    schema_row 1472 ''1472'' 768 8 3,
    schema_row 1473 ''1473'' 772 4 1,
    schema_row 1474 ''1474'' 776 4 2,
    schema_row 1475 ''1475'' 780 8 3,
    schema_row 1476 ''1476'' 784 4 1,
    schema_row 1477 ''1477'' 788 4 2,
    schema_row 1478 ''1478'' 792 8 3,
    schema_row 1479 ''1479'' 796 4 1,
    schema_row 1480 ''1480'' 800 4 2,
    schema_row 1481 ''1481'' 804 8 3,
    schema_row 1482 ''1482'' 808 4 1,
    schema_row 1483 ''1483'' 812 4 2,
    schema_row 1484 ''1484'' 816 8 3,
    schema_row 1485 ''1485'' 820 4 1,
    schema_row 1486 ''1486'' 824 4 2,
    schema_row 1487 ''1487'' 828 8 3,
    schema_row 1488 ''1488'' 832 4 1,
    schema_row 1489 ''1489'' 836 4 2,
    schema_row 1490 ''1490'' 840 8 3,
    schema_row 1491 ''1491'' 844 4 1,
    schema_row 1492 ''1492'' 848 4 2,
    schema_row 1493 ''1493'' 852 8 3,
    schema_row 1494 ''1494'' 856 4 1,
    schema_row 1495 ''1495'' 860 4 2,
    schema_row 1496 ''1496'' 864 8 3,
    schema_row 1497 ''1497'' 868 4 1,
    schema_row 1498 ''1498'' 872 4 2,
    schema_row 1499 ''1499'' 876 8 3,
    schema_row 1500 ''1500'' 880 4 1]"

lemma schema_fields_0_rows: "schema_rows 1 4 2 schema_fields_0"
  unfolding schema_fields_0_def
  by (simp add: schema_chunk del: schema_rows.simps(2))

lemma schema_fields_1_rows: "schema_rows 151 604 2 schema_fields_1"
  unfolding schema_fields_1_def
  by (simp add: schema_chunk del: schema_rows.simps(2))

lemma schema_fields_2_rows: "schema_rows 301 180 2 schema_fields_2"
  unfolding schema_fields_2_def
  by (simp add: schema_chunk del: schema_rows.simps(2))

lemma schema_fields_3_rows: "schema_rows 451 780 2 schema_fields_3"
  unfolding schema_fields_3_def
  by (simp add: schema_chunk del: schema_rows.simps(2))

lemma schema_fields_4_rows: "schema_rows 601 356 2 schema_fields_4"
  unfolding schema_fields_4_def
  by (simp add: schema_chunk del: schema_rows.simps(2))

lemma schema_fields_5_rows: "schema_rows 751 956 2 schema_fields_5"
  unfolding schema_fields_5_def
  by (simp add: schema_chunk del: schema_rows.simps(2))

lemma schema_fields_6_rows: "schema_rows 901 532 2 schema_fields_6"
  unfolding schema_fields_6_def
  by (simp add: schema_chunk del: schema_rows.simps(2))

lemma schema_fields_7_rows: "schema_rows 1051 108 2 schema_fields_7"
  unfolding schema_fields_7_def
  by (simp add: schema_chunk del: schema_rows.simps(2))

lemma schema_fields_8_rows: "schema_rows 1201 708 2 schema_fields_8"
  unfolding schema_fields_8_def
  by (simp add: schema_chunk del: schema_rows.simps(2))

lemma schema_fields_9_rows: "schema_rows 1351 284 2 schema_fields_9"
  unfolding schema_fields_9_def
  by (simp add: schema_chunk del: schema_rows.simps(2))

lemma schema_fields_0_length: "length schema_fields_0 = 150"
  by (simp add: schema_fields_0_def)

lemma schema_fields_1_length: "length schema_fields_1 = 150"
  by (simp add: schema_fields_1_def)

lemma schema_fields_2_length: "length schema_fields_2 = 150"
  by (simp add: schema_fields_2_def)

lemma schema_fields_3_length: "length schema_fields_3 = 150"
  by (simp add: schema_fields_3_def)

lemma schema_fields_4_length: "length schema_fields_4 = 150"
  by (simp add: schema_fields_4_def)

lemma schema_fields_5_length: "length schema_fields_5 = 150"
  by (simp add: schema_fields_5_def)

lemma schema_fields_6_length: "length schema_fields_6 = 150"
  by (simp add: schema_fields_6_def)

lemma schema_fields_7_length: "length schema_fields_7 = 150"
  by (simp add: schema_fields_7_def)

lemma schema_fields_8_length: "length schema_fields_8 = 150"
  by (simp add: schema_fields_8_def)

lemma schema_fields_9_length: "length schema_fields_9 = 150"
  by (simp add: schema_fields_9_def)

definition schema_fields_A :: "ipmb_schema_field list" where
  "schema_fields_A =
     schema_fields_0 @ schema_fields_1 @ schema_fields_2 @ schema_fields_3 @ schema_fields_4 @
     schema_fields_5 @ schema_fields_6 @ schema_fields_7 @ schema_fields_8 @ schema_fields_9"

lemma schema_fields_A_metrics: "schema_fields_A = map schema_metric [1..<1501]"
proof -
  have m0: "schema_fields_0 = map schema_metric [1..<151]"
    using schema_rows_metrics [of 1 schema_fields_0] schema_fields_0_rows by (simp add: schema_fields_0_length)
  have m1: "schema_fields_1 = map schema_metric [151..<301]"
    using schema_rows_metrics [of 151 schema_fields_1] schema_fields_1_rows by (simp add: schema_fields_1_length)
  have m2: "schema_fields_2 = map schema_metric [301..<451]"
    using schema_rows_metrics [of 301 schema_fields_2] schema_fields_2_rows by (simp add: schema_fields_2_length)
  have m3: "schema_fields_3 = map schema_metric [451..<601]"
    using schema_rows_metrics [of 451 schema_fields_3] schema_fields_3_rows by (simp add: schema_fields_3_length)
  have m4: "schema_fields_4 = map schema_metric [601..<751]"
    using schema_rows_metrics [of 601 schema_fields_4] schema_fields_4_rows by (simp add: schema_fields_4_length)
  have m5: "schema_fields_5 = map schema_metric [751..<901]"
    using schema_rows_metrics [of 751 schema_fields_5] schema_fields_5_rows by (simp add: schema_fields_5_length)
  have m6: "schema_fields_6 = map schema_metric [901..<1051]"
    using schema_rows_metrics [of 901 schema_fields_6] schema_fields_6_rows by (simp add: schema_fields_6_length)
  have m7: "schema_fields_7 = map schema_metric [1051..<1201]"
    using schema_rows_metrics [of 1051 schema_fields_7] schema_fields_7_rows by (simp add: schema_fields_7_length)
  have m8: "schema_fields_8 = map schema_metric [1201..<1351]"
    using schema_rows_metrics [of 1201 schema_fields_8] schema_fields_8_rows by (simp add: schema_fields_8_length)
  have m9: "schema_fields_9 = map schema_metric [1351..<1501]"
    using schema_rows_metrics [of 1351 schema_fields_9] schema_fields_9_rows by (simp add: schema_fields_9_length)
  show ?thesis
    unfolding schema_fields_A_def m0 m1 m2 m3 m4 m5 m6 m7 m8 m9
    by (simp only: map_upt_join numeral_le_iff one_le_numeral semiring_norm)
qed

end
