(* ===== verification/Schema_Rows_B.thy ===== *)
theory Schema_Rows_B
  imports Schema_Layout
begin

text \<open>Rows 1501 to 3000 of the schema registry, as in the source, and that they follow the
  rule of \<open>Schema_Layout\<close>.\<close>

definition schema_fields_10 :: "ipmb_schema_field list" where
  "schema_fields_10 = [
    schema_row 1501 ''1501'' 884 4 2,
    schema_row 1502 ''1502'' 888 8 3,
    schema_row 1503 ''1503'' 892 4 1,
    schema_row 1504 ''1504'' 896 4 2,
    schema_row 1505 ''1505'' 900 8 3,
    schema_row 1506 ''1506'' 904 4 1,
    schema_row 1507 ''1507'' 908 4 2,
    schema_row 1508 ''1508'' 912 8 3,
    schema_row 1509 ''1509'' 916 4 1,
    schema_row 1510 ''1510'' 920 4 2,
    schema_row 1511 ''1511'' 924 8 3,
    schema_row 1512 ''1512'' 928 4 1,
    schema_row 1513 ''1513'' 932 4 2,
    schema_row 1514 ''1514'' 936 8 3,
    schema_row 1515 ''1515'' 940 4 1,
    schema_row 1516 ''1516'' 944 4 2,
    schema_row 1517 ''1517'' 948 8 3,
    schema_row 1518 ''1518'' 952 4 1,
    schema_row 1519 ''1519'' 956 4 2,
    schema_row 1520 ''1520'' 960 8 3,
    schema_row 1521 ''1521'' 964 4 1,
    schema_row 1522 ''1522'' 968 4 2,
    schema_row 1523 ''1523'' 972 8 3,
    schema_row 1524 ''1524'' 976 4 1,
    schema_row 1525 ''1525'' 980 4 2,
    schema_row 1526 ''1526'' 984 8 3,
    schema_row 1527 ''1527'' 988 4 1,
    schema_row 1528 ''1528'' 992 4 2,
    schema_row 1529 ''1529'' 996 8 3,
    schema_row 1530 ''1530'' 1000 4 1,
    schema_row 1531 ''1531'' 1004 4 2,
    schema_row 1532 ''1532'' 1008 8 3,
    schema_row 1533 ''1533'' 1012 4 1,
    schema_row 1534 ''1534'' 1016 4 2,
    schema_row 1535 ''1535'' 1020 8 3,
    schema_row 1536 ''1536'' 0 4 1,
    schema_row 1537 ''1537'' 4 4 2,
    schema_row 1538 ''1538'' 8 8 3,
    schema_row 1539 ''1539'' 12 4 1,
    schema_row 1540 ''1540'' 16 4 2,
    schema_row 1541 ''1541'' 20 8 3,
    schema_row 1542 ''1542'' 24 4 1,
    schema_row 1543 ''1543'' 28 4 2,
    schema_row 1544 ''1544'' 32 8 3,
    schema_row 1545 ''1545'' 36 4 1,
    schema_row 1546 ''1546'' 40 4 2,
    schema_row 1547 ''1547'' 44 8 3,
    schema_row 1548 ''1548'' 48 4 1,
    schema_row 1549 ''1549'' 52 4 2,
    schema_row 1550 ''1550'' 56 8 3,
    schema_row 1551 ''1551'' 60 4 1,
    schema_row 1552 ''1552'' 64 4 2,
    schema_row 1553 ''1553'' 68 8 3,
    schema_row 1554 ''1554'' 72 4 1,
    schema_row 1555 ''1555'' 76 4 2,
    schema_row 1556 ''1556'' 80 8 3,
    schema_row 1557 ''1557'' 84 4 1,
    schema_row 1558 ''1558'' 88 4 2,
    schema_row 1559 ''1559'' 92 8 3,
    schema_row 1560 ''1560'' 96 4 1,
    schema_row 1561 ''1561'' 100 4 2,
    schema_row 1562 ''1562'' 104 8 3,
    schema_row 1563 ''1563'' 108 4 1,
    schema_row 1564 ''1564'' 112 4 2,
    schema_row 1565 ''1565'' 116 8 3,
    schema_row 1566 ''1566'' 120 4 1,
    schema_row 1567 ''1567'' 124 4 2,
    schema_row 1568 ''1568'' 128 8 3,
    schema_row 1569 ''1569'' 132 4 1,
    schema_row 1570 ''1570'' 136 4 2,
    schema_row 1571 ''1571'' 140 8 3,
    schema_row 1572 ''1572'' 144 4 1,
    schema_row 1573 ''1573'' 148 4 2,
    schema_row 1574 ''1574'' 152 8 3,
    schema_row 1575 ''1575'' 156 4 1,
    schema_row 1576 ''1576'' 160 4 2,
    schema_row 1577 ''1577'' 164 8 3,
    schema_row 1578 ''1578'' 168 4 1,
    schema_row 1579 ''1579'' 172 4 2,
    schema_row 1580 ''1580'' 176 8 3,
    schema_row 1581 ''1581'' 180 4 1,
    schema_row 1582 ''1582'' 184 4 2,
    schema_row 1583 ''1583'' 188 8 3,
    schema_row 1584 ''1584'' 192 4 1,
    schema_row 1585 ''1585'' 196 4 2,
    schema_row 1586 ''1586'' 200 8 3,
    schema_row 1587 ''1587'' 204 4 1,
    schema_row 1588 ''1588'' 208 4 2,
    schema_row 1589 ''1589'' 212 8 3,
    schema_row 1590 ''1590'' 216 4 1,
    schema_row 1591 ''1591'' 220 4 2,
    schema_row 1592 ''1592'' 224 8 3,
    schema_row 1593 ''1593'' 228 4 1,
    schema_row 1594 ''1594'' 232 4 2,
    schema_row 1595 ''1595'' 236 8 3,
    schema_row 1596 ''1596'' 240 4 1,
    schema_row 1597 ''1597'' 244 4 2,
    schema_row 1598 ''1598'' 248 8 3,
    schema_row 1599 ''1599'' 252 4 1,
    schema_row 1600 ''1600'' 256 4 2,
    schema_row 1601 ''1601'' 260 8 3,
    schema_row 1602 ''1602'' 264 4 1,
    schema_row 1603 ''1603'' 268 4 2,
    schema_row 1604 ''1604'' 272 8 3,
    schema_row 1605 ''1605'' 276 4 1,
    schema_row 1606 ''1606'' 280 4 2,
    schema_row 1607 ''1607'' 284 8 3,
    schema_row 1608 ''1608'' 288 4 1,
    schema_row 1609 ''1609'' 292 4 2,
    schema_row 1610 ''1610'' 296 8 3,
    schema_row 1611 ''1611'' 300 4 1,
    schema_row 1612 ''1612'' 304 4 2,
    schema_row 1613 ''1613'' 308 8 3,
    schema_row 1614 ''1614'' 312 4 1,
    schema_row 1615 ''1615'' 316 4 2,
    schema_row 1616 ''1616'' 320 8 3,
    schema_row 1617 ''1617'' 324 4 1,
    schema_row 1618 ''1618'' 328 4 2,
    schema_row 1619 ''1619'' 332 8 3,
    schema_row 1620 ''1620'' 336 4 1,
    schema_row 1621 ''1621'' 340 4 2,
    schema_row 1622 ''1622'' 344 8 3,
    schema_row 1623 ''1623'' 348 4 1,
    schema_row 1624 ''1624'' 352 4 2,
    schema_row 1625 ''1625'' 356 8 3,
    schema_row 1626 ''1626'' 360 4 1,
    schema_row 1627 ''1627'' 364 4 2,
    schema_row 1628 ''1628'' 368 8 3,
    schema_row 1629 ''1629'' 372 4 1,
    schema_row 1630 ''1630'' 376 4 2,
    schema_row 1631 ''1631'' 380 8 3,
    schema_row 1632 ''1632'' 384 4 1,
    schema_row 1633 ''1633'' 388 4 2,
    schema_row 1634 ''1634'' 392 8 3,
    schema_row 1635 ''1635'' 396 4 1,
    schema_row 1636 ''1636'' 400 4 2,
    schema_row 1637 ''1637'' 404 8 3,
    schema_row 1638 ''1638'' 408 4 1,
    schema_row 1639 ''1639'' 412 4 2,
    schema_row 1640 ''1640'' 416 8 3,
    schema_row 1641 ''1641'' 420 4 1,
    schema_row 1642 ''1642'' 424 4 2,
    schema_row 1643 ''1643'' 428 8 3,
    schema_row 1644 ''1644'' 432 4 1,
    schema_row 1645 ''1645'' 436 4 2,
    schema_row 1646 ''1646'' 440 8 3,
    schema_row 1647 ''1647'' 444 4 1,
    schema_row 1648 ''1648'' 448 4 2,
    schema_row 1649 ''1649'' 452 8 3,
    schema_row 1650 ''1650'' 456 4 1]"

definition schema_fields_11 :: "ipmb_schema_field list" where
  "schema_fields_11 = [
    schema_row 1651 ''1651'' 460 4 2,
    schema_row 1652 ''1652'' 464 8 3,
    schema_row 1653 ''1653'' 468 4 1,
    schema_row 1654 ''1654'' 472 4 2,
    schema_row 1655 ''1655'' 476 8 3,
    schema_row 1656 ''1656'' 480 4 1,
    schema_row 1657 ''1657'' 484 4 2,
    schema_row 1658 ''1658'' 488 8 3,
    schema_row 1659 ''1659'' 492 4 1,
    schema_row 1660 ''1660'' 496 4 2,
    schema_row 1661 ''1661'' 500 8 3,
    schema_row 1662 ''1662'' 504 4 1,
    schema_row 1663 ''1663'' 508 4 2,
    schema_row 1664 ''1664'' 512 8 3,
    schema_row 1665 ''1665'' 516 4 1,
    schema_row 1666 ''1666'' 520 4 2,
    schema_row 1667 ''1667'' 524 8 3,
    schema_row 1668 ''1668'' 528 4 1,
    schema_row 1669 ''1669'' 532 4 2,
    schema_row 1670 ''1670'' 536 8 3,
    schema_row 1671 ''1671'' 540 4 1,
    schema_row 1672 ''1672'' 544 4 2,
    schema_row 1673 ''1673'' 548 8 3,
    schema_row 1674 ''1674'' 552 4 1,
    schema_row 1675 ''1675'' 556 4 2,
    schema_row 1676 ''1676'' 560 8 3,
    schema_row 1677 ''1677'' 564 4 1,
    schema_row 1678 ''1678'' 568 4 2,
    schema_row 1679 ''1679'' 572 8 3,
    schema_row 1680 ''1680'' 576 4 1,
    schema_row 1681 ''1681'' 580 4 2,
    schema_row 1682 ''1682'' 584 8 3,
    schema_row 1683 ''1683'' 588 4 1,
    schema_row 1684 ''1684'' 592 4 2,
    schema_row 1685 ''1685'' 596 8 3,
    schema_row 1686 ''1686'' 600 4 1,
    schema_row 1687 ''1687'' 604 4 2,
    schema_row 1688 ''1688'' 608 8 3,
    schema_row 1689 ''1689'' 612 4 1,
    schema_row 1690 ''1690'' 616 4 2,
    schema_row 1691 ''1691'' 620 8 3,
    schema_row 1692 ''1692'' 624 4 1,
    schema_row 1693 ''1693'' 628 4 2,
    schema_row 1694 ''1694'' 632 8 3,
    schema_row 1695 ''1695'' 636 4 1,
    schema_row 1696 ''1696'' 640 4 2,
    schema_row 1697 ''1697'' 644 8 3,
    schema_row 1698 ''1698'' 648 4 1,
    schema_row 1699 ''1699'' 652 4 2,
    schema_row 1700 ''1700'' 656 8 3,
    schema_row 1701 ''1701'' 660 4 1,
    schema_row 1702 ''1702'' 664 4 2,
    schema_row 1703 ''1703'' 668 8 3,
    schema_row 1704 ''1704'' 672 4 1,
    schema_row 1705 ''1705'' 676 4 2,
    schema_row 1706 ''1706'' 680 8 3,
    schema_row 1707 ''1707'' 684 4 1,
    schema_row 1708 ''1708'' 688 4 2,
    schema_row 1709 ''1709'' 692 8 3,
    schema_row 1710 ''1710'' 696 4 1,
    schema_row 1711 ''1711'' 700 4 2,
    schema_row 1712 ''1712'' 704 8 3,
    schema_row 1713 ''1713'' 708 4 1,
    schema_row 1714 ''1714'' 712 4 2,
    schema_row 1715 ''1715'' 716 8 3,
    schema_row 1716 ''1716'' 720 4 1,
    schema_row 1717 ''1717'' 724 4 2,
    schema_row 1718 ''1718'' 728 8 3,
    schema_row 1719 ''1719'' 732 4 1,
    schema_row 1720 ''1720'' 736 4 2,
    schema_row 1721 ''1721'' 740 8 3,
    schema_row 1722 ''1722'' 744 4 1,
    schema_row 1723 ''1723'' 748 4 2,
    schema_row 1724 ''1724'' 752 8 3,
    schema_row 1725 ''1725'' 756 4 1,
    schema_row 1726 ''1726'' 760 4 2,
    schema_row 1727 ''1727'' 764 8 3,
    schema_row 1728 ''1728'' 768 4 1,
    schema_row 1729 ''1729'' 772 4 2,
    schema_row 1730 ''1730'' 776 8 3,
    schema_row 1731 ''1731'' 780 4 1,
    schema_row 1732 ''1732'' 784 4 2,
    schema_row 1733 ''1733'' 788 8 3,
    schema_row 1734 ''1734'' 792 4 1,
    schema_row 1735 ''1735'' 796 4 2,
    schema_row 1736 ''1736'' 800 8 3,
    schema_row 1737 ''1737'' 804 4 1,
    schema_row 1738 ''1738'' 808 4 2,
    schema_row 1739 ''1739'' 812 8 3,
    schema_row 1740 ''1740'' 816 4 1,
    schema_row 1741 ''1741'' 820 4 2,
    schema_row 1742 ''1742'' 824 8 3,
    schema_row 1743 ''1743'' 828 4 1,
    schema_row 1744 ''1744'' 832 4 2,
    schema_row 1745 ''1745'' 836 8 3,
    schema_row 1746 ''1746'' 840 4 1,
    schema_row 1747 ''1747'' 844 4 2,
    schema_row 1748 ''1748'' 848 8 3,
    schema_row 1749 ''1749'' 852 4 1,
    schema_row 1750 ''1750'' 856 4 2,
    schema_row 1751 ''1751'' 860 8 3,
    schema_row 1752 ''1752'' 864 4 1,
    schema_row 1753 ''1753'' 868 4 2,
    schema_row 1754 ''1754'' 872 8 3,
    schema_row 1755 ''1755'' 876 4 1,
    schema_row 1756 ''1756'' 880 4 2,
    schema_row 1757 ''1757'' 884 8 3,
    schema_row 1758 ''1758'' 888 4 1,
    schema_row 1759 ''1759'' 892 4 2,
    schema_row 1760 ''1760'' 896 8 3,
    schema_row 1761 ''1761'' 900 4 1,
    schema_row 1762 ''1762'' 904 4 2,
    schema_row 1763 ''1763'' 908 8 3,
    schema_row 1764 ''1764'' 912 4 1,
    schema_row 1765 ''1765'' 916 4 2,
    schema_row 1766 ''1766'' 920 8 3,
    schema_row 1767 ''1767'' 924 4 1,
    schema_row 1768 ''1768'' 928 4 2,
    schema_row 1769 ''1769'' 932 8 3,
    schema_row 1770 ''1770'' 936 4 1,
    schema_row 1771 ''1771'' 940 4 2,
    schema_row 1772 ''1772'' 944 8 3,
    schema_row 1773 ''1773'' 948 4 1,
    schema_row 1774 ''1774'' 952 4 2,
    schema_row 1775 ''1775'' 956 8 3,
    schema_row 1776 ''1776'' 960 4 1,
    schema_row 1777 ''1777'' 964 4 2,
    schema_row 1778 ''1778'' 968 8 3,
    schema_row 1779 ''1779'' 972 4 1,
    schema_row 1780 ''1780'' 976 4 2,
    schema_row 1781 ''1781'' 980 8 3,
    schema_row 1782 ''1782'' 984 4 1,
    schema_row 1783 ''1783'' 988 4 2,
    schema_row 1784 ''1784'' 992 8 3,
    schema_row 1785 ''1785'' 996 4 1,
    schema_row 1786 ''1786'' 1000 4 2,
    schema_row 1787 ''1787'' 1004 8 3,
    schema_row 1788 ''1788'' 1008 4 1,
    schema_row 1789 ''1789'' 1012 4 2,
    schema_row 1790 ''1790'' 1016 8 3,
    schema_row 1791 ''1791'' 1020 4 1,
    schema_row 1792 ''1792'' 0 4 2,
    schema_row 1793 ''1793'' 4 8 3,
    schema_row 1794 ''1794'' 8 4 1,
    schema_row 1795 ''1795'' 12 4 2,
    schema_row 1796 ''1796'' 16 8 3,
    schema_row 1797 ''1797'' 20 4 1,
    schema_row 1798 ''1798'' 24 4 2,
    schema_row 1799 ''1799'' 28 8 3,
    schema_row 1800 ''1800'' 32 4 1]"

definition schema_fields_12 :: "ipmb_schema_field list" where
  "schema_fields_12 = [
    schema_row 1801 ''1801'' 36 4 2,
    schema_row 1802 ''1802'' 40 8 3,
    schema_row 1803 ''1803'' 44 4 1,
    schema_row 1804 ''1804'' 48 4 2,
    schema_row 1805 ''1805'' 52 8 3,
    schema_row 1806 ''1806'' 56 4 1,
    schema_row 1807 ''1807'' 60 4 2,
    schema_row 1808 ''1808'' 64 8 3,
    schema_row 1809 ''1809'' 68 4 1,
    schema_row 1810 ''1810'' 72 4 2,
    schema_row 1811 ''1811'' 76 8 3,
    schema_row 1812 ''1812'' 80 4 1,
    schema_row 1813 ''1813'' 84 4 2,
    schema_row 1814 ''1814'' 88 8 3,
    schema_row 1815 ''1815'' 92 4 1,
    schema_row 1816 ''1816'' 96 4 2,
    schema_row 1817 ''1817'' 100 8 3,
    schema_row 1818 ''1818'' 104 4 1,
    schema_row 1819 ''1819'' 108 4 2,
    schema_row 1820 ''1820'' 112 8 3,
    schema_row 1821 ''1821'' 116 4 1,
    schema_row 1822 ''1822'' 120 4 2,
    schema_row 1823 ''1823'' 124 8 3,
    schema_row 1824 ''1824'' 128 4 1,
    schema_row 1825 ''1825'' 132 4 2,
    schema_row 1826 ''1826'' 136 8 3,
    schema_row 1827 ''1827'' 140 4 1,
    schema_row 1828 ''1828'' 144 4 2,
    schema_row 1829 ''1829'' 148 8 3,
    schema_row 1830 ''1830'' 152 4 1,
    schema_row 1831 ''1831'' 156 4 2,
    schema_row 1832 ''1832'' 160 8 3,
    schema_row 1833 ''1833'' 164 4 1,
    schema_row 1834 ''1834'' 168 4 2,
    schema_row 1835 ''1835'' 172 8 3,
    schema_row 1836 ''1836'' 176 4 1,
    schema_row 1837 ''1837'' 180 4 2,
    schema_row 1838 ''1838'' 184 8 3,
    schema_row 1839 ''1839'' 188 4 1,
    schema_row 1840 ''1840'' 192 4 2,
    schema_row 1841 ''1841'' 196 8 3,
    schema_row 1842 ''1842'' 200 4 1,
    schema_row 1843 ''1843'' 204 4 2,
    schema_row 1844 ''1844'' 208 8 3,
    schema_row 1845 ''1845'' 212 4 1,
    schema_row 1846 ''1846'' 216 4 2,
    schema_row 1847 ''1847'' 220 8 3,
    schema_row 1848 ''1848'' 224 4 1,
    schema_row 1849 ''1849'' 228 4 2,
    schema_row 1850 ''1850'' 232 8 3,
    schema_row 1851 ''1851'' 236 4 1,
    schema_row 1852 ''1852'' 240 4 2,
    schema_row 1853 ''1853'' 244 8 3,
    schema_row 1854 ''1854'' 248 4 1,
    schema_row 1855 ''1855'' 252 4 2,
    schema_row 1856 ''1856'' 256 8 3,
    schema_row 1857 ''1857'' 260 4 1,
    schema_row 1858 ''1858'' 264 4 2,
    schema_row 1859 ''1859'' 268 8 3,
    schema_row 1860 ''1860'' 272 4 1,
    schema_row 1861 ''1861'' 276 4 2,
    schema_row 1862 ''1862'' 280 8 3,
    schema_row 1863 ''1863'' 284 4 1,
    schema_row 1864 ''1864'' 288 4 2,
    schema_row 1865 ''1865'' 292 8 3,
    schema_row 1866 ''1866'' 296 4 1,
    schema_row 1867 ''1867'' 300 4 2,
    schema_row 1868 ''1868'' 304 8 3,
    schema_row 1869 ''1869'' 308 4 1,
    schema_row 1870 ''1870'' 312 4 2,
    schema_row 1871 ''1871'' 316 8 3,
    schema_row 1872 ''1872'' 320 4 1,
    schema_row 1873 ''1873'' 324 4 2,
    schema_row 1874 ''1874'' 328 8 3,
    schema_row 1875 ''1875'' 332 4 1,
    schema_row 1876 ''1876'' 336 4 2,
    schema_row 1877 ''1877'' 340 8 3,
    schema_row 1878 ''1878'' 344 4 1,
    schema_row 1879 ''1879'' 348 4 2,
    schema_row 1880 ''1880'' 352 8 3,
    schema_row 1881 ''1881'' 356 4 1,
    schema_row 1882 ''1882'' 360 4 2,
    schema_row 1883 ''1883'' 364 8 3,
    schema_row 1884 ''1884'' 368 4 1,
    schema_row 1885 ''1885'' 372 4 2,
    schema_row 1886 ''1886'' 376 8 3,
    schema_row 1887 ''1887'' 380 4 1,
    schema_row 1888 ''1888'' 384 4 2,
    schema_row 1889 ''1889'' 388 8 3,
    schema_row 1890 ''1890'' 392 4 1,
    schema_row 1891 ''1891'' 396 4 2,
    schema_row 1892 ''1892'' 400 8 3,
    schema_row 1893 ''1893'' 404 4 1,
    schema_row 1894 ''1894'' 408 4 2,
    schema_row 1895 ''1895'' 412 8 3,
    schema_row 1896 ''1896'' 416 4 1,
    schema_row 1897 ''1897'' 420 4 2,
    schema_row 1898 ''1898'' 424 8 3,
    schema_row 1899 ''1899'' 428 4 1,
    schema_row 1900 ''1900'' 432 4 2,
    schema_row 1901 ''1901'' 436 8 3,
    schema_row 1902 ''1902'' 440 4 1,
    schema_row 1903 ''1903'' 444 4 2,
    schema_row 1904 ''1904'' 448 8 3,
    schema_row 1905 ''1905'' 452 4 1,
    schema_row 1906 ''1906'' 456 4 2,
    schema_row 1907 ''1907'' 460 8 3,
    schema_row 1908 ''1908'' 464 4 1,
    schema_row 1909 ''1909'' 468 4 2,
    schema_row 1910 ''1910'' 472 8 3,
    schema_row 1911 ''1911'' 476 4 1,
    schema_row 1912 ''1912'' 480 4 2,
    schema_row 1913 ''1913'' 484 8 3,
    schema_row 1914 ''1914'' 488 4 1,
    schema_row 1915 ''1915'' 492 4 2,
    schema_row 1916 ''1916'' 496 8 3,
    schema_row 1917 ''1917'' 500 4 1,
    schema_row 1918 ''1918'' 504 4 2,
    schema_row 1919 ''1919'' 508 8 3,
    schema_row 1920 ''1920'' 512 4 1,
    schema_row 1921 ''1921'' 516 4 2,
    schema_row 1922 ''1922'' 520 8 3,
    schema_row 1923 ''1923'' 524 4 1,
    schema_row 1924 ''1924'' 528 4 2,
    schema_row 1925 ''1925'' 532 8 3,
    schema_row 1926 ''1926'' 536 4 1,
    schema_row 1927 ''1927'' 540 4 2,
    schema_row 1928 ''1928'' 544 8 3,
    schema_row 1929 ''1929'' 548 4 1,
    schema_row 1930 ''1930'' 552 4 2,
    schema_row 1931 ''1931'' 556 8 3,
    schema_row 1932 ''1932'' 560 4 1,
    schema_row 1933 ''1933'' 564 4 2,
    schema_row 1934 ''1934'' 568 8 3,
    schema_row 1935 ''1935'' 572 4 1,
    schema_row 1936 ''1936'' 576 4 2,
    schema_row 1937 ''1937'' 580 8 3,
    schema_row 1938 ''1938'' 584 4 1,
    schema_row 1939 ''1939'' 588 4 2,
    schema_row 1940 ''1940'' 592 8 3,
    schema_row 1941 ''1941'' 596 4 1,
    schema_row 1942 ''1942'' 600 4 2,
    schema_row 1943 ''1943'' 604 8 3,
    schema_row 1944 ''1944'' 608 4 1,
    schema_row 1945 ''1945'' 612 4 2,
    schema_row 1946 ''1946'' 616 8 3,
    schema_row 1947 ''1947'' 620 4 1,
    schema_row 1948 ''1948'' 624 4 2,
    schema_row 1949 ''1949'' 628 8 3,
    schema_row 1950 ''1950'' 632 4 1]"

definition schema_fields_13 :: "ipmb_schema_field list" where
  "schema_fields_13 = [
    schema_row 1951 ''1951'' 636 4 2,
    schema_row 1952 ''1952'' 640 8 3,
    schema_row 1953 ''1953'' 644 4 1,
    schema_row 1954 ''1954'' 648 4 2,
    schema_row 1955 ''1955'' 652 8 3,
    schema_row 1956 ''1956'' 656 4 1,
    schema_row 1957 ''1957'' 660 4 2,
    schema_row 1958 ''1958'' 664 8 3,
    schema_row 1959 ''1959'' 668 4 1,
    schema_row 1960 ''1960'' 672 4 2,
    schema_row 1961 ''1961'' 676 8 3,
    schema_row 1962 ''1962'' 680 4 1,
    schema_row 1963 ''1963'' 684 4 2,
    schema_row 1964 ''1964'' 688 8 3,
    schema_row 1965 ''1965'' 692 4 1,
    schema_row 1966 ''1966'' 696 4 2,
    schema_row 1967 ''1967'' 700 8 3,
    schema_row 1968 ''1968'' 704 4 1,
    schema_row 1969 ''1969'' 708 4 2,
    schema_row 1970 ''1970'' 712 8 3,
    schema_row 1971 ''1971'' 716 4 1,
    schema_row 1972 ''1972'' 720 4 2,
    schema_row 1973 ''1973'' 724 8 3,
    schema_row 1974 ''1974'' 728 4 1,
    schema_row 1975 ''1975'' 732 4 2,
    schema_row 1976 ''1976'' 736 8 3,
    schema_row 1977 ''1977'' 740 4 1,
    schema_row 1978 ''1978'' 744 4 2,
    schema_row 1979 ''1979'' 748 8 3,
    schema_row 1980 ''1980'' 752 4 1,
    schema_row 1981 ''1981'' 756 4 2,
    schema_row 1982 ''1982'' 760 8 3,
    schema_row 1983 ''1983'' 764 4 1,
    schema_row 1984 ''1984'' 768 4 2,
    schema_row 1985 ''1985'' 772 8 3,
    schema_row 1986 ''1986'' 776 4 1,
    schema_row 1987 ''1987'' 780 4 2,
    schema_row 1988 ''1988'' 784 8 3,
    schema_row 1989 ''1989'' 788 4 1,
    schema_row 1990 ''1990'' 792 4 2,
    schema_row 1991 ''1991'' 796 8 3,
    schema_row 1992 ''1992'' 800 4 1,
    schema_row 1993 ''1993'' 804 4 2,
    schema_row 1994 ''1994'' 808 8 3,
    schema_row 1995 ''1995'' 812 4 1,
    schema_row 1996 ''1996'' 816 4 2,
    schema_row 1997 ''1997'' 820 8 3,
    schema_row 1998 ''1998'' 824 4 1,
    schema_row 1999 ''1999'' 828 4 2,
    schema_row 2000 ''2000'' 832 8 3,
    schema_row 2001 ''2001'' 836 4 1,
    schema_row 2002 ''2002'' 840 4 2,
    schema_row 2003 ''2003'' 844 8 3,
    schema_row 2004 ''2004'' 848 4 1,
    schema_row 2005 ''2005'' 852 4 2,
    schema_row 2006 ''2006'' 856 8 3,
    schema_row 2007 ''2007'' 860 4 1,
    schema_row 2008 ''2008'' 864 4 2,
    schema_row 2009 ''2009'' 868 8 3,
    schema_row 2010 ''2010'' 872 4 1,
    schema_row 2011 ''2011'' 876 4 2,
    schema_row 2012 ''2012'' 880 8 3,
    schema_row 2013 ''2013'' 884 4 1,
    schema_row 2014 ''2014'' 888 4 2,
    schema_row 2015 ''2015'' 892 8 3,
    schema_row 2016 ''2016'' 896 4 1,
    schema_row 2017 ''2017'' 900 4 2,
    schema_row 2018 ''2018'' 904 8 3,
    schema_row 2019 ''2019'' 908 4 1,
    schema_row 2020 ''2020'' 912 4 2,
    schema_row 2021 ''2021'' 916 8 3,
    schema_row 2022 ''2022'' 920 4 1,
    schema_row 2023 ''2023'' 924 4 2,
    schema_row 2024 ''2024'' 928 8 3,
    schema_row 2025 ''2025'' 932 4 1,
    schema_row 2026 ''2026'' 936 4 2,
    schema_row 2027 ''2027'' 940 8 3,
    schema_row 2028 ''2028'' 944 4 1,
    schema_row 2029 ''2029'' 948 4 2,
    schema_row 2030 ''2030'' 952 8 3,
    schema_row 2031 ''2031'' 956 4 1,
    schema_row 2032 ''2032'' 960 4 2,
    schema_row 2033 ''2033'' 964 8 3,
    schema_row 2034 ''2034'' 968 4 1,
    schema_row 2035 ''2035'' 972 4 2,
    schema_row 2036 ''2036'' 976 8 3,
    schema_row 2037 ''2037'' 980 4 1,
    schema_row 2038 ''2038'' 984 4 2,
    schema_row 2039 ''2039'' 988 8 3,
    schema_row 2040 ''2040'' 992 4 1,
    schema_row 2041 ''2041'' 996 4 2,
    schema_row 2042 ''2042'' 1000 8 3,
    schema_row 2043 ''2043'' 1004 4 1,
    schema_row 2044 ''2044'' 1008 4 2,
    schema_row 2045 ''2045'' 1012 8 3,
    schema_row 2046 ''2046'' 1016 4 1,
    schema_row 2047 ''2047'' 1020 4 2,
    schema_row 2048 ''2048'' 0 8 3,
    schema_row 2049 ''2049'' 4 4 1,
    schema_row 2050 ''2050'' 8 4 2,
    schema_row 2051 ''2051'' 12 8 3,
    schema_row 2052 ''2052'' 16 4 1,
    schema_row 2053 ''2053'' 20 4 2,
    schema_row 2054 ''2054'' 24 8 3,
    schema_row 2055 ''2055'' 28 4 1,
    schema_row 2056 ''2056'' 32 4 2,
    schema_row 2057 ''2057'' 36 8 3,
    schema_row 2058 ''2058'' 40 4 1,
    schema_row 2059 ''2059'' 44 4 2,
    schema_row 2060 ''2060'' 48 8 3,
    schema_row 2061 ''2061'' 52 4 1,
    schema_row 2062 ''2062'' 56 4 2,
    schema_row 2063 ''2063'' 60 8 3,
    schema_row 2064 ''2064'' 64 4 1,
    schema_row 2065 ''2065'' 68 4 2,
    schema_row 2066 ''2066'' 72 8 3,
    schema_row 2067 ''2067'' 76 4 1,
    schema_row 2068 ''2068'' 80 4 2,
    schema_row 2069 ''2069'' 84 8 3,
    schema_row 2070 ''2070'' 88 4 1,
    schema_row 2071 ''2071'' 92 4 2,
    schema_row 2072 ''2072'' 96 8 3,
    schema_row 2073 ''2073'' 100 4 1,
    schema_row 2074 ''2074'' 104 4 2,
    schema_row 2075 ''2075'' 108 8 3,
    schema_row 2076 ''2076'' 112 4 1,
    schema_row 2077 ''2077'' 116 4 2,
    schema_row 2078 ''2078'' 120 8 3,
    schema_row 2079 ''2079'' 124 4 1,
    schema_row 2080 ''2080'' 128 4 2,
    schema_row 2081 ''2081'' 132 8 3,
    schema_row 2082 ''2082'' 136 4 1,
    schema_row 2083 ''2083'' 140 4 2,
    schema_row 2084 ''2084'' 144 8 3,
    schema_row 2085 ''2085'' 148 4 1,
    schema_row 2086 ''2086'' 152 4 2,
    schema_row 2087 ''2087'' 156 8 3,
    schema_row 2088 ''2088'' 160 4 1,
    schema_row 2089 ''2089'' 164 4 2,
    schema_row 2090 ''2090'' 168 8 3,
    schema_row 2091 ''2091'' 172 4 1,
    schema_row 2092 ''2092'' 176 4 2,
    schema_row 2093 ''2093'' 180 8 3,
    schema_row 2094 ''2094'' 184 4 1,
    schema_row 2095 ''2095'' 188 4 2,
    schema_row 2096 ''2096'' 192 8 3,
    schema_row 2097 ''2097'' 196 4 1,
    schema_row 2098 ''2098'' 200 4 2,
    schema_row 2099 ''2099'' 204 8 3,
    schema_row 2100 ''2100'' 208 4 1]"

definition schema_fields_14 :: "ipmb_schema_field list" where
  "schema_fields_14 = [
    schema_row 2101 ''2101'' 212 4 2,
    schema_row 2102 ''2102'' 216 8 3,
    schema_row 2103 ''2103'' 220 4 1,
    schema_row 2104 ''2104'' 224 4 2,
    schema_row 2105 ''2105'' 228 8 3,
    schema_row 2106 ''2106'' 232 4 1,
    schema_row 2107 ''2107'' 236 4 2,
    schema_row 2108 ''2108'' 240 8 3,
    schema_row 2109 ''2109'' 244 4 1,
    schema_row 2110 ''2110'' 248 4 2,
    schema_row 2111 ''2111'' 252 8 3,
    schema_row 2112 ''2112'' 256 4 1,
    schema_row 2113 ''2113'' 260 4 2,
    schema_row 2114 ''2114'' 264 8 3,
    schema_row 2115 ''2115'' 268 4 1,
    schema_row 2116 ''2116'' 272 4 2,
    schema_row 2117 ''2117'' 276 8 3,
    schema_row 2118 ''2118'' 280 4 1,
    schema_row 2119 ''2119'' 284 4 2,
    schema_row 2120 ''2120'' 288 8 3,
    schema_row 2121 ''2121'' 292 4 1,
    schema_row 2122 ''2122'' 296 4 2,
    schema_row 2123 ''2123'' 300 8 3,
    schema_row 2124 ''2124'' 304 4 1,
    schema_row 2125 ''2125'' 308 4 2,
    schema_row 2126 ''2126'' 312 8 3,
    schema_row 2127 ''2127'' 316 4 1,
    schema_row 2128 ''2128'' 320 4 2,
    schema_row 2129 ''2129'' 324 8 3,
    schema_row 2130 ''2130'' 328 4 1,
    schema_row 2131 ''2131'' 332 4 2,
    schema_row 2132 ''2132'' 336 8 3,
    schema_row 2133 ''2133'' 340 4 1,
    schema_row 2134 ''2134'' 344 4 2,
    schema_row 2135 ''2135'' 348 8 3,
    schema_row 2136 ''2136'' 352 4 1,
    schema_row 2137 ''2137'' 356 4 2,
    schema_row 2138 ''2138'' 360 8 3,
    schema_row 2139 ''2139'' 364 4 1,
    schema_row 2140 ''2140'' 368 4 2,
    schema_row 2141 ''2141'' 372 8 3,
    schema_row 2142 ''2142'' 376 4 1,
    schema_row 2143 ''2143'' 380 4 2,
    schema_row 2144 ''2144'' 384 8 3,
    schema_row 2145 ''2145'' 388 4 1,
    schema_row 2146 ''2146'' 392 4 2,
    schema_row 2147 ''2147'' 396 8 3,
    schema_row 2148 ''2148'' 400 4 1,
    schema_row 2149 ''2149'' 404 4 2,
    schema_row 2150 ''2150'' 408 8 3,
    schema_row 2151 ''2151'' 412 4 1,
    schema_row 2152 ''2152'' 416 4 2,
    schema_row 2153 ''2153'' 420 8 3,
    schema_row 2154 ''2154'' 424 4 1,
    schema_row 2155 ''2155'' 428 4 2,
    schema_row 2156 ''2156'' 432 8 3,
    schema_row 2157 ''2157'' 436 4 1,
    schema_row 2158 ''2158'' 440 4 2,
    schema_row 2159 ''2159'' 444 8 3,
    schema_row 2160 ''2160'' 448 4 1,
    schema_row 2161 ''2161'' 452 4 2,
    schema_row 2162 ''2162'' 456 8 3,
    schema_row 2163 ''2163'' 460 4 1,
    schema_row 2164 ''2164'' 464 4 2,
    schema_row 2165 ''2165'' 468 8 3,
    schema_row 2166 ''2166'' 472 4 1,
    schema_row 2167 ''2167'' 476 4 2,
    schema_row 2168 ''2168'' 480 8 3,
    schema_row 2169 ''2169'' 484 4 1,
    schema_row 2170 ''2170'' 488 4 2,
    schema_row 2171 ''2171'' 492 8 3,
    schema_row 2172 ''2172'' 496 4 1,
    schema_row 2173 ''2173'' 500 4 2,
    schema_row 2174 ''2174'' 504 8 3,
    schema_row 2175 ''2175'' 508 4 1,
    schema_row 2176 ''2176'' 512 4 2,
    schema_row 2177 ''2177'' 516 8 3,
    schema_row 2178 ''2178'' 520 4 1,
    schema_row 2179 ''2179'' 524 4 2,
    schema_row 2180 ''2180'' 528 8 3,
    schema_row 2181 ''2181'' 532 4 1,
    schema_row 2182 ''2182'' 536 4 2,
    schema_row 2183 ''2183'' 540 8 3,
    schema_row 2184 ''2184'' 544 4 1,
    schema_row 2185 ''2185'' 548 4 2,
    schema_row 2186 ''2186'' 552 8 3,
    schema_row 2187 ''2187'' 556 4 1,
    schema_row 2188 ''2188'' 560 4 2,
    schema_row 2189 ''2189'' 564 8 3,
    schema_row 2190 ''2190'' 568 4 1,
    schema_row 2191 ''2191'' 572 4 2,
    schema_row 2192 ''2192'' 576 8 3,
    schema_row 2193 ''2193'' 580 4 1,
    schema_row 2194 ''2194'' 584 4 2,
    schema_row 2195 ''2195'' 588 8 3,
    schema_row 2196 ''2196'' 592 4 1,
    schema_row 2197 ''2197'' 596 4 2,
    schema_row 2198 ''2198'' 600 8 3,
    schema_row 2199 ''2199'' 604 4 1,
    schema_row 2200 ''2200'' 608 4 2,
    schema_row 2201 ''2201'' 612 8 3,
    schema_row 2202 ''2202'' 616 4 1,
    schema_row 2203 ''2203'' 620 4 2,
    schema_row 2204 ''2204'' 624 8 3,
    schema_row 2205 ''2205'' 628 4 1,
    schema_row 2206 ''2206'' 632 4 2,
    schema_row 2207 ''2207'' 636 8 3,
    schema_row 2208 ''2208'' 640 4 1,
    schema_row 2209 ''2209'' 644 4 2,
    schema_row 2210 ''2210'' 648 8 3,
    schema_row 2211 ''2211'' 652 4 1,
    schema_row 2212 ''2212'' 656 4 2,
    schema_row 2213 ''2213'' 660 8 3,
    schema_row 2214 ''2214'' 664 4 1,
    schema_row 2215 ''2215'' 668 4 2,
    schema_row 2216 ''2216'' 672 8 3,
    schema_row 2217 ''2217'' 676 4 1,
    schema_row 2218 ''2218'' 680 4 2,
    schema_row 2219 ''2219'' 684 8 3,
    schema_row 2220 ''2220'' 688 4 1,
    schema_row 2221 ''2221'' 692 4 2,
    schema_row 2222 ''2222'' 696 8 3,
    schema_row 2223 ''2223'' 700 4 1,
    schema_row 2224 ''2224'' 704 4 2,
    schema_row 2225 ''2225'' 708 8 3,
    schema_row 2226 ''2226'' 712 4 1,
    schema_row 2227 ''2227'' 716 4 2,
    schema_row 2228 ''2228'' 720 8 3,
    schema_row 2229 ''2229'' 724 4 1,
    schema_row 2230 ''2230'' 728 4 2,
    schema_row 2231 ''2231'' 732 8 3,
    schema_row 2232 ''2232'' 736 4 1,
    schema_row 2233 ''2233'' 740 4 2,
    schema_row 2234 ''2234'' 744 8 3,
    schema_row 2235 ''2235'' 748 4 1,
    schema_row 2236 ''2236'' 752 4 2,
    schema_row 2237 ''2237'' 756 8 3,
    schema_row 2238 ''2238'' 760 4 1,
    schema_row 2239 ''2239'' 764 4 2,
    schema_row 2240 ''2240'' 768 8 3,
    schema_row 2241 ''2241'' 772 4 1,
    schema_row 2242 ''2242'' 776 4 2,
    schema_row 2243 ''2243'' 780 8 3,
    schema_row 2244 ''2244'' 784 4 1,
    schema_row 2245 ''2245'' 788 4 2,
    schema_row 2246 ''2246'' 792 8 3,
    schema_row 2247 ''2247'' 796 4 1,
    schema_row 2248 ''2248'' 800 4 2,
    schema_row 2249 ''2249'' 804 8 3,
    schema_row 2250 ''2250'' 808 4 1]"

definition schema_fields_15 :: "ipmb_schema_field list" where
  "schema_fields_15 = [
    schema_row 2251 ''2251'' 812 4 2,
    schema_row 2252 ''2252'' 816 8 3,
    schema_row 2253 ''2253'' 820 4 1,
    schema_row 2254 ''2254'' 824 4 2,
    schema_row 2255 ''2255'' 828 8 3,
    schema_row 2256 ''2256'' 832 4 1,
    schema_row 2257 ''2257'' 836 4 2,
    schema_row 2258 ''2258'' 840 8 3,
    schema_row 2259 ''2259'' 844 4 1,
    schema_row 2260 ''2260'' 848 4 2,
    schema_row 2261 ''2261'' 852 8 3,
    schema_row 2262 ''2262'' 856 4 1,
    schema_row 2263 ''2263'' 860 4 2,
    schema_row 2264 ''2264'' 864 8 3,
    schema_row 2265 ''2265'' 868 4 1,
    schema_row 2266 ''2266'' 872 4 2,
    schema_row 2267 ''2267'' 876 8 3,
    schema_row 2268 ''2268'' 880 4 1,
    schema_row 2269 ''2269'' 884 4 2,
    schema_row 2270 ''2270'' 888 8 3,
    schema_row 2271 ''2271'' 892 4 1,
    schema_row 2272 ''2272'' 896 4 2,
    schema_row 2273 ''2273'' 900 8 3,
    schema_row 2274 ''2274'' 904 4 1,
    schema_row 2275 ''2275'' 908 4 2,
    schema_row 2276 ''2276'' 912 8 3,
    schema_row 2277 ''2277'' 916 4 1,
    schema_row 2278 ''2278'' 920 4 2,
    schema_row 2279 ''2279'' 924 8 3,
    schema_row 2280 ''2280'' 928 4 1,
    schema_row 2281 ''2281'' 932 4 2,
    schema_row 2282 ''2282'' 936 8 3,
    schema_row 2283 ''2283'' 940 4 1,
    schema_row 2284 ''2284'' 944 4 2,
    schema_row 2285 ''2285'' 948 8 3,
    schema_row 2286 ''2286'' 952 4 1,
    schema_row 2287 ''2287'' 956 4 2,
    schema_row 2288 ''2288'' 960 8 3,
    schema_row 2289 ''2289'' 964 4 1,
    schema_row 2290 ''2290'' 968 4 2,
    schema_row 2291 ''2291'' 972 8 3,
    schema_row 2292 ''2292'' 976 4 1,
    schema_row 2293 ''2293'' 980 4 2,
    schema_row 2294 ''2294'' 984 8 3,
    schema_row 2295 ''2295'' 988 4 1,
    schema_row 2296 ''2296'' 992 4 2,
    schema_row 2297 ''2297'' 996 8 3,
    schema_row 2298 ''2298'' 1000 4 1,
    schema_row 2299 ''2299'' 1004 4 2,
    schema_row 2300 ''2300'' 1008 8 3,
    schema_row 2301 ''2301'' 1012 4 1,
    schema_row 2302 ''2302'' 1016 4 2,
    schema_row 2303 ''2303'' 1020 8 3,
    schema_row 2304 ''2304'' 0 4 1,
    schema_row 2305 ''2305'' 4 4 2,
    schema_row 2306 ''2306'' 8 8 3,
    schema_row 2307 ''2307'' 12 4 1,
    schema_row 2308 ''2308'' 16 4 2,
    schema_row 2309 ''2309'' 20 8 3,
    schema_row 2310 ''2310'' 24 4 1,
    schema_row 2311 ''2311'' 28 4 2,
    schema_row 2312 ''2312'' 32 8 3,
    schema_row 2313 ''2313'' 36 4 1,
    schema_row 2314 ''2314'' 40 4 2,
    schema_row 2315 ''2315'' 44 8 3,
    schema_row 2316 ''2316'' 48 4 1,
    schema_row 2317 ''2317'' 52 4 2,
    schema_row 2318 ''2318'' 56 8 3,
    schema_row 2319 ''2319'' 60 4 1,
    schema_row 2320 ''2320'' 64 4 2,
    schema_row 2321 ''2321'' 68 8 3,
    schema_row 2322 ''2322'' 72 4 1,
    schema_row 2323 ''2323'' 76 4 2,
    schema_row 2324 ''2324'' 80 8 3,
    schema_row 2325 ''2325'' 84 4 1,
    schema_row 2326 ''2326'' 88 4 2,
    schema_row 2327 ''2327'' 92 8 3,
    schema_row 2328 ''2328'' 96 4 1,
    schema_row 2329 ''2329'' 100 4 2,
    schema_row 2330 ''2330'' 104 8 3,
    schema_row 2331 ''2331'' 108 4 1,
    schema_row 2332 ''2332'' 112 4 2,
    schema_row 2333 ''2333'' 116 8 3,
    schema_row 2334 ''2334'' 120 4 1,
    schema_row 2335 ''2335'' 124 4 2,
    schema_row 2336 ''2336'' 128 8 3,
    schema_row 2337 ''2337'' 132 4 1,
    schema_row 2338 ''2338'' 136 4 2,
    schema_row 2339 ''2339'' 140 8 3,
    schema_row 2340 ''2340'' 144 4 1,
    schema_row 2341 ''2341'' 148 4 2,
    schema_row 2342 ''2342'' 152 8 3,
    schema_row 2343 ''2343'' 156 4 1,
    schema_row 2344 ''2344'' 160 4 2,
    schema_row 2345 ''2345'' 164 8 3,
    schema_row 2346 ''2346'' 168 4 1,
    schema_row 2347 ''2347'' 172 4 2,
    schema_row 2348 ''2348'' 176 8 3,
    schema_row 2349 ''2349'' 180 4 1,
    schema_row 2350 ''2350'' 184 4 2,
    schema_row 2351 ''2351'' 188 8 3,
    schema_row 2352 ''2352'' 192 4 1,
    schema_row 2353 ''2353'' 196 4 2,
    schema_row 2354 ''2354'' 200 8 3,
    schema_row 2355 ''2355'' 204 4 1,
    schema_row 2356 ''2356'' 208 4 2,
    schema_row 2357 ''2357'' 212 8 3,
    schema_row 2358 ''2358'' 216 4 1,
    schema_row 2359 ''2359'' 220 4 2,
    schema_row 2360 ''2360'' 224 8 3,
    schema_row 2361 ''2361'' 228 4 1,
    schema_row 2362 ''2362'' 232 4 2,
    schema_row 2363 ''2363'' 236 8 3,
    schema_row 2364 ''2364'' 240 4 1,
    schema_row 2365 ''2365'' 244 4 2,
    schema_row 2366 ''2366'' 248 8 3,
    schema_row 2367 ''2367'' 252 4 1,
    schema_row 2368 ''2368'' 256 4 2,
    schema_row 2369 ''2369'' 260 8 3,
    schema_row 2370 ''2370'' 264 4 1,
    schema_row 2371 ''2371'' 268 4 2,
    schema_row 2372 ''2372'' 272 8 3,
    schema_row 2373 ''2373'' 276 4 1,
    schema_row 2374 ''2374'' 280 4 2,
    schema_row 2375 ''2375'' 284 8 3,
    schema_row 2376 ''2376'' 288 4 1,
    schema_row 2377 ''2377'' 292 4 2,
    schema_row 2378 ''2378'' 296 8 3,
    schema_row 2379 ''2379'' 300 4 1,
    schema_row 2380 ''2380'' 304 4 2,
    schema_row 2381 ''2381'' 308 8 3,
    schema_row 2382 ''2382'' 312 4 1,
    schema_row 2383 ''2383'' 316 4 2,
    schema_row 2384 ''2384'' 320 8 3,
    schema_row 2385 ''2385'' 324 4 1,
    schema_row 2386 ''2386'' 328 4 2,
    schema_row 2387 ''2387'' 332 8 3,
    schema_row 2388 ''2388'' 336 4 1,
    schema_row 2389 ''2389'' 340 4 2,
    schema_row 2390 ''2390'' 344 8 3,
    schema_row 2391 ''2391'' 348 4 1,
    schema_row 2392 ''2392'' 352 4 2,
    schema_row 2393 ''2393'' 356 8 3,
    schema_row 2394 ''2394'' 360 4 1,
    schema_row 2395 ''2395'' 364 4 2,
    schema_row 2396 ''2396'' 368 8 3,
    schema_row 2397 ''2397'' 372 4 1,
    schema_row 2398 ''2398'' 376 4 2,
    schema_row 2399 ''2399'' 380 8 3,
    schema_row 2400 ''2400'' 384 4 1]"

definition schema_fields_16 :: "ipmb_schema_field list" where
  "schema_fields_16 = [
    schema_row 2401 ''2401'' 388 4 2,
    schema_row 2402 ''2402'' 392 8 3,
    schema_row 2403 ''2403'' 396 4 1,
    schema_row 2404 ''2404'' 400 4 2,
    schema_row 2405 ''2405'' 404 8 3,
    schema_row 2406 ''2406'' 408 4 1,
    schema_row 2407 ''2407'' 412 4 2,
    schema_row 2408 ''2408'' 416 8 3,
    schema_row 2409 ''2409'' 420 4 1,
    schema_row 2410 ''2410'' 424 4 2,
    schema_row 2411 ''2411'' 428 8 3,
    schema_row 2412 ''2412'' 432 4 1,
    schema_row 2413 ''2413'' 436 4 2,
    schema_row 2414 ''2414'' 440 8 3,
    schema_row 2415 ''2415'' 444 4 1,
    schema_row 2416 ''2416'' 448 4 2,
    schema_row 2417 ''2417'' 452 8 3,
    schema_row 2418 ''2418'' 456 4 1,
    schema_row 2419 ''2419'' 460 4 2,
    schema_row 2420 ''2420'' 464 8 3,
    schema_row 2421 ''2421'' 468 4 1,
    schema_row 2422 ''2422'' 472 4 2,
    schema_row 2423 ''2423'' 476 8 3,
    schema_row 2424 ''2424'' 480 4 1,
    schema_row 2425 ''2425'' 484 4 2,
    schema_row 2426 ''2426'' 488 8 3,
    schema_row 2427 ''2427'' 492 4 1,
    schema_row 2428 ''2428'' 496 4 2,
    schema_row 2429 ''2429'' 500 8 3,
    schema_row 2430 ''2430'' 504 4 1,
    schema_row 2431 ''2431'' 508 4 2,
    schema_row 2432 ''2432'' 512 8 3,
    schema_row 2433 ''2433'' 516 4 1,
    schema_row 2434 ''2434'' 520 4 2,
    schema_row 2435 ''2435'' 524 8 3,
    schema_row 2436 ''2436'' 528 4 1,
    schema_row 2437 ''2437'' 532 4 2,
    schema_row 2438 ''2438'' 536 8 3,
    schema_row 2439 ''2439'' 540 4 1,
    schema_row 2440 ''2440'' 544 4 2,
    schema_row 2441 ''2441'' 548 8 3,
    schema_row 2442 ''2442'' 552 4 1,
    schema_row 2443 ''2443'' 556 4 2,
    schema_row 2444 ''2444'' 560 8 3,
    schema_row 2445 ''2445'' 564 4 1,
    schema_row 2446 ''2446'' 568 4 2,
    schema_row 2447 ''2447'' 572 8 3,
    schema_row 2448 ''2448'' 576 4 1,
    schema_row 2449 ''2449'' 580 4 2,
    schema_row 2450 ''2450'' 584 8 3,
    schema_row 2451 ''2451'' 588 4 1,
    schema_row 2452 ''2452'' 592 4 2,
    schema_row 2453 ''2453'' 596 8 3,
    schema_row 2454 ''2454'' 600 4 1,
    schema_row 2455 ''2455'' 604 4 2,
    schema_row 2456 ''2456'' 608 8 3,
    schema_row 2457 ''2457'' 612 4 1,
    schema_row 2458 ''2458'' 616 4 2,
    schema_row 2459 ''2459'' 620 8 3,
    schema_row 2460 ''2460'' 624 4 1,
    schema_row 2461 ''2461'' 628 4 2,
    schema_row 2462 ''2462'' 632 8 3,
    schema_row 2463 ''2463'' 636 4 1,
    schema_row 2464 ''2464'' 640 4 2,
    schema_row 2465 ''2465'' 644 8 3,
    schema_row 2466 ''2466'' 648 4 1,
    schema_row 2467 ''2467'' 652 4 2,
    schema_row 2468 ''2468'' 656 8 3,
    schema_row 2469 ''2469'' 660 4 1,
    schema_row 2470 ''2470'' 664 4 2,
    schema_row 2471 ''2471'' 668 8 3,
    schema_row 2472 ''2472'' 672 4 1,
    schema_row 2473 ''2473'' 676 4 2,
    schema_row 2474 ''2474'' 680 8 3,
    schema_row 2475 ''2475'' 684 4 1,
    schema_row 2476 ''2476'' 688 4 2,
    schema_row 2477 ''2477'' 692 8 3,
    schema_row 2478 ''2478'' 696 4 1,
    schema_row 2479 ''2479'' 700 4 2,
    schema_row 2480 ''2480'' 704 8 3,
    schema_row 2481 ''2481'' 708 4 1,
    schema_row 2482 ''2482'' 712 4 2,
    schema_row 2483 ''2483'' 716 8 3,
    schema_row 2484 ''2484'' 720 4 1,
    schema_row 2485 ''2485'' 724 4 2,
    schema_row 2486 ''2486'' 728 8 3,
    schema_row 2487 ''2487'' 732 4 1,
    schema_row 2488 ''2488'' 736 4 2,
    schema_row 2489 ''2489'' 740 8 3,
    schema_row 2490 ''2490'' 744 4 1,
    schema_row 2491 ''2491'' 748 4 2,
    schema_row 2492 ''2492'' 752 8 3,
    schema_row 2493 ''2493'' 756 4 1,
    schema_row 2494 ''2494'' 760 4 2,
    schema_row 2495 ''2495'' 764 8 3,
    schema_row 2496 ''2496'' 768 4 1,
    schema_row 2497 ''2497'' 772 4 2,
    schema_row 2498 ''2498'' 776 8 3,
    schema_row 2499 ''2499'' 780 4 1,
    schema_row 2500 ''2500'' 784 4 2,
    schema_row 2501 ''2501'' 788 8 3,
    schema_row 2502 ''2502'' 792 4 1,
    schema_row 2503 ''2503'' 796 4 2,
    schema_row 2504 ''2504'' 800 8 3,
    schema_row 2505 ''2505'' 804 4 1,
    schema_row 2506 ''2506'' 808 4 2,
    schema_row 2507 ''2507'' 812 8 3,
    schema_row 2508 ''2508'' 816 4 1,
    schema_row 2509 ''2509'' 820 4 2,
    schema_row 2510 ''2510'' 824 8 3,
    schema_row 2511 ''2511'' 828 4 1,
    schema_row 2512 ''2512'' 832 4 2,
    schema_row 2513 ''2513'' 836 8 3,
    schema_row 2514 ''2514'' 840 4 1,
    schema_row 2515 ''2515'' 844 4 2,
    schema_row 2516 ''2516'' 848 8 3,
    schema_row 2517 ''2517'' 852 4 1,
    schema_row 2518 ''2518'' 856 4 2,
    schema_row 2519 ''2519'' 860 8 3,
    schema_row 2520 ''2520'' 864 4 1,
    schema_row 2521 ''2521'' 868 4 2,
    schema_row 2522 ''2522'' 872 8 3,
    schema_row 2523 ''2523'' 876 4 1,
    schema_row 2524 ''2524'' 880 4 2,
    schema_row 2525 ''2525'' 884 8 3,
    schema_row 2526 ''2526'' 888 4 1,
    schema_row 2527 ''2527'' 892 4 2,
    schema_row 2528 ''2528'' 896 8 3,
    schema_row 2529 ''2529'' 900 4 1,
    schema_row 2530 ''2530'' 904 4 2,
    schema_row 2531 ''2531'' 908 8 3,
    schema_row 2532 ''2532'' 912 4 1,
    schema_row 2533 ''2533'' 916 4 2,
    schema_row 2534 ''2534'' 920 8 3,
    schema_row 2535 ''2535'' 924 4 1,
    schema_row 2536 ''2536'' 928 4 2,
    schema_row 2537 ''2537'' 932 8 3,
    schema_row 2538 ''2538'' 936 4 1,
    schema_row 2539 ''2539'' 940 4 2,
    schema_row 2540 ''2540'' 944 8 3,
    schema_row 2541 ''2541'' 948 4 1,
    schema_row 2542 ''2542'' 952 4 2,
    schema_row 2543 ''2543'' 956 8 3,
    schema_row 2544 ''2544'' 960 4 1,
    schema_row 2545 ''2545'' 964 4 2,
    schema_row 2546 ''2546'' 968 8 3,
    schema_row 2547 ''2547'' 972 4 1,
    schema_row 2548 ''2548'' 976 4 2,
    schema_row 2549 ''2549'' 980 8 3,
    schema_row 2550 ''2550'' 984 4 1]"

definition schema_fields_17 :: "ipmb_schema_field list" where
  "schema_fields_17 = [
    schema_row 2551 ''2551'' 988 4 2,
    schema_row 2552 ''2552'' 992 8 3,
    schema_row 2553 ''2553'' 996 4 1,
    schema_row 2554 ''2554'' 1000 4 2,
    schema_row 2555 ''2555'' 1004 8 3,
    schema_row 2556 ''2556'' 1008 4 1,
    schema_row 2557 ''2557'' 1012 4 2,
    schema_row 2558 ''2558'' 1016 8 3,
    schema_row 2559 ''2559'' 1020 4 1,
    schema_row 2560 ''2560'' 0 4 2,
    schema_row 2561 ''2561'' 4 8 3,
    schema_row 2562 ''2562'' 8 4 1,
    schema_row 2563 ''2563'' 12 4 2,
    schema_row 2564 ''2564'' 16 8 3,
    schema_row 2565 ''2565'' 20 4 1,
    schema_row 2566 ''2566'' 24 4 2,
    schema_row 2567 ''2567'' 28 8 3,
    schema_row 2568 ''2568'' 32 4 1,
    schema_row 2569 ''2569'' 36 4 2,
    schema_row 2570 ''2570'' 40 8 3,
    schema_row 2571 ''2571'' 44 4 1,
    schema_row 2572 ''2572'' 48 4 2,
    schema_row 2573 ''2573'' 52 8 3,
    schema_row 2574 ''2574'' 56 4 1,
    schema_row 2575 ''2575'' 60 4 2,
    schema_row 2576 ''2576'' 64 8 3,
    schema_row 2577 ''2577'' 68 4 1,
    schema_row 2578 ''2578'' 72 4 2,
    schema_row 2579 ''2579'' 76 8 3,
    schema_row 2580 ''2580'' 80 4 1,
    schema_row 2581 ''2581'' 84 4 2,
    schema_row 2582 ''2582'' 88 8 3,
    schema_row 2583 ''2583'' 92 4 1,
    schema_row 2584 ''2584'' 96 4 2,
    schema_row 2585 ''2585'' 100 8 3,
    schema_row 2586 ''2586'' 104 4 1,
    schema_row 2587 ''2587'' 108 4 2,
    schema_row 2588 ''2588'' 112 8 3,
    schema_row 2589 ''2589'' 116 4 1,
    schema_row 2590 ''2590'' 120 4 2,
    schema_row 2591 ''2591'' 124 8 3,
    schema_row 2592 ''2592'' 128 4 1,
    schema_row 2593 ''2593'' 132 4 2,
    schema_row 2594 ''2594'' 136 8 3,
    schema_row 2595 ''2595'' 140 4 1,
    schema_row 2596 ''2596'' 144 4 2,
    schema_row 2597 ''2597'' 148 8 3,
    schema_row 2598 ''2598'' 152 4 1,
    schema_row 2599 ''2599'' 156 4 2,
    schema_row 2600 ''2600'' 160 8 3,
    schema_row 2601 ''2601'' 164 4 1,
    schema_row 2602 ''2602'' 168 4 2,
    schema_row 2603 ''2603'' 172 8 3,
    schema_row 2604 ''2604'' 176 4 1,
    schema_row 2605 ''2605'' 180 4 2,
    schema_row 2606 ''2606'' 184 8 3,
    schema_row 2607 ''2607'' 188 4 1,
    schema_row 2608 ''2608'' 192 4 2,
    schema_row 2609 ''2609'' 196 8 3,
    schema_row 2610 ''2610'' 200 4 1,
    schema_row 2611 ''2611'' 204 4 2,
    schema_row 2612 ''2612'' 208 8 3,
    schema_row 2613 ''2613'' 212 4 1,
    schema_row 2614 ''2614'' 216 4 2,
    schema_row 2615 ''2615'' 220 8 3,
    schema_row 2616 ''2616'' 224 4 1,
    schema_row 2617 ''2617'' 228 4 2,
    schema_row 2618 ''2618'' 232 8 3,
    schema_row 2619 ''2619'' 236 4 1,
    schema_row 2620 ''2620'' 240 4 2,
    schema_row 2621 ''2621'' 244 8 3,
    schema_row 2622 ''2622'' 248 4 1,
    schema_row 2623 ''2623'' 252 4 2,
    schema_row 2624 ''2624'' 256 8 3,
    schema_row 2625 ''2625'' 260 4 1,
    schema_row 2626 ''2626'' 264 4 2,
    schema_row 2627 ''2627'' 268 8 3,
    schema_row 2628 ''2628'' 272 4 1,
    schema_row 2629 ''2629'' 276 4 2,
    schema_row 2630 ''2630'' 280 8 3,
    schema_row 2631 ''2631'' 284 4 1,
    schema_row 2632 ''2632'' 288 4 2,
    schema_row 2633 ''2633'' 292 8 3,
    schema_row 2634 ''2634'' 296 4 1,
    schema_row 2635 ''2635'' 300 4 2,
    schema_row 2636 ''2636'' 304 8 3,
    schema_row 2637 ''2637'' 308 4 1,
    schema_row 2638 ''2638'' 312 4 2,
    schema_row 2639 ''2639'' 316 8 3,
    schema_row 2640 ''2640'' 320 4 1,
    schema_row 2641 ''2641'' 324 4 2,
    schema_row 2642 ''2642'' 328 8 3,
    schema_row 2643 ''2643'' 332 4 1,
    schema_row 2644 ''2644'' 336 4 2,
    schema_row 2645 ''2645'' 340 8 3,
    schema_row 2646 ''2646'' 344 4 1,
    schema_row 2647 ''2647'' 348 4 2,
    schema_row 2648 ''2648'' 352 8 3,
    schema_row 2649 ''2649'' 356 4 1,
    schema_row 2650 ''2650'' 360 4 2,
    schema_row 2651 ''2651'' 364 8 3,
    schema_row 2652 ''2652'' 368 4 1,
    schema_row 2653 ''2653'' 372 4 2,
    schema_row 2654 ''2654'' 376 8 3,
    schema_row 2655 ''2655'' 380 4 1,
    schema_row 2656 ''2656'' 384 4 2,
    schema_row 2657 ''2657'' 388 8 3,
    schema_row 2658 ''2658'' 392 4 1,
    schema_row 2659 ''2659'' 396 4 2,
    schema_row 2660 ''2660'' 400 8 3,
    schema_row 2661 ''2661'' 404 4 1,
    schema_row 2662 ''2662'' 408 4 2,
    schema_row 2663 ''2663'' 412 8 3,
    schema_row 2664 ''2664'' 416 4 1,
    schema_row 2665 ''2665'' 420 4 2,
    schema_row 2666 ''2666'' 424 8 3,
    schema_row 2667 ''2667'' 428 4 1,
    schema_row 2668 ''2668'' 432 4 2,
    schema_row 2669 ''2669'' 436 8 3,
    schema_row 2670 ''2670'' 440 4 1,
    schema_row 2671 ''2671'' 444 4 2,
    schema_row 2672 ''2672'' 448 8 3,
    schema_row 2673 ''2673'' 452 4 1,
    schema_row 2674 ''2674'' 456 4 2,
    schema_row 2675 ''2675'' 460 8 3,
    schema_row 2676 ''2676'' 464 4 1,
    schema_row 2677 ''2677'' 468 4 2,
    schema_row 2678 ''2678'' 472 8 3,
    schema_row 2679 ''2679'' 476 4 1,
    schema_row 2680 ''2680'' 480 4 2,
    schema_row 2681 ''2681'' 484 8 3,
    schema_row 2682 ''2682'' 488 4 1,
    schema_row 2683 ''2683'' 492 4 2,
    schema_row 2684 ''2684'' 496 8 3,
    schema_row 2685 ''2685'' 500 4 1,
    schema_row 2686 ''2686'' 504 4 2,
    schema_row 2687 ''2687'' 508 8 3,
    schema_row 2688 ''2688'' 512 4 1,
    schema_row 2689 ''2689'' 516 4 2,
    schema_row 2690 ''2690'' 520 8 3,
    schema_row 2691 ''2691'' 524 4 1,
    schema_row 2692 ''2692'' 528 4 2,
    schema_row 2693 ''2693'' 532 8 3,
    schema_row 2694 ''2694'' 536 4 1,
    schema_row 2695 ''2695'' 540 4 2,
    schema_row 2696 ''2696'' 544 8 3,
    schema_row 2697 ''2697'' 548 4 1,
    schema_row 2698 ''2698'' 552 4 2,
    schema_row 2699 ''2699'' 556 8 3,
    schema_row 2700 ''2700'' 560 4 1]"

definition schema_fields_18 :: "ipmb_schema_field list" where
  "schema_fields_18 = [
    schema_row 2701 ''2701'' 564 4 2,
    schema_row 2702 ''2702'' 568 8 3,
    schema_row 2703 ''2703'' 572 4 1,
    schema_row 2704 ''2704'' 576 4 2,
    schema_row 2705 ''2705'' 580 8 3,
    schema_row 2706 ''2706'' 584 4 1,
    schema_row 2707 ''2707'' 588 4 2,
    schema_row 2708 ''2708'' 592 8 3,
    schema_row 2709 ''2709'' 596 4 1,
    schema_row 2710 ''2710'' 600 4 2,
    schema_row 2711 ''2711'' 604 8 3,
    schema_row 2712 ''2712'' 608 4 1,
    schema_row 2713 ''2713'' 612 4 2,
    schema_row 2714 ''2714'' 616 8 3,
    schema_row 2715 ''2715'' 620 4 1,
    schema_row 2716 ''2716'' 624 4 2,
    schema_row 2717 ''2717'' 628 8 3,
    schema_row 2718 ''2718'' 632 4 1,
    schema_row 2719 ''2719'' 636 4 2,
    schema_row 2720 ''2720'' 640 8 3,
    schema_row 2721 ''2721'' 644 4 1,
    schema_row 2722 ''2722'' 648 4 2,
    schema_row 2723 ''2723'' 652 8 3,
    schema_row 2724 ''2724'' 656 4 1,
    schema_row 2725 ''2725'' 660 4 2,
    schema_row 2726 ''2726'' 664 8 3,
    schema_row 2727 ''2727'' 668 4 1,
    schema_row 2728 ''2728'' 672 4 2,
    schema_row 2729 ''2729'' 676 8 3,
    schema_row 2730 ''2730'' 680 4 1,
    schema_row 2731 ''2731'' 684 4 2,
    schema_row 2732 ''2732'' 688 8 3,
    schema_row 2733 ''2733'' 692 4 1,
    schema_row 2734 ''2734'' 696 4 2,
    schema_row 2735 ''2735'' 700 8 3,
    schema_row 2736 ''2736'' 704 4 1,
    schema_row 2737 ''2737'' 708 4 2,
    schema_row 2738 ''2738'' 712 8 3,
    schema_row 2739 ''2739'' 716 4 1,
    schema_row 2740 ''2740'' 720 4 2,
    schema_row 2741 ''2741'' 724 8 3,
    schema_row 2742 ''2742'' 728 4 1,
    schema_row 2743 ''2743'' 732 4 2,
    schema_row 2744 ''2744'' 736 8 3,
    schema_row 2745 ''2745'' 740 4 1,
    schema_row 2746 ''2746'' 744 4 2,
    schema_row 2747 ''2747'' 748 8 3,
    schema_row 2748 ''2748'' 752 4 1,
    schema_row 2749 ''2749'' 756 4 2,
    schema_row 2750 ''2750'' 760 8 3,
    schema_row 2751 ''2751'' 764 4 1,
    schema_row 2752 ''2752'' 768 4 2,
    schema_row 2753 ''2753'' 772 8 3,
    schema_row 2754 ''2754'' 776 4 1,
    schema_row 2755 ''2755'' 780 4 2,
    schema_row 2756 ''2756'' 784 8 3,
    schema_row 2757 ''2757'' 788 4 1,
    schema_row 2758 ''2758'' 792 4 2,
    schema_row 2759 ''2759'' 796 8 3,
    schema_row 2760 ''2760'' 800 4 1,
    schema_row 2761 ''2761'' 804 4 2,
    schema_row 2762 ''2762'' 808 8 3,
    schema_row 2763 ''2763'' 812 4 1,
    schema_row 2764 ''2764'' 816 4 2,
    schema_row 2765 ''2765'' 820 8 3,
    schema_row 2766 ''2766'' 824 4 1,
    schema_row 2767 ''2767'' 828 4 2,
    schema_row 2768 ''2768'' 832 8 3,
    schema_row 2769 ''2769'' 836 4 1,
    schema_row 2770 ''2770'' 840 4 2,
    schema_row 2771 ''2771'' 844 8 3,
    schema_row 2772 ''2772'' 848 4 1,
    schema_row 2773 ''2773'' 852 4 2,
    schema_row 2774 ''2774'' 856 8 3,
    schema_row 2775 ''2775'' 860 4 1,
    schema_row 2776 ''2776'' 864 4 2,
    schema_row 2777 ''2777'' 868 8 3,
    schema_row 2778 ''2778'' 872 4 1,
    schema_row 2779 ''2779'' 876 4 2,
    schema_row 2780 ''2780'' 880 8 3,
    schema_row 2781 ''2781'' 884 4 1,
    schema_row 2782 ''2782'' 888 4 2,
    schema_row 2783 ''2783'' 892 8 3,
    schema_row 2784 ''2784'' 896 4 1,
    schema_row 2785 ''2785'' 900 4 2,
    schema_row 2786 ''2786'' 904 8 3,
    schema_row 2787 ''2787'' 908 4 1,
    schema_row 2788 ''2788'' 912 4 2,
    schema_row 2789 ''2789'' 916 8 3,
    schema_row 2790 ''2790'' 920 4 1,
    schema_row 2791 ''2791'' 924 4 2,
    schema_row 2792 ''2792'' 928 8 3,
    schema_row 2793 ''2793'' 932 4 1,
    schema_row 2794 ''2794'' 936 4 2,
    schema_row 2795 ''2795'' 940 8 3,
    schema_row 2796 ''2796'' 944 4 1,
    schema_row 2797 ''2797'' 948 4 2,
    schema_row 2798 ''2798'' 952 8 3,
    schema_row 2799 ''2799'' 956 4 1,
    schema_row 2800 ''2800'' 960 4 2,
    schema_row 2801 ''2801'' 964 8 3,
    schema_row 2802 ''2802'' 968 4 1,
    schema_row 2803 ''2803'' 972 4 2,
    schema_row 2804 ''2804'' 976 8 3,
    schema_row 2805 ''2805'' 980 4 1,
    schema_row 2806 ''2806'' 984 4 2,
    schema_row 2807 ''2807'' 988 8 3,
    schema_row 2808 ''2808'' 992 4 1,
    schema_row 2809 ''2809'' 996 4 2,
    schema_row 2810 ''2810'' 1000 8 3,
    schema_row 2811 ''2811'' 1004 4 1,
    schema_row 2812 ''2812'' 1008 4 2,
    schema_row 2813 ''2813'' 1012 8 3,
    schema_row 2814 ''2814'' 1016 4 1,
    schema_row 2815 ''2815'' 1020 4 2,
    schema_row 2816 ''2816'' 0 8 3,
    schema_row 2817 ''2817'' 4 4 1,
    schema_row 2818 ''2818'' 8 4 2,
    schema_row 2819 ''2819'' 12 8 3,
    schema_row 2820 ''2820'' 16 4 1,
    schema_row 2821 ''2821'' 20 4 2,
    schema_row 2822 ''2822'' 24 8 3,
    schema_row 2823 ''2823'' 28 4 1,
    schema_row 2824 ''2824'' 32 4 2,
    schema_row 2825 ''2825'' 36 8 3,
    schema_row 2826 ''2826'' 40 4 1,
    schema_row 2827 ''2827'' 44 4 2,
    schema_row 2828 ''2828'' 48 8 3,
    schema_row 2829 ''2829'' 52 4 1,
    schema_row 2830 ''2830'' 56 4 2,
    schema_row 2831 ''2831'' 60 8 3,
    schema_row 2832 ''2832'' 64 4 1,
    schema_row 2833 ''2833'' 68 4 2,
    schema_row 2834 ''2834'' 72 8 3,
    schema_row 2835 ''2835'' 76 4 1,
    schema_row 2836 ''2836'' 80 4 2,
    schema_row 2837 ''2837'' 84 8 3,
    schema_row 2838 ''2838'' 88 4 1,
    schema_row 2839 ''2839'' 92 4 2,
    schema_row 2840 ''2840'' 96 8 3,
    schema_row 2841 ''2841'' 100 4 1,
    schema_row 2842 ''2842'' 104 4 2,
    schema_row 2843 ''2843'' 108 8 3,
    schema_row 2844 ''2844'' 112 4 1,
    schema_row 2845 ''2845'' 116 4 2,
    schema_row 2846 ''2846'' 120 8 3,
    schema_row 2847 ''2847'' 124 4 1,
    schema_row 2848 ''2848'' 128 4 2,
    schema_row 2849 ''2849'' 132 8 3,
    schema_row 2850 ''2850'' 136 4 1]"

definition schema_fields_19 :: "ipmb_schema_field list" where
  "schema_fields_19 = [
    schema_row 2851 ''2851'' 140 4 2,
    schema_row 2852 ''2852'' 144 8 3,
    schema_row 2853 ''2853'' 148 4 1,
    schema_row 2854 ''2854'' 152 4 2,
    schema_row 2855 ''2855'' 156 8 3,
    schema_row 2856 ''2856'' 160 4 1,
    schema_row 2857 ''2857'' 164 4 2,
    schema_row 2858 ''2858'' 168 8 3,
    schema_row 2859 ''2859'' 172 4 1,
    schema_row 2860 ''2860'' 176 4 2,
    schema_row 2861 ''2861'' 180 8 3,
    schema_row 2862 ''2862'' 184 4 1,
    schema_row 2863 ''2863'' 188 4 2,
    schema_row 2864 ''2864'' 192 8 3,
    schema_row 2865 ''2865'' 196 4 1,
    schema_row 2866 ''2866'' 200 4 2,
    schema_row 2867 ''2867'' 204 8 3,
    schema_row 2868 ''2868'' 208 4 1,
    schema_row 2869 ''2869'' 212 4 2,
    schema_row 2870 ''2870'' 216 8 3,
    schema_row 2871 ''2871'' 220 4 1,
    schema_row 2872 ''2872'' 224 4 2,
    schema_row 2873 ''2873'' 228 8 3,
    schema_row 2874 ''2874'' 232 4 1,
    schema_row 2875 ''2875'' 236 4 2,
    schema_row 2876 ''2876'' 240 8 3,
    schema_row 2877 ''2877'' 244 4 1,
    schema_row 2878 ''2878'' 248 4 2,
    schema_row 2879 ''2879'' 252 8 3,
    schema_row 2880 ''2880'' 256 4 1,
    schema_row 2881 ''2881'' 260 4 2,
    schema_row 2882 ''2882'' 264 8 3,
    schema_row 2883 ''2883'' 268 4 1,
    schema_row 2884 ''2884'' 272 4 2,
    schema_row 2885 ''2885'' 276 8 3,
    schema_row 2886 ''2886'' 280 4 1,
    schema_row 2887 ''2887'' 284 4 2,
    schema_row 2888 ''2888'' 288 8 3,
    schema_row 2889 ''2889'' 292 4 1,
    schema_row 2890 ''2890'' 296 4 2,
    schema_row 2891 ''2891'' 300 8 3,
    schema_row 2892 ''2892'' 304 4 1,
    schema_row 2893 ''2893'' 308 4 2,
    schema_row 2894 ''2894'' 312 8 3,
    schema_row 2895 ''2895'' 316 4 1,
    schema_row 2896 ''2896'' 320 4 2,
    schema_row 2897 ''2897'' 324 8 3,
    schema_row 2898 ''2898'' 328 4 1,
    schema_row 2899 ''2899'' 332 4 2,
    schema_row 2900 ''2900'' 336 8 3,
    schema_row 2901 ''2901'' 340 4 1,
    schema_row 2902 ''2902'' 344 4 2,
    schema_row 2903 ''2903'' 348 8 3,
    schema_row 2904 ''2904'' 352 4 1,
    schema_row 2905 ''2905'' 356 4 2,
    schema_row 2906 ''2906'' 360 8 3,
    schema_row 2907 ''2907'' 364 4 1,
    schema_row 2908 ''2908'' 368 4 2,
    schema_row 2909 ''2909'' 372 8 3,
    schema_row 2910 ''2910'' 376 4 1,
    schema_row 2911 ''2911'' 380 4 2,
    schema_row 2912 ''2912'' 384 8 3,
    schema_row 2913 ''2913'' 388 4 1,
    schema_row 2914 ''2914'' 392 4 2,
    schema_row 2915 ''2915'' 396 8 3,
    schema_row 2916 ''2916'' 400 4 1,
    schema_row 2917 ''2917'' 404 4 2,
    schema_row 2918 ''2918'' 408 8 3,
    schema_row 2919 ''2919'' 412 4 1,
    schema_row 2920 ''2920'' 416 4 2,
    schema_row 2921 ''2921'' 420 8 3,
    schema_row 2922 ''2922'' 424 4 1,
    schema_row 2923 ''2923'' 428 4 2,
    schema_row 2924 ''2924'' 432 8 3,
    schema_row 2925 ''2925'' 436 4 1,
    schema_row 2926 ''2926'' 440 4 2,
    schema_row 2927 ''2927'' 444 8 3,
    schema_row 2928 ''2928'' 448 4 1,
    schema_row 2929 ''2929'' 452 4 2,
    schema_row 2930 ''2930'' 456 8 3,
    schema_row 2931 ''2931'' 460 4 1,
    schema_row 2932 ''2932'' 464 4 2,
    schema_row 2933 ''2933'' 468 8 3,
    schema_row 2934 ''2934'' 472 4 1,
    schema_row 2935 ''2935'' 476 4 2,
    schema_row 2936 ''2936'' 480 8 3,
    schema_row 2937 ''2937'' 484 4 1,
    schema_row 2938 ''2938'' 488 4 2,
    schema_row 2939 ''2939'' 492 8 3,
    schema_row 2940 ''2940'' 496 4 1,
    schema_row 2941 ''2941'' 500 4 2,
    schema_row 2942 ''2942'' 504 8 3,
    schema_row 2943 ''2943'' 508 4 1,
    schema_row 2944 ''2944'' 512 4 2,
    schema_row 2945 ''2945'' 516 8 3,
    schema_row 2946 ''2946'' 520 4 1,
    schema_row 2947 ''2947'' 524 4 2,
    schema_row 2948 ''2948'' 528 8 3,
    schema_row 2949 ''2949'' 532 4 1,
    schema_row 2950 ''2950'' 536 4 2,
    schema_row 2951 ''2951'' 540 8 3,
    schema_row 2952 ''2952'' 544 4 1,
    schema_row 2953 ''2953'' 548 4 2,
    schema_row 2954 ''2954'' 552 8 3,
    schema_row 2955 ''2955'' 556 4 1,
    schema_row 2956 ''2956'' 560 4 2,
    schema_row 2957 ''2957'' 564 8 3,
    schema_row 2958 ''2958'' 568 4 1,
    schema_row 2959 ''2959'' 572 4 2,
    schema_row 2960 ''2960'' 576 8 3,
    schema_row 2961 ''2961'' 580 4 1,
    schema_row 2962 ''2962'' 584 4 2,
    schema_row 2963 ''2963'' 588 8 3,
    schema_row 2964 ''2964'' 592 4 1,
    schema_row 2965 ''2965'' 596 4 2,
    schema_row 2966 ''2966'' 600 8 3,
    schema_row 2967 ''2967'' 604 4 1,
    schema_row 2968 ''2968'' 608 4 2,
    schema_row 2969 ''2969'' 612 8 3,
    schema_row 2970 ''2970'' 616 4 1,
    schema_row 2971 ''2971'' 620 4 2,
    schema_row 2972 ''2972'' 624 8 3,
    schema_row 2973 ''2973'' 628 4 1,
    schema_row 2974 ''2974'' 632 4 2,
    schema_row 2975 ''2975'' 636 8 3,
    schema_row 2976 ''2976'' 640 4 1,
    schema_row 2977 ''2977'' 644 4 2,
    schema_row 2978 ''2978'' 648 8 3,
    schema_row 2979 ''2979'' 652 4 1,
    schema_row 2980 ''2980'' 656 4 2,
    schema_row 2981 ''2981'' 660 8 3,
    schema_row 2982 ''2982'' 664 4 1,
    schema_row 2983 ''2983'' 668 4 2,
    schema_row 2984 ''2984'' 672 8 3,
    schema_row 2985 ''2985'' 676 4 1,
    schema_row 2986 ''2986'' 680 4 2,
    schema_row 2987 ''2987'' 684 8 3,
    schema_row 2988 ''2988'' 688 4 1,
    schema_row 2989 ''2989'' 692 4 2,
    schema_row 2990 ''2990'' 696 8 3,
    schema_row 2991 ''2991'' 700 4 1,
    schema_row 2992 ''2992'' 704 4 2,
    schema_row 2993 ''2993'' 708 8 3,
    schema_row 2994 ''2994'' 712 4 1,
    schema_row 2995 ''2995'' 716 4 2,
    schema_row 2996 ''2996'' 720 8 3,
    schema_row 2997 ''2997'' 724 4 1,
    schema_row 2998 ''2998'' 728 4 2,
    schema_row 2999 ''2999'' 732 8 3,
    schema_row 3000 ''3000'' 736 4 1]"

lemma schema_fields_10_rows: "schema_rows 1501 884 2 schema_fields_10"
  unfolding schema_fields_10_def
  by (simp add: schema_chunk del: schema_rows.simps(2))

lemma schema_fields_11_rows: "schema_rows 1651 460 2 schema_fields_11"
  unfolding schema_fields_11_def
  by (simp add: schema_chunk del: schema_rows.simps(2))

lemma schema_fields_12_rows: "schema_rows 1801 36 2 schema_fields_12"
  unfolding schema_fields_12_def
  by (simp add: schema_chunk del: schema_rows.simps(2))

lemma schema_fields_13_rows: "schema_rows 1951 636 2 schema_fields_13"
  unfolding schema_fields_13_def
  by (simp add: schema_chunk del: schema_rows.simps(2))

lemma schema_fields_14_rows: "schema_rows 2101 212 2 schema_fields_14"
  unfolding schema_fields_14_def
  by (simp add: schema_chunk del: schema_rows.simps(2))

lemma schema_fields_15_rows: "schema_rows 2251 812 2 schema_fields_15"
  unfolding schema_fields_15_def
  by (simp add: schema_chunk del: schema_rows.simps(2))

lemma schema_fields_16_rows: "schema_rows 2401 388 2 schema_fields_16"
  unfolding schema_fields_16_def
  by (simp add: schema_chunk del: schema_rows.simps(2))

lemma schema_fields_17_rows: "schema_rows 2551 988 2 schema_fields_17"
  unfolding schema_fields_17_def
  by (simp add: schema_chunk del: schema_rows.simps(2))

lemma schema_fields_18_rows: "schema_rows 2701 564 2 schema_fields_18"
  unfolding schema_fields_18_def
  by (simp add: schema_chunk del: schema_rows.simps(2))

lemma schema_fields_19_rows: "schema_rows 2851 140 2 schema_fields_19"
  unfolding schema_fields_19_def
  by (simp add: schema_chunk del: schema_rows.simps(2))

lemma schema_fields_10_length: "length schema_fields_10 = 150"
  by (simp add: schema_fields_10_def)

lemma schema_fields_11_length: "length schema_fields_11 = 150"
  by (simp add: schema_fields_11_def)

lemma schema_fields_12_length: "length schema_fields_12 = 150"
  by (simp add: schema_fields_12_def)

lemma schema_fields_13_length: "length schema_fields_13 = 150"
  by (simp add: schema_fields_13_def)

lemma schema_fields_14_length: "length schema_fields_14 = 150"
  by (simp add: schema_fields_14_def)

lemma schema_fields_15_length: "length schema_fields_15 = 150"
  by (simp add: schema_fields_15_def)

lemma schema_fields_16_length: "length schema_fields_16 = 150"
  by (simp add: schema_fields_16_def)

lemma schema_fields_17_length: "length schema_fields_17 = 150"
  by (simp add: schema_fields_17_def)

lemma schema_fields_18_length: "length schema_fields_18 = 150"
  by (simp add: schema_fields_18_def)

lemma schema_fields_19_length: "length schema_fields_19 = 150"
  by (simp add: schema_fields_19_def)

definition schema_fields_B :: "ipmb_schema_field list" where
  "schema_fields_B =
     schema_fields_10 @ schema_fields_11 @ schema_fields_12 @ schema_fields_13 @ schema_fields_14 @
     schema_fields_15 @ schema_fields_16 @ schema_fields_17 @ schema_fields_18 @ schema_fields_19"

lemma schema_fields_B_metrics: "schema_fields_B = map schema_metric [1501..<3001]"
proof -
  have m10: "schema_fields_10 = map schema_metric [1501..<1651]"
    using schema_rows_metrics [of 1501 schema_fields_10] schema_fields_10_rows by (simp add: schema_fields_10_length)
  have m11: "schema_fields_11 = map schema_metric [1651..<1801]"
    using schema_rows_metrics [of 1651 schema_fields_11] schema_fields_11_rows by (simp add: schema_fields_11_length)
  have m12: "schema_fields_12 = map schema_metric [1801..<1951]"
    using schema_rows_metrics [of 1801 schema_fields_12] schema_fields_12_rows by (simp add: schema_fields_12_length)
  have m13: "schema_fields_13 = map schema_metric [1951..<2101]"
    using schema_rows_metrics [of 1951 schema_fields_13] schema_fields_13_rows by (simp add: schema_fields_13_length)
  have m14: "schema_fields_14 = map schema_metric [2101..<2251]"
    using schema_rows_metrics [of 2101 schema_fields_14] schema_fields_14_rows by (simp add: schema_fields_14_length)
  have m15: "schema_fields_15 = map schema_metric [2251..<2401]"
    using schema_rows_metrics [of 2251 schema_fields_15] schema_fields_15_rows by (simp add: schema_fields_15_length)
  have m16: "schema_fields_16 = map schema_metric [2401..<2551]"
    using schema_rows_metrics [of 2401 schema_fields_16] schema_fields_16_rows by (simp add: schema_fields_16_length)
  have m17: "schema_fields_17 = map schema_metric [2551..<2701]"
    using schema_rows_metrics [of 2551 schema_fields_17] schema_fields_17_rows by (simp add: schema_fields_17_length)
  have m18: "schema_fields_18 = map schema_metric [2701..<2851]"
    using schema_rows_metrics [of 2701 schema_fields_18] schema_fields_18_rows by (simp add: schema_fields_18_length)
  have m19: "schema_fields_19 = map schema_metric [2851..<3001]"
    using schema_rows_metrics [of 2851 schema_fields_19] schema_fields_19_rows by (simp add: schema_fields_19_length)
  show ?thesis
    unfolding schema_fields_B_def m10 m11 m12 m13 m14 m15 m16 m17 m18 m19
    by (simp only: map_upt_join numeral_le_iff one_le_numeral semiring_norm)
qed

end
