(* ===== verification/Schema_Rows_C.thy ===== *)
theory Schema_Rows_C
  imports Schema_Layout
begin

text \<open>Rows 3001 to 4499 of the schema registry, as in the source, and that they follow the
  rule of \<open>Schema_Layout\<close>.\<close>

definition schema_fields_20 :: "ipmb_schema_field list" where
  "schema_fields_20 = [
    schema_row 3001 ''3001'' 740 4 2,
    schema_row 3002 ''3002'' 744 8 3,
    schema_row 3003 ''3003'' 748 4 1,
    schema_row 3004 ''3004'' 752 4 2,
    schema_row 3005 ''3005'' 756 8 3,
    schema_row 3006 ''3006'' 760 4 1,
    schema_row 3007 ''3007'' 764 4 2,
    schema_row 3008 ''3008'' 768 8 3,
    schema_row 3009 ''3009'' 772 4 1,
    schema_row 3010 ''3010'' 776 4 2,
    schema_row 3011 ''3011'' 780 8 3,
    schema_row 3012 ''3012'' 784 4 1,
    schema_row 3013 ''3013'' 788 4 2,
    schema_row 3014 ''3014'' 792 8 3,
    schema_row 3015 ''3015'' 796 4 1,
    schema_row 3016 ''3016'' 800 4 2,
    schema_row 3017 ''3017'' 804 8 3,
    schema_row 3018 ''3018'' 808 4 1,
    schema_row 3019 ''3019'' 812 4 2,
    schema_row 3020 ''3020'' 816 8 3,
    schema_row 3021 ''3021'' 820 4 1,
    schema_row 3022 ''3022'' 824 4 2,
    schema_row 3023 ''3023'' 828 8 3,
    schema_row 3024 ''3024'' 832 4 1,
    schema_row 3025 ''3025'' 836 4 2,
    schema_row 3026 ''3026'' 840 8 3,
    schema_row 3027 ''3027'' 844 4 1,
    schema_row 3028 ''3028'' 848 4 2,
    schema_row 3029 ''3029'' 852 8 3,
    schema_row 3030 ''3030'' 856 4 1,
    schema_row 3031 ''3031'' 860 4 2,
    schema_row 3032 ''3032'' 864 8 3,
    schema_row 3033 ''3033'' 868 4 1,
    schema_row 3034 ''3034'' 872 4 2,
    schema_row 3035 ''3035'' 876 8 3,
    schema_row 3036 ''3036'' 880 4 1,
    schema_row 3037 ''3037'' 884 4 2,
    schema_row 3038 ''3038'' 888 8 3,
    schema_row 3039 ''3039'' 892 4 1,
    schema_row 3040 ''3040'' 896 4 2,
    schema_row 3041 ''3041'' 900 8 3,
    schema_row 3042 ''3042'' 904 4 1,
    schema_row 3043 ''3043'' 908 4 2,
    schema_row 3044 ''3044'' 912 8 3,
    schema_row 3045 ''3045'' 916 4 1,
    schema_row 3046 ''3046'' 920 4 2,
    schema_row 3047 ''3047'' 924 8 3,
    schema_row 3048 ''3048'' 928 4 1,
    schema_row 3049 ''3049'' 932 4 2,
    schema_row 3050 ''3050'' 936 8 3,
    schema_row 3051 ''3051'' 940 4 1,
    schema_row 3052 ''3052'' 944 4 2,
    schema_row 3053 ''3053'' 948 8 3,
    schema_row 3054 ''3054'' 952 4 1,
    schema_row 3055 ''3055'' 956 4 2,
    schema_row 3056 ''3056'' 960 8 3,
    schema_row 3057 ''3057'' 964 4 1,
    schema_row 3058 ''3058'' 968 4 2,
    schema_row 3059 ''3059'' 972 8 3,
    schema_row 3060 ''3060'' 976 4 1,
    schema_row 3061 ''3061'' 980 4 2,
    schema_row 3062 ''3062'' 984 8 3,
    schema_row 3063 ''3063'' 988 4 1,
    schema_row 3064 ''3064'' 992 4 2,
    schema_row 3065 ''3065'' 996 8 3,
    schema_row 3066 ''3066'' 1000 4 1,
    schema_row 3067 ''3067'' 1004 4 2,
    schema_row 3068 ''3068'' 1008 8 3,
    schema_row 3069 ''3069'' 1012 4 1,
    schema_row 3070 ''3070'' 1016 4 2,
    schema_row 3071 ''3071'' 1020 8 3,
    schema_row 3072 ''3072'' 0 4 1,
    schema_row 3073 ''3073'' 4 4 2,
    schema_row 3074 ''3074'' 8 8 3,
    schema_row 3075 ''3075'' 12 4 1,
    schema_row 3076 ''3076'' 16 4 2,
    schema_row 3077 ''3077'' 20 8 3,
    schema_row 3078 ''3078'' 24 4 1,
    schema_row 3079 ''3079'' 28 4 2,
    schema_row 3080 ''3080'' 32 8 3,
    schema_row 3081 ''3081'' 36 4 1,
    schema_row 3082 ''3082'' 40 4 2,
    schema_row 3083 ''3083'' 44 8 3,
    schema_row 3084 ''3084'' 48 4 1,
    schema_row 3085 ''3085'' 52 4 2,
    schema_row 3086 ''3086'' 56 8 3,
    schema_row 3087 ''3087'' 60 4 1,
    schema_row 3088 ''3088'' 64 4 2,
    schema_row 3089 ''3089'' 68 8 3,
    schema_row 3090 ''3090'' 72 4 1,
    schema_row 3091 ''3091'' 76 4 2,
    schema_row 3092 ''3092'' 80 8 3,
    schema_row 3093 ''3093'' 84 4 1,
    schema_row 3094 ''3094'' 88 4 2,
    schema_row 3095 ''3095'' 92 8 3,
    schema_row 3096 ''3096'' 96 4 1,
    schema_row 3097 ''3097'' 100 4 2,
    schema_row 3098 ''3098'' 104 8 3,
    schema_row 3099 ''3099'' 108 4 1,
    schema_row 3100 ''3100'' 112 4 2,
    schema_row 3101 ''3101'' 116 8 3,
    schema_row 3102 ''3102'' 120 4 1,
    schema_row 3103 ''3103'' 124 4 2,
    schema_row 3104 ''3104'' 128 8 3,
    schema_row 3105 ''3105'' 132 4 1,
    schema_row 3106 ''3106'' 136 4 2,
    schema_row 3107 ''3107'' 140 8 3,
    schema_row 3108 ''3108'' 144 4 1,
    schema_row 3109 ''3109'' 148 4 2,
    schema_row 3110 ''3110'' 152 8 3,
    schema_row 3111 ''3111'' 156 4 1,
    schema_row 3112 ''3112'' 160 4 2,
    schema_row 3113 ''3113'' 164 8 3,
    schema_row 3114 ''3114'' 168 4 1,
    schema_row 3115 ''3115'' 172 4 2,
    schema_row 3116 ''3116'' 176 8 3,
    schema_row 3117 ''3117'' 180 4 1,
    schema_row 3118 ''3118'' 184 4 2,
    schema_row 3119 ''3119'' 188 8 3,
    schema_row 3120 ''3120'' 192 4 1,
    schema_row 3121 ''3121'' 196 4 2,
    schema_row 3122 ''3122'' 200 8 3,
    schema_row 3123 ''3123'' 204 4 1,
    schema_row 3124 ''3124'' 208 4 2,
    schema_row 3125 ''3125'' 212 8 3,
    schema_row 3126 ''3126'' 216 4 1,
    schema_row 3127 ''3127'' 220 4 2,
    schema_row 3128 ''3128'' 224 8 3,
    schema_row 3129 ''3129'' 228 4 1,
    schema_row 3130 ''3130'' 232 4 2,
    schema_row 3131 ''3131'' 236 8 3,
    schema_row 3132 ''3132'' 240 4 1,
    schema_row 3133 ''3133'' 244 4 2,
    schema_row 3134 ''3134'' 248 8 3,
    schema_row 3135 ''3135'' 252 4 1,
    schema_row 3136 ''3136'' 256 4 2,
    schema_row 3137 ''3137'' 260 8 3,
    schema_row 3138 ''3138'' 264 4 1,
    schema_row 3139 ''3139'' 268 4 2,
    schema_row 3140 ''3140'' 272 8 3,
    schema_row 3141 ''3141'' 276 4 1,
    schema_row 3142 ''3142'' 280 4 2,
    schema_row 3143 ''3143'' 284 8 3,
    schema_row 3144 ''3144'' 288 4 1,
    schema_row 3145 ''3145'' 292 4 2,
    schema_row 3146 ''3146'' 296 8 3,
    schema_row 3147 ''3147'' 300 4 1,
    schema_row 3148 ''3148'' 304 4 2,
    schema_row 3149 ''3149'' 308 8 3,
    schema_row 3150 ''3150'' 312 4 1]"

definition schema_fields_21 :: "ipmb_schema_field list" where
  "schema_fields_21 = [
    schema_row 3151 ''3151'' 316 4 2,
    schema_row 3152 ''3152'' 320 8 3,
    schema_row 3153 ''3153'' 324 4 1,
    schema_row 3154 ''3154'' 328 4 2,
    schema_row 3155 ''3155'' 332 8 3,
    schema_row 3156 ''3156'' 336 4 1,
    schema_row 3157 ''3157'' 340 4 2,
    schema_row 3158 ''3158'' 344 8 3,
    schema_row 3159 ''3159'' 348 4 1,
    schema_row 3160 ''3160'' 352 4 2,
    schema_row 3161 ''3161'' 356 8 3,
    schema_row 3162 ''3162'' 360 4 1,
    schema_row 3163 ''3163'' 364 4 2,
    schema_row 3164 ''3164'' 368 8 3,
    schema_row 3165 ''3165'' 372 4 1,
    schema_row 3166 ''3166'' 376 4 2,
    schema_row 3167 ''3167'' 380 8 3,
    schema_row 3168 ''3168'' 384 4 1,
    schema_row 3169 ''3169'' 388 4 2,
    schema_row 3170 ''3170'' 392 8 3,
    schema_row 3171 ''3171'' 396 4 1,
    schema_row 3172 ''3172'' 400 4 2,
    schema_row 3173 ''3173'' 404 8 3,
    schema_row 3174 ''3174'' 408 4 1,
    schema_row 3175 ''3175'' 412 4 2,
    schema_row 3176 ''3176'' 416 8 3,
    schema_row 3177 ''3177'' 420 4 1,
    schema_row 3178 ''3178'' 424 4 2,
    schema_row 3179 ''3179'' 428 8 3,
    schema_row 3180 ''3180'' 432 4 1,
    schema_row 3181 ''3181'' 436 4 2,
    schema_row 3182 ''3182'' 440 8 3,
    schema_row 3183 ''3183'' 444 4 1,
    schema_row 3184 ''3184'' 448 4 2,
    schema_row 3185 ''3185'' 452 8 3,
    schema_row 3186 ''3186'' 456 4 1,
    schema_row 3187 ''3187'' 460 4 2,
    schema_row 3188 ''3188'' 464 8 3,
    schema_row 3189 ''3189'' 468 4 1,
    schema_row 3190 ''3190'' 472 4 2,
    schema_row 3191 ''3191'' 476 8 3,
    schema_row 3192 ''3192'' 480 4 1,
    schema_row 3193 ''3193'' 484 4 2,
    schema_row 3194 ''3194'' 488 8 3,
    schema_row 3195 ''3195'' 492 4 1,
    schema_row 3196 ''3196'' 496 4 2,
    schema_row 3197 ''3197'' 500 8 3,
    schema_row 3198 ''3198'' 504 4 1,
    schema_row 3199 ''3199'' 508 4 2,
    schema_row 3200 ''3200'' 512 8 3,
    schema_row 3201 ''3201'' 516 4 1,
    schema_row 3202 ''3202'' 520 4 2,
    schema_row 3203 ''3203'' 524 8 3,
    schema_row 3204 ''3204'' 528 4 1,
    schema_row 3205 ''3205'' 532 4 2,
    schema_row 3206 ''3206'' 536 8 3,
    schema_row 3207 ''3207'' 540 4 1,
    schema_row 3208 ''3208'' 544 4 2,
    schema_row 3209 ''3209'' 548 8 3,
    schema_row 3210 ''3210'' 552 4 1,
    schema_row 3211 ''3211'' 556 4 2,
    schema_row 3212 ''3212'' 560 8 3,
    schema_row 3213 ''3213'' 564 4 1,
    schema_row 3214 ''3214'' 568 4 2,
    schema_row 3215 ''3215'' 572 8 3,
    schema_row 3216 ''3216'' 576 4 1,
    schema_row 3217 ''3217'' 580 4 2,
    schema_row 3218 ''3218'' 584 8 3,
    schema_row 3219 ''3219'' 588 4 1,
    schema_row 3220 ''3220'' 592 4 2,
    schema_row 3221 ''3221'' 596 8 3,
    schema_row 3222 ''3222'' 600 4 1,
    schema_row 3223 ''3223'' 604 4 2,
    schema_row 3224 ''3224'' 608 8 3,
    schema_row 3225 ''3225'' 612 4 1,
    schema_row 3226 ''3226'' 616 4 2,
    schema_row 3227 ''3227'' 620 8 3,
    schema_row 3228 ''3228'' 624 4 1,
    schema_row 3229 ''3229'' 628 4 2,
    schema_row 3230 ''3230'' 632 8 3,
    schema_row 3231 ''3231'' 636 4 1,
    schema_row 3232 ''3232'' 640 4 2,
    schema_row 3233 ''3233'' 644 8 3,
    schema_row 3234 ''3234'' 648 4 1,
    schema_row 3235 ''3235'' 652 4 2,
    schema_row 3236 ''3236'' 656 8 3,
    schema_row 3237 ''3237'' 660 4 1,
    schema_row 3238 ''3238'' 664 4 2,
    schema_row 3239 ''3239'' 668 8 3,
    schema_row 3240 ''3240'' 672 4 1,
    schema_row 3241 ''3241'' 676 4 2,
    schema_row 3242 ''3242'' 680 8 3,
    schema_row 3243 ''3243'' 684 4 1,
    schema_row 3244 ''3244'' 688 4 2,
    schema_row 3245 ''3245'' 692 8 3,
    schema_row 3246 ''3246'' 696 4 1,
    schema_row 3247 ''3247'' 700 4 2,
    schema_row 3248 ''3248'' 704 8 3,
    schema_row 3249 ''3249'' 708 4 1,
    schema_row 3250 ''3250'' 712 4 2,
    schema_row 3251 ''3251'' 716 8 3,
    schema_row 3252 ''3252'' 720 4 1,
    schema_row 3253 ''3253'' 724 4 2,
    schema_row 3254 ''3254'' 728 8 3,
    schema_row 3255 ''3255'' 732 4 1,
    schema_row 3256 ''3256'' 736 4 2,
    schema_row 3257 ''3257'' 740 8 3,
    schema_row 3258 ''3258'' 744 4 1,
    schema_row 3259 ''3259'' 748 4 2,
    schema_row 3260 ''3260'' 752 8 3,
    schema_row 3261 ''3261'' 756 4 1,
    schema_row 3262 ''3262'' 760 4 2,
    schema_row 3263 ''3263'' 764 8 3,
    schema_row 3264 ''3264'' 768 4 1,
    schema_row 3265 ''3265'' 772 4 2,
    schema_row 3266 ''3266'' 776 8 3,
    schema_row 3267 ''3267'' 780 4 1,
    schema_row 3268 ''3268'' 784 4 2,
    schema_row 3269 ''3269'' 788 8 3,
    schema_row 3270 ''3270'' 792 4 1,
    schema_row 3271 ''3271'' 796 4 2,
    schema_row 3272 ''3272'' 800 8 3,
    schema_row 3273 ''3273'' 804 4 1,
    schema_row 3274 ''3274'' 808 4 2,
    schema_row 3275 ''3275'' 812 8 3,
    schema_row 3276 ''3276'' 816 4 1,
    schema_row 3277 ''3277'' 820 4 2,
    schema_row 3278 ''3278'' 824 8 3,
    schema_row 3279 ''3279'' 828 4 1,
    schema_row 3280 ''3280'' 832 4 2,
    schema_row 3281 ''3281'' 836 8 3,
    schema_row 3282 ''3282'' 840 4 1,
    schema_row 3283 ''3283'' 844 4 2,
    schema_row 3284 ''3284'' 848 8 3,
    schema_row 3285 ''3285'' 852 4 1,
    schema_row 3286 ''3286'' 856 4 2,
    schema_row 3287 ''3287'' 860 8 3,
    schema_row 3288 ''3288'' 864 4 1,
    schema_row 3289 ''3289'' 868 4 2,
    schema_row 3290 ''3290'' 872 8 3,
    schema_row 3291 ''3291'' 876 4 1,
    schema_row 3292 ''3292'' 880 4 2,
    schema_row 3293 ''3293'' 884 8 3,
    schema_row 3294 ''3294'' 888 4 1,
    schema_row 3295 ''3295'' 892 4 2,
    schema_row 3296 ''3296'' 896 8 3,
    schema_row 3297 ''3297'' 900 4 1,
    schema_row 3298 ''3298'' 904 4 2,
    schema_row 3299 ''3299'' 908 8 3,
    schema_row 3300 ''3300'' 912 4 1]"

definition schema_fields_22 :: "ipmb_schema_field list" where
  "schema_fields_22 = [
    schema_row 3301 ''3301'' 916 4 2,
    schema_row 3302 ''3302'' 920 8 3,
    schema_row 3303 ''3303'' 924 4 1,
    schema_row 3304 ''3304'' 928 4 2,
    schema_row 3305 ''3305'' 932 8 3,
    schema_row 3306 ''3306'' 936 4 1,
    schema_row 3307 ''3307'' 940 4 2,
    schema_row 3308 ''3308'' 944 8 3,
    schema_row 3309 ''3309'' 948 4 1,
    schema_row 3310 ''3310'' 952 4 2,
    schema_row 3311 ''3311'' 956 8 3,
    schema_row 3312 ''3312'' 960 4 1,
    schema_row 3313 ''3313'' 964 4 2,
    schema_row 3314 ''3314'' 968 8 3,
    schema_row 3315 ''3315'' 972 4 1,
    schema_row 3316 ''3316'' 976 4 2,
    schema_row 3317 ''3317'' 980 8 3,
    schema_row 3318 ''3318'' 984 4 1,
    schema_row 3319 ''3319'' 988 4 2,
    schema_row 3320 ''3320'' 992 8 3,
    schema_row 3321 ''3321'' 996 4 1,
    schema_row 3322 ''3322'' 1000 4 2,
    schema_row 3323 ''3323'' 1004 8 3,
    schema_row 3324 ''3324'' 1008 4 1,
    schema_row 3325 ''3325'' 1012 4 2,
    schema_row 3326 ''3326'' 1016 8 3,
    schema_row 3327 ''3327'' 1020 4 1,
    schema_row 3328 ''3328'' 0 4 2,
    schema_row 3329 ''3329'' 4 8 3,
    schema_row 3330 ''3330'' 8 4 1,
    schema_row 3331 ''3331'' 12 4 2,
    schema_row 3332 ''3332'' 16 8 3,
    schema_row 3333 ''3333'' 20 4 1,
    schema_row 3334 ''3334'' 24 4 2,
    schema_row 3335 ''3335'' 28 8 3,
    schema_row 3336 ''3336'' 32 4 1,
    schema_row 3337 ''3337'' 36 4 2,
    schema_row 3338 ''3338'' 40 8 3,
    schema_row 3339 ''3339'' 44 4 1,
    schema_row 3340 ''3340'' 48 4 2,
    schema_row 3341 ''3341'' 52 8 3,
    schema_row 3342 ''3342'' 56 4 1,
    schema_row 3343 ''3343'' 60 4 2,
    schema_row 3344 ''3344'' 64 8 3,
    schema_row 3345 ''3345'' 68 4 1,
    schema_row 3346 ''3346'' 72 4 2,
    schema_row 3347 ''3347'' 76 8 3,
    schema_row 3348 ''3348'' 80 4 1,
    schema_row 3349 ''3349'' 84 4 2,
    schema_row 3350 ''3350'' 88 8 3,
    schema_row 3351 ''3351'' 92 4 1,
    schema_row 3352 ''3352'' 96 4 2,
    schema_row 3353 ''3353'' 100 8 3,
    schema_row 3354 ''3354'' 104 4 1,
    schema_row 3355 ''3355'' 108 4 2,
    schema_row 3356 ''3356'' 112 8 3,
    schema_row 3357 ''3357'' 116 4 1,
    schema_row 3358 ''3358'' 120 4 2,
    schema_row 3359 ''3359'' 124 8 3,
    schema_row 3360 ''3360'' 128 4 1,
    schema_row 3361 ''3361'' 132 4 2,
    schema_row 3362 ''3362'' 136 8 3,
    schema_row 3363 ''3363'' 140 4 1,
    schema_row 3364 ''3364'' 144 4 2,
    schema_row 3365 ''3365'' 148 8 3,
    schema_row 3366 ''3366'' 152 4 1,
    schema_row 3367 ''3367'' 156 4 2,
    schema_row 3368 ''3368'' 160 8 3,
    schema_row 3369 ''3369'' 164 4 1,
    schema_row 3370 ''3370'' 168 4 2,
    schema_row 3371 ''3371'' 172 8 3,
    schema_row 3372 ''3372'' 176 4 1,
    schema_row 3373 ''3373'' 180 4 2,
    schema_row 3374 ''3374'' 184 8 3,
    schema_row 3375 ''3375'' 188 4 1,
    schema_row 3376 ''3376'' 192 4 2,
    schema_row 3377 ''3377'' 196 8 3,
    schema_row 3378 ''3378'' 200 4 1,
    schema_row 3379 ''3379'' 204 4 2,
    schema_row 3380 ''3380'' 208 8 3,
    schema_row 3381 ''3381'' 212 4 1,
    schema_row 3382 ''3382'' 216 4 2,
    schema_row 3383 ''3383'' 220 8 3,
    schema_row 3384 ''3384'' 224 4 1,
    schema_row 3385 ''3385'' 228 4 2,
    schema_row 3386 ''3386'' 232 8 3,
    schema_row 3387 ''3387'' 236 4 1,
    schema_row 3388 ''3388'' 240 4 2,
    schema_row 3389 ''3389'' 244 8 3,
    schema_row 3390 ''3390'' 248 4 1,
    schema_row 3391 ''3391'' 252 4 2,
    schema_row 3392 ''3392'' 256 8 3,
    schema_row 3393 ''3393'' 260 4 1,
    schema_row 3394 ''3394'' 264 4 2,
    schema_row 3395 ''3395'' 268 8 3,
    schema_row 3396 ''3396'' 272 4 1,
    schema_row 3397 ''3397'' 276 4 2,
    schema_row 3398 ''3398'' 280 8 3,
    schema_row 3399 ''3399'' 284 4 1,
    schema_row 3400 ''3400'' 288 4 2,
    schema_row 3401 ''3401'' 292 8 3,
    schema_row 3402 ''3402'' 296 4 1,
    schema_row 3403 ''3403'' 300 4 2,
    schema_row 3404 ''3404'' 304 8 3,
    schema_row 3405 ''3405'' 308 4 1,
    schema_row 3406 ''3406'' 312 4 2,
    schema_row 3407 ''3407'' 316 8 3,
    schema_row 3408 ''3408'' 320 4 1,
    schema_row 3409 ''3409'' 324 4 2,
    schema_row 3410 ''3410'' 328 8 3,
    schema_row 3411 ''3411'' 332 4 1,
    schema_row 3412 ''3412'' 336 4 2,
    schema_row 3413 ''3413'' 340 8 3,
    schema_row 3414 ''3414'' 344 4 1,
    schema_row 3415 ''3415'' 348 4 2,
    schema_row 3416 ''3416'' 352 8 3,
    schema_row 3417 ''3417'' 356 4 1,
    schema_row 3418 ''3418'' 360 4 2,
    schema_row 3419 ''3419'' 364 8 3,
    schema_row 3420 ''3420'' 368 4 1,
    schema_row 3421 ''3421'' 372 4 2,
    schema_row 3422 ''3422'' 376 8 3,
    schema_row 3423 ''3423'' 380 4 1,
    schema_row 3424 ''3424'' 384 4 2,
    schema_row 3425 ''3425'' 388 8 3,
    schema_row 3426 ''3426'' 392 4 1,
    schema_row 3427 ''3427'' 396 4 2,
    schema_row 3428 ''3428'' 400 8 3,
    schema_row 3429 ''3429'' 404 4 1,
    schema_row 3430 ''3430'' 408 4 2,
    schema_row 3431 ''3431'' 412 8 3,
    schema_row 3432 ''3432'' 416 4 1,
    schema_row 3433 ''3433'' 420 4 2,
    schema_row 3434 ''3434'' 424 8 3,
    schema_row 3435 ''3435'' 428 4 1,
    schema_row 3436 ''3436'' 432 4 2,
    schema_row 3437 ''3437'' 436 8 3,
    schema_row 3438 ''3438'' 440 4 1,
    schema_row 3439 ''3439'' 444 4 2,
    schema_row 3440 ''3440'' 448 8 3,
    schema_row 3441 ''3441'' 452 4 1,
    schema_row 3442 ''3442'' 456 4 2,
    schema_row 3443 ''3443'' 460 8 3,
    schema_row 3444 ''3444'' 464 4 1,
    schema_row 3445 ''3445'' 468 4 2,
    schema_row 3446 ''3446'' 472 8 3,
    schema_row 3447 ''3447'' 476 4 1,
    schema_row 3448 ''3448'' 480 4 2,
    schema_row 3449 ''3449'' 484 8 3,
    schema_row 3450 ''3450'' 488 4 1]"

definition schema_fields_23 :: "ipmb_schema_field list" where
  "schema_fields_23 = [
    schema_row 3451 ''3451'' 492 4 2,
    schema_row 3452 ''3452'' 496 8 3,
    schema_row 3453 ''3453'' 500 4 1,
    schema_row 3454 ''3454'' 504 4 2,
    schema_row 3455 ''3455'' 508 8 3,
    schema_row 3456 ''3456'' 512 4 1,
    schema_row 3457 ''3457'' 516 4 2,
    schema_row 3458 ''3458'' 520 8 3,
    schema_row 3459 ''3459'' 524 4 1,
    schema_row 3460 ''3460'' 528 4 2,
    schema_row 3461 ''3461'' 532 8 3,
    schema_row 3462 ''3462'' 536 4 1,
    schema_row 3463 ''3463'' 540 4 2,
    schema_row 3464 ''3464'' 544 8 3,
    schema_row 3465 ''3465'' 548 4 1,
    schema_row 3466 ''3466'' 552 4 2,
    schema_row 3467 ''3467'' 556 8 3,
    schema_row 3468 ''3468'' 560 4 1,
    schema_row 3469 ''3469'' 564 4 2,
    schema_row 3470 ''3470'' 568 8 3,
    schema_row 3471 ''3471'' 572 4 1,
    schema_row 3472 ''3472'' 576 4 2,
    schema_row 3473 ''3473'' 580 8 3,
    schema_row 3474 ''3474'' 584 4 1,
    schema_row 3475 ''3475'' 588 4 2,
    schema_row 3476 ''3476'' 592 8 3,
    schema_row 3477 ''3477'' 596 4 1,
    schema_row 3478 ''3478'' 600 4 2,
    schema_row 3479 ''3479'' 604 8 3,
    schema_row 3480 ''3480'' 608 4 1,
    schema_row 3481 ''3481'' 612 4 2,
    schema_row 3482 ''3482'' 616 8 3,
    schema_row 3483 ''3483'' 620 4 1,
    schema_row 3484 ''3484'' 624 4 2,
    schema_row 3485 ''3485'' 628 8 3,
    schema_row 3486 ''3486'' 632 4 1,
    schema_row 3487 ''3487'' 636 4 2,
    schema_row 3488 ''3488'' 640 8 3,
    schema_row 3489 ''3489'' 644 4 1,
    schema_row 3490 ''3490'' 648 4 2,
    schema_row 3491 ''3491'' 652 8 3,
    schema_row 3492 ''3492'' 656 4 1,
    schema_row 3493 ''3493'' 660 4 2,
    schema_row 3494 ''3494'' 664 8 3,
    schema_row 3495 ''3495'' 668 4 1,
    schema_row 3496 ''3496'' 672 4 2,
    schema_row 3497 ''3497'' 676 8 3,
    schema_row 3498 ''3498'' 680 4 1,
    schema_row 3499 ''3499'' 684 4 2,
    schema_row 3500 ''3500'' 688 8 3,
    schema_row 3501 ''3501'' 692 4 1,
    schema_row 3502 ''3502'' 696 4 2,
    schema_row 3503 ''3503'' 700 8 3,
    schema_row 3504 ''3504'' 704 4 1,
    schema_row 3505 ''3505'' 708 4 2,
    schema_row 3506 ''3506'' 712 8 3,
    schema_row 3507 ''3507'' 716 4 1,
    schema_row 3508 ''3508'' 720 4 2,
    schema_row 3509 ''3509'' 724 8 3,
    schema_row 3510 ''3510'' 728 4 1,
    schema_row 3511 ''3511'' 732 4 2,
    schema_row 3512 ''3512'' 736 8 3,
    schema_row 3513 ''3513'' 740 4 1,
    schema_row 3514 ''3514'' 744 4 2,
    schema_row 3515 ''3515'' 748 8 3,
    schema_row 3516 ''3516'' 752 4 1,
    schema_row 3517 ''3517'' 756 4 2,
    schema_row 3518 ''3518'' 760 8 3,
    schema_row 3519 ''3519'' 764 4 1,
    schema_row 3520 ''3520'' 768 4 2,
    schema_row 3521 ''3521'' 772 8 3,
    schema_row 3522 ''3522'' 776 4 1,
    schema_row 3523 ''3523'' 780 4 2,
    schema_row 3524 ''3524'' 784 8 3,
    schema_row 3525 ''3525'' 788 4 1,
    schema_row 3526 ''3526'' 792 4 2,
    schema_row 3527 ''3527'' 796 8 3,
    schema_row 3528 ''3528'' 800 4 1,
    schema_row 3529 ''3529'' 804 4 2,
    schema_row 3530 ''3530'' 808 8 3,
    schema_row 3531 ''3531'' 812 4 1,
    schema_row 3532 ''3532'' 816 4 2,
    schema_row 3533 ''3533'' 820 8 3,
    schema_row 3534 ''3534'' 824 4 1,
    schema_row 3535 ''3535'' 828 4 2,
    schema_row 3536 ''3536'' 832 8 3,
    schema_row 3537 ''3537'' 836 4 1,
    schema_row 3538 ''3538'' 840 4 2,
    schema_row 3539 ''3539'' 844 8 3,
    schema_row 3540 ''3540'' 848 4 1,
    schema_row 3541 ''3541'' 852 4 2,
    schema_row 3542 ''3542'' 856 8 3,
    schema_row 3543 ''3543'' 860 4 1,
    schema_row 3544 ''3544'' 864 4 2,
    schema_row 3545 ''3545'' 868 8 3,
    schema_row 3546 ''3546'' 872 4 1,
    schema_row 3547 ''3547'' 876 4 2,
    schema_row 3548 ''3548'' 880 8 3,
    schema_row 3549 ''3549'' 884 4 1,
    schema_row 3550 ''3550'' 888 4 2,
    schema_row 3551 ''3551'' 892 8 3,
    schema_row 3552 ''3552'' 896 4 1,
    schema_row 3553 ''3553'' 900 4 2,
    schema_row 3554 ''3554'' 904 8 3,
    schema_row 3555 ''3555'' 908 4 1,
    schema_row 3556 ''3556'' 912 4 2,
    schema_row 3557 ''3557'' 916 8 3,
    schema_row 3558 ''3558'' 920 4 1,
    schema_row 3559 ''3559'' 924 4 2,
    schema_row 3560 ''3560'' 928 8 3,
    schema_row 3561 ''3561'' 932 4 1,
    schema_row 3562 ''3562'' 936 4 2,
    schema_row 3563 ''3563'' 940 8 3,
    schema_row 3564 ''3564'' 944 4 1,
    schema_row 3565 ''3565'' 948 4 2,
    schema_row 3566 ''3566'' 952 8 3,
    schema_row 3567 ''3567'' 956 4 1,
    schema_row 3568 ''3568'' 960 4 2,
    schema_row 3569 ''3569'' 964 8 3,
    schema_row 3570 ''3570'' 968 4 1,
    schema_row 3571 ''3571'' 972 4 2,
    schema_row 3572 ''3572'' 976 8 3,
    schema_row 3573 ''3573'' 980 4 1,
    schema_row 3574 ''3574'' 984 4 2,
    schema_row 3575 ''3575'' 988 8 3,
    schema_row 3576 ''3576'' 992 4 1,
    schema_row 3577 ''3577'' 996 4 2,
    schema_row 3578 ''3578'' 1000 8 3,
    schema_row 3579 ''3579'' 1004 4 1,
    schema_row 3580 ''3580'' 1008 4 2,
    schema_row 3581 ''3581'' 1012 8 3,
    schema_row 3582 ''3582'' 1016 4 1,
    schema_row 3583 ''3583'' 1020 4 2,
    schema_row 3584 ''3584'' 0 8 3,
    schema_row 3585 ''3585'' 4 4 1,
    schema_row 3586 ''3586'' 8 4 2,
    schema_row 3587 ''3587'' 12 8 3,
    schema_row 3588 ''3588'' 16 4 1,
    schema_row 3589 ''3589'' 20 4 2,
    schema_row 3590 ''3590'' 24 8 3,
    schema_row 3591 ''3591'' 28 4 1,
    schema_row 3592 ''3592'' 32 4 2,
    schema_row 3593 ''3593'' 36 8 3,
    schema_row 3594 ''3594'' 40 4 1,
    schema_row 3595 ''3595'' 44 4 2,
    schema_row 3596 ''3596'' 48 8 3,
    schema_row 3597 ''3597'' 52 4 1,
    schema_row 3598 ''3598'' 56 4 2,
    schema_row 3599 ''3599'' 60 8 3,
    schema_row 3600 ''3600'' 64 4 1]"

definition schema_fields_24 :: "ipmb_schema_field list" where
  "schema_fields_24 = [
    schema_row 3601 ''3601'' 68 4 2,
    schema_row 3602 ''3602'' 72 8 3,
    schema_row 3603 ''3603'' 76 4 1,
    schema_row 3604 ''3604'' 80 4 2,
    schema_row 3605 ''3605'' 84 8 3,
    schema_row 3606 ''3606'' 88 4 1,
    schema_row 3607 ''3607'' 92 4 2,
    schema_row 3608 ''3608'' 96 8 3,
    schema_row 3609 ''3609'' 100 4 1,
    schema_row 3610 ''3610'' 104 4 2,
    schema_row 3611 ''3611'' 108 8 3,
    schema_row 3612 ''3612'' 112 4 1,
    schema_row 3613 ''3613'' 116 4 2,
    schema_row 3614 ''3614'' 120 8 3,
    schema_row 3615 ''3615'' 124 4 1,
    schema_row 3616 ''3616'' 128 4 2,
    schema_row 3617 ''3617'' 132 8 3,
    schema_row 3618 ''3618'' 136 4 1,
    schema_row 3619 ''3619'' 140 4 2,
    schema_row 3620 ''3620'' 144 8 3,
    schema_row 3621 ''3621'' 148 4 1,
    schema_row 3622 ''3622'' 152 4 2,
    schema_row 3623 ''3623'' 156 8 3,
    schema_row 3624 ''3624'' 160 4 1,
    schema_row 3625 ''3625'' 164 4 2,
    schema_row 3626 ''3626'' 168 8 3,
    schema_row 3627 ''3627'' 172 4 1,
    schema_row 3628 ''3628'' 176 4 2,
    schema_row 3629 ''3629'' 180 8 3,
    schema_row 3630 ''3630'' 184 4 1,
    schema_row 3631 ''3631'' 188 4 2,
    schema_row 3632 ''3632'' 192 8 3,
    schema_row 3633 ''3633'' 196 4 1,
    schema_row 3634 ''3634'' 200 4 2,
    schema_row 3635 ''3635'' 204 8 3,
    schema_row 3636 ''3636'' 208 4 1,
    schema_row 3637 ''3637'' 212 4 2,
    schema_row 3638 ''3638'' 216 8 3,
    schema_row 3639 ''3639'' 220 4 1,
    schema_row 3640 ''3640'' 224 4 2,
    schema_row 3641 ''3641'' 228 8 3,
    schema_row 3642 ''3642'' 232 4 1,
    schema_row 3643 ''3643'' 236 4 2,
    schema_row 3644 ''3644'' 240 8 3,
    schema_row 3645 ''3645'' 244 4 1,
    schema_row 3646 ''3646'' 248 4 2,
    schema_row 3647 ''3647'' 252 8 3,
    schema_row 3648 ''3648'' 256 4 1,
    schema_row 3649 ''3649'' 260 4 2,
    schema_row 3650 ''3650'' 264 8 3,
    schema_row 3651 ''3651'' 268 4 1,
    schema_row 3652 ''3652'' 272 4 2,
    schema_row 3653 ''3653'' 276 8 3,
    schema_row 3654 ''3654'' 280 4 1,
    schema_row 3655 ''3655'' 284 4 2,
    schema_row 3656 ''3656'' 288 8 3,
    schema_row 3657 ''3657'' 292 4 1,
    schema_row 3658 ''3658'' 296 4 2,
    schema_row 3659 ''3659'' 300 8 3,
    schema_row 3660 ''3660'' 304 4 1,
    schema_row 3661 ''3661'' 308 4 2,
    schema_row 3662 ''3662'' 312 8 3,
    schema_row 3663 ''3663'' 316 4 1,
    schema_row 3664 ''3664'' 320 4 2,
    schema_row 3665 ''3665'' 324 8 3,
    schema_row 3666 ''3666'' 328 4 1,
    schema_row 3667 ''3667'' 332 4 2,
    schema_row 3668 ''3668'' 336 8 3,
    schema_row 3669 ''3669'' 340 4 1,
    schema_row 3670 ''3670'' 344 4 2,
    schema_row 3671 ''3671'' 348 8 3,
    schema_row 3672 ''3672'' 352 4 1,
    schema_row 3673 ''3673'' 356 4 2,
    schema_row 3674 ''3674'' 360 8 3,
    schema_row 3675 ''3675'' 364 4 1,
    schema_row 3676 ''3676'' 368 4 2,
    schema_row 3677 ''3677'' 372 8 3,
    schema_row 3678 ''3678'' 376 4 1,
    schema_row 3679 ''3679'' 380 4 2,
    schema_row 3680 ''3680'' 384 8 3,
    schema_row 3681 ''3681'' 388 4 1,
    schema_row 3682 ''3682'' 392 4 2,
    schema_row 3683 ''3683'' 396 8 3,
    schema_row 3684 ''3684'' 400 4 1,
    schema_row 3685 ''3685'' 404 4 2,
    schema_row 3686 ''3686'' 408 8 3,
    schema_row 3687 ''3687'' 412 4 1,
    schema_row 3688 ''3688'' 416 4 2,
    schema_row 3689 ''3689'' 420 8 3,
    schema_row 3690 ''3690'' 424 4 1,
    schema_row 3691 ''3691'' 428 4 2,
    schema_row 3692 ''3692'' 432 8 3,
    schema_row 3693 ''3693'' 436 4 1,
    schema_row 3694 ''3694'' 440 4 2,
    schema_row 3695 ''3695'' 444 8 3,
    schema_row 3696 ''3696'' 448 4 1,
    schema_row 3697 ''3697'' 452 4 2,
    schema_row 3698 ''3698'' 456 8 3,
    schema_row 3699 ''3699'' 460 4 1,
    schema_row 3700 ''3700'' 464 4 2,
    schema_row 3701 ''3701'' 468 8 3,
    schema_row 3702 ''3702'' 472 4 1,
    schema_row 3703 ''3703'' 476 4 2,
    schema_row 3704 ''3704'' 480 8 3,
    schema_row 3705 ''3705'' 484 4 1,
    schema_row 3706 ''3706'' 488 4 2,
    schema_row 3707 ''3707'' 492 8 3,
    schema_row 3708 ''3708'' 496 4 1,
    schema_row 3709 ''3709'' 500 4 2,
    schema_row 3710 ''3710'' 504 8 3,
    schema_row 3711 ''3711'' 508 4 1,
    schema_row 3712 ''3712'' 512 4 2,
    schema_row 3713 ''3713'' 516 8 3,
    schema_row 3714 ''3714'' 520 4 1,
    schema_row 3715 ''3715'' 524 4 2,
    schema_row 3716 ''3716'' 528 8 3,
    schema_row 3717 ''3717'' 532 4 1,
    schema_row 3718 ''3718'' 536 4 2,
    schema_row 3719 ''3719'' 540 8 3,
    schema_row 3720 ''3720'' 544 4 1,
    schema_row 3721 ''3721'' 548 4 2,
    schema_row 3722 ''3722'' 552 8 3,
    schema_row 3723 ''3723'' 556 4 1,
    schema_row 3724 ''3724'' 560 4 2,
    schema_row 3725 ''3725'' 564 8 3,
    schema_row 3726 ''3726'' 568 4 1,
    schema_row 3727 ''3727'' 572 4 2,
    schema_row 3728 ''3728'' 576 8 3,
    schema_row 3729 ''3729'' 580 4 1,
    schema_row 3730 ''3730'' 584 4 2,
    schema_row 3731 ''3731'' 588 8 3,
    schema_row 3732 ''3732'' 592 4 1,
    schema_row 3733 ''3733'' 596 4 2,
    schema_row 3734 ''3734'' 600 8 3,
    schema_row 3735 ''3735'' 604 4 1,
    schema_row 3736 ''3736'' 608 4 2,
    schema_row 3737 ''3737'' 612 8 3,
    schema_row 3738 ''3738'' 616 4 1,
    schema_row 3739 ''3739'' 620 4 2,
    schema_row 3740 ''3740'' 624 8 3,
    schema_row 3741 ''3741'' 628 4 1,
    schema_row 3742 ''3742'' 632 4 2,
    schema_row 3743 ''3743'' 636 8 3,
    schema_row 3744 ''3744'' 640 4 1,
    schema_row 3745 ''3745'' 644 4 2,
    schema_row 3746 ''3746'' 648 8 3,
    schema_row 3747 ''3747'' 652 4 1,
    schema_row 3748 ''3748'' 656 4 2,
    schema_row 3749 ''3749'' 660 8 3,
    schema_row 3750 ''3750'' 664 4 1]"

definition schema_fields_25 :: "ipmb_schema_field list" where
  "schema_fields_25 = [
    schema_row 3751 ''3751'' 668 4 2,
    schema_row 3752 ''3752'' 672 8 3,
    schema_row 3753 ''3753'' 676 4 1,
    schema_row 3754 ''3754'' 680 4 2,
    schema_row 3755 ''3755'' 684 8 3,
    schema_row 3756 ''3756'' 688 4 1,
    schema_row 3757 ''3757'' 692 4 2,
    schema_row 3758 ''3758'' 696 8 3,
    schema_row 3759 ''3759'' 700 4 1,
    schema_row 3760 ''3760'' 704 4 2,
    schema_row 3761 ''3761'' 708 8 3,
    schema_row 3762 ''3762'' 712 4 1,
    schema_row 3763 ''3763'' 716 4 2,
    schema_row 3764 ''3764'' 720 8 3,
    schema_row 3765 ''3765'' 724 4 1,
    schema_row 3766 ''3766'' 728 4 2,
    schema_row 3767 ''3767'' 732 8 3,
    schema_row 3768 ''3768'' 736 4 1,
    schema_row 3769 ''3769'' 740 4 2,
    schema_row 3770 ''3770'' 744 8 3,
    schema_row 3771 ''3771'' 748 4 1,
    schema_row 3772 ''3772'' 752 4 2,
    schema_row 3773 ''3773'' 756 8 3,
    schema_row 3774 ''3774'' 760 4 1,
    schema_row 3775 ''3775'' 764 4 2,
    schema_row 3776 ''3776'' 768 8 3,
    schema_row 3777 ''3777'' 772 4 1,
    schema_row 3778 ''3778'' 776 4 2,
    schema_row 3779 ''3779'' 780 8 3,
    schema_row 3780 ''3780'' 784 4 1,
    schema_row 3781 ''3781'' 788 4 2,
    schema_row 3782 ''3782'' 792 8 3,
    schema_row 3783 ''3783'' 796 4 1,
    schema_row 3784 ''3784'' 800 4 2,
    schema_row 3785 ''3785'' 804 8 3,
    schema_row 3786 ''3786'' 808 4 1,
    schema_row 3787 ''3787'' 812 4 2,
    schema_row 3788 ''3788'' 816 8 3,
    schema_row 3789 ''3789'' 820 4 1,
    schema_row 3790 ''3790'' 824 4 2,
    schema_row 3791 ''3791'' 828 8 3,
    schema_row 3792 ''3792'' 832 4 1,
    schema_row 3793 ''3793'' 836 4 2,
    schema_row 3794 ''3794'' 840 8 3,
    schema_row 3795 ''3795'' 844 4 1,
    schema_row 3796 ''3796'' 848 4 2,
    schema_row 3797 ''3797'' 852 8 3,
    schema_row 3798 ''3798'' 856 4 1,
    schema_row 3799 ''3799'' 860 4 2,
    schema_row 3800 ''3800'' 864 8 3,
    schema_row 3801 ''3801'' 868 4 1,
    schema_row 3802 ''3802'' 872 4 2,
    schema_row 3803 ''3803'' 876 8 3,
    schema_row 3804 ''3804'' 880 4 1,
    schema_row 3805 ''3805'' 884 4 2,
    schema_row 3806 ''3806'' 888 8 3,
    schema_row 3807 ''3807'' 892 4 1,
    schema_row 3808 ''3808'' 896 4 2,
    schema_row 3809 ''3809'' 900 8 3,
    schema_row 3810 ''3810'' 904 4 1,
    schema_row 3811 ''3811'' 908 4 2,
    schema_row 3812 ''3812'' 912 8 3,
    schema_row 3813 ''3813'' 916 4 1,
    schema_row 3814 ''3814'' 920 4 2,
    schema_row 3815 ''3815'' 924 8 3,
    schema_row 3816 ''3816'' 928 4 1,
    schema_row 3817 ''3817'' 932 4 2,
    schema_row 3818 ''3818'' 936 8 3,
    schema_row 3819 ''3819'' 940 4 1,
    schema_row 3820 ''3820'' 944 4 2,
    schema_row 3821 ''3821'' 948 8 3,
    schema_row 3822 ''3822'' 952 4 1,
    schema_row 3823 ''3823'' 956 4 2,
    schema_row 3824 ''3824'' 960 8 3,
    schema_row 3825 ''3825'' 964 4 1,
    schema_row 3826 ''3826'' 968 4 2,
    schema_row 3827 ''3827'' 972 8 3,
    schema_row 3828 ''3828'' 976 4 1,
    schema_row 3829 ''3829'' 980 4 2,
    schema_row 3830 ''3830'' 984 8 3,
    schema_row 3831 ''3831'' 988 4 1,
    schema_row 3832 ''3832'' 992 4 2,
    schema_row 3833 ''3833'' 996 8 3,
    schema_row 3834 ''3834'' 1000 4 1,
    schema_row 3835 ''3835'' 1004 4 2,
    schema_row 3836 ''3836'' 1008 8 3,
    schema_row 3837 ''3837'' 1012 4 1,
    schema_row 3838 ''3838'' 1016 4 2,
    schema_row 3839 ''3839'' 1020 8 3,
    schema_row 3840 ''3840'' 0 4 1,
    schema_row 3841 ''3841'' 4 4 2,
    schema_row 3842 ''3842'' 8 8 3,
    schema_row 3843 ''3843'' 12 4 1,
    schema_row 3844 ''3844'' 16 4 2,
    schema_row 3845 ''3845'' 20 8 3,
    schema_row 3846 ''3846'' 24 4 1,
    schema_row 3847 ''3847'' 28 4 2,
    schema_row 3848 ''3848'' 32 8 3,
    schema_row 3849 ''3849'' 36 4 1,
    schema_row 3850 ''3850'' 40 4 2,
    schema_row 3851 ''3851'' 44 8 3,
    schema_row 3852 ''3852'' 48 4 1,
    schema_row 3853 ''3853'' 52 4 2,
    schema_row 3854 ''3854'' 56 8 3,
    schema_row 3855 ''3855'' 60 4 1,
    schema_row 3856 ''3856'' 64 4 2,
    schema_row 3857 ''3857'' 68 8 3,
    schema_row 3858 ''3858'' 72 4 1,
    schema_row 3859 ''3859'' 76 4 2,
    schema_row 3860 ''3860'' 80 8 3,
    schema_row 3861 ''3861'' 84 4 1,
    schema_row 3862 ''3862'' 88 4 2,
    schema_row 3863 ''3863'' 92 8 3,
    schema_row 3864 ''3864'' 96 4 1,
    schema_row 3865 ''3865'' 100 4 2,
    schema_row 3866 ''3866'' 104 8 3,
    schema_row 3867 ''3867'' 108 4 1,
    schema_row 3868 ''3868'' 112 4 2,
    schema_row 3869 ''3869'' 116 8 3,
    schema_row 3870 ''3870'' 120 4 1,
    schema_row 3871 ''3871'' 124 4 2,
    schema_row 3872 ''3872'' 128 8 3,
    schema_row 3873 ''3873'' 132 4 1,
    schema_row 3874 ''3874'' 136 4 2,
    schema_row 3875 ''3875'' 140 8 3,
    schema_row 3876 ''3876'' 144 4 1,
    schema_row 3877 ''3877'' 148 4 2,
    schema_row 3878 ''3878'' 152 8 3,
    schema_row 3879 ''3879'' 156 4 1,
    schema_row 3880 ''3880'' 160 4 2,
    schema_row 3881 ''3881'' 164 8 3,
    schema_row 3882 ''3882'' 168 4 1,
    schema_row 3883 ''3883'' 172 4 2,
    schema_row 3884 ''3884'' 176 8 3,
    schema_row 3885 ''3885'' 180 4 1,
    schema_row 3886 ''3886'' 184 4 2,
    schema_row 3887 ''3887'' 188 8 3,
    schema_row 3888 ''3888'' 192 4 1,
    schema_row 3889 ''3889'' 196 4 2,
    schema_row 3890 ''3890'' 200 8 3,
    schema_row 3891 ''3891'' 204 4 1,
    schema_row 3892 ''3892'' 208 4 2,
    schema_row 3893 ''3893'' 212 8 3,
    schema_row 3894 ''3894'' 216 4 1,
    schema_row 3895 ''3895'' 220 4 2,
    schema_row 3896 ''3896'' 224 8 3,
    schema_row 3897 ''3897'' 228 4 1,
    schema_row 3898 ''3898'' 232 4 2,
    schema_row 3899 ''3899'' 236 8 3,
    schema_row 3900 ''3900'' 240 4 1]"

definition schema_fields_26 :: "ipmb_schema_field list" where
  "schema_fields_26 = [
    schema_row 3901 ''3901'' 244 4 2,
    schema_row 3902 ''3902'' 248 8 3,
    schema_row 3903 ''3903'' 252 4 1,
    schema_row 3904 ''3904'' 256 4 2,
    schema_row 3905 ''3905'' 260 8 3,
    schema_row 3906 ''3906'' 264 4 1,
    schema_row 3907 ''3907'' 268 4 2,
    schema_row 3908 ''3908'' 272 8 3,
    schema_row 3909 ''3909'' 276 4 1,
    schema_row 3910 ''3910'' 280 4 2,
    schema_row 3911 ''3911'' 284 8 3,
    schema_row 3912 ''3912'' 288 4 1,
    schema_row 3913 ''3913'' 292 4 2,
    schema_row 3914 ''3914'' 296 8 3,
    schema_row 3915 ''3915'' 300 4 1,
    schema_row 3916 ''3916'' 304 4 2,
    schema_row 3917 ''3917'' 308 8 3,
    schema_row 3918 ''3918'' 312 4 1,
    schema_row 3919 ''3919'' 316 4 2,
    schema_row 3920 ''3920'' 320 8 3,
    schema_row 3921 ''3921'' 324 4 1,
    schema_row 3922 ''3922'' 328 4 2,
    schema_row 3923 ''3923'' 332 8 3,
    schema_row 3924 ''3924'' 336 4 1,
    schema_row 3925 ''3925'' 340 4 2,
    schema_row 3926 ''3926'' 344 8 3,
    schema_row 3927 ''3927'' 348 4 1,
    schema_row 3928 ''3928'' 352 4 2,
    schema_row 3929 ''3929'' 356 8 3,
    schema_row 3930 ''3930'' 360 4 1,
    schema_row 3931 ''3931'' 364 4 2,
    schema_row 3932 ''3932'' 368 8 3,
    schema_row 3933 ''3933'' 372 4 1,
    schema_row 3934 ''3934'' 376 4 2,
    schema_row 3935 ''3935'' 380 8 3,
    schema_row 3936 ''3936'' 384 4 1,
    schema_row 3937 ''3937'' 388 4 2,
    schema_row 3938 ''3938'' 392 8 3,
    schema_row 3939 ''3939'' 396 4 1,
    schema_row 3940 ''3940'' 400 4 2,
    schema_row 3941 ''3941'' 404 8 3,
    schema_row 3942 ''3942'' 408 4 1,
    schema_row 3943 ''3943'' 412 4 2,
    schema_row 3944 ''3944'' 416 8 3,
    schema_row 3945 ''3945'' 420 4 1,
    schema_row 3946 ''3946'' 424 4 2,
    schema_row 3947 ''3947'' 428 8 3,
    schema_row 3948 ''3948'' 432 4 1,
    schema_row 3949 ''3949'' 436 4 2,
    schema_row 3950 ''3950'' 440 8 3,
    schema_row 3951 ''3951'' 444 4 1,
    schema_row 3952 ''3952'' 448 4 2,
    schema_row 3953 ''3953'' 452 8 3,
    schema_row 3954 ''3954'' 456 4 1,
    schema_row 3955 ''3955'' 460 4 2,
    schema_row 3956 ''3956'' 464 8 3,
    schema_row 3957 ''3957'' 468 4 1,
    schema_row 3958 ''3958'' 472 4 2,
    schema_row 3959 ''3959'' 476 8 3,
    schema_row 3960 ''3960'' 480 4 1,
    schema_row 3961 ''3961'' 484 4 2,
    schema_row 3962 ''3962'' 488 8 3,
    schema_row 3963 ''3963'' 492 4 1,
    schema_row 3964 ''3964'' 496 4 2,
    schema_row 3965 ''3965'' 500 8 3,
    schema_row 3966 ''3966'' 504 4 1,
    schema_row 3967 ''3967'' 508 4 2,
    schema_row 3968 ''3968'' 512 8 3,
    schema_row 3969 ''3969'' 516 4 1,
    schema_row 3970 ''3970'' 520 4 2,
    schema_row 3971 ''3971'' 524 8 3,
    schema_row 3972 ''3972'' 528 4 1,
    schema_row 3973 ''3973'' 532 4 2,
    schema_row 3974 ''3974'' 536 8 3,
    schema_row 3975 ''3975'' 540 4 1,
    schema_row 3976 ''3976'' 544 4 2,
    schema_row 3977 ''3977'' 548 8 3,
    schema_row 3978 ''3978'' 552 4 1,
    schema_row 3979 ''3979'' 556 4 2,
    schema_row 3980 ''3980'' 560 8 3,
    schema_row 3981 ''3981'' 564 4 1,
    schema_row 3982 ''3982'' 568 4 2,
    schema_row 3983 ''3983'' 572 8 3,
    schema_row 3984 ''3984'' 576 4 1,
    schema_row 3985 ''3985'' 580 4 2,
    schema_row 3986 ''3986'' 584 8 3,
    schema_row 3987 ''3987'' 588 4 1,
    schema_row 3988 ''3988'' 592 4 2,
    schema_row 3989 ''3989'' 596 8 3,
    schema_row 3990 ''3990'' 600 4 1,
    schema_row 3991 ''3991'' 604 4 2,
    schema_row 3992 ''3992'' 608 8 3,
    schema_row 3993 ''3993'' 612 4 1,
    schema_row 3994 ''3994'' 616 4 2,
    schema_row 3995 ''3995'' 620 8 3,
    schema_row 3996 ''3996'' 624 4 1,
    schema_row 3997 ''3997'' 628 4 2,
    schema_row 3998 ''3998'' 632 8 3,
    schema_row 3999 ''3999'' 636 4 1,
    schema_row 4000 ''4000'' 640 4 2,
    schema_row 4001 ''4001'' 644 8 3,
    schema_row 4002 ''4002'' 648 4 1,
    schema_row 4003 ''4003'' 652 4 2,
    schema_row 4004 ''4004'' 656 8 3,
    schema_row 4005 ''4005'' 660 4 1,
    schema_row 4006 ''4006'' 664 4 2,
    schema_row 4007 ''4007'' 668 8 3,
    schema_row 4008 ''4008'' 672 4 1,
    schema_row 4009 ''4009'' 676 4 2,
    schema_row 4010 ''4010'' 680 8 3,
    schema_row 4011 ''4011'' 684 4 1,
    schema_row 4012 ''4012'' 688 4 2,
    schema_row 4013 ''4013'' 692 8 3,
    schema_row 4014 ''4014'' 696 4 1,
    schema_row 4015 ''4015'' 700 4 2,
    schema_row 4016 ''4016'' 704 8 3,
    schema_row 4017 ''4017'' 708 4 1,
    schema_row 4018 ''4018'' 712 4 2,
    schema_row 4019 ''4019'' 716 8 3,
    schema_row 4020 ''4020'' 720 4 1,
    schema_row 4021 ''4021'' 724 4 2,
    schema_row 4022 ''4022'' 728 8 3,
    schema_row 4023 ''4023'' 732 4 1,
    schema_row 4024 ''4024'' 736 4 2,
    schema_row 4025 ''4025'' 740 8 3,
    schema_row 4026 ''4026'' 744 4 1,
    schema_row 4027 ''4027'' 748 4 2,
    schema_row 4028 ''4028'' 752 8 3,
    schema_row 4029 ''4029'' 756 4 1,
    schema_row 4030 ''4030'' 760 4 2,
    schema_row 4031 ''4031'' 764 8 3,
    schema_row 4032 ''4032'' 768 4 1,
    schema_row 4033 ''4033'' 772 4 2,
    schema_row 4034 ''4034'' 776 8 3,
    schema_row 4035 ''4035'' 780 4 1,
    schema_row 4036 ''4036'' 784 4 2,
    schema_row 4037 ''4037'' 788 8 3,
    schema_row 4038 ''4038'' 792 4 1,
    schema_row 4039 ''4039'' 796 4 2,
    schema_row 4040 ''4040'' 800 8 3,
    schema_row 4041 ''4041'' 804 4 1,
    schema_row 4042 ''4042'' 808 4 2,
    schema_row 4043 ''4043'' 812 8 3,
    schema_row 4044 ''4044'' 816 4 1,
    schema_row 4045 ''4045'' 820 4 2,
    schema_row 4046 ''4046'' 824 8 3,
    schema_row 4047 ''4047'' 828 4 1,
    schema_row 4048 ''4048'' 832 4 2,
    schema_row 4049 ''4049'' 836 8 3,
    schema_row 4050 ''4050'' 840 4 1]"

definition schema_fields_27 :: "ipmb_schema_field list" where
  "schema_fields_27 = [
    schema_row 4051 ''4051'' 844 4 2,
    schema_row 4052 ''4052'' 848 8 3,
    schema_row 4053 ''4053'' 852 4 1,
    schema_row 4054 ''4054'' 856 4 2,
    schema_row 4055 ''4055'' 860 8 3,
    schema_row 4056 ''4056'' 864 4 1,
    schema_row 4057 ''4057'' 868 4 2,
    schema_row 4058 ''4058'' 872 8 3,
    schema_row 4059 ''4059'' 876 4 1,
    schema_row 4060 ''4060'' 880 4 2,
    schema_row 4061 ''4061'' 884 8 3,
    schema_row 4062 ''4062'' 888 4 1,
    schema_row 4063 ''4063'' 892 4 2,
    schema_row 4064 ''4064'' 896 8 3,
    schema_row 4065 ''4065'' 900 4 1,
    schema_row 4066 ''4066'' 904 4 2,
    schema_row 4067 ''4067'' 908 8 3,
    schema_row 4068 ''4068'' 912 4 1,
    schema_row 4069 ''4069'' 916 4 2,
    schema_row 4070 ''4070'' 920 8 3,
    schema_row 4071 ''4071'' 924 4 1,
    schema_row 4072 ''4072'' 928 4 2,
    schema_row 4073 ''4073'' 932 8 3,
    schema_row 4074 ''4074'' 936 4 1,
    schema_row 4075 ''4075'' 940 4 2,
    schema_row 4076 ''4076'' 944 8 3,
    schema_row 4077 ''4077'' 948 4 1,
    schema_row 4078 ''4078'' 952 4 2,
    schema_row 4079 ''4079'' 956 8 3,
    schema_row 4080 ''4080'' 960 4 1,
    schema_row 4081 ''4081'' 964 4 2,
    schema_row 4082 ''4082'' 968 8 3,
    schema_row 4083 ''4083'' 972 4 1,
    schema_row 4084 ''4084'' 976 4 2,
    schema_row 4085 ''4085'' 980 8 3,
    schema_row 4086 ''4086'' 984 4 1,
    schema_row 4087 ''4087'' 988 4 2,
    schema_row 4088 ''4088'' 992 8 3,
    schema_row 4089 ''4089'' 996 4 1,
    schema_row 4090 ''4090'' 1000 4 2,
    schema_row 4091 ''4091'' 1004 8 3,
    schema_row 4092 ''4092'' 1008 4 1,
    schema_row 4093 ''4093'' 1012 4 2,
    schema_row 4094 ''4094'' 1016 8 3,
    schema_row 4095 ''4095'' 1020 4 1,
    schema_row 4096 ''4096'' 0 4 2,
    schema_row 4097 ''4097'' 4 8 3,
    schema_row 4098 ''4098'' 8 4 1,
    schema_row 4099 ''4099'' 12 4 2,
    schema_row 4100 ''4100'' 16 8 3,
    schema_row 4101 ''4101'' 20 4 1,
    schema_row 4102 ''4102'' 24 4 2,
    schema_row 4103 ''4103'' 28 8 3,
    schema_row 4104 ''4104'' 32 4 1,
    schema_row 4105 ''4105'' 36 4 2,
    schema_row 4106 ''4106'' 40 8 3,
    schema_row 4107 ''4107'' 44 4 1,
    schema_row 4108 ''4108'' 48 4 2,
    schema_row 4109 ''4109'' 52 8 3,
    schema_row 4110 ''4110'' 56 4 1,
    schema_row 4111 ''4111'' 60 4 2,
    schema_row 4112 ''4112'' 64 8 3,
    schema_row 4113 ''4113'' 68 4 1,
    schema_row 4114 ''4114'' 72 4 2,
    schema_row 4115 ''4115'' 76 8 3,
    schema_row 4116 ''4116'' 80 4 1,
    schema_row 4117 ''4117'' 84 4 2,
    schema_row 4118 ''4118'' 88 8 3,
    schema_row 4119 ''4119'' 92 4 1,
    schema_row 4120 ''4120'' 96 4 2,
    schema_row 4121 ''4121'' 100 8 3,
    schema_row 4122 ''4122'' 104 4 1,
    schema_row 4123 ''4123'' 108 4 2,
    schema_row 4124 ''4124'' 112 8 3,
    schema_row 4125 ''4125'' 116 4 1,
    schema_row 4126 ''4126'' 120 4 2,
    schema_row 4127 ''4127'' 124 8 3,
    schema_row 4128 ''4128'' 128 4 1,
    schema_row 4129 ''4129'' 132 4 2,
    schema_row 4130 ''4130'' 136 8 3,
    schema_row 4131 ''4131'' 140 4 1,
    schema_row 4132 ''4132'' 144 4 2,
    schema_row 4133 ''4133'' 148 8 3,
    schema_row 4134 ''4134'' 152 4 1,
    schema_row 4135 ''4135'' 156 4 2,
    schema_row 4136 ''4136'' 160 8 3,
    schema_row 4137 ''4137'' 164 4 1,
    schema_row 4138 ''4138'' 168 4 2,
    schema_row 4139 ''4139'' 172 8 3,
    schema_row 4140 ''4140'' 176 4 1,
    schema_row 4141 ''4141'' 180 4 2,
    schema_row 4142 ''4142'' 184 8 3,
    schema_row 4143 ''4143'' 188 4 1,
    schema_row 4144 ''4144'' 192 4 2,
    schema_row 4145 ''4145'' 196 8 3,
    schema_row 4146 ''4146'' 200 4 1,
    schema_row 4147 ''4147'' 204 4 2,
    schema_row 4148 ''4148'' 208 8 3,
    schema_row 4149 ''4149'' 212 4 1,
    schema_row 4150 ''4150'' 216 4 2,
    schema_row 4151 ''4151'' 220 8 3,
    schema_row 4152 ''4152'' 224 4 1,
    schema_row 4153 ''4153'' 228 4 2,
    schema_row 4154 ''4154'' 232 8 3,
    schema_row 4155 ''4155'' 236 4 1,
    schema_row 4156 ''4156'' 240 4 2,
    schema_row 4157 ''4157'' 244 8 3,
    schema_row 4158 ''4158'' 248 4 1,
    schema_row 4159 ''4159'' 252 4 2,
    schema_row 4160 ''4160'' 256 8 3,
    schema_row 4161 ''4161'' 260 4 1,
    schema_row 4162 ''4162'' 264 4 2,
    schema_row 4163 ''4163'' 268 8 3,
    schema_row 4164 ''4164'' 272 4 1,
    schema_row 4165 ''4165'' 276 4 2,
    schema_row 4166 ''4166'' 280 8 3,
    schema_row 4167 ''4167'' 284 4 1,
    schema_row 4168 ''4168'' 288 4 2,
    schema_row 4169 ''4169'' 292 8 3,
    schema_row 4170 ''4170'' 296 4 1,
    schema_row 4171 ''4171'' 300 4 2,
    schema_row 4172 ''4172'' 304 8 3,
    schema_row 4173 ''4173'' 308 4 1,
    schema_row 4174 ''4174'' 312 4 2,
    schema_row 4175 ''4175'' 316 8 3,
    schema_row 4176 ''4176'' 320 4 1,
    schema_row 4177 ''4177'' 324 4 2,
    schema_row 4178 ''4178'' 328 8 3,
    schema_row 4179 ''4179'' 332 4 1,
    schema_row 4180 ''4180'' 336 4 2,
    schema_row 4181 ''4181'' 340 8 3,
    schema_row 4182 ''4182'' 344 4 1,
    schema_row 4183 ''4183'' 348 4 2,
    schema_row 4184 ''4184'' 352 8 3,
    schema_row 4185 ''4185'' 356 4 1,
    schema_row 4186 ''4186'' 360 4 2,
    schema_row 4187 ''4187'' 364 8 3,
    schema_row 4188 ''4188'' 368 4 1,
    schema_row 4189 ''4189'' 372 4 2,
    schema_row 4190 ''4190'' 376 8 3,
    schema_row 4191 ''4191'' 380 4 1,
    schema_row 4192 ''4192'' 384 4 2,
    schema_row 4193 ''4193'' 388 8 3,
    schema_row 4194 ''4194'' 392 4 1,
    schema_row 4195 ''4195'' 396 4 2,
    schema_row 4196 ''4196'' 400 8 3,
    schema_row 4197 ''4197'' 404 4 1,
    schema_row 4198 ''4198'' 408 4 2,
    schema_row 4199 ''4199'' 412 8 3,
    schema_row 4200 ''4200'' 416 4 1]"

definition schema_fields_28 :: "ipmb_schema_field list" where
  "schema_fields_28 = [
    schema_row 4201 ''4201'' 420 4 2,
    schema_row 4202 ''4202'' 424 8 3,
    schema_row 4203 ''4203'' 428 4 1,
    schema_row 4204 ''4204'' 432 4 2,
    schema_row 4205 ''4205'' 436 8 3,
    schema_row 4206 ''4206'' 440 4 1,
    schema_row 4207 ''4207'' 444 4 2,
    schema_row 4208 ''4208'' 448 8 3,
    schema_row 4209 ''4209'' 452 4 1,
    schema_row 4210 ''4210'' 456 4 2,
    schema_row 4211 ''4211'' 460 8 3,
    schema_row 4212 ''4212'' 464 4 1,
    schema_row 4213 ''4213'' 468 4 2,
    schema_row 4214 ''4214'' 472 8 3,
    schema_row 4215 ''4215'' 476 4 1,
    schema_row 4216 ''4216'' 480 4 2,
    schema_row 4217 ''4217'' 484 8 3,
    schema_row 4218 ''4218'' 488 4 1,
    schema_row 4219 ''4219'' 492 4 2,
    schema_row 4220 ''4220'' 496 8 3,
    schema_row 4221 ''4221'' 500 4 1,
    schema_row 4222 ''4222'' 504 4 2,
    schema_row 4223 ''4223'' 508 8 3,
    schema_row 4224 ''4224'' 512 4 1,
    schema_row 4225 ''4225'' 516 4 2,
    schema_row 4226 ''4226'' 520 8 3,
    schema_row 4227 ''4227'' 524 4 1,
    schema_row 4228 ''4228'' 528 4 2,
    schema_row 4229 ''4229'' 532 8 3,
    schema_row 4230 ''4230'' 536 4 1,
    schema_row 4231 ''4231'' 540 4 2,
    schema_row 4232 ''4232'' 544 8 3,
    schema_row 4233 ''4233'' 548 4 1,
    schema_row 4234 ''4234'' 552 4 2,
    schema_row 4235 ''4235'' 556 8 3,
    schema_row 4236 ''4236'' 560 4 1,
    schema_row 4237 ''4237'' 564 4 2,
    schema_row 4238 ''4238'' 568 8 3,
    schema_row 4239 ''4239'' 572 4 1,
    schema_row 4240 ''4240'' 576 4 2,
    schema_row 4241 ''4241'' 580 8 3,
    schema_row 4242 ''4242'' 584 4 1,
    schema_row 4243 ''4243'' 588 4 2,
    schema_row 4244 ''4244'' 592 8 3,
    schema_row 4245 ''4245'' 596 4 1,
    schema_row 4246 ''4246'' 600 4 2,
    schema_row 4247 ''4247'' 604 8 3,
    schema_row 4248 ''4248'' 608 4 1,
    schema_row 4249 ''4249'' 612 4 2,
    schema_row 4250 ''4250'' 616 8 3,
    schema_row 4251 ''4251'' 620 4 1,
    schema_row 4252 ''4252'' 624 4 2,
    schema_row 4253 ''4253'' 628 8 3,
    schema_row 4254 ''4254'' 632 4 1,
    schema_row 4255 ''4255'' 636 4 2,
    schema_row 4256 ''4256'' 640 8 3,
    schema_row 4257 ''4257'' 644 4 1,
    schema_row 4258 ''4258'' 648 4 2,
    schema_row 4259 ''4259'' 652 8 3,
    schema_row 4260 ''4260'' 656 4 1,
    schema_row 4261 ''4261'' 660 4 2,
    schema_row 4262 ''4262'' 664 8 3,
    schema_row 4263 ''4263'' 668 4 1,
    schema_row 4264 ''4264'' 672 4 2,
    schema_row 4265 ''4265'' 676 8 3,
    schema_row 4266 ''4266'' 680 4 1,
    schema_row 4267 ''4267'' 684 4 2,
    schema_row 4268 ''4268'' 688 8 3,
    schema_row 4269 ''4269'' 692 4 1,
    schema_row 4270 ''4270'' 696 4 2,
    schema_row 4271 ''4271'' 700 8 3,
    schema_row 4272 ''4272'' 704 4 1,
    schema_row 4273 ''4273'' 708 4 2,
    schema_row 4274 ''4274'' 712 8 3,
    schema_row 4275 ''4275'' 716 4 1,
    schema_row 4276 ''4276'' 720 4 2,
    schema_row 4277 ''4277'' 724 8 3,
    schema_row 4278 ''4278'' 728 4 1,
    schema_row 4279 ''4279'' 732 4 2,
    schema_row 4280 ''4280'' 736 8 3,
    schema_row 4281 ''4281'' 740 4 1,
    schema_row 4282 ''4282'' 744 4 2,
    schema_row 4283 ''4283'' 748 8 3,
    schema_row 4284 ''4284'' 752 4 1,
    schema_row 4285 ''4285'' 756 4 2,
    schema_row 4286 ''4286'' 760 8 3,
    schema_row 4287 ''4287'' 764 4 1,
    schema_row 4288 ''4288'' 768 4 2,
    schema_row 4289 ''4289'' 772 8 3,
    schema_row 4290 ''4290'' 776 4 1,
    schema_row 4291 ''4291'' 780 4 2,
    schema_row 4292 ''4292'' 784 8 3,
    schema_row 4293 ''4293'' 788 4 1,
    schema_row 4294 ''4294'' 792 4 2,
    schema_row 4295 ''4295'' 796 8 3,
    schema_row 4296 ''4296'' 800 4 1,
    schema_row 4297 ''4297'' 804 4 2,
    schema_row 4298 ''4298'' 808 8 3,
    schema_row 4299 ''4299'' 812 4 1,
    schema_row 4300 ''4300'' 816 4 2,
    schema_row 4301 ''4301'' 820 8 3,
    schema_row 4302 ''4302'' 824 4 1,
    schema_row 4303 ''4303'' 828 4 2,
    schema_row 4304 ''4304'' 832 8 3,
    schema_row 4305 ''4305'' 836 4 1,
    schema_row 4306 ''4306'' 840 4 2,
    schema_row 4307 ''4307'' 844 8 3,
    schema_row 4308 ''4308'' 848 4 1,
    schema_row 4309 ''4309'' 852 4 2,
    schema_row 4310 ''4310'' 856 8 3,
    schema_row 4311 ''4311'' 860 4 1,
    schema_row 4312 ''4312'' 864 4 2,
    schema_row 4313 ''4313'' 868 8 3,
    schema_row 4314 ''4314'' 872 4 1,
    schema_row 4315 ''4315'' 876 4 2,
    schema_row 4316 ''4316'' 880 8 3,
    schema_row 4317 ''4317'' 884 4 1,
    schema_row 4318 ''4318'' 888 4 2,
    schema_row 4319 ''4319'' 892 8 3,
    schema_row 4320 ''4320'' 896 4 1,
    schema_row 4321 ''4321'' 900 4 2,
    schema_row 4322 ''4322'' 904 8 3,
    schema_row 4323 ''4323'' 908 4 1,
    schema_row 4324 ''4324'' 912 4 2,
    schema_row 4325 ''4325'' 916 8 3,
    schema_row 4326 ''4326'' 920 4 1,
    schema_row 4327 ''4327'' 924 4 2,
    schema_row 4328 ''4328'' 928 8 3,
    schema_row 4329 ''4329'' 932 4 1,
    schema_row 4330 ''4330'' 936 4 2,
    schema_row 4331 ''4331'' 940 8 3,
    schema_row 4332 ''4332'' 944 4 1,
    schema_row 4333 ''4333'' 948 4 2,
    schema_row 4334 ''4334'' 952 8 3,
    schema_row 4335 ''4335'' 956 4 1,
    schema_row 4336 ''4336'' 960 4 2,
    schema_row 4337 ''4337'' 964 8 3,
    schema_row 4338 ''4338'' 968 4 1,
    schema_row 4339 ''4339'' 972 4 2,
    schema_row 4340 ''4340'' 976 8 3,
    schema_row 4341 ''4341'' 980 4 1,
    schema_row 4342 ''4342'' 984 4 2,
    schema_row 4343 ''4343'' 988 8 3,
    schema_row 4344 ''4344'' 992 4 1,
    schema_row 4345 ''4345'' 996 4 2,
    schema_row 4346 ''4346'' 1000 8 3,
    schema_row 4347 ''4347'' 1004 4 1,
    schema_row 4348 ''4348'' 1008 4 2,
    schema_row 4349 ''4349'' 1012 8 3,
    schema_row 4350 ''4350'' 1016 4 1]"

definition schema_fields_29 :: "ipmb_schema_field list" where
  "schema_fields_29 = [
    schema_row 4351 ''4351'' 1020 4 2,
    schema_row 4352 ''4352'' 0 8 3,
    schema_row 4353 ''4353'' 4 4 1,
    schema_row 4354 ''4354'' 8 4 2,
    schema_row 4355 ''4355'' 12 8 3,
    schema_row 4356 ''4356'' 16 4 1,
    schema_row 4357 ''4357'' 20 4 2,
    schema_row 4358 ''4358'' 24 8 3,
    schema_row 4359 ''4359'' 28 4 1,
    schema_row 4360 ''4360'' 32 4 2,
    schema_row 4361 ''4361'' 36 8 3,
    schema_row 4362 ''4362'' 40 4 1,
    schema_row 4363 ''4363'' 44 4 2,
    schema_row 4364 ''4364'' 48 8 3,
    schema_row 4365 ''4365'' 52 4 1,
    schema_row 4366 ''4366'' 56 4 2,
    schema_row 4367 ''4367'' 60 8 3,
    schema_row 4368 ''4368'' 64 4 1,
    schema_row 4369 ''4369'' 68 4 2,
    schema_row 4370 ''4370'' 72 8 3,
    schema_row 4371 ''4371'' 76 4 1,
    schema_row 4372 ''4372'' 80 4 2,
    schema_row 4373 ''4373'' 84 8 3,
    schema_row 4374 ''4374'' 88 4 1,
    schema_row 4375 ''4375'' 92 4 2,
    schema_row 4376 ''4376'' 96 8 3,
    schema_row 4377 ''4377'' 100 4 1,
    schema_row 4378 ''4378'' 104 4 2,
    schema_row 4379 ''4379'' 108 8 3,
    schema_row 4380 ''4380'' 112 4 1,
    schema_row 4381 ''4381'' 116 4 2,
    schema_row 4382 ''4382'' 120 8 3,
    schema_row 4383 ''4383'' 124 4 1,
    schema_row 4384 ''4384'' 128 4 2,
    schema_row 4385 ''4385'' 132 8 3,
    schema_row 4386 ''4386'' 136 4 1,
    schema_row 4387 ''4387'' 140 4 2,
    schema_row 4388 ''4388'' 144 8 3,
    schema_row 4389 ''4389'' 148 4 1,
    schema_row 4390 ''4390'' 152 4 2,
    schema_row 4391 ''4391'' 156 8 3,
    schema_row 4392 ''4392'' 160 4 1,
    schema_row 4393 ''4393'' 164 4 2,
    schema_row 4394 ''4394'' 168 8 3,
    schema_row 4395 ''4395'' 172 4 1,
    schema_row 4396 ''4396'' 176 4 2,
    schema_row 4397 ''4397'' 180 8 3,
    schema_row 4398 ''4398'' 184 4 1,
    schema_row 4399 ''4399'' 188 4 2,
    schema_row 4400 ''4400'' 192 8 3,
    schema_row 4401 ''4401'' 196 4 1,
    schema_row 4402 ''4402'' 200 4 2,
    schema_row 4403 ''4403'' 204 8 3,
    schema_row 4404 ''4404'' 208 4 1,
    schema_row 4405 ''4405'' 212 4 2,
    schema_row 4406 ''4406'' 216 8 3,
    schema_row 4407 ''4407'' 220 4 1,
    schema_row 4408 ''4408'' 224 4 2,
    schema_row 4409 ''4409'' 228 8 3,
    schema_row 4410 ''4410'' 232 4 1,
    schema_row 4411 ''4411'' 236 4 2,
    schema_row 4412 ''4412'' 240 8 3,
    schema_row 4413 ''4413'' 244 4 1,
    schema_row 4414 ''4414'' 248 4 2,
    schema_row 4415 ''4415'' 252 8 3,
    schema_row 4416 ''4416'' 256 4 1,
    schema_row 4417 ''4417'' 260 4 2,
    schema_row 4418 ''4418'' 264 8 3,
    schema_row 4419 ''4419'' 268 4 1,
    schema_row 4420 ''4420'' 272 4 2,
    schema_row 4421 ''4421'' 276 8 3,
    schema_row 4422 ''4422'' 280 4 1,
    schema_row 4423 ''4423'' 284 4 2,
    schema_row 4424 ''4424'' 288 8 3,
    schema_row 4425 ''4425'' 292 4 1,
    schema_row 4426 ''4426'' 296 4 2,
    schema_row 4427 ''4427'' 300 8 3,
    schema_row 4428 ''4428'' 304 4 1,
    schema_row 4429 ''4429'' 308 4 2,
    schema_row 4430 ''4430'' 312 8 3,
    schema_row 4431 ''4431'' 316 4 1,
    schema_row 4432 ''4432'' 320 4 2,
    schema_row 4433 ''4433'' 324 8 3,
    schema_row 4434 ''4434'' 328 4 1,
    schema_row 4435 ''4435'' 332 4 2,
    schema_row 4436 ''4436'' 336 8 3,
    schema_row 4437 ''4437'' 340 4 1,
    schema_row 4438 ''4438'' 344 4 2,
    schema_row 4439 ''4439'' 348 8 3,
    schema_row 4440 ''4440'' 352 4 1,
    schema_row 4441 ''4441'' 356 4 2,
    schema_row 4442 ''4442'' 360 8 3,
    schema_row 4443 ''4443'' 364 4 1,
    schema_row 4444 ''4444'' 368 4 2,
    schema_row 4445 ''4445'' 372 8 3,
    schema_row 4446 ''4446'' 376 4 1,
    schema_row 4447 ''4447'' 380 4 2,
    schema_row 4448 ''4448'' 384 8 3,
    schema_row 4449 ''4449'' 388 4 1,
    schema_row 4450 ''4450'' 392 4 2,
    schema_row 4451 ''4451'' 396 8 3,
    schema_row 4452 ''4452'' 400 4 1,
    schema_row 4453 ''4453'' 404 4 2,
    schema_row 4454 ''4454'' 408 8 3,
    schema_row 4455 ''4455'' 412 4 1,
    schema_row 4456 ''4456'' 416 4 2,
    schema_row 4457 ''4457'' 420 8 3,
    schema_row 4458 ''4458'' 424 4 1,
    schema_row 4459 ''4459'' 428 4 2,
    schema_row 4460 ''4460'' 432 8 3,
    schema_row 4461 ''4461'' 436 4 1,
    schema_row 4462 ''4462'' 440 4 2,
    schema_row 4463 ''4463'' 444 8 3,
    schema_row 4464 ''4464'' 448 4 1,
    schema_row 4465 ''4465'' 452 4 2,
    schema_row 4466 ''4466'' 456 8 3,
    schema_row 4467 ''4467'' 460 4 1,
    schema_row 4468 ''4468'' 464 4 2,
    schema_row 4469 ''4469'' 468 8 3,
    schema_row 4470 ''4470'' 472 4 1,
    schema_row 4471 ''4471'' 476 4 2,
    schema_row 4472 ''4472'' 480 8 3,
    schema_row 4473 ''4473'' 484 4 1,
    schema_row 4474 ''4474'' 488 4 2,
    schema_row 4475 ''4475'' 492 8 3,
    schema_row 4476 ''4476'' 496 4 1,
    schema_row 4477 ''4477'' 500 4 2,
    schema_row 4478 ''4478'' 504 8 3,
    schema_row 4479 ''4479'' 508 4 1,
    schema_row 4480 ''4480'' 512 4 2,
    schema_row 4481 ''4481'' 516 8 3,
    schema_row 4482 ''4482'' 520 4 1,
    schema_row 4483 ''4483'' 524 4 2,
    schema_row 4484 ''4484'' 528 8 3,
    schema_row 4485 ''4485'' 532 4 1,
    schema_row 4486 ''4486'' 536 4 2,
    schema_row 4487 ''4487'' 540 8 3,
    schema_row 4488 ''4488'' 544 4 1,
    schema_row 4489 ''4489'' 548 4 2,
    schema_row 4490 ''4490'' 552 8 3,
    schema_row 4491 ''4491'' 556 4 1,
    schema_row 4492 ''4492'' 560 4 2,
    schema_row 4493 ''4493'' 564 8 3,
    schema_row 4494 ''4494'' 568 4 1,
    schema_row 4495 ''4495'' 572 4 2,
    schema_row 4496 ''4496'' 576 8 3,
    schema_row 4497 ''4497'' 580 4 1,
    schema_row 4498 ''4498'' 584 4 2,
    schema_row 4499 ''4499'' 588 8 3]"

lemma schema_fields_20_rows: "schema_rows 3001 740 2 schema_fields_20"
  unfolding schema_fields_20_def
  by (simp add: schema_chunk del: schema_rows.simps(2))

lemma schema_fields_21_rows: "schema_rows 3151 316 2 schema_fields_21"
  unfolding schema_fields_21_def
  by (simp add: schema_chunk del: schema_rows.simps(2))

lemma schema_fields_22_rows: "schema_rows 3301 916 2 schema_fields_22"
  unfolding schema_fields_22_def
  by (simp add: schema_chunk del: schema_rows.simps(2))

lemma schema_fields_23_rows: "schema_rows 3451 492 2 schema_fields_23"
  unfolding schema_fields_23_def
  by (simp add: schema_chunk del: schema_rows.simps(2))

lemma schema_fields_24_rows: "schema_rows 3601 68 2 schema_fields_24"
  unfolding schema_fields_24_def
  by (simp add: schema_chunk del: schema_rows.simps(2))

lemma schema_fields_25_rows: "schema_rows 3751 668 2 schema_fields_25"
  unfolding schema_fields_25_def
  by (simp add: schema_chunk del: schema_rows.simps(2))

lemma schema_fields_26_rows: "schema_rows 3901 244 2 schema_fields_26"
  unfolding schema_fields_26_def
  by (simp add: schema_chunk del: schema_rows.simps(2))

lemma schema_fields_27_rows: "schema_rows 4051 844 2 schema_fields_27"
  unfolding schema_fields_27_def
  by (simp add: schema_chunk del: schema_rows.simps(2))

lemma schema_fields_28_rows: "schema_rows 4201 420 2 schema_fields_28"
  unfolding schema_fields_28_def
  by (simp add: schema_chunk del: schema_rows.simps(2))

lemma schema_fields_29_rows: "schema_rows 4351 1020 2 schema_fields_29"
  unfolding schema_fields_29_def
  by (simp add: schema_chunk del: schema_rows.simps(2))

lemma schema_fields_20_length: "length schema_fields_20 = 150"
  by (simp add: schema_fields_20_def)

lemma schema_fields_21_length: "length schema_fields_21 = 150"
  by (simp add: schema_fields_21_def)

lemma schema_fields_22_length: "length schema_fields_22 = 150"
  by (simp add: schema_fields_22_def)

lemma schema_fields_23_length: "length schema_fields_23 = 150"
  by (simp add: schema_fields_23_def)

lemma schema_fields_24_length: "length schema_fields_24 = 150"
  by (simp add: schema_fields_24_def)

lemma schema_fields_25_length: "length schema_fields_25 = 150"
  by (simp add: schema_fields_25_def)

lemma schema_fields_26_length: "length schema_fields_26 = 150"
  by (simp add: schema_fields_26_def)

lemma schema_fields_27_length: "length schema_fields_27 = 150"
  by (simp add: schema_fields_27_def)

lemma schema_fields_28_length: "length schema_fields_28 = 150"
  by (simp add: schema_fields_28_def)

lemma schema_fields_29_length: "length schema_fields_29 = 149"
  by (simp add: schema_fields_29_def)

definition schema_fields_C :: "ipmb_schema_field list" where
  "schema_fields_C =
     schema_fields_20 @ schema_fields_21 @ schema_fields_22 @ schema_fields_23 @ schema_fields_24 @
     schema_fields_25 @ schema_fields_26 @ schema_fields_27 @ schema_fields_28 @ schema_fields_29"

lemma schema_fields_C_metrics: "schema_fields_C = map schema_metric [3001..<4500]"
proof -
  have m20: "schema_fields_20 = map schema_metric [3001..<3151]"
    using schema_rows_metrics [of 3001 schema_fields_20] schema_fields_20_rows by (simp add: schema_fields_20_length)
  have m21: "schema_fields_21 = map schema_metric [3151..<3301]"
    using schema_rows_metrics [of 3151 schema_fields_21] schema_fields_21_rows by (simp add: schema_fields_21_length)
  have m22: "schema_fields_22 = map schema_metric [3301..<3451]"
    using schema_rows_metrics [of 3301 schema_fields_22] schema_fields_22_rows by (simp add: schema_fields_22_length)
  have m23: "schema_fields_23 = map schema_metric [3451..<3601]"
    using schema_rows_metrics [of 3451 schema_fields_23] schema_fields_23_rows by (simp add: schema_fields_23_length)
  have m24: "schema_fields_24 = map schema_metric [3601..<3751]"
    using schema_rows_metrics [of 3601 schema_fields_24] schema_fields_24_rows by (simp add: schema_fields_24_length)
  have m25: "schema_fields_25 = map schema_metric [3751..<3901]"
    using schema_rows_metrics [of 3751 schema_fields_25] schema_fields_25_rows by (simp add: schema_fields_25_length)
  have m26: "schema_fields_26 = map schema_metric [3901..<4051]"
    using schema_rows_metrics [of 3901 schema_fields_26] schema_fields_26_rows by (simp add: schema_fields_26_length)
  have m27: "schema_fields_27 = map schema_metric [4051..<4201]"
    using schema_rows_metrics [of 4051 schema_fields_27] schema_fields_27_rows by (simp add: schema_fields_27_length)
  have m28: "schema_fields_28 = map schema_metric [4201..<4351]"
    using schema_rows_metrics [of 4201 schema_fields_28] schema_fields_28_rows by (simp add: schema_fields_28_length)
  have m29: "schema_fields_29 = map schema_metric [4351..<4500]"
    using schema_rows_metrics [of 4351 schema_fields_29] schema_fields_29_rows by (simp add: schema_fields_29_length)
  show ?thesis
    unfolding schema_fields_C_def m20 m21 m22 m23 m24 m25 m26 m27 m28 m29
    by (simp only: map_upt_join numeral_le_iff one_le_numeral semiring_norm)
qed

end
