(* ===== verification/Schema_Registry.thy ===== *)
theory Schema_Registry
  imports Schema_Rows_A Schema_Rows_B Schema_Rows_C
begin

text \<open>
  The schema registry of \<^verbatim>\<open>src/protocol/schema_registry.c\<close>: the array with its terminating row,
  and the search that runs to the row whose id is 0.  The array is the list of its rows; the
  search holds the rest of the array, and a step past its last row would be a read outside it.
\<close>

definition ipmb_global_schema_registry :: "ipmb_schema_field list" where
  "ipmb_global_schema_registry = schema_fields_A @ schema_fields_B @ schema_fields_C @
     [\<lparr>field_id_of = 0, field_name_of = None, field_offset = 0, field_size = 0, field_data_type = 0\<rparr>]"

fun schema_lookup_loop :: "ipmb_schema_field list \<Rightarrow> int \<Rightarrow> (ipmb_status, ipmb_schema_field option) res" where
  "schema_lookup_loop [] field_id = Fault Oob_read"
| "schema_lookup_loop (r # rows) field_id =
     (if field_id_of r = 0 then Ok None
      else if field_id_of r = field_id then Ok (Some r)
      else schema_lookup_loop rows field_id)"

definition ipmb_schema_lookup :: "int \<Rightarrow> (ipmb_status, ipmb_schema_field option) res" where
  "ipmb_schema_lookup field_id = schema_lookup_loop ipmb_global_schema_registry field_id"

lemma registry_metrics:
  "ipmb_global_schema_registry = map schema_metric [1..<4500] @
     [\<lparr>field_id_of = 0, field_name_of = None, field_offset = 0, field_size = 0, field_data_type = 0\<rparr>]"
proof -
  have "map schema_metric [1..<4500] = schema_fields_A @ schema_fields_B @ schema_fields_C"
    unfolding schema_fields_A_metrics schema_fields_B_metrics schema_fields_C_metrics
    by (simp only: map_upt_join numeral_le_iff one_le_numeral semiring_norm)
  then show ?thesis by (simp only: ipmb_global_schema_registry_def append_assoc)
qed

lemma metric_id [simp]: "field_id_of (schema_metric i) = int i"
  by (simp add: schema_metric_def schema_row_def)

lemma lookup_metrics:
  "0 < i \<Longrightarrow> field_id_of z = 0 \<Longrightarrow>
   schema_lookup_loop (map schema_metric [i..<i + n] @ [z]) k =
     Ok (if int i \<le> k \<and> k < int (i + n) then Some (schema_metric (nat k)) else None)"
proof (induction n arbitrary: i)
  case (Suc n)
  have "[i..<i + Suc n] = i # [Suc i..<Suc i + n]" by (simp add: upt_conv_Cons del: upt_Suc)
  then show ?case using Suc.IH [of "Suc i"] Suc.prems by (auto simp del: upt_Suc)
qed simp

lemma schema_lookup_eq:
  "ipmb_schema_lookup k = Ok (if 1 \<le> k \<and> k \<le> 4499 then Some (schema_metric (nat k)) else None)"
  using lookup_metrics [of 1 _ 4499 k]
  by (simp add: ipmb_schema_lookup_def registry_metrics del: upt_rec_numeral upt_Suc)

lemma nat_mod_iff: "0 \<le> k \<Longrightarrow> nat k mod m = c \<longleftrightarrow> k mod int m = int c"
  by (metis nat_0_le of_nat_eq_iff zmod_int)

section \<open>Properties\<close>

text \<open>C40: The lookup in the schema registry answers every \<^verbatim>\<open>int\<close> without reading past the
  table: for the ids 1 to 4499 it returns the row of that id, which is named after it, lies at
  offset \<open>4 * id mod 1024\<close> and has the size and type of \<open>schema_metric\<close>; for every other id, 0
  and the negative ones included, it returns null.\<close>

theorem schema_lookup_complete:
  "ipmb_schema_lookup field_id =
     Ok (if 1 \<le> field_id \<and> field_id \<le> 4499
         then Some \<lparr>field_id_of = field_id,
                    field_name_of = Some (''SENSOR_METRIC_'' @ padded 4 (nat field_id)),
                    field_offset = 4 * field_id mod 1024,
                    field_size = (if field_id mod 3 = 2 then 8 else 4),
                    field_data_type = field_id mod 3 + 1\<rparr>
         else None)"
proof -
  have "nat field_id mod 3 = 2 \<longleftrightarrow> field_id mod 3 = 2" if "1 \<le> field_id"
    using that nat_mod_iff [of field_id 3 2] by simp
  then show ?thesis
    by (auto simp: schema_lookup_eq schema_metric_def schema_row_def zmod_int)
qed

text \<open>The layout of the registry overlaps.  A row of type 3 takes eight bytes but the next
  row starts four bytes after it, so that looking up its id and the next one gives two fields
  with common bytes (except at the end of each run of 256 rows, where the offset returns to 0).\<close>

theorem schema_fields_overlap:
  assumes "1 \<le> field_id" "field_id < 4499" "field_id mod 3 = 2" "field_id mod 256 \<noteq> 255"
  shows "\<exists>f g. ipmb_schema_lookup field_id = Ok (Some f) \<and> ipmb_schema_lookup (field_id + 1) = Ok (Some g) \<and>
    field_offset f < field_offset g \<and> field_offset g < field_offset f + field_size f"
proof -
  have "nat field_id mod 3 = 2" using assms nat_mod_iff [of field_id 3 2] by simp
  moreover have "nat (field_id + 1) = nat field_id + 1" using assms by simp
  moreover have "nat field_id mod 256 \<noteq> 255" using assms nat_mod_iff [of field_id 256 255] by simp
  then have "4 * (nat field_id + 1) mod 1024 = 4 * nat field_id mod 1024 + 4"
    using four_mod [of "nat field_id"] four_mod [of "nat field_id + 1"] by (auto simp: mod_Suc)
  ultimately show ?thesis
    using assms by (simp add: schema_lookup_eq schema_metric_def schema_row_def)
qed

lemma schema_fields_overlap_witness:
  "\<exists>f g. ipmb_schema_lookup 2 = Ok (Some f) \<and> ipmb_schema_lookup (2 + 1) = Ok (Some g) \<and>
    field_offset f < field_offset g \<and> field_offset g < field_offset f + field_size f"
  by (rule schema_fields_overlap) simp_all

end
