(* ===== verification/Diagnostics.thy ===== *)
theory Diagnostics
  imports Frame_Reader Rule_Lexer
begin

text \<open>
  The small services around the library: the status texts and the message sink of
  \<^verbatim>\<open>src/diagnostics.c\<close>, the log line of \<^verbatim>\<open>src/diagnostics_structured.c\<close> (as the text it prints),
  the owner names and cookies of \<^verbatim>\<open>src/session/ownership_model.c\<close>, and the risk score of
  \<^verbatim>\<open>src/security.c\<close>.
\<close>

section \<open>Statuses\<close>

definition ipmb_status_string :: "ipmb_status \<Rightarrow> string" where
  "ipmb_status_string status = (case status of
      IPMB_OK \<Rightarrow> ''ok''
    | IPMB_ERR_SHORT_READ \<Rightarrow> ''short read''
    | IPMB_ERR_BAD_MAGIC \<Rightarrow> ''bad magic''
    | IPMB_ERR_BAD_CRC \<Rightarrow> ''bad crc''
    | IPMB_ERR_LIMIT \<Rightarrow> ''limit exceeded''
    | IPMB_ERR_INVALID \<Rightarrow> ''invalid input''
    | IPMB_ERR_ALLOC \<Rightarrow> ''allocation failed''
    | IPMB_ERR_EVAL \<Rightarrow> ''evaluation failed''
    | IPMB_ERR_NOT_FOUND \<Rightarrow> ''not found'')"

text \<open>The sink is a function of the caller; it acts on the state the caller passes as \<^verbatim>\<open>user\<close>.\<close>

definition ipmb_diag_emit ::
  "(ipmb_status \<Rightarrow> string \<Rightarrow> 'u \<Rightarrow> 'u) option \<Rightarrow> 'u \<Rightarrow> ipmb_status \<Rightarrow> string \<Rightarrow> 'u" where
  "ipmb_diag_emit sink user status message = (case sink of None \<Rightarrow> user | Some f \<Rightarrow> f status message user)"

definition ipmb_log_structured :: "32 word \<Rightarrow> string option \<Rightarrow> string option \<Rightarrow> string" where
  "ipmb_log_structured level component message =
     ''['' @ format_d (sint level) @ ''] ['' @ (case component of Some s \<Rightarrow> s | None \<Rightarrow> ''UNKNOWN'') @ '']: '' @
     (case message of Some s \<Rightarrow> s | None \<Rightarrow> []) @ [CHR 0x0A]"

section \<open>Owners\<close>

text \<open>An \<^verbatim>\<open>ipmb_owner_t\<close> is an integer; the four enumerators are 0 to 3.\<close>

definition ipmb_owner_name :: "32 word \<Rightarrow> string" where
  "ipmb_owner_name owner =
     (if owner = 0 then ''parser'' else if owner = 1 then ''tracker'' else if owner = 2 then ''replay''
      else if owner = 3 then ''caller'' else ''unknown'')"

definition ipmb_owner_transfer_cookie :: "32 word \<Rightarrow> 32 word \<Rightarrow> 32 word" where
  "ipmb_owner_transfer_cookie from to = push_bit 16 from OR to"

section \<open>Risk\<close>

definition frame_risk :: "ipmb_frame \<Rightarrow> 32 word" where
  "frame_risk f =
     (if ttl f = 0 then 4 else 0) + (if priority f > 100 then 6 else 0) +
     (if frame_flags f AND IPMB_FRAME_FLAG_FRAGMENTED \<noteq> 0 then 3 else 0) +
     (if payload_len f > 4096 then 2 else 0)"

function risk_loop :: "ipmb_message \<Rightarrow> nat \<Rightarrow> 32 word \<Rightarrow> (ipmb_status, 32 word) res" where
  "risk_loop msg i score =
     (if i < unat (frame_count msg) then
        rbind (case frames msg of None \<Rightarrow> Fault Null_deref | Some fs \<Rightarrow> rd8 fs i) (\<lambda>f.
          risk_loop msg (i + 1) (score + frame_risk f))
      else Ok score)"
  by pat_completeness auto
termination by (relation "measure (\<lambda>(msg, i, _). unat (frame_count msg) - i)") auto

declare risk_loop.simps [simp del]

definition ipmb_security_risk_score :: "ipmb_message option \<Rightarrow> (ipmb_status, 32 word) res" where
  "ipmb_security_risk_score msg = (case msg of None \<Rightarrow> Ok 0 | Some m \<Rightarrow> risk_loop m 0 0)"

lemma risk_loop_sum:
  assumes "frames m = Some fs" "length fs = unat (frame_count m)"
  shows "i \<le> length fs \<Longrightarrow> risk_loop m i score = Ok (score + sum_list (map frame_risk (drop i fs)))"
proof (induction "length fs - i" arbitrary: i score)
  case 0
  with assms show ?case by (subst risk_loop.simps) simp
next
  case (Suc n)
  then have i: "i < length fs" by simp
  with assms have "risk_loop m i score = risk_loop m (i + 1) (score + frame_risk (fs ! i))"
    by (subst risk_loop.simps) (simp add: rd8_def)
  with Suc.hyps(1) [of "i + 1"] Suc.hyps(2) i show ?case
    by (simp add: Cons_nth_drop_Suc [symmetric] ac_simps)
qed

lemma frame_risk_bound: "unat (frame_risk f) \<le> 15"
  by (simp add: frame_risk_def)

lemma sum_risk_bound: "length fs \<le> 1024 \<Longrightarrow> unat (sum_list (map frame_risk fs)) \<le> 15 * length fs"
proof (induction fs)
  case (Cons f fs)
  then have "unat (sum_list (map frame_risk fs)) \<le> 15 * length fs" by simp
  moreover from this have "unat (frame_risk f) + unat (sum_list (map frame_risk fs)) < 2 ^ 32"
    using frame_risk_bound [of f] Cons.prems by simp
  ultimately show ?case using frame_risk_bound [of f] by (simp add: unat_word_ariths)
qed simp

section \<open>Properties\<close>

text \<open>The risk score of a message that was parsed is the sum of the scores of its frames, at
  most 15 for each and so at most 15360, without wrap-around.  After a failed parse the score
  is 0 when the frame count the parser left is 0, and otherwise the function reads frames
  through a null pointer.\<close>

theorem risk_score_after_parse:
  "case ipmb_parse_message al data of
     Ok m \<Rightarrow> \<exists>score. ipmb_security_risk_score (Some m) = Ok score \<and>
       score = sum_list (map frame_risk (the (frames m))) \<and> unat score \<le> 15 * unat (frame_count m) \<and>
       unat score \<le> 15360
   | Err (status, m) \<Rightarrow> ipmb_security_risk_score (Some m) =
       (if frame_count m = 0 then Ok 0 else Fault Null_deref)
   | Fault u \<Rightarrow> False"
proof (cases "ipmb_parse_message al data")
  case (Ok m)
  then obtain fs where fs: "frames m = Some fs" "length fs = unat (frame_count m)" "length fs \<le> 1024"
    by (auto simp: parse_message_Ok message_wf_eq IPMB_MAX_FRAMES_def)
  from risk_loop_sum [OF fs(1,2), of 0 0] sum_risk_bound [OF fs(3)] fs Ok show ?thesis
    by (simp add: ipmb_security_risk_score_def)
next
  case (Err e)
  obtain status m where e: "e = (status, m)" by (cases e)
  then have "frames m = None" using parse_message_Err [of al data] Err by auto
  moreover have "0 < unat (frame_count m) \<longleftrightarrow> frame_count m \<noteq> 0" by (simp add: unat_gt_0)
  ultimately show ?thesis
    by (simp add: Err e ipmb_security_risk_score_def risk_loop.simps)
next
  case (Fault u)
  with parse_message_no_fault [of al data] show ?thesis by simp
qed

end
