(* ===== verification/File_Input.thy ===== *)
theory File_Input
  imports C_Memory
begin

text \<open>
  Reading a file into memory with the streams of the C library: \<^verbatim>\<open>read_file\<close>, which each program
  under \<^verbatim>\<open>apps/\<close> has a copy of, and the \<^verbatim>\<open>main\<close> that each harness under \<^verbatim>\<open>fuzz/\<close> has when it is
  built without a fuzzer.  A \<open>c_file\<close> is what the calls on an open stream answer: whether
  \<^verbatim>\<open>fseek\<close> to the end succeeds, the result of \<^verbatim>\<open>ftell\<close> there, and the bytes \<^verbatim>\<open>fread\<close> can
  deliver from the start.  Nothing relates the three: a directory or a pipe may report a size
  it does not have.
\<close>

section \<open>The code\<close>

record c_file =
  file_seekable :: bool
  file_tell :: int
  file_bytes :: "byte list"

type_synonym c_files = "string \<Rightarrow> c_file option"

text \<open>\<^verbatim>\<open>fread(buf, 1, n, fp)\<close> from the start of the stream into a block of cells.\<close>

definition fread_into :: "byte cells \<Rightarrow> nat \<Rightarrow> c_file \<Rightarrow> ('e, byte cells \<times> nat) res" where
  "fread_into buf n f =
     (let got = take n (file_bytes f) in
      rbind (store_cells buf 0 got) (\<lambda>buf. Ok (buf, length got)))"

text \<open>The null result is the error \<open>()\<close>; allocation \<open>0\<close> is that of the buffer.\<close>

definition read_file :: "allocs \<Rightarrow> c_files \<Rightarrow> string \<Rightarrow> (unit, byte list) res" where
  "read_file al files path = (case files path of
       None \<Rightarrow> Err ()
     | Some fp \<Rightarrow>
         if \<not> file_seekable fp then Err ()
         else let sz = file_tell fp in
           if sz < 0 then Err ()
           else
             rbind (alloc al 0 ()) (\<lambda>_.
             rbind (fread_into (malloc_cells (if nat sz \<noteq> 0 then nat sz else 1)) (nat sz) fp) (\<lambda>(buf, n).
             rbind (guard (n = nat sz) ()) (\<lambda>_.
               load_cells buf 0 (nat sz)))))"

text \<open>The body of the loop of a harness's \<^verbatim>\<open>main\<close>: neither the seek nor the size is checked, and a
  size of \<open>-1\<close> asks \<^verbatim>\<open>fread\<close> for \<^verbatim>\<open>SIZE_MAX\<close> bytes into a block of one.\<close>

definition size_t_of_long :: "int \<Rightarrow> nat" where
  "size_t_of_long n = nat (n mod int size_modulus)"

definition standalone_file ::
  "(byte list \<Rightarrow> (unit, unit) res) \<Rightarrow> allocs \<Rightarrow> c_file \<Rightarrow> (unit, unit) res" where
  "standalone_file harness al fp =
     (let n = file_tell fp in
      if al 0 then
        rbind (fread_into (malloc_cells (if n > 0 then nat n else 1)) (size_t_of_long n) fp) (\<lambda>(buf, got).
        if got = size_t_of_long n then rbind (load_cells buf 0 got) harness else Ok ())
      else Ok ())"

text \<open>\<open>harness i\<close> and \<open>als i\<close> are the call and the allocation made for argument \<open>i\<close>.\<close>

fun standalone_loop ::
  "(nat \<Rightarrow> byte list \<Rightarrow> (unit, unit) res) \<Rightarrow> (nat \<Rightarrow> allocs) \<Rightarrow> c_files \<Rightarrow> string list \<Rightarrow> nat \<Rightarrow> (unit, unit) res" where
  "standalone_loop harness als files [] i = Ok ()"
| "standalone_loop harness als files (path # paths) i =
     rbind (case files path of
              None \<Rightarrow> Ok ()
            | Some fp \<Rightarrow> standalone_file (harness i) (als i) fp) (\<lambda>_.
       standalone_loop harness als files paths (i + 1))"

definition standalone_main ::
  "(nat \<Rightarrow> byte list \<Rightarrow> (unit, unit) res) \<Rightarrow> (nat \<Rightarrow> allocs) \<Rightarrow> c_files \<Rightarrow> string list \<Rightarrow> (unit, unit) res" where
  "standalone_main harness als files argv = standalone_loop harness als files (tl argv) 1"

section \<open>Regular files\<close>

definition regular_file :: "byte list \<Rightarrow> c_file" where
  "regular_file bytes = \<lparr>file_seekable = True, file_tell = int (length bytes), file_bytes = bytes\<rparr>"

lemma load_stored:
  assumes "length xs \<le> length buf"
  shows "load_cells (map Some xs @ drop (length xs) buf) 0 (length xs) = Ok xs"
  using assms by (simp add: load_cells_def)

lemma fread_into_small:
  assumes "length (file_bytes f) \<le> length buf \<or> n \<le> length buf"
  shows "fread_into buf n f =
    Ok (map Some (take n (file_bytes f)) @ drop (length (take n (file_bytes f))) buf, length (take n (file_bytes f)))"
  using assms by (auto simp: fread_into_def store_cells_def Let_def min_le_iff_disj)

text \<open>\<^verbatim>\<open>read_file\<close> never leaves its buffer, and its buffer holds exactly the size it reports.\<close>

lemma read_file_outcome:
  "read_file al files path = (case files path of
     None \<Rightarrow> Err ()
   | Some f \<Rightarrow>
       if file_seekable f \<and> 0 \<le> file_tell f \<and> al 0 \<and> nat (file_tell f) \<le> length (file_bytes f)
       then Ok (take (nat (file_tell f)) (file_bytes f)) else Err ())"
proof (cases "files path")
  case (Some f)
  let ?n = "nat (file_tell f)" and ?buf = "malloc_cells (if nat (file_tell f) \<noteq> 0 then nat (file_tell f) else 1)"
  have "fread_into ?buf ?n f =
      (Ok (map Some (take ?n (file_bytes f)) @ drop (length (take ?n (file_bytes f))) ?buf, length (take ?n (file_bytes f)))
       :: (unit, _) res)"
    by (rule fread_into_small) simp
  moreover have "load_cells (map Some (take ?n (file_bytes f)) @ drop (length (take ?n (file_bytes f))) ?buf) 0
      (length (take ?n (file_bytes f))) = (Ok (take ?n (file_bytes f)) :: (unit, _) res)"
    by (rule load_stored) simp
  ultimately show ?thesis using Some
    by (auto simp: read_file_def Let_def alloc_def guard_def min_def split: if_splits)
qed (simp add: read_file_def)

lemma read_file_regular [simp]:
  "files path = Some (regular_file bytes) \<Longrightarrow> al 0 \<Longrightarrow> read_file al files path = Ok bytes"
  by (simp add: read_file_outcome regular_file_def)

lemma read_file_no_fault [simp]: "read_file al files path \<noteq> Fault u"
  by (simp add: read_file_outcome split: option.split)

section \<open>The loop of a harness\<close>

lemma standalone_file_sized:
  assumes "0 \<le> file_tell f" "file_tell f < 2 ^ 63"
  shows "standalone_file harness al f =
    (if al 0 \<and> nat (file_tell f) \<le> length (file_bytes f)
     then harness (take (nat (file_tell f)) (file_bytes f)) else Ok ())"
proof -
  let ?n = "nat (file_tell f)" and ?buf = "malloc_cells (if file_tell f > 0 then nat (file_tell f) else 1)"
  have n: "size_t_of_long (file_tell f) = ?n"
    using assms by (simp add: size_t_of_long_def size_modulus_def)
  have "fread_into ?buf ?n f =
      (Ok (map Some (take ?n (file_bytes f)) @ drop (length (take ?n (file_bytes f))) ?buf, length (take ?n (file_bytes f)))
       :: (unit, _) res)"
    by (rule fread_into_small) simp
  moreover have "load_cells (map Some (take ?n (file_bytes f)) @ drop (length (take ?n (file_bytes f))) ?buf) 0
      (length (take ?n (file_bytes f))) = (Ok (take ?n (file_bytes f)) :: (unit, _) res)"
    by (rule load_stored) simp
  ultimately show ?thesis
    unfolding standalone_file_def n Let_def by (auto simp: min_def split: if_splits)
qed

lemma standalone_file_unsized:
  assumes "file_tell f = -1" "length (file_bytes f) < 2 ^ 64 - 1"
  shows "standalone_file harness al f =
    (if al 0 \<and> 2 \<le> length (file_bytes f) then Fault Oob_write else Ok ())"
proof -
  have n: "size_t_of_long (-1) = 2 ^ 64 - 1"
    by (simp add: size_t_of_long_def size_modulus_def)
  have "take (2 ^ 64 - 1) (file_bytes f) = file_bytes f" using assms(2) by simp
  with assms show ?thesis
    by (simp add: standalone_file_def n fread_into_def store_cells_def Let_def)
qed

text \<open>What the body does to a file of a known size, or to one that has none.\<close>

definition file_outcome :: "(byte list \<Rightarrow> (unit, unit) res) \<Rightarrow> c_file \<Rightarrow> (unit, unit) res" where
  "file_outcome harness f =
     (if file_tell f = -1 then if 2 \<le> length (file_bytes f) then Fault Oob_write else Ok ()
      else if nat (file_tell f) \<le> length (file_bytes f) then harness (take (nat (file_tell f)) (file_bytes f)) else Ok ())"

lemma standalone_file_outcome:
  assumes "al 0" "-1 \<le> file_tell f" "file_tell f < 2 ^ 63" "length (file_bytes f) < 2 ^ 64 - 1"
  shows "standalone_file harness al f = file_outcome harness f"
proof (cases "file_tell f = -1")
  case True
  with assms show ?thesis by (simp add: standalone_file_unsized file_outcome_def)
next
  case False
  with assms show ?thesis by (simp add: standalone_file_sized file_outcome_def)
qed

lemma standalone_loop_outcome:
  assumes "\<forall>i. als i 0"
  shows "\<forall>path \<in> set paths. \<forall>f. files path = Some f \<longrightarrow>
      -1 \<le> file_tell f \<and> file_tell f < 2 ^ 63 \<and> length (file_bytes f) < 2 ^ 64 - 1 \<Longrightarrow>
    standalone_loop harness als files paths i =
      (case find (\<lambda>r. r \<noteq> Ok ())
         (List.map_filter (\<lambda>(i, path). map_option (file_outcome (harness i)) (files path)) (enumerate i paths)) of
         None \<Rightarrow> Ok () | Some r \<Rightarrow> r)"
proof (induction paths arbitrary: i)
  case Nil
  then show ?case by (simp add: map_filter_simps)
next
  case (Cons path paths)
  from Cons.prems have "\<forall>path \<in> set paths. \<forall>f. files path = Some f \<longrightarrow>
      -1 \<le> file_tell f \<and> file_tell f < 2 ^ 63 \<and> length (file_bytes f) < 2 ^ 64 - 1" by simp
  note ih = Cons.IH [OF this, of "i + 1"]
  show ?case
  proof (cases "files path")
    case None
    with ih show ?thesis by (simp add: map_filter_simps)
  next
    case (Some f)
    with Cons.prems assms have "standalone_file (harness i) (als i) f = file_outcome (harness i) f"
      by (intro standalone_file_outcome) simp_all
    with ih Some show ?thesis
      by (cases "file_outcome (harness i) f") (simp_all add: map_filter_simps)
  qed
qed

section \<open>Properties\<close>

text \<open>C38: What the \<^verbatim>\<open>main\<close> of a harness does with the files it is given, when its buffers can be
  allocated.  Paths that cannot be opened are passed over; the first file whose outcome is not
  a normal return decides.  A file that is as long as \<^verbatim>\<open>ftell\<close> says is given to the harness,
  a shorter one is skipped, and one whose size is \<open>-1\<close>, such as a pipe, overflows the block of
  one byte as soon as it delivers two.\<close>

theorem standalone_main_outcome:
  assumes "\<forall>i. als i 0"
    and "\<forall>path \<in> set (tl argv). \<forall>f. files path = Some f \<longrightarrow>
      -1 \<le> file_tell f \<and> file_tell f < 2 ^ 63 \<and> length (file_bytes f) < 2 ^ 64 - 1"
  shows "standalone_main harness als files argv =
    (case find (\<lambda>r. r \<noteq> Ok ())
       (List.map_filter (\<lambda>(i, path). map_option (file_outcome (harness i)) (files path)) (enumerate 1 (tl argv))) of
       None \<Rightarrow> Ok () | Some r \<Rightarrow> r)"
  unfolding standalone_main_def using assms by (rule standalone_loop_outcome)

lemma standalone_main_outcome_witness:
  "standalone_main (\<lambda>_ _. Ok ()) (\<lambda>_ _. True)
     [''a'' \<mapsto> regular_file [1, 2], ''p'' \<mapsto> \<lparr>file_seekable = False, file_tell = -1, file_bytes = [1, 2]\<rparr>]
     [''fuzzer'', ''missing'', ''a'', ''p''] = Fault Oob_write"
  by (subst standalone_main_outcome) (auto simp: regular_file_def file_outcome_def map_filter_simps)

end
