(* ===== verification/Apps.thy ===== *)
theory Apps
  imports File_Input Diagnostics Rule_Compiler
begin

text \<open>
  The three programs under \<^verbatim>\<open>apps/\<close>.  A program maps its arguments and the files it can open
  to the text it prints on the two streams and its exit code; \<open>alf\<close> are the allocations of its
  \<^verbatim>\<open>read_file\<close>.  A missing \<^verbatim>\<open>argv[0]\<close> in a usage message would be a null string.
\<close>

section \<open>Printing\<close>

definition format_u :: "nat \<Rightarrow> string" where
  "format_u n = dec_digits n"

definition hex_char :: "nat \<Rightarrow> char" where
  "hex_char d = ''0123456789abcdef'' ! d"

fun hex_digits :: "nat \<Rightarrow> string" where
  "hex_digits n = (if n < 16 then [hex_char n] else hex_digits (n div 16) @ [hex_char (n mod 16)])"

declare hex_digits.simps [simp del]

definition newline :: string where
  "newline = [CHR 0x0A]"

record app_result =
  app_out :: string
  app_err :: string
  app_code :: nat

definition usage :: "string list \<Rightarrow> string \<Rightarrow> (unit, app_result) res" where
  "usage argv args = (case argv of
      [] \<Rightarrow> Fault Null_deref
    | prog # _ \<Rightarrow> Ok \<lparr>app_out = [], app_err = ''usage: '' @ prog @ args @ newline, app_code = 2\<rparr>)"

section \<open>ipmb-inspect\<close>

definition inspect_kind :: "byte list \<Rightarrow> string" where
  "inspect_kind buf =
     (if length buf \<ge> 4 \<and> take 4 buf = ascii ''IPMB'' then ''message''
      else if length buf \<ge> 4 \<and> take 4 buf = ascii ''IJRN'' then ''journal''
      else if length buf \<ge> 4 \<and> take 4 buf = ascii ''ITLM'' then ''telemetry''
      else if length buf \<ge> 4 \<and> take 4 buf = ascii ''IDLT'' then ''delta-codec''
      else ''unknown'')"

definition inspect_main :: "allocs \<Rightarrow> string list \<Rightarrow> c_files \<Rightarrow> (unit, app_result) res" where
  "inspect_main alf argv files =
     (if length argv \<noteq> 2 then usage argv '' <blob>''
      else case read_file alf files (argv ! 1) of
        Fault u \<Rightarrow> Fault u
      | Err _ \<Rightarrow> Ok \<lparr>app_out = [], app_err = [], app_code = 1\<rparr>
      | Ok buf \<Rightarrow> Ok \<lparr>app_out = inspect_kind buf @ '': '' @ format_u (length buf) @ '' bytes'' @ newline,
                       app_err = [], app_code = 0\<rparr>)"

section \<open>ipmb-parse\<close>

definition frame_line :: "nat \<Rightarrow> ipmb_frame \<Rightarrow> string" where
  "frame_line i f = ''frame['' @ format_u i @ ''] type='' @ format_u (unat (frame_type f)) @ '' flags=0x'' @
     hex_digits (unat (frame_flags f)) @ '' payload='' @ format_u (payload_len f) @ '' src='' @
     format_u (unat (source_addr f)) @ '' dst='' @ format_u (unat (dest_addr f)) @ newline"

function frame_lines :: "ipmb_message \<Rightarrow> nat \<Rightarrow> (unit, string) res" where
  "frame_lines msg i =
     (if i < unat (frame_count msg) then
        rbind (case frames msg of None \<Rightarrow> Fault Null_deref | Some fs \<Rightarrow> rd8 fs i) (\<lambda>f.
        rbind (frame_lines msg (i + 1)) (\<lambda>rest. Ok (frame_line i f @ rest)))
      else Ok [])"
  by pat_completeness auto
termination by (relation "measure (\<lambda>(msg, i). unat (frame_count msg) - i)") auto

declare frame_lines.simps [simp del]

definition message_line :: "ipmb_message \<Rightarrow> 32 word \<Rightarrow> string" where
  "message_line msg risk = ''IPMB v'' @ format_u (unat (version msg)) @ '' session='' @
     format_u (unat (session_id msg)) @ '' sequence='' @ format_u (unat (sequence msg)) @ '' frames='' @
     format_u (unat (frame_count msg)) @ '' risk='' @ format_u (unat risk) @ newline"

text \<open>\<open>discard\<close> hands on undefined behaviour of a call whose errors the program does not see.\<close>

definition discard :: "('e, 'a) res \<Rightarrow> (unit, 'a) res" where
  "discard m = map_err (\<lambda>_. ()) m"

definition parse_main :: "allocs \<Rightarrow> allocs \<Rightarrow> string list \<Rightarrow> c_files \<Rightarrow> (unit, app_result) res" where
  "parse_main alf al argv files =
     (if length argv \<noteq> 2 then usage argv '' <message.bin>''
      else case read_file alf files (argv ! 1) of
        Fault u \<Rightarrow> Fault u
      | Err _ \<Rightarrow> Ok \<lparr>app_out = [], app_err = ''could not read '' @ argv ! 1 @ newline, app_code = 1\<rparr>
      | Ok buf \<Rightarrow> (case ipmb_parse_message al buf of
            Fault u \<Rightarrow> Fault u
          | Err (rc, _) \<Rightarrow> Ok \<lparr>app_out = [], app_err = ''parse failed: '' @ ipmb_status_string rc @ newline, app_code = 1\<rparr>
          | Ok msg \<Rightarrow>
              rbind (discard (ipmb_security_risk_score (Some msg))) (\<lambda>risk.
              rbind (frame_lines msg 0) (\<lambda>lines.
                Ok \<lparr>app_out = message_line msg risk @ lines, app_err = [], app_code = 0\<rparr>))))"

section \<open>ipmb-route\<close>

text \<open>\<open>al\<close> are the allocations of the parser, \<open>alc\<close> those of the compiler.\<close>

definition route_rule ::
  "allocs \<Rightarrow> string \<Rightarrow> ipmb_message \<Rightarrow> (ipmb_status, bool) res" where
  "route_rule alc rule msg =
     rbind (map_err fst (ipmb_rule_parse rule)) (\<lambda>ast.
     rbind (map_err fst (ipmb_rule_compile alc ast)) (\<lambda>bc.
     rbind (case frames msg of None \<Rightarrow> Fault Null_deref | Some fs \<Rightarrow> rd8 fs 0) (\<lambda>f.
       ipmb_vm_evaluate bc f)))"

definition route_main ::
  "allocs \<Rightarrow> allocs \<Rightarrow> allocs \<Rightarrow> string list \<Rightarrow> c_files \<Rightarrow> (unit, app_result) res" where
  "route_main alf al alc argv files =
     (if length argv \<noteq> 3 then usage argv '' <rule> <message.bin>''
      else case read_file alf files (argv ! 2) of
        Fault u \<Rightarrow> Fault u
      | Err _ \<Rightarrow> Ok \<lparr>app_out = [], app_err = [], app_code = 1\<rparr>
      | Ok buf \<Rightarrow>
          (let rejected = (\<lambda>rc. Ok \<lparr>app_out = [], app_err = ''message rejected: '' @ ipmb_status_string rc @ newline,
                                   app_code = 1\<rparr>) in
           case ipmb_parse_message al buf of
             Fault u \<Rightarrow> Fault u
           | Err (rc, _) \<Rightarrow> rejected rc
           | Ok msg \<Rightarrow>
               if frame_count msg = 0 then rejected IPMB_OK
               else (case route_rule alc (argv ! 1) msg of
                   Fault u \<Rightarrow> Fault u
                 | Err _ \<Rightarrow> Ok \<lparr>app_out = ''not matched'' @ newline, app_err = [], app_code = 1\<rparr>
                 | Ok matched \<Rightarrow> Ok \<lparr>app_out = (if matched then ''matched'' else ''not matched'') @ newline,
                                  app_err = [], app_code = 0\<rparr>)))"

section \<open>What the programs print\<close>

lemma frame_lines_concat:
  assumes "frames m = Some fs" "length fs = unat (frame_count m)"
  shows "i \<le> length fs \<Longrightarrow>
    frame_lines m i = Ok (concat (map (\<lambda>j. frame_line j (fs ! j)) [i..<length fs]))"
proof (induction "length fs - i" arbitrary: i)
  case 0
  with assms show ?case by (subst frame_lines.simps) simp
next
  case (Suc n)
  then have i: "i < length fs" by simp
  with assms Suc.hyps(1) [of "i + 1"] Suc.hyps(2) show ?case
    by (subst frame_lines.simps) (simp add: rd8_def upt_conv_Cons)
qed

lemma route_rule_outcome:
  assumes "frames m = Some (f # fs)"
  shows "route_rule (\<lambda>_. True) rule m = (case ipmb_rule_parse rule of
      Ok a \<Rightarrow> if field_id (rule_field a) = 0 then Err IPMB_ERR_INVALID else Ok (rule_holds a f)
    | Err (s, _) \<Rightarrow> Err s
    | Fault u \<Rightarrow> Fault u)"
  using assms
  by (auto simp: route_rule_def compile_outcome evaluate_rule_instrs rd8_def list_all_iff split: res.split)

section \<open>Properties\<close>

text \<open>What \<^verbatim>\<open>ipmb-parse\<close> does with a readable file, for every content: a message is printed with
  its fields and its risk score, one line per frame in their order, and the exit code is 0;
  anything else is refused with the text of the parser's status and the exit code 1.  It never
  has undefined behaviour.\<close>

theorem parse_main_outcome:
  assumes "read_file alf files path = Ok buf"
  shows "parse_main alf al [prog, path] files = (case ipmb_parse_message al buf of
      Ok m \<Rightarrow> Ok \<lparr>app_out = message_line m (sum_list (map frame_risk (the (frames m)))) @
          concat (map (\<lambda>j. frame_line j (the (frames m) ! j)) [0..<unat (frame_count m)]),
          app_err = [], app_code = 0\<rparr>
    | Err (status, _) \<Rightarrow> Ok \<lparr>app_out = [], app_err = ''parse failed: '' @ ipmb_status_string status @ newline, app_code = 1\<rparr>
    | Fault u \<Rightarrow> Fault u) \<and> no_fault (parse_main alf al [prog, path] files)"
proof (cases "ipmb_parse_message al buf")
  case (Ok m)
  then obtain fs where fs: "frames m = Some fs" "length fs = unat (frame_count m)"
    by (auto simp: parse_message_Ok message_wf_eq)
  from risk_loop_sum [OF fs, of 0 0] frame_lines_concat [OF fs, of 0] fs Ok assms show ?thesis
    by (simp add: parse_main_def ipmb_security_risk_score_def discard_def)
next
  case (Err e)
  with assms show ?thesis by (cases e) (simp add: parse_main_def)
next
  case (Fault u)
  with parse_message_no_fault [of al buf] show ?thesis by simp
qed

lemma parse_main_outcome_witness:
  "\<exists>out. parse_main (\<lambda>_. True) (\<lambda>_. True) [''ipmb-parse'', ''m''] [''m'' \<mapsto> regular_file (message_image sample_message)] =
     Ok \<lparr>app_out = out, app_err = [], app_code = 0\<rparr>"
  using parse_main_outcome [of "\<lambda>_. True" "[''m'' \<mapsto> regular_file (message_image sample_message)]" "''m''"
      "message_image sample_message" "\<lambda>_. True" "''ipmb-parse''"] sample_parses by auto

end
