(* ===== verification/Vm_Verifier.thy ===== *)
theory Vm_Verifier
  imports Rule_Compiler
begin

text \<open>
  A static check of rule code.  Every cell of the machine's stack carries a tag, \<open>is_bool\<close>,
  which the code of \<^verbatim>\<open>src/routing/route_vm.c\<close> writes with every value; the tags of the stack, its
  top first, are its type.  \<open>vm_infer\<close> runs code on types alone.  The lemmas are those of a type
  system: an instruction keeps the stack and its type in step (preservation), well-typed code
  reaches its end (progress), and ill-typed code fails, on every frame.
\<close>

section \<open>Inference\<close>

definition infer_instr :: "byte list \<Rightarrow> byte \<Rightarrow> nat \<Rightarrow> bool list \<Rightarrow> (nat \<times> bool list) option" where
  "infer_instr code op pc ts =
    (if op = IPMB_OP_PUSH_INT then
       if pc + 4 \<le> length code \<and> length ts < 64 then Some (pc + 4, False # ts) else None
     else if op = IPMB_OP_LOAD_FIELD then
       if pc < length code \<and> length ts < 64 then Some (pc + 1, False # ts) else None
     else if op = IPMB_OP_RANGE then
       if 3 \<le> length ts \<and> length ts < 64 then Some (pc, True # True # drop 3 ts) else None
     else if op = IPMB_OP_NOT then
       if 1 \<le> length ts then Some (pc, True # drop 1 ts) else None
     else if op = IPMB_OP_FORWARD \<or> op = IPMB_OP_TAG then
       if pc < length code then Some (pc + (unat (code ! pc) + 1), ts) else None
     else if op \<in> {IPMB_OP_CMP_EQ, IPMB_OP_CMP_GT, IPMB_OP_CMP_LT, IPMB_OP_AND, IPMB_OP_OR} then
       if 2 \<le> length ts then Some (pc, True # drop 2 ts) else None
     else None)"

lemma infer_instr_pc: "infer_instr code op pc ts = Some (pc', ts') \<Longrightarrow> pc \<le> pc'"
  by (auto simp: infer_instr_def split: if_splits)

text \<open>The type of the stack at the end instruction.\<close>

function vm_infer :: "byte list \<Rightarrow> nat \<Rightarrow> bool list \<Rightarrow> bool list option" where
  "vm_infer code pc ts =
     (if pc < length code then
        if code ! pc = IPMB_OP_END then (if ts = [] then None else Some ts)
        else (case infer_instr code (code ! pc) (pc + 1) ts of
            None \<Rightarrow> None
          | Some (pc', ts') \<Rightarrow> vm_infer code pc' ts')
      else None)"
  by pat_completeness auto
termination
  by (relation "measure (\<lambda>(code, pc, ts). length code - pc)") (auto dest!: infer_instr_pc)

declare vm_infer.simps [simp del]

section \<open>Preservation\<close>

text \<open>The used part of the stack has the tags of its type, and a value tagged as a truth value
  is 0 or 1.\<close>

definition stack_typed :: "bool list \<Rightarrow> nat \<Rightarrow> ipmb_vm_value list \<Rightarrow> bool" where
  "stack_typed ts sp stack \<longleftrightarrow> length stack = 64 \<and> sp \<le> 64 \<and>
     map is_bool (take sp stack) = rev ts \<and> (\<forall>x \<in> set (take sp stack). is_bool x \<longrightarrow> vi x \<in> {0, 1})"

lemma stack_typed_length: "stack_typed ts sp stack \<Longrightarrow> length ts = sp"
  unfolding stack_typed_def by (metis length_map length_rev length_take min.absorb2)

lemma stack_typed_drop:
  assumes "stack_typed ts sp stack" "n \<le> sp"
  shows "stack_typed (drop n ts) (sp - n) stack"
proof -
  have "map is_bool (take (sp - n) stack) = take (sp - n) (map is_bool (take sp stack))"
    by (simp add: take_map min_def)
  also have "\<dots> = rev (drop n ts)"
    using assms stack_typed_length [OF assms(1)] by (simp add: stack_typed_def rev_drop)
  finally show ?thesis
    using assms set_take_subset_set_take [of "sp - n" sp stack] by (auto simp: stack_typed_def)
qed

lemma stack_typed_push:
  assumes "stack_typed ts sp stack" "sp < 64" "is_bool x \<Longrightarrow> vi x \<in> {0, 1}"
  shows "stack_typed (is_bool x # ts) (Suc sp) (stack[sp := x])"
  using assms by (auto simp: stack_typed_def take_Suc_conv_app_nth)


lemma c_bool_tagged: "c_bool b \<in> {0, 1}"
  by (simp add: c_bool_def)

definition typed_as ::
  "(ipmb_status, vm_state + bool) res \<Rightarrow> (nat \<times> bool list) option \<Rightarrow> bool" where
  "typed_as m t = (case t of
      None \<Rightarrow> m = Err IPMB_ERR_EVAL
    | Some (pc', ts') \<Rightarrow> \<exists>stack'. m = Ok (Inl (pc', length ts', stack')) \<and> stack_typed ts' (length ts') stack')"

lemma typed_as_simps [simp]:
  "typed_as m None \<longleftrightarrow> m = Err IPMB_ERR_EVAL"
  "typed_as m (Some (pc', ts')) \<longleftrightarrow>
     (\<exists>stack'. m = Ok (Inl (pc', length ts', stack')) \<and> stack_typed ts' (length ts') stack')"
  by (simp_all add: typed_as_def)

lemma typed_push:
  assumes "stack_typed ts sp stack" "op = IPMB_OP_PUSH_INT \<or> op = IPMB_OP_LOAD_FIELD"
  shows "typed_as (vm_body code frame op pc sp stack) (infer_instr code op pc ts)"
proof -
  have len: "length ts = sp" "length stack = 64"
    using stack_typed_length [OF assms(1)] assms(1) by (simp_all add: stack_typed_def)
  have "stack_typed (False # ts) (Suc sp) (stack[sp := \<lparr>vi = v, is_bool = False\<rparr>])" if "sp < 64" for v
    using stack_typed_push [OF assms(1) that, of "\<lparr>vi = v, is_bool = False\<rparr>"] by simp
  with assms(2) len show ?thesis
    by (elim disjE) (simp_all add: vm_body_def infer_instr_def opcodes put_def rd8_def ipmb_load_le32_def)
qed

lemma typed_binary:
  assumes "stack_typed ts sp stack"
    and "op = IPMB_OP_CMP_EQ \<or> op = IPMB_OP_CMP_GT \<or> op = IPMB_OP_CMP_LT \<or> op = IPMB_OP_AND \<or> op = IPMB_OP_OR"
  shows "typed_as (vm_body code frame op pc sp stack) (infer_instr code op pc ts)"
proof -
  have len: "length ts = sp" "length stack = 64" "sp \<le> 64"
    using stack_typed_length [OF assms(1)] assms(1) by (simp_all add: stack_typed_def)
  show ?thesis
  proof (cases "sp < 2")
    case True
    with assms(2) len show ?thesis
      by (elim disjE) (simp_all add: vm_body_def infer_instr_def opcodes)
  next
    case False
    then obtain n where n: "sp = Suc (Suc n)" by (cases sp; cases "sp - 1") auto
    then have "stack_typed (True # drop 2 ts) (Suc n) (stack[n := \<lparr>vi = c_bool b, is_bool = True\<rparr>])" for b
      using stack_typed_push [OF stack_typed_drop [OF assms(1), of 2], of "\<lparr>vi = c_bool b, is_bool = True\<rparr>"]
        len(3) c_bool_tagged [of b] by simp
    with assms(2) len n show ?thesis
      by (elim disjE) (simp_all add: vm_body_def infer_instr_def opcodes put_def rd8_def)
  qed
qed

lemma typed_range:
  assumes "stack_typed ts sp stack"
  shows "typed_as (vm_body code frame IPMB_OP_RANGE pc sp stack) (infer_instr code IPMB_OP_RANGE pc ts)"
proof -
  have len: "length ts = sp" "length stack = 64" "sp \<le> 64"
    using stack_typed_length [OF assms(1)] assms(1) by (simp_all add: stack_typed_def)
  show ?thesis
  proof (cases "sp < 3")
    case True
    with len show ?thesis by (simp add: vm_body_def infer_instr_def opcodes)
  next
    case False
    then obtain n where n: "sp = Suc (Suc (Suc n))" by (cases sp; cases "sp - 1"; cases "sp - 2") auto
    then have "stack_typed (True # drop 3 ts) (Suc n) (stack[n := \<lparr>vi = c_bool a, is_bool = True\<rparr>])" for a
      using stack_typed_push [OF stack_typed_drop [OF assms, of 3], of "\<lparr>vi = c_bool a, is_bool = True\<rparr>"]
        len(3) c_bool_tagged [of a] by simp
    then have "stack_typed (True # True # drop 3 ts) (Suc (Suc n))
        (stack[n := \<lparr>vi = c_bool a, is_bool = True\<rparr>, Suc n := \<lparr>vi = c_bool b, is_bool = True\<rparr>])" for a b
      using stack_typed_push [of "True # drop 3 ts" "Suc n" _ "\<lparr>vi = c_bool b, is_bool = True\<rparr>"]
        n len(3) c_bool_tagged [of b] by simp
    with len n show ?thesis
      by (simp add: vm_body_def infer_instr_def opcodes put_def rd8_def)
  qed
qed

lemma typed_not:
  assumes "stack_typed ts sp stack"
  shows "typed_as (vm_body code frame IPMB_OP_NOT pc sp stack) (infer_instr code IPMB_OP_NOT pc ts)"
proof -
  have len: "length ts = sp" "length stack = 64" "sp \<le> 64"
    using stack_typed_length [OF assms(1)] assms(1) by (simp_all add: stack_typed_def)
  show ?thesis
  proof (cases sp)
    case 0
    with len show ?thesis by (simp add: vm_body_def infer_instr_def opcodes)
  next
    case (Suc n)
    then have "stack_typed (True # drop 1 ts) (Suc n) (stack[n := \<lparr>vi = c_bool b, is_bool = True\<rparr>])" for b
      using stack_typed_push [OF stack_typed_drop [OF assms, of 1], of "\<lparr>vi = c_bool b, is_bool = True\<rparr>"]
        len(3) c_bool_tagged [of b] by simp
    with len Suc show ?thesis
      by (simp add: vm_body_def infer_instr_def opcodes put_def rd8_def)
  qed
qed

lemma vm_body_typed:
  assumes "stack_typed ts sp stack" "op \<noteq> IPMB_OP_END"
  shows "typed_as (vm_body code frame op pc sp stack) (infer_instr code op pc ts)"
proof -
  consider "op = IPMB_OP_PUSH_INT \<or> op = IPMB_OP_LOAD_FIELD"
    | "op = IPMB_OP_CMP_EQ \<or> op = IPMB_OP_CMP_GT \<or> op = IPMB_OP_CMP_LT \<or> op = IPMB_OP_AND \<or> op = IPMB_OP_OR"
    | "op = IPMB_OP_RANGE" | "op = IPMB_OP_NOT" | "op = IPMB_OP_FORWARD \<or> op = IPMB_OP_TAG"
    | "op \<notin> {IPMB_OP_PUSH_INT, IPMB_OP_LOAD_FIELD, IPMB_OP_CMP_EQ, IPMB_OP_CMP_GT, IPMB_OP_CMP_LT, IPMB_OP_AND,
        IPMB_OP_OR, IPMB_OP_RANGE, IPMB_OP_NOT, IPMB_OP_FORWARD, IPMB_OP_TAG}"
    by blast
  then show ?thesis
  proof cases
    case 1 with assms(1) show ?thesis by (rule typed_push)
  next
    case 2 with assms(1) show ?thesis by (rule typed_binary)
  next
    case 3 with typed_range [OF assms(1)] show ?thesis by simp
  next
    case 4 with typed_not [OF assms(1)] show ?thesis by simp
  next
    case 5
    with assms(1) stack_typed_length [OF assms(1)] show ?thesis
      by (elim disjE) (simp_all add: vm_body_def infer_instr_def opcodes rd8_def)
  next
    case 6
    then have "infer_instr code op pc ts = None" by (simp add: infer_instr_def)
    moreover have "vm_body code frame op pc sp stack = Err IPMB_ERR_EVAL"
      using 6 assms(2) by (simp add: vm_body_def)
    ultimately show ?thesis by simp
  qed
qed


section \<open>Progress\<close>

lemma vm_loop_typed:
  "stack_typed ts sp stack \<Longrightarrow>
   (case vm_infer code pc ts of
      None \<Rightarrow> vm_loop code frame pc sp stack = Err IPMB_ERR_EVAL
    | Some ts' \<Rightarrow> \<exists>b. vm_loop code frame pc sp stack = Ok b)"
proof (induction code pc ts arbitrary: sp stack rule: vm_infer.induct)
  case (1 code pc ts)
  have len: "length ts = sp" "length stack = 64" "sp \<le> 64"
    using stack_typed_length [OF "1.prems"] "1.prems" by (simp_all add: stack_typed_def)
  consider "\<not> pc < length code" | "pc < length code" "code ! pc = IPMB_OP_END"
    | "pc < length code" "code ! pc \<noteq> IPMB_OP_END" by blast
  then show ?case
  proof cases
    case 1 then show ?thesis by (simp add: vm_infer.simps [of code pc] vm_loop.simps [of code frame pc])
  next
    case 2
    with len show ?thesis
      by (cases ts) (simp_all add: vm_infer.simps [of code pc] vm_loop.simps [of code frame pc] rd8_def vm_body_def opcodes)
  next
    case 3
    note typed = vm_body_typed [OF "1.prems" 3(2), of code frame "pc + 1"]
    show ?thesis
    proof (cases "infer_instr code (code ! pc) (pc + 1) ts")
      case None
      with typed 3 show ?thesis
        by (simp add: vm_infer.simps [of code pc] vm_loop.simps [of code frame pc] rd8_def)
    next
      case (Some t)
      then obtain pc' ts' where t: "infer_instr code (code ! pc) (pc + 1) ts = Some (pc', ts')" by (cases t) auto
      with typed obtain stack' where body:
          "vm_body code frame (code ! pc) (pc + 1) sp stack = Ok (Inl (pc', length ts', stack'))"
          "stack_typed ts' (length ts') stack'"
        by auto
      from "1.IH" [OF 3 t refl body(2)] 3 t body(1) show ?thesis
        by (simp add: vm_infer.simps [of code pc] vm_loop.simps [of code frame pc] rd8_def split: option.splits)
    qed
  qed
qed

lemma stack_typed_empty: "stack_typed [] 0 (replicate 64 x)"
  by (simp add: stack_typed_def)

lemma infer_compiled:
  "vm_infer (assemble (rule_instrs a)) 0 [] = Some [True]"
  by (cases "rule_op a")
    (simp_all add: rule_instrs_def assemble_def le32_bytes_def vm_infer.simps infer_instr_def opcodes)

section \<open>Properties\<close>

text \<open>C8: The type system of rule code is sound and complete.  For any bytes, well-typed code is
  answered on every frame, and code that does not type-check is refused with
  \<^verbatim>\<open>IPMB_ERR_EVAL\<close> on every frame: whether a rule can be evaluated never depends on the
  message.  The compiler only produces code whose final stack is a single truth value.\<close>

theorem vm_infer_decides:
  "(case vm_infer code 0 [] of
      None \<Rightarrow> ipmb_vm_evaluate code frame = Err IPMB_ERR_EVAL
    | Some ts \<Rightarrow> \<exists>b. ipmb_vm_evaluate code frame = Ok b) \<and>
   (case ipmb_rule_compile al a of Ok bc \<Rightarrow> vm_infer bc 0 [] = Some [True] | _ \<Rightarrow> True)"
  using vm_loop_typed [OF stack_typed_empty [of "\<lparr>vi = 0, is_bool = False\<rparr>"],
      where code = code and pc = 0 and frame = frame]
  by (simp add: ipmb_vm_evaluate_def compile_outcome infer_compiled split: option.splits)

end
