(* ===== verification/Test_Support.thy ===== *)
theory Test_Support
  imports Frame_Reader Journal Telemetry_Extractor
begin

text \<open>
  The message builder of the test suite, \<^verbatim>\<open>tests/support/message_builder.c\<close>: three functions that
  write a telemetry batch, a message and a journal byte by byte into a zeroed block.  The lemmas
  say that what they build is the wire image of a message (a batch, a journal) of the formats
  the parsers are verified against.
\<close>

section \<open>The code\<close>

text \<open>The eight rounds of the loop, from round \<open>i\<close> on.\<close>

fun store_le64_loop :: "byte cells \<Rightarrow> nat \<Rightarrow> 64 word \<Rightarrow> nat \<Rightarrow> nat \<Rightarrow> ('e, byte cells) res" where
  "store_le64_loop p off v i 0 = Ok p"
| "store_le64_loop p off v i (Suc n) =
     rbind (store_cells p (off + i) [ucast (drop_bit (i * 8) v AND 0xff)]) (\<lambda>p.
       store_le64_loop p off v (i + 1) n)"

definition store_le64 :: "byte cells \<Rightarrow> nat \<Rightarrow> 64 word \<Rightarrow> ('e, byte cells) res" where
  "store_le64 p off v = store_le64_loop p off v 0 8"

text \<open>\<^verbatim>\<open>NULL\<close> for the payload comes with the length 0: the empty list.\<close>

definition put_record ::
  "byte cells \<Rightarrow> nat \<Rightarrow> byte \<Rightarrow> 32 word \<Rightarrow> 32 word \<Rightarrow> byte list \<Rightarrow> ('e, byte cells \<times> nat) res" where
  "put_record buf pos t sid peer data =
     rbind (store_cells buf pos [t]) (\<lambda>buf.
     let pos = pos + 1 in
     rbind (ipmb_store_le32 buf pos sid) (\<lambda>buf.
     let pos = pos + 4 in
     rbind (ipmb_store_le32 buf pos peer) (\<lambda>buf.
     let pos = pos + 4 in
     rbind (ipmb_store_le16 buf pos (of_nat (length data))) (\<lambda>buf.
     let pos = pos + 2 in
     rbind (if length data \<noteq> 0 then store_cells buf pos data else Ok buf) (\<lambda>buf.
       Ok (buf, pos + length data))))))"

text \<open>The builders return the block as the bytes in it; a null result is the error \<open>()\<close>.\<close>

definition ipmb_test_make_telemetry :: "allocs \<Rightarrow> (unit, byte list) res" where
  "ipmb_test_make_telemetry al =
     (let len = 20; name = ascii ''temp''; val = [0x2a] in
      rbind (alloc al 0 ()) (\<lambda>_.
      rbind (store_cells (calloc_cells 0 len) 0 (ascii ''ITLM'')) (\<lambda>buf.
      rbind (ipmb_store_le16 buf 4 3) (\<lambda>buf.
      rbind (ipmb_store_le16 buf 6 1) (\<lambda>buf.
      rbind (store_cells buf 8 [1]) (\<lambda>buf.
      rbind (ipmb_store_le16 buf 9 (of_nat (length name))) (\<lambda>buf.
      rbind (store_cells buf 11 name) (\<lambda>buf.
      rbind (ipmb_store_le32 buf 15 (of_nat (length val))) (\<lambda>buf.
      rbind (store_cells buf 19 val) (\<lambda>buf.
        load_cells buf 0 len))))))))))"

definition ipmb_test_make_message :: "allocs \<Rightarrow> (unit, byte list) res" where
  "ipmb_test_make_message al =
     rbind (ipmb_test_make_telemetry al) (\<lambda>data.
     let payload_len = length data; len = 28 + 20 + payload_len + 4; frame = 28 in
     rbind (alloc al 1 ()) (\<lambda>_.
     rbind (store_cells (calloc_cells 0 len) 0 (ascii ''IPMB'')) (\<lambda>buf.
     rbind (ipmb_store_le16 buf 4 1) (\<lambda>buf.
     rbind (ipmb_store_le16 buf 6 0) (\<lambda>buf.
     rbind (ipmb_store_le32 buf 8 1) (\<lambda>buf.
     rbind (store_le64 buf 12 0x0102030405060708) (\<lambda>buf.
     rbind (ipmb_store_le32 buf 20 77) (\<lambda>buf.
     rbind (load_cells buf 0 24) (\<lambda>header.
     rbind (ipmb_store_le32 buf 24 (ipmb_crc32 header)) (\<lambda>buf.
     rbind (ipmb_store_le16 buf frame 0x22) (\<lambda>buf.
     rbind (ipmb_store_le16 buf (frame + 2) 0) (\<lambda>buf.
     rbind (ipmb_store_le32 buf (frame + 4) (of_nat payload_len)) (\<lambda>buf.
     rbind (ipmb_store_le32 buf (frame + 8) 100) (\<lambda>buf.
     rbind (ipmb_store_le32 buf (frame + 12) 200) (\<lambda>buf.
     rbind (ipmb_store_le16 buf (frame + 16) 5) (\<lambda>buf.
     rbind (ipmb_store_le16 buf (frame + 18) 64) (\<lambda>buf.
     rbind (store_cells buf (frame + 20) data) (\<lambda>buf.
     rbind (load_cells buf frame (20 + payload_len)) (\<lambda>body.
     rbind (ipmb_store_le32 buf (frame + 20 + payload_len) (ipmb_crc32 body)) (\<lambda>buf.
       load_cells buf 0 len))))))))))))))))))))"

definition ipmb_test_make_journal :: "allocs \<Rightarrow> (unit, byte list) res" where
  "ipmb_test_make_journal al =
     (let state = ascii ''abc''; len = 8 + 11 + length state + 11 + 11 in
      rbind (alloc al 0 ()) (\<lambda>_.
      rbind (store_cells (calloc_cells 0 len) 0 (ascii ''IJRN'')) (\<lambda>buf.
      rbind (ipmb_store_le16 buf 4 1) (\<lambda>buf.
      rbind (ipmb_store_le16 buf 6 3) (\<lambda>buf.
      rbind (put_record buf 8 1 7 99 state) (\<lambda>(buf, pos).
      rbind (put_record buf pos 5 7 99 []) (\<lambda>(buf, pos).
      rbind (put_record buf pos 2 7 99 []) (\<lambda>(buf, pos).
        load_cells buf 0 len))))))))"

section \<open>What they build\<close>

text \<open>\<open>zeroed ws n\<close>: a zeroed block whose first bytes are written and whose last \<open>n\<close> are not.  The
  builders write their blocks from the front to the back.\<close>

definition zeroed :: "byte list \<Rightarrow> nat \<Rightarrow> byte cells" where
  "zeroed ws n = map Some ws @ replicate n (Some 0)"

lemma calloc_zeroed: "calloc_cells 0 n = zeroed [] n"
  by (simp add: zeroed_def calloc_cells_def)

lemma store_zeroed:
  "pos = length ws \<Longrightarrow> length xs \<le> n \<Longrightarrow> store_cells (zeroed ws n) pos xs = Ok (zeroed (ws @ xs) (n - length xs))"
  by (simp add: store_cells_def zeroed_def)

lemma load_zeroed:
  "pos + n \<le> length ws \<Longrightarrow> load_cells (zeroed ws k) pos n = Ok (take n (drop pos ws))"
  by (simp add: load_cells_def zeroed_def take_map drop_map)

lemma store_le64_zeroed:
  assumes "pos = length ws" "8 \<le> n"
  shows "store_le64 (zeroed ws n) pos v = Ok (zeroed (ws @ le64_bytes v) (n - 8))"
proof -
  have le64: "le64_bytes v = map (\<lambda>i. ucast (drop_bit (i * 8) v AND 0xff)) [0..<8]"
    by (simp add: le64_bytes_def le32_bytes_def upt_conv_Cons, intro conjI)
      (rule bit_word_eqI, auto simp: and_ff bit_simps)+
  have loop: "i + k = 8 \<Longrightarrow> store_le64_loop (zeroed (ws @ map f [0..<i]) (n - i)) pos v i k =
      Ok (zeroed (ws @ map f [0..<8]) (n - 8))" if "f = (\<lambda>i. ucast (drop_bit (i * 8) v AND 0xff))" for f i k
  proof (induction k arbitrary: i)
    case (Suc k)
    then have "n - i = Suc (n - Suc i)" using assms(2) by simp
    with Suc.IH [of "Suc i"] Suc.prems assms(1) that show ?case
      by (simp add: store_zeroed)
  qed simp
  from loop [OF refl, of 0 8] show ?thesis unfolding le64 store_le64_def by simp
qed

lemmas zeroed_simps = alloc_def calloc_zeroed store_zeroed load_zeroed store_le64_zeroed ipmb_store_le16_def
  ipmb_store_le32_def Let_def

definition test_batch :: ipmb_telemetry_batch where
  "test_batch = \<lparr>schema = 3, point_count = 1,
     points = Some [\<lparr>ttype = 1, tname = ascii ''temp'' @ [0], tvalue = [0x2a]\<rparr>]\<rparr>"

lemma make_telemetry_image:
  "ipmb_test_make_telemetry al = (if al 0 then Ok (batch_image test_batch) else Err ())"
  by (simp add: ipmb_test_make_telemetry_def zeroed_simps test_batch_def batch_image_def point_image_def)

definition test_frame :: ipmb_frame where
  "test_frame = (let f = \<lparr>frame_type = 0x22, frame_flags = 0, source_addr = 100, dest_addr = 200,
     priority = 5, ttl = 64, payload = batch_image test_batch, payload_len = 20, crc = 0\<rparr> in f\<lparr>crc := ipmb_crc32 (frame_body f)\<rparr>)"

definition test_message :: ipmb_message where
  "test_message = \<lparr>version = 1, flags = 0, session_id = 0x0102030405060708, sequence = 77,
     frame_count = 1, frames = Some [test_frame]\<rparr>"

lemma length_test_batch: "length (batch_image test_batch) = 20"
  by (simp add: test_batch_def batch_image_def point_image_def)

lemma test_message_wf: "message_wf test_message"
  by (simp add: message_wf_eq test_message_def frame_wf_def test_frame_def frame_body_def
      IPMB_MAX_FRAMES_def IPMB_MAX_PAYLOAD_def length_test_batch)

lemma make_message_image:
  "ipmb_test_make_message al = (if al 0 \<and> al 1 then Ok (message_image test_message) else Err ())"
  by (simp add: ipmb_test_make_message_def make_telemetry_image zeroed_simps length_test_batch
      message_image_def header_body_def frame_image_def frame_body_def test_message_def test_frame_def)


lemma put_record_zeroed:
  assumes "pos = length ws" "11 + length data \<le> n" "x = \<lparr>jtype = t, jsession_id = sid, jpeer_id = peer, jpayload = data\<rparr>"
  shows "put_record (zeroed ws n) pos t sid peer data =
    Ok (zeroed (ws @ record_image x) (n - (11 + length data)), pos + (11 + length data))"
  using assms by (simp add: put_record_def zeroed_simps record_image_def)

definition test_journal :: ipmb_journal where
  "test_journal = \<lparr>jversion = 1, record_count = 3, records = Some
     [\<lparr>jtype = 1, jsession_id = 7, jpeer_id = 99, jpayload = ascii ''abc''\<rparr>,
      \<lparr>jtype = 5, jsession_id = 7, jpeer_id = 99, jpayload = []\<rparr>,
      \<lparr>jtype = 2, jsession_id = 7, jpeer_id = 99, jpayload = []\<rparr>]\<rparr>"

lemma length_record_image [simp]: "length (record_image x) = 11 + length (jpayload x)"
  by (simp add: record_image_def)

lemma test_journal_wf: "journal_wf test_journal"
  by (simp add: journal_wf_def test_journal_def)

lemma test_batch_wf: "batch_wf test_batch"
  by (simp add: batch_wf_def test_batch_def point_wf_def butlast_append)

lemma make_journal_image:
  "ipmb_test_make_journal al = (if al 0 then Ok (journal_image test_journal) else Err ())"
  by (simp add: ipmb_test_make_journal_def zeroed_simps put_record_zeroed [OF _ _ refl]
      journal_image_def test_journal_def)

section \<open>Properties\<close>

text \<open>The builders of the test suite write the wire formats: when memory is available, what they
  build is the image of a well-formed telemetry batch, message and journal, which the parsers
  read back field by field; when it is not, they return null.\<close>

theorem builders_parse:
  "(case ipmb_test_make_telemetry al of
      Ok bytes \<Rightarrow> ipmb_extract_telemetry (\<lambda>_. True) bytes = Ok test_batch | Err _ \<Rightarrow> \<not> al 0 | Fault u \<Rightarrow> False) \<and>
   (case ipmb_test_make_message al of
      Ok bytes \<Rightarrow> ipmb_parse_message (\<lambda>_. True) bytes = Ok test_message | Err _ \<Rightarrow> \<not> al 0 \<or> \<not> al 1 | Fault u \<Rightarrow> False) \<and>
   (case ipmb_test_make_journal al of
      Ok bytes \<Rightarrow> ipmb_journal_parse (\<lambda>_. True) bytes = Ok test_journal | Err _ \<Rightarrow> \<not> al 0 | Fault u \<Rightarrow> False)"
  by (simp add: make_telemetry_image make_message_image make_journal_image
      batch_parse_Ok test_batch_wf parse_message_Ok test_message_wf journal_parse_Ok test_journal_wf)

end
