(* ===== verification/Test_Suite.thy ===== *)
theory Test_Suite
  imports Test_Support Rule_Parser Rule_Compiler Field_Decoder Transport_Layer Match_Table Checkpoint_Store
    Ring_Window Replay_Engine Rle_Codec Delta_Codec Bitstream Storage Telemetry_Buffers Diagnostics
begin

text \<open>
  The test suite of the repository, \<^verbatim>\<open>tests/unit\<close>, \<^verbatim>\<open>tests/integration\<close> and \<^verbatim>\<open>tests/test_main.c\<close>, run
  on the model of the library: every assertion of every test is a check of this theory, in the
  order of the source.  \<open>als k\<close> are the allocations of the \<open>k\<close>-th call of a test that allocates.
  A failed \<^verbatim>\<open>IPMB_ASSERT\<close> aborts the program: it is the error \<open>()\<close>.  A block a test owns is \<open>Live\<close> until
  the test frees it; using it or freeing it again after that is a fault.  The frees of library
  objects are calls of their models.  The lemmas at the end evaluate the tests on the model.
\<close>

section \<open>The test framework\<close>

definition ipmb_assert :: "bool \<Rightarrow> (unit, unit) res" where
  "ipmb_assert b = guard b ()"

text \<open>\<^verbatim>\<open>IPMB_ASSERT(call == IPMB_OK)\<close> and \<^verbatim>\<open>IPMB_ASSERT(call == status)\<close> for an error status.\<close>

definition assert_ok :: "('e, 'a) res \<Rightarrow> (unit, 'a) res" where
  "assert_ok m = or_fail m ()"

definition assert_status :: "ipmb_status \<Rightarrow> (ipmb_status \<times> 's, 'a) res \<Rightarrow> (unit, 's) res" where
  "assert_status status m = (case m of
      Ok x \<Rightarrow> Err () | Err (s, x) \<Rightarrow> (if s = status then Ok x else Err ()) | Fault u \<Rightarrow> Fault u)"

text \<open>\<^verbatim>\<open>IPMB_ASSERT(p != NULL)\<close>, with the value behind \<^verbatim>\<open>p\<close>; an access through null after it.\<close>

definition assert_some :: "'a option \<Rightarrow> (unit, 'a) res" where
  "assert_some p = (case p of None \<Rightarrow> Err () | Some x \<Rightarrow> Ok x)"

definition non_null :: "'a option \<Rightarrow> (unit, 'a) res" where
  "non_null p = (case p of None \<Rightarrow> Fault Null_deref | Some x \<Rightarrow> Ok x)"

text \<open>A block that a test has to free.\<close>

datatype 'a block = Live 'a | Freed

fun use_block :: "'a block \<Rightarrow> (unit, 'a) res" where
  "use_block (Live x) = Ok x"
| "use_block Freed = Fault Use_after_free"

fun free_block :: "'a block \<Rightarrow> (unit, 'a block) res" where
  "free_block (Live x) = Ok Freed"
| "free_block Freed = Fault Double_free"

text \<open>\<^verbatim>\<open>p = call; IPMB_ASSERT(p != NULL)\<close> for a builder.\<close>

definition owned :: "(unit, 'a) res \<Rightarrow> (unit, 'a block) res" where
  "owned m = rbind m (\<lambda>x. Ok (Live x))"

text \<open>\<^verbatim>\<open>strcmp(block, text) == 0\<close>.\<close>

fun strcmp_eq :: "byte list \<Rightarrow> byte list \<Rightarrow> (unit, bool) res" where
  "strcmp_eq [] s = Fault Oob_read"
| "strcmp_eq (b # bs) [] = Ok (b = 0)"
| "strcmp_eq (b # bs) (c # s) = (if b = c then strcmp_eq bs s else Ok False)"

text \<open>\<^verbatim>\<open>memcmp(block, bytes, n) == 0\<close> on an allocated block.\<close>

definition memcmp_eq :: "byte cells \<Rightarrow> byte list \<Rightarrow> (unit, bool) res" where
  "memcmp_eq b xs = rbind (load_cells b 0 (length xs)) (\<lambda>ys. Ok (ys = xs))"

section \<open>Unit tests\<close>

definition ipmb_test_protocol :: "(nat \<Rightarrow> allocs) \<Rightarrow> (unit, int) res" where
  "ipmb_test_protocol als =
     rbind (owned (ipmb_test_make_message (als 0))) (\<lambda>msg_bytes.
     rbind (use_block msg_bytes) (\<lambda>bytes.
     rbind (assert_ok (ipmb_parse_message (als 1) bytes)) (\<lambda>msg.
     rbind (ipmb_assert (version msg = 1)) (\<lambda>_.
     rbind (ipmb_assert (sequence msg = 77)) (\<lambda>_.
     rbind (ipmb_assert (frame_count msg = 1)) (\<lambda>_.
     rbind (ipmb_message_first_frame (Some msg) 0x22) (\<lambda>p.
     rbind (assert_some p) (\<lambda>frame.
     rbind (ipmb_assert (source_addr frame = 100)) (\<lambda>_.
     rbind (ipmb_assert (dest_addr frame = 200)) (\<lambda>_.
     rbind (ipmb_assert (payload_len frame = 20)) (\<lambda>_.
     rbind (assert_ok (ipmb_security_risk_score (Some msg))) (\<lambda>risk.
     rbind (ipmb_assert (risk = 0)) (\<lambda>_.
     let msg = ipmb_message_free msg in
     rbind (free_block msg_bytes) (\<lambda>msg_bytes.
     let map_payload = ascii ''RMAP'' @ [0x34, 0x12, 0, 0, 1, 0, 0, 0, 2, 0, 0xaa, 0xbb] in
     rbind (assert_ok (ipmb_decode_register_map (als 2) map_payload)) (\<lambda>map.
     rbind (ipmb_assert (map_id map = 0x1234)) (\<lambda>_.
     rbind (ipmb_assert (field_count map = 1)) (\<lambda>_.
     rbind (non_null (map_fields map)) (\<lambda>fields.
     rbind (rd8 fields 0) (\<lambda>field.
     rbind (ipmb_assert (rf_length field = 2)) (\<lambda>_.
     rbind (rd8 (rf_bytes field) 0) (\<lambda>b0.
     rbind (ipmb_assert (b0 = 0xaa)) (\<lambda>_.
     rbind (rd8 (rf_bytes field) 1) (\<lambda>b1.
     rbind (ipmb_assert (b1 = 0xbb)) (\<lambda>_.
     let map = ipmb_register_map_free map;
         frag_payload = ascii ''IFRG'' @ [5, 0, 0, 0, 2, 0, 0, 0, 0, 0, 2, 0, 0, 0] @ ascii ''he'' @
             [2, 0, 0, 0, 3, 0, 0, 0] @ ascii ''llo'' in
     rbind (assert_ok (ipmb_parse_fragment_payload (als 3) frag_payload)) (\<lambda>(cells, assembled_len).
     let assembled = Live cells in
     rbind (ipmb_assert (assembled_len = 5)) (\<lambda>_.
     rbind (use_block assembled) (\<lambda>cells.
     rbind (memcmp_eq cells (ascii ''hello'')) (\<lambda>eq.
     rbind (ipmb_assert eq) (\<lambda>_.
     rbind (free_block assembled) (\<lambda>assembled.
       Ok 0))))))))))))))))))))))))))))))"

text \<open>The frame of the routing test has a null payload and a payload length of 20.  \<open>mv\<close> says whether the results of the match table move.\<close>

definition ipmb_test_routing :: "(nat \<Rightarrow> allocs) \<Rightarrow> (nat \<Rightarrow> bool) \<Rightarrow> (unit, int) res" where
  "ipmb_test_routing als mv =
    (let frame = \<lparr>frame_type = 0x22, frame_flags = 0, source_addr = 0, dest_addr = 0, priority = 12,
                  ttl = 64, payload = [], payload_len = 20, crc = 0\<rparr> in
     rbind (assert_ok (ipmb_rule_parse ''priority > 10 fast 15'')) (\<lambda>ast.
     rbind (ipmb_assert (rule_op ast = IPMB_RULE_CMP_GT)) (\<lambda>_.
     rbind (ipmb_assert (rule_priority ast = 15)) (\<lambda>_.
     rbind (assert_ok (ipmb_rule_compile (als 0) ast)) (\<lambda>bc.
     rbind (assert_ok (ipmb_vm_evaluate bc frame)) (\<lambda>matched.
     rbind (ipmb_assert matched) (\<lambda>_.
     rbind (assert_ok (ipmb_match_table_add (als 1) ipmb_match_table_init ''fast_lane'' 30 bc)) (\<lambda>table.
     let bc = ipmb_rule_bytecode_free bc in
     rbind (assert_ok (ipmb_rule_parse ''type = 153 slow 1'')) (\<lambda>ast.
     rbind (assert_ok (ipmb_rule_compile (als 2) ast)) (\<lambda>bc.
     rbind (assert_ok (ipmb_match_table_add (als 3) table ''wrong_type'' 100 bc)) (\<lambda>table.
     let bc = ipmb_rule_bytecode_free bc in
     rbind (assert_ok (ipmb_match_table_evaluate (als 4) mv table frame)) (\<lambda>result.
     rbind (ipmb_assert (result_name result = ''fast_lane'')) (\<lambda>_.
     rbind (ipmb_assert (result_priority result = 30)) (\<lambda>_.
     rbind (ipmb_assert (result_score result = 42)) (\<lambda>_.
     let table = ipmb_match_table_free table in
       Ok 0)))))))))))))))"


text \<open>The entry the search finds is read in the memory of the tracker.\<close>

definition ipmb_test_session :: "(nat \<Rightarrow> allocs) \<Rightarrow> (unit, int) res" where
  "ipmb_test_session als =
    (let first = [1, 2]; second = [3, 4] in
     rbind (assert_ok (ipmb_session_upsert (als 0) ipmb_session_tracker_init 42 7 first)) (\<lambda>tracker.
     rbind (assert_ok (ipmb_session_upsert (als 1) tracker 42 7 second)) (\<lambda>tracker.
     rbind (assert_ok (ipmb_session_find tracker 42)) (\<lambda>p.
     rbind (assert_some p) (\<lambda>entry.
     rbind (deref (t_heap tracker) entry) (\<lambda>e.
     rbind (ipmb_assert (e_updates e = 2)) (\<lambda>_.
     rbind (ipmb_assert (length (e_state e) = 4)) (\<lambda>_.
     rbind (rd_bytes (e_state e) 0 4) (\<lambda>bytes.
     rbind (ipmb_assert (bytes = [1, 2, 3, 4])) (\<lambda>_.
     rbind (assert_ok (ipmb_state_snapshot_capture (Some e))) (\<lambda>snapshot.
     rbind (ipmb_assert (st_session_id snapshot = 42)) (\<lambda>_.
     rbind (ipmb_assert (st_state_len snapshot = 4)) (\<lambda>_.
     rbind (assert_ok (ipmb_session_terminate tracker 42)) (\<lambda>tracker.
     rbind (assert_ok (ipmb_session_find tracker 42)) (\<lambda>p.
     rbind (ipmb_assert (p = None)) (\<lambda>_.
     rbind (assert_ok (ipmb_session_tracker_free tracker)) (\<lambda>tracker.
     rbind (owned (ipmb_test_make_journal (als 2))) (\<lambda>journal_bytes.
     rbind (use_block journal_bytes) (\<lambda>bytes.
     rbind (assert_ok (ipmb_journal_parse (als 3) bytes)) (\<lambda>journal.
     rbind (ipmb_assert (jversion journal = 1)) (\<lambda>_.
     rbind (ipmb_assert (record_count journal = 3)) (\<lambda>_.
     rbind (non_null (records journal)) (\<lambda>rs.
     rbind (rd8 rs 0) (\<lambda>r.
     rbind (ipmb_assert (jtype r = IPMB_JOURNAL_ESTABLISH)) (\<lambda>_.
     rbind (ipmb_assert (length (jpayload r) = 3)) (\<lambda>_.
     rbind (rd_bytes (jpayload r) 0 3) (\<lambda>bytes.
     rbind (ipmb_assert (bytes = ascii ''abc'')) (\<lambda>_.
     let journal = ipmb_journal_free journal in
     rbind (free_block journal_bytes) (\<lambda>journal_bytes.
     rbind (assert_ok (ipmb_checkpoint_append (als 4) ipmb_checkpoint_store_init 10 first)) (\<lambda>store.
     rbind (assert_ok (ipmb_checkpoint_append (als 5) store 10 second)) (\<lambda>store.
     rbind (ipmb_assert (cp_count store = 1)) (\<lambda>_.
     rbind (rd8 (cp_items store) 0) (\<lambda>item.
     rbind (ipmb_assert (cp_used item = 4)) (\<lambda>_.
     rbind (assert_status IPMB_ERR_NOT_FOUND (ipmb_checkpoint_migrate (als 6) False store 99 100)) (\<lambda>store.
     let store = ipmb_checkpoint_store_free store in
     rbind (assert_ok (ipmb_ring_init (als 7) new_ring 3)) (\<lambda>s.
     rbind (assert_ok (ipmb_ring_append (als 8) s first)) (\<lambda>s.
     rbind (assert_ok (ipmb_ring_checkpoint (als 9) s)) (\<lambda>s.
     rbind (ipmb_assert (has_snapshot (ring s))) (\<lambda>_.
     rbind (assert_ok (ipmb_ring_advance (als 10) s second)) (\<lambda>s.
     rbind (ipmb_assert (segment_count (ring s) = 3)) (\<lambda>_.
     rbind (assert_ok (ipmb_ring_free s)) (\<lambda>s.
       Ok 0))))))))))))))))))))))))))))))))))))))))))"

text \<open>The samples are the bit patterns of 42.5 and 43.0.\<close>

definition ipmb_test_telemetry :: "(nat \<Rightarrow> allocs) \<Rightarrow> (unit, int) res" where
  "ipmb_test_telemetry als =
     rbind (owned (ipmb_test_make_telemetry (als 0))) (\<lambda>payload.
     rbind (use_block payload) (\<lambda>data.
     rbind (assert_ok (ipmb_extract_telemetry (als 1) data)) (\<lambda>batch.
     rbind (ipmb_assert (schema batch = 3)) (\<lambda>_.
     rbind (ipmb_assert (point_count batch = 1)) (\<lambda>_.
     rbind (non_null (points batch)) (\<lambda>ps.
     rbind (rd8 ps 0) (\<lambda>p.
     rbind (ipmb_assert (ttype p = 1)) (\<lambda>_.
     rbind (strcmp_eq (tname p) (ascii ''temp'')) (\<lambda>eq.
     rbind (ipmb_assert eq) (\<lambda>_.
     rbind (ipmb_assert (length (tvalue p) = 1)) (\<lambda>_.
     rbind (rd8 (tvalue p) 0) (\<lambda>v.
     rbind (ipmb_assert (v = 0x2a)) (\<lambda>_.
     let batch = ipmb_telemetry_batch_free batch in
     rbind (free_block payload) (\<lambda>payload.
     rbind (assert_ok (ipmb_timeseries_add (als 2) (1000, 0x4045400000000000) ipmb_timeseries_init)) (\<lambda>ts.
     rbind (assert_ok (ipmb_timeseries_add (als 3) (1001, 0x4045800000000000) ts)) (\<lambda>ts.
     rbind (ipmb_assert (ts_count ts = 2)) (\<lambda>_.
     rbind (load_cells (samples ts) 0 2) (\<lambda>xs.
     rbind (ipmb_assert (timestamp (xs ! 0) = 1000)) (\<lambda>_.
     rbind (ipmb_assert (sample_value (xs ! 1) = 0x4045800000000000)) (\<lambda>_.
     let ts = ipmb_timeseries_free ts in
     rbind (assert_ok (ipmb_sample_buffer_push (als 4) (ascii ''abc'') ipmb_sample_buffer_init)) (\<lambda>sample_buf.
     rbind (ipmb_assert (sb_used sample_buf = 3)) (\<lambda>_.
     rbind (memcmp_eq (sb_data sample_buf) (ascii ''abc'')) (\<lambda>eq.
     rbind (ipmb_assert eq) (\<lambda>_.
     let sample_buf = ipmb_sample_buffer_free sample_buf in
     rbind (assert_ok (ipmb_histogram_init (als 5) 4)) (\<lambda>hist.
     rbind (assert_ok (ipmb_histogram_add_sample hist (Some \<lparr>schema_bucket_count = 4, bin_offset = 0\<rparr>) 2)) (\<lambda>hist.
     rbind (ipmb_histogram_bin_incr hist 3) (\<lambda>hist.
     rbind (non_null (bins hist)) (\<lambda>bs.
     rbind (rd8 bs 2) (\<lambda>b2.
     rbind (ipmb_assert (b2 = 1)) (\<lambda>_.
     rbind (rd8 bs 3) (\<lambda>b3.
     rbind (ipmb_assert (b3 = 1)) (\<lambda>_.
     let hist = ipmb_histogram_free hist in
       Ok 0))))))))))))))))))))))))))))))))"

definition ipmb_test_codec :: "(nat \<Rightarrow> allocs) \<Rightarrow> (unit, int) res" where
  "ipmb_test_codec als =
    (let raw = ascii ''aaabbc'' in
     rbind (assert_ok (ipmb_rle_encode (als 0) raw)) (\<lambda>(cells, encoded_len).
     let encoded = Live cells in
     rbind (ipmb_assert (encoded_len > 4)) (\<lambda>_.
     rbind (use_block encoded) (\<lambda>cells.
     rbind (load_cells cells 0 encoded_len) (\<lambda>data.
     rbind (assert_ok (ipmb_rle_decode (als 1) data)) (\<lambda>(cells, decoded_len).
     let decoded = Live cells in
     rbind (ipmb_assert (decoded_len = length raw)) (\<lambda>_.
     rbind (use_block decoded) (\<lambda>cells.
     rbind (memcmp_eq cells raw) (\<lambda>eq.
     rbind (ipmb_assert eq) (\<lambda>_.
     rbind (free_block encoded) (\<lambda>encoded.
     rbind (free_block decoded) (\<lambda>decoded.
     rbind (assert_ok (ipmb_delta_encode (als 2) [10, 15, -2])) (\<lambda>(cells, encoded_len).
     let encoded = Live cells in
     rbind (use_block encoded) (\<lambda>cells.
     rbind (load_cells cells 0 encoded_len) (\<lambda>data.
     rbind (assert_ok (ipmb_delta_decode (als 3) data)) (\<lambda>(cells, value_count).
     let delta_values = Live cells in
     rbind (ipmb_assert (value_count = 3)) (\<lambda>_.
     rbind (use_block delta_values) (\<lambda>cells.
     rbind (load_cells cells 0 3) (\<lambda>vs.
     rbind (ipmb_assert (vs ! 0 = 10)) (\<lambda>_.
     rbind (ipmb_assert (vs ! 1 = 15)) (\<lambda>_.
     rbind (ipmb_assert (vs ! 2 = -2)) (\<lambda>_.
     rbind (free_block encoded) (\<lambda>encoded.
     rbind (free_block delta_values) (\<lambda>delta_values.
     rbind (assert_ok (ipmb_bitreader_read (ipmb_bitreader_init [0xac] 1) 4)) (\<lambda>(nibble, reader).
     rbind (ipmb_assert (nibble = 12)) (\<lambda>_.
     rbind (assert_ok (ipmb_bitreader_read reader 4)) (\<lambda>(nibble, reader).
     rbind (ipmb_assert (nibble = 10)) (\<lambda>_.
       Ok 0))))))))))))))))))))))))))))"


text \<open>\<open>rals i\<close> are the allocations of the replay for its record \<open>i\<close>.\<close>

definition ipmb_test_replay :: "(nat \<Rightarrow> allocs) \<Rightarrow> (nat \<Rightarrow> allocs) \<Rightarrow> (unit, int) res" where
  "ipmb_test_replay als rals =
     rbind (owned (ipmb_test_make_journal (als 0))) (\<lambda>journal_bytes.
     rbind (use_block journal_bytes) (\<lambda>bytes.
     rbind (assert_ok (ipmb_replay_bytes (als 1) rals bytes)) (\<lambda>summary.
     rbind (ipmb_assert (event_count summary = 3)) (\<lambda>_.
     rbind (ipmb_assert (summary_hash summary \<noteq> 0)) (\<lambda>_.
     rbind (free_block journal_bytes) (\<lambda>journal_bytes.
     rbind (assert_ok (ipmb_session_upsert (als 2) ipmb_session_tracker_init 55 9 (ascii ''state''))) (\<lambda>tracker.
     rbind (assert_ok (ipmb_event_log_snapshot (als 3) ipmb_event_log_init tracker)) (\<lambda>log.
     rbind (ipmb_assert (log_count log = 1)) (\<lambda>_.
     rbind (assert_ok (ipmb_event_log_summarize (t_heap tracker) log)) (\<lambda>h.
     rbind (ipmb_assert (h \<noteq> 0)) (\<lambda>_.
     let log = ipmb_event_log_free log in
     rbind (assert_ok (ipmb_session_tracker_free tracker)) (\<lambda>tracker.
       Ok 0))))))))))))"

section \<open>Integration tests\<close>

definition ipmb_test_full_pipeline :: "(nat \<Rightarrow> allocs) \<Rightarrow> (unit, int) res" where
  "ipmb_test_full_pipeline als =
     rbind (owned (ipmb_test_make_message (als 0))) (\<lambda>msg_bytes.
     rbind (use_block msg_bytes) (\<lambda>bytes.
     rbind (assert_ok (ipmb_parse_message (als 1) bytes)) (\<lambda>msg.
     rbind (ipmb_message_first_frame (Some msg) 0x22) (\<lambda>p.
     rbind (assert_some p) (\<lambda>frame.
     rbind (rd_bytes (payload frame) 0 (payload_len frame)) (\<lambda>bytes.
     rbind (assert_ok (ipmb_extract_telemetry (als 2) bytes)) (\<lambda>batch.
     rbind (non_null (points batch)) (\<lambda>ps.
     rbind (rd8 ps 0) (\<lambda>p.
     rbind (strcmp_eq (tname p) (ascii ''temp'')) (\<lambda>eq.
     rbind (ipmb_assert eq) (\<lambda>_.
     rbind (assert_ok (ipmb_rule_parse ''payload_len > 0 ingest 3'')) (\<lambda>ast.
     rbind (assert_ok (ipmb_rule_compile (als 3) ast)) (\<lambda>bc.
     rbind (assert_ok (ipmb_vm_evaluate bc frame)) (\<lambda>matched.
     rbind (ipmb_assert matched) (\<lambda>_.
     let bc = ipmb_rule_bytecode_free bc in
     rbind (rd_bytes (payload frame) 0 (payload_len frame)) (\<lambda>bytes.
     rbind (assert_ok (ipmb_storage_put (als 4) bytes ipmb_storage_init)) (\<lambda>(store, index).
     rbind (ipmb_assert (index = 0)) (\<lambda>_.
     rbind (ipmb_assert (st_count store = 1)) (\<lambda>_.
     rbind (load_cells (blocks store) 0 1) (\<lambda>bs.
     rbind (ipmb_assert (length (bs ! 0) = payload_len frame)) (\<lambda>_.
     let store = ipmb_storage_free store; batch = ipmb_telemetry_batch_free batch; msg = ipmb_message_free msg in
     rbind (free_block msg_bytes) (\<lambda>msg_bytes.
       Ok 0))))))))))))))))))))))"

text \<open>\<^verbatim>\<open>capture_diag\<close>; its own assertion is a third component, whether it held.\<close>

record diag_capture =
  calls :: "32 word"
  last_status :: ipmb_status
  asserted :: bool

definition capture_diag :: "ipmb_status \<Rightarrow> string \<Rightarrow> diag_capture \<Rightarrow> diag_capture" where
  "capture_diag status message capture =
     capture\<lparr>calls := calls capture + 1, last_status := status,
             asserted := asserted capture \<and> message = ''checked''\<rparr>"

definition ipmb_test_qc_scenarios :: "(nat \<Rightarrow> allocs) \<Rightarrow> (unit, int) res" where
  "ipmb_test_qc_scenarios als =
     rbind (ipmb_assert (ipmb_status_string IPMB_OK = ''ok'')) (\<lambda>_.
     rbind (ipmb_assert (ipmb_status_string IPMB_ERR_BAD_MAGIC = ''bad magic'')) (\<lambda>_.
     let capture = ipmb_diag_emit (Some capture_diag) \<lparr>calls = 0, last_status = IPMB_OK, asserted = True\<rparr>
           IPMB_ERR_INVALID ''checked'' in
     rbind (ipmb_assert (asserted capture)) (\<lambda>_.
     rbind (ipmb_assert (calls capture = 1)) (\<lambda>_.
     rbind (ipmb_assert (last_status capture = IPMB_ERR_INVALID)) (\<lambda>_.
     let bad_msg = ascii ''NOPE'' @ replicate 24 0 in
     rbind (assert_status IPMB_ERR_BAD_MAGIC (ipmb_parse_message (als 0) bad_msg)) (\<lambda>_.
     rbind (assert_ok (ipmb_storage_put (als 1) (ascii ''one'') ipmb_storage_init)) (\<lambda>(store, first).
     rbind (assert_ok (ipmb_storage_put (als 2) (ascii ''two'') store)) (\<lambda>(store, second).
     rbind (ipmb_assert (first = 0)) (\<lambda>_.
     rbind (ipmb_assert (second = 1)) (\<lambda>_.
     rbind (ipmb_assert (st_count store = 2)) (\<lambda>_.
     rbind (load_cells (blocks store) 1 1) (\<lambda>bs.
     rbind (rd_bytes (bs ! 0) 0 3) (\<lambda>bytes.
     rbind (ipmb_assert (bytes = ascii ''two'')) (\<lambda>_.
     let store = ipmb_storage_free store in
       Ok 0))))))))))))))"

section \<open>The program\<close>

text \<open>\<^verbatim>\<open>run_case\<close> appends two lines to the output, or aborts.\<close>

definition run_case :: "string \<Rightarrow> (unit, int) res \<Rightarrow> string list \<Rightarrow> (unit, string list) res" where
  "run_case name fn out =
     (let out = out @ [''[ RUN      ] '' @ name] in
      rbind fn (\<lambda>rc.
      rbind (ipmb_assert (rc = 0)) (\<lambda>_. Ok (out @ [''[       OK ] '' @ name]))))"

text \<open>Every test has its own allocations: \<open>als t k\<close> those of call \<open>k\<close> of test \<open>t\<close>.\<close>

definition test_main ::
  "(nat \<Rightarrow> nat \<Rightarrow> allocs) \<Rightarrow> (nat \<Rightarrow> allocs) \<Rightarrow> (nat \<Rightarrow> bool) \<Rightarrow> (unit, string list \<times> int) res" where
  "test_main als rals mv =
     (let out = [''Starting IPMB Core Test Suite...''] in
      rbind (run_case ''protocol'' (ipmb_test_protocol (als 0)) out) (\<lambda>out.
      rbind (run_case ''routing'' (ipmb_test_routing (als 1) mv) out) (\<lambda>out.
      rbind (run_case ''session'' (ipmb_test_session (als 2)) out) (\<lambda>out.
      rbind (run_case ''telemetry'' (ipmb_test_telemetry (als 3)) out) (\<lambda>out.
      rbind (run_case ''codec'' (ipmb_test_codec (als 4)) out) (\<lambda>out.
      rbind (run_case ''replay'' (ipmb_test_replay (als 5) rals) out) (\<lambda>out.
      rbind (run_case ''full_pipeline'' (ipmb_test_full_pipeline (als 6)) out) (\<lambda>out.
      rbind (run_case ''qc_scenarios'' (ipmb_test_qc_scenarios (als 7)) out) (\<lambda>out.
        Ok (out @ [''All test suites completed successfully.''], 0))))))))))"


section \<open>The tests that evaluate a checksum\<close>

text \<open>The checksums in the test message stay symbolic: the parser is verified for all of them.\<close>

lemma parse_test_message:
  "ipmb_parse_message (\<lambda>_. True) (message_image test_message) = Ok test_message"
  by (simp add: parse_message_Ok test_message_wf)

lemma first_test_frame: "ipmb_message_first_frame (Some test_message) 0x22 = Ok (Some test_frame)"
  by (simp add: ipmb_message_first_frame_def test_message_def test_frame_def first_frame_loop_find)

lemma risk_test_message: "ipmb_security_risk_score (Some test_message) = Ok 0"
  by (simp add: ipmb_security_risk_score_def test_message_def test_frame_def frame_risk_def risk_loop.simps IPMB_FRAME_FLAG_FRAGMENTED_def length_test_batch rd8_def)

lemma decode_test_map: "ipmb_decode_register_map (\<lambda>_. True) (ascii ''RMAP'' @ [0x34, 0x12, 0, 0, 1, 0, 0, 0, 2, 0, 0xaa, 0xbb]) =
   Ok \<lparr>map_id = 0x1234, field_count = 1, map_fields = Some [\<lparr>rf_offset = 0, rf_length = 2, rf_bytes = [0xaa, 0xbb]\<rparr>]\<rparr>"
  by code_simp

lemma parse_test_fragments: "ipmb_parse_fragment_payload (\<lambda>_. True) (ascii ''IFRG'' @ [5, 0, 0, 0, 2, 0, 0, 0, 0, 0, 2, 0, 0, 0] @ ascii ''he'' @
           [2, 0, 0, 0, 3, 0, 0, 0] @ ascii ''llo'') = Ok (map Some (ascii ''hello''), 5)"
proof -
  have p: "ascii ''IFRG'' @ [5, 0, 0, 0, 2, 0, 0, 0, 0, 0, 2, 0, 0, 0] @ ascii ''he'' @ [2, 0, 0, 0, 3, 0, 0, 0] @ ascii ''llo'' =
      fragment_payload 5 [(0, ascii ''he''), (2, ascii ''llo'')]"
    by (simp add: fragment_payload_def slice_image_def le32_bytes_def le16_bytes_def ascii_def)
  have "list_all (is_slice (ascii ''hello'')) [(0, ascii ''he''), (2, ascii ''llo'')]"
    by (simp add: is_slice_def ascii_def)
  moreover have "\<forall>j < length (ascii ''hello''). \<exists>s \<in> set [(0, ascii ''he''), (2, ascii ''llo'')]. in_slice j s"
    by (auto simp: in_slice_def)
  moreover have "ascii ''hello'' \<noteq> []" and five: "length (ascii ''hello'') = 5" by (simp_all add: ascii_def)
  ultimately show ?thesis
    using parse_slices [of "ascii ''hello''" "[(0, ascii ''he''), (2, ascii ''llo'')]" "\<lambda>_. True" "[]"]
    unfolding p five append_Nil2 by simp
qed

lemma assert_simps [simp]: "ipmb_assert b = Ok u \<longleftrightarrow> b" "ipmb_assert True = Ok ()" "assert_ok (Ok x) = Ok x" "assert_some (Some y) = Ok y" "non_null (Some z) = Ok z"
  by (simp_all add: ipmb_assert_def guard_def assert_ok_def assert_some_def non_null_def)

lemma test_protocol: "ipmb_test_protocol (\<lambda>_ _. True) = Ok 0"
  unfolding ipmb_test_protocol_def Let_def decode_test_map parse_test_fragments
  by (simp add: owned_def make_message_image parse_test_message first_test_frame risk_test_message)
    (simp add: ex_bool_eq test_message_def test_frame_def length_test_batch rd8_def memcmp_eq_def load_cells_def)

lemma payload_rule: "ipmb_rule_parse ''payload_len > 0 ingest 3'' = Ok \<lparr>rule_field = ''payload_len'', rule_op = IPMB_RULE_CMP_GT, rule_value = 0, rule_high = 0, rule_action = ''ingest'', rule_priority = 3\<rparr>" by code_simp

lemma test_full_pipeline: "ipmb_test_full_pipeline (\<lambda>_ _. True) = Ok 0"
proof -
  let ?a = "\<lparr>rule_field = ''payload_len'', rule_op = IPMB_RULE_CMP_GT, rule_value = 0, rule_high = 0, rule_action = ''ingest'', rule_priority = 3\<rparr>"
  have c: "ipmb_rule_compile (\<lambda>_. True) ?a = Ok (assemble (rule_instrs ?a))"
    by (simp add: compile_outcome field_id_def list_all_iff)
  have h: "rule_holds ?a test_frame" by (simp add: rule_holds_load field_id_def load_field_def test_frame_def length_test_batch)
  have b: "ipmb_extract_telemetry (\<lambda>_. True) (payload test_frame) = Ok test_batch"
    by (simp add: test_frame_def batch_parse_Ok test_batch_wf)
  have len: "length (payload test_frame) = payload_len test_frame"
    by (simp add: test_frame_def length_test_batch)
  then have rd: "rd_bytes (payload test_frame) 0 (payload_len test_frame) = Ok (payload test_frame)"
    by (simp add: rd_bytes_def)
  show ?thesis
    unfolding ipmb_test_full_pipeline_def Let_def payload_rule
    by (simp add: owned_def make_message_image parse_test_message first_test_frame rd b c evaluate_rule_instrs h)
      (simp add: len ex_bool_eq test_batch_def rd8_def ascii_def ipmb_storage_put_def ipmb_storage_init_def grow_cells_def alloc_def store_cells_def load_cells_def realloc_cells_def)
qed

section \<open>The other tests\<close>

text \<open>These are evaluated by the definitions of the library.\<close>

lemma test_routing: "ipmb_test_routing (\<lambda>_ _. True) mv = Ok 0"
  by code_simp

lemma test_session: "ipmb_test_session (\<lambda>_ _. True) = Ok 0"
  by code_simp

lemma test_telemetry: "ipmb_test_telemetry (\<lambda>_ _. True) = Ok 0"
  by code_simp

lemma encode_test_data: "ipmb_rle_encode (\<lambda>_. True) (ascii ''aaabbc'') =
   Ok (map Some (ascii ''IRLE'' @ [3, 0x61, 2, 0x62, 1, 0x63]) @ replicate 8 None, 10)"
proof -
  have "ipmb_rle_encode (\<lambda>_. True) (ascii ''aaabbc'') =
      rle_encode_loop (ascii ''aaabbc'') 0 4 (map Some (ascii ''IRLE'') @ replicate 14 None)"
    by (simp add: ipmb_rle_encode_def size_modulus_def store_cells_def malloc_cells_def alloc_def ascii_def)
  also have "\<dots> = Ok (map Some (ascii ''IRLE'' @ [3, 0x61, 2, 0x62, 1, 0x63]) @ replicate 8 None, 10)"
    by code_simp
  finally show ?thesis .
qed

lemma test_codec: "ipmb_test_codec (\<lambda>_ _. True) = Ok 0"
  unfolding ipmb_test_codec_def Let_def encode_test_data by code_simp

lemma test_replay: "ipmb_test_replay (\<lambda>_ _. True) (\<lambda>_ _. True) = Ok 0"
  by code_simp

lemma test_qc_scenarios: "ipmb_test_qc_scenarios (\<lambda>_ _. True) = Ok 0"
  by code_simp

section \<open>The whole suite\<close>

text \<open>A validation of the model against the expectations the repository itself states: on the fixed
  inputs of the tests, with every allocation succeeding, every assertion holds.\<close>

lemma test_suite_passes:
  "test_main (\<lambda>_ _ _. True) (\<lambda>_ _. True) mv = Ok
     ([''Starting IPMB Core Test Suite...''] @
      concat (map (\<lambda>name. [''[ RUN      ] '' @ name, ''[       OK ] '' @ name])
        [''protocol'', ''routing'', ''session'', ''telemetry'', ''codec'', ''replay'', ''full_pipeline'', ''qc_scenarios'']) @
      [''All test suites completed successfully.''], 0)"
  by (simp add: test_main_def run_case_def Let_def test_protocol test_routing test_session test_telemetry
      test_codec test_replay test_full_pipeline test_qc_scenarios)

end
