(* ===== verification/Fuzz_Harnesses.thy ===== *)
theory Fuzz_Harnesses
  imports File_Input Rule_Parser Rule_Compiler Field_Decoder Transport_Layer Match_Table Checkpoint_Store
    Ring_Window Replay_Engine Rle_Codec Delta_Codec Telemetry_Buffers Telemetry_Extractor
begin

text \<open>
  The harnesses under \<^verbatim>\<open>fuzz/\<close>: each \<^verbatim>\<open>LLVMFuzzerTestOneInput\<close> maps bytes to \<open>Ok ()\<close> or to undefined
  behaviour; what a fuzzer can find in a harness is the set of inputs with a \<open>Fault\<close>, which
  \<open>Fuzz_Findings\<close> determines.  The frees at the end of a harness release blocks nothing else
  points to, except that of the ring, whose segments may have been freed before and which is
  part of the model.  (Their \<^verbatim>\<open>main\<close> for runs without a fuzzer is in \<open>File_Input\<close>.)
\<close>

section \<open>The parsers and codecs\<close>

text \<open>A harness looks at no result: only undefined behaviour is left of a call.\<close>

fun swallow :: "('e, 'a) res \<Rightarrow> (unit, unit) res" where
  "swallow (Ok _) = Ok ()"
| "swallow (Err _) = Ok ()"
| "swallow (Fault u) = Fault u"

definition fuzz_frame_reader :: "allocs \<Rightarrow> byte list \<Rightarrow> (unit, unit) res" where
  "fuzz_frame_reader al data = swallow (ipmb_parse_message al data)"

definition fuzz_session_journal :: "allocs \<Rightarrow> byte list \<Rightarrow> (unit, unit) res" where
  "fuzz_session_journal al data = swallow (ipmb_journal_parse al data)"

definition fuzz_telemetry_extractor :: "allocs \<Rightarrow> byte list \<Rightarrow> (unit, unit) res" where
  "fuzz_telemetry_extractor al data = swallow (ipmb_extract_telemetry al data)"

definition fuzz_field_decoder :: "allocs \<Rightarrow> byte list \<Rightarrow> (unit, unit) res" where
  "fuzz_field_decoder al data = swallow (ipmb_decode_register_map al data)"

definition fuzz_transport_layer :: "allocs \<Rightarrow> byte list \<Rightarrow> (unit, unit) res" where
  "fuzz_transport_layer al data = swallow (ipmb_parse_fragment_payload al data)"

definition fuzz_delta_codec :: "allocs \<Rightarrow> byte list \<Rightarrow> (unit, unit) res" where
  "fuzz_delta_codec al data = swallow (ipmb_delta_decode al data)"

definition fuzz_rle_codec :: "allocs \<Rightarrow> byte list \<Rightarrow> (unit, unit) res" where
  "fuzz_rle_codec al data = swallow (ipmb_rle_decode al data)"

definition fuzz_replay_engine :: "allocs \<Rightarrow> (nat \<Rightarrow> allocs) \<Rightarrow> byte list \<Rightarrow> (unit, unit) res" where
  "fuzz_replay_engine al als data = swallow (ipmb_replay_bytes al als data)"

section \<open>Rules\<close>

text \<open>The text is an allocated copy of the input with a zero byte stored behind it, which the library
  reads as a string; allocation \<open>0\<close> is that of the copy.  The compiler's are \<open>alc\<close>.\<close>

definition chr_of :: "byte \<Rightarrow> char" where
  "chr_of b = char_of (unat b)"

definition text_of :: "byte list \<Rightarrow> (unit, string) res" where
  "text_of data =
     rbind (store_cells (malloc_cells (length data + 1)) 0 (map chr_of data)) (\<lambda>text.
     rbind (store_cells text (length data) [chr_of 0]) read_cstring)"

definition fuzz_rule_parser :: "allocs \<Rightarrow> byte list \<Rightarrow> (unit, unit) res" where
  "fuzz_rule_parser al data =
     (if al 0 then rbind (text_of data) (\<lambda>text. swallow (ipmb_rule_parse text)) else Ok ())"

text \<open>The frame has a null payload and a payload length of 8.\<close>

definition fuzz_frame :: ipmb_frame where
  "fuzz_frame = \<lparr>frame_type = 10, frame_flags = 0, source_addr = 1, dest_addr = 2, priority = 5,
     ttl = 64, payload = [], payload_len = 8, crc = 0\<rparr>"

definition fuzz_route_vm :: "allocs \<Rightarrow> allocs \<Rightarrow> byte list \<Rightarrow> (unit, unit) res" where
  "fuzz_route_vm al alc data =
     (if \<not> al 0 then Ok ()
      else rbind (text_of data) (\<lambda>text. case ipmb_rule_parse text of
        Fault u \<Rightarrow> Fault u
      | Err _ \<Rightarrow> Ok ()
      | Ok ast \<Rightarrow> (case ipmb_rule_compile alc ast of
            Fault u \<Rightarrow> Fault u
          | Err _ \<Rightarrow> Ok ()
          | Ok bc \<Rightarrow> swallow (ipmb_vm_evaluate bc fuzz_frame))))"

section \<open>Messages with register maps\<close>

text \<open>\<open>als i\<close> are the allocations of the decoder for frame \<open>i\<close>.\<close>

function pipeline_loop :: "(nat \<Rightarrow> allocs) \<Rightarrow> ipmb_message \<Rightarrow> nat \<Rightarrow> (unit, unit) res" where
  "pipeline_loop als msg i =
     (if i < unat (frame_count msg) then
        rbind (case frames msg of None \<Rightarrow> Fault Null_deref | Some fs \<Rightarrow> rd8 fs i) (\<lambda>f.
        rbind (rd_bytes (payload f) 0 (payload_len f)) (\<lambda>bytes.
        rbind (swallow (ipmb_decode_register_map (als i) bytes)) (\<lambda>_.
          pipeline_loop als msg (i + 1))))
      else Ok ())"
  by pat_completeness auto
termination by (relation "measure (\<lambda>(_, msg, i). unat (frame_count msg) - i)") auto

declare pipeline_loop.simps [simp del]

definition fuzz_full_pipeline :: "allocs \<Rightarrow> (nat \<Rightarrow> allocs) \<Rightarrow> byte list \<Rightarrow> (unit, unit) res" where
  "fuzz_full_pipeline al als data = (case ipmb_parse_message al data of
     Fault u \<Rightarrow> Fault u | Err _ \<Rightarrow> Ok () | Ok msg \<Rightarrow> pipeline_loop als msg 0)"

section \<open>Stores\<close>

definition fuzz_checkpoint_store :: "(nat \<Rightarrow> allocs) \<Rightarrow> bool \<Rightarrow> byte list \<Rightarrow> (unit, unit) res" where
  "fuzz_checkpoint_store als moved data =
     (if length data > 0 then
        map_err (\<lambda>_. ())
          (rbind (ignore_status (ipmb_checkpoint_append (als 0) ipmb_checkpoint_store_init 1
                    (take (length data div 2) data))) (\<lambda>store.
           rbind (ignore_status (ipmb_checkpoint_migrate (als 1) moved store 1 2)) (\<lambda>store. Ok ())))
      else Ok ())"

text \<open>A failed addition leaves the histogram as it is.\<close>

fun histogram_loop :: "ipmb_histogram_schema \<Rightarrow> byte list \<Rightarrow> ipmb_histogram \<Rightarrow> (unit, unit) res" where
  "histogram_loop layout [] hist = Ok ()"
| "histogram_loop layout (b # data) hist = (case ipmb_histogram_add_sample hist (Some layout) (ucast (b AND 15)) of
     Fault u \<Rightarrow> Fault u
   | Err _ \<Rightarrow> histogram_loop layout data hist
   | Ok hist \<Rightarrow> histogram_loop layout data hist)"

definition fuzz_histogram :: "allocs \<Rightarrow> byte list \<Rightarrow> (unit, unit) res" where
  "fuzz_histogram al data =
     (let layout = \<lparr>schema_bucket_count = 16,
                    bin_offset = (case data of [] \<Rightarrow> 0 | b # _ \<Rightarrow> ucast (b AND 7))\<rparr> in
      case ipmb_histogram_init al 16 of
        Fault u \<Rightarrow> Fault u | Err _ \<Rightarrow> Ok () | Ok hist \<Rightarrow> histogram_loop layout (tl data) hist)"

text \<open>\<open>als i\<close> are the allocations of the checkpoint and of the append of the chunk at offset \<open>i\<close>.\<close>

function ring_loop :: "(nat \<Rightarrow> allocs \<times> allocs) \<Rightarrow> byte list \<Rightarrow> nat \<Rightarrow> ring_state \<Rightarrow> (ipmb_status, ring_state) res" where
  "ring_loop als data i s =
     (if i < length data then
        rbind (rd8 data i) (\<lambda>b.
        rbind (if b AND 1 \<noteq> 0 then ipmb_ring_checkpoint (fst (als i)) s else Ok s) (\<lambda>s.
        rbind (if b AND 2 \<noteq> 0 then ipmb_ring_rollback s else Ok s) (\<lambda>s.
        let n = (if length data - i > 8 then 8 else length data - i) in
        rbind (rd_bytes data i n) (\<lambda>chunk.
        rbind (ignore_status (ipmb_ring_advance (snd (als i)) s chunk)) (\<lambda>s.
          ring_loop als data (i + 8) s)))))
      else Ok s)"
  by pat_completeness auto
termination by (relation "measure (\<lambda>(_, data, i, _). length data - i)") auto

declare ring_loop.simps [simp del]

definition fuzz_ring_window :: "allocs \<Rightarrow> (nat \<Rightarrow> allocs \<times> allocs) \<Rightarrow> byte list \<Rightarrow> (unit, unit) res" where
  "fuzz_ring_window al als data = (case ipmb_ring_init al new_ring 4 of
     Fault u \<Rightarrow> Fault u
   | Err _ \<Rightarrow> Ok ()
   | Ok s \<Rightarrow> map_err (\<lambda>_. ()) (rbind (ring_loop als data 0 s) (\<lambda>s. rbind (ipmb_ring_free s) (\<lambda>s. Ok ()))))"

section \<open>The match table\<close>

function rule_length :: "byte list \<Rightarrow> nat \<Rightarrow> nat \<Rightarrow> (unit, nat) res" where
  "rule_length data offset n =
     (if offset + n < length data then
        rbind (rd8 data (offset + n)) (\<lambda>b.
          if b \<noteq> 0 \<and> n < 100 then rule_length data offset (n + 1) else Ok n)
      else Ok n)"
  by pat_completeness auto
termination by (relation "measure (\<lambda>(data, offset, n). length data - n)") auto

declare rule_length.simps [simp del]

text \<open>\<open>rule_str\<close> is a zeroed array of 128 bytes.  \<open>als i\<close> are the allocations of the compiler and of
  the addition for rule \<open>i\<close>.\<close>

definition add_text ::
  "allocs \<times> allocs \<Rightarrow> byte list \<Rightarrow> nat \<Rightarrow> ipmb_match_table \<Rightarrow> (unit, ipmb_match_table) res" where
  "add_text al bytes rule_idx table =
     rbind (store_cells (calloc_cells 0 128) 0 bytes) (\<lambda>rule_str.
     rbind (read_cstring (map (map_option chr_of) rule_str)) (\<lambda>rule_str.
     case ipmb_rule_parse rule_str of
       Fault u \<Rightarrow> Fault u
     | Err _ \<Rightarrow> Ok table
     | Ok ast \<Rightarrow> (case ipmb_rule_compile (fst al) ast of
           Fault u \<Rightarrow> Fault u
         | Err _ \<Rightarrow> Ok table
         | Ok bc \<Rightarrow> map_err (\<lambda>_. ())
             (ignore_status (ipmb_match_table_add (snd al) table ''auto'' (of_nat (rule_idx + 1)) bc)))))"

function match_fuzz_loop ::
  "(nat \<Rightarrow> allocs \<times> allocs) \<Rightarrow> byte list \<Rightarrow> nat \<Rightarrow> nat \<Rightarrow> ipmb_match_table \<Rightarrow> (unit, ipmb_match_table) res" where
  "match_fuzz_loop als data offset rule_idx table =
     (if offset < length data \<and> rule_idx < 10 then
        rbind (rule_length data offset 0) (\<lambda>rule_len.
        rbind (if rule_len > 0 then
                 rbind (rd_bytes data offset rule_len) (\<lambda>bytes. add_text (als rule_idx) bytes rule_idx table)
               else Ok table) (\<lambda>table.
          match_fuzz_loop als data (offset + (rule_len + 1)) (rule_idx + 1) table))
      else Ok table)"
  by pat_completeness auto
termination by (relation "measure (\<lambda>(_, _, _, rule_idx, _). 10 - rule_idx)") auto

declare match_fuzz_loop.simps [simp del]

definition match_fuzz_frame :: "byte list \<Rightarrow> ipmb_frame" where
  "match_fuzz_frame data = \<lparr>frame_type = ucast (data ! 0), frame_flags = 0, source_addr = ucast (data ! 1),
     dest_addr = ucast (data ! 2), priority = ucast (data ! 3), ttl = 64, payload = [], payload_len = 8, crc = 0\<rparr>"

definition fuzz_match_table ::
  "(nat \<Rightarrow> allocs \<times> allocs) \<Rightarrow> allocs \<Rightarrow> (nat \<Rightarrow> bool) \<Rightarrow> byte list \<Rightarrow> (unit, unit) res" where
  "fuzz_match_table als al mv data =
     (if length data < 4 then Ok ()
      else
        rbind (match_fuzz_loop als data 4 0 ipmb_match_table_init) (\<lambda>table.
          swallow (ipmb_match_table_evaluate al mv table (match_fuzz_frame data))))"

section \<open>The programs\<close>

text \<open>Every harness has the same \<^verbatim>\<open>main\<close>, which is compiled with it when there is no fuzzer.  The
  answers of the allocator are those of the single harness, for each file by its number.\<close>

definition checkpoint_store_fuzzer ::
  "(nat \<Rightarrow> nat \<Rightarrow> allocs) \<Rightarrow> (nat \<Rightarrow> bool) \<Rightarrow> (nat \<Rightarrow> allocs) \<Rightarrow> c_files \<Rightarrow> string list \<Rightarrow> (unit, unit) res" where
  "checkpoint_store_fuzzer al mv als = standalone_main (\<lambda>i. fuzz_checkpoint_store (al i) (mv i)) als"

definition delta_codec_fuzzer ::
  "(nat \<Rightarrow> allocs) \<Rightarrow> (nat \<Rightarrow> allocs) \<Rightarrow> c_files \<Rightarrow> string list \<Rightarrow> (unit, unit) res" where
  "delta_codec_fuzzer al als = standalone_main (\<lambda>i. fuzz_delta_codec (al i)) als"

definition field_decoder_fuzzer ::
  "(nat \<Rightarrow> allocs) \<Rightarrow> (nat \<Rightarrow> allocs) \<Rightarrow> c_files \<Rightarrow> string list \<Rightarrow> (unit, unit) res" where
  "field_decoder_fuzzer al als = standalone_main (\<lambda>i. fuzz_field_decoder (al i)) als"

definition frame_reader_fuzzer ::
  "(nat \<Rightarrow> allocs) \<Rightarrow> (nat \<Rightarrow> allocs) \<Rightarrow> c_files \<Rightarrow> string list \<Rightarrow> (unit, unit) res" where
  "frame_reader_fuzzer al als = standalone_main (\<lambda>i. fuzz_frame_reader (al i)) als"

definition full_pipeline_fuzzer ::
  "(nat \<Rightarrow> allocs) \<Rightarrow> (nat \<Rightarrow> nat \<Rightarrow> allocs) \<Rightarrow> (nat \<Rightarrow> allocs) \<Rightarrow> c_files \<Rightarrow> string list \<Rightarrow> (unit, unit) res" where
  "full_pipeline_fuzzer al ald als = standalone_main (\<lambda>i. fuzz_full_pipeline (al i) (ald i)) als"

definition histogram_fuzzer ::
  "(nat \<Rightarrow> allocs) \<Rightarrow> (nat \<Rightarrow> allocs) \<Rightarrow> c_files \<Rightarrow> string list \<Rightarrow> (unit, unit) res" where
  "histogram_fuzzer al als = standalone_main (\<lambda>i. fuzz_histogram (al i)) als"

definition match_table_fuzzer ::
  "(nat \<Rightarrow> nat \<Rightarrow> allocs \<times> allocs) \<Rightarrow> (nat \<Rightarrow> allocs) \<Rightarrow> (nat \<Rightarrow> nat \<Rightarrow> bool) \<Rightarrow> (nat \<Rightarrow> allocs) \<Rightarrow> c_files \<Rightarrow> string list \<Rightarrow> (unit, unit) res" where
  "match_table_fuzzer alr al mv als = standalone_main (\<lambda>i. fuzz_match_table (alr i) (al i) (mv i)) als"

definition replay_engine_fuzzer ::
  "(nat \<Rightarrow> allocs) \<Rightarrow> (nat \<Rightarrow> nat \<Rightarrow> allocs) \<Rightarrow> (nat \<Rightarrow> allocs) \<Rightarrow> c_files \<Rightarrow> string list \<Rightarrow> (unit, unit) res" where
  "replay_engine_fuzzer al alr als = standalone_main (\<lambda>i. fuzz_replay_engine (al i) (alr i)) als"

definition ring_window_fuzzer ::
  "(nat \<Rightarrow> allocs) \<Rightarrow> (nat \<Rightarrow> nat \<Rightarrow> allocs \<times> allocs) \<Rightarrow> (nat \<Rightarrow> allocs) \<Rightarrow> c_files \<Rightarrow> string list \<Rightarrow> (unit, unit) res" where
  "ring_window_fuzzer al alc als = standalone_main (\<lambda>i. fuzz_ring_window (al i) (alc i)) als"

definition rle_codec_fuzzer ::
  "(nat \<Rightarrow> allocs) \<Rightarrow> (nat \<Rightarrow> allocs) \<Rightarrow> c_files \<Rightarrow> string list \<Rightarrow> (unit, unit) res" where
  "rle_codec_fuzzer al als = standalone_main (\<lambda>i. fuzz_rle_codec (al i)) als"

definition route_vm_fuzzer ::
  "(nat \<Rightarrow> allocs) \<Rightarrow> (nat \<Rightarrow> allocs) \<Rightarrow> (nat \<Rightarrow> allocs) \<Rightarrow> c_files \<Rightarrow> string list \<Rightarrow> (unit, unit) res" where
  "route_vm_fuzzer al alc als = standalone_main (\<lambda>i. fuzz_route_vm (al i) (alc i)) als"

definition rule_parser_fuzzer ::
  "(nat \<Rightarrow> allocs) \<Rightarrow> (nat \<Rightarrow> allocs) \<Rightarrow> c_files \<Rightarrow> string list \<Rightarrow> (unit, unit) res" where
  "rule_parser_fuzzer al als = standalone_main (\<lambda>i. fuzz_rule_parser (al i)) als"

definition session_journal_fuzzer ::
  "(nat \<Rightarrow> allocs) \<Rightarrow> (nat \<Rightarrow> allocs) \<Rightarrow> c_files \<Rightarrow> string list \<Rightarrow> (unit, unit) res" where
  "session_journal_fuzzer al als = standalone_main (\<lambda>i. fuzz_session_journal (al i)) als"

definition telemetry_extractor_fuzzer ::
  "(nat \<Rightarrow> allocs) \<Rightarrow> (nat \<Rightarrow> allocs) \<Rightarrow> c_files \<Rightarrow> string list \<Rightarrow> (unit, unit) res" where
  "telemetry_extractor_fuzzer al als = standalone_main (\<lambda>i. fuzz_telemetry_extractor (al i)) als"

definition transport_layer_fuzzer ::
  "(nat \<Rightarrow> allocs) \<Rightarrow> (nat \<Rightarrow> allocs) \<Rightarrow> c_files \<Rightarrow> string list \<Rightarrow> (unit, unit) res" where
  "transport_layer_fuzzer al als = standalone_main (\<lambda>i. fuzz_transport_layer (al i)) als"

end
