(* ===== verification/Fuzz_Findings.thy ===== *)
theory Fuzz_Findings
  imports Fuzz_Harnesses
begin

text \<open>
  What the harnesses of \<open>Fuzz_Harnesses\<close> can find.  Each harness is run symbolically: the result of
  the harness is computed from the bytes of its input, so that the inputs with a \<open>Fault\<close> are
  known.  The lemmas follow the harnesses: the register maps of a message, the samples of a
  histogram, the two calls on a checkpoint store, the ring (its shape, its runs without a
  rollback, its first five chunks) and the rules of a match table.
\<close>

section \<open>What the harnesses find\<close>

lemma swallow_safe: "no_fault m \<Longrightarrow> swallow m = Ok ()"
  by (cases m) simp_all

lemma chr_of_zero [simp]: "chr_of 0 = CHR 0x00"
  by (simp add: chr_of_def char_of_def)

lemma read_cstring_prefix:
  "read_cstring (map Some s @ Some (CHR 0x00) # rest) = Ok (c_string s)"
  by (induction s) (simp_all add: c_string_def)

lemma text_of_eq: "text_of data = Ok (c_string (map chr_of data))"
  using read_cstring_prefix [of "map chr_of data" "[]", where 'a = unit]
  by (simp add: text_of_def store_cells_def malloc_cells_def)

lemma vm_safe: "no_fault (ipmb_vm_evaluate code frame)"
  by (simp add: ipmb_vm_evaluate_def vm_loop_safe)

text \<open>The register map decoder, with memory available, faults exactly on these payloads.\<close>

definition map_reads_outside :: "byte list \<Rightarrow> bool" where
  "map_reads_outside p \<longleftrightarrow> table_complete p \<and>
     (let table = 10 + unat (le16_at p 6); n = unat (le16_at p 8); cursor = table + n * 4 in
      case find (\<lambda>e. \<not> entry_inside p cursor e) (table_entries p table 0 n) of
        None \<Rightarrow> False | Some e \<Rightarrow> entry_checked p e)"

lemma decode_map_fault:
  assumes "\<forall>k. al k"
  shows "swallow (ipmb_decode_register_map al p) = (if map_reads_outside p then Fault Oob_read else Ok ())"
proof (cases "table_complete p")
  case True
  with decode_map_complete [OF True assms] show ?thesis
    by (simp add: map_reads_outside_def map_entries_def map_cursor_def Let_def split: option.split)
next
  case False
  with decode_map_incomplete [OF this, of al] show ?thesis by (auto simp: map_reads_outside_def)
qed

lemma pipeline_loop_run:
  assumes "frames msg = Some fs" "length fs = unat (frame_count msg)" "\<forall>f \<in> set fs. frame_wf f" "\<forall>i k. als i k"
  shows "i \<le> length fs \<Longrightarrow> pipeline_loop als msg i =
    (if \<exists>f \<in> set (drop i fs). map_reads_outside (payload f) then Fault Oob_read else Ok ())"
proof (induction "length fs - i" arbitrary: i)
  case 0
  with assms(2) show ?case by (subst pipeline_loop.simps) simp
next
  case (Suc n)
  then have i: "i < length fs" by simp
  then have "drop i fs = fs ! i # drop (i + 1) fs" by (simp add: Cons_nth_drop_Suc)
  moreover have "length (payload (fs ! i)) = payload_len (fs ! i)"
    using i assms(3) by (simp add: frame_wf_def)
  ultimately show ?case
    using i Suc.hyps assms by (subst pipeline_loop.simps) (simp add: rd8_def rd_bytes_def decode_map_fault)
qed

lemma histogram_loop_run:
  assumes "off < 16"
  shows "histogram_wf h \<Longrightarrow> bucket_count h = 16 \<Longrightarrow>
    histogram_loop \<lparr>schema_bucket_count = 16, bin_offset = off\<rparr> data h =
      (if \<exists>b \<in> set data. 16 \<le> unat (b AND 15) + unat off then Fault Oob_write else Ok ())"
proof (induction data arbitrary: h)
  case (Cons b data)
  have b: "unat (ucast (b AND 15) :: 32 word) = unat (b AND 15)" "unat (b AND 15) < 16"
  proof -
    have "b AND 15 \<le> 15" by (rule word_and_le1)
    then show lt: "unat (b AND 15) < 16" by (simp add: word_le_nat_alt)
    then have "unat (b AND 15) < 2 ^ LENGTH(32)" by simp
    then show "unat (ucast (b AND 15) :: 32 word) = unat (b AND 15)"
      by (simp only: unsigned_ucast_eq take_bit_nat_eq_self)
  qed
  have o: "unat off < 16" using assms by (simp add: word_less_nat_alt)
  have "unat (ucast (b AND 15) + off) = unat (b AND 15) + unat off"
    using b o by (subst unat_add_lem [THEN iffD1]) simp_all
  then have inside: "ucast (b AND 15) + off < 16 \<longleftrightarrow> unat (b AND 15) + unat off < 16"
      and small: "(ucast (b AND 15) :: 32 word) < 16"
    using b by (simp_all add: word_less_nat_alt)
  note run = add_sample_run [OF Cons.prems(1), of "Some \<lparr>schema_bucket_count = 16, bin_offset = off\<rparr>" "ucast (b AND 15)"]
  show ?case
  proof (cases "unat (b AND 15) + unat off < 16")
    case True
    let ?h = "h\<lparr>bins := Some ((the (bins h))[unat (ucast (b AND 15) + off) := the (bins h) ! unat (ucast (b AND 15) + off) + 1])\<rparr>"
    have "ipmb_histogram_add_sample h (Some \<lparr>schema_bucket_count = 16, bin_offset = off\<rparr>) (ucast (b AND 15)) = Ok ?h"
      using run Cons.prems(2) small inside True by (simp add: Let_def)
    moreover have "histogram_wf ?h" "bucket_count ?h = 16"
      using Cons.prems by (auto simp: histogram_wf_def split: option.splits)
    ultimately show ?thesis using Cons.IH [of ?h] True by auto
  next
    case False
    then show ?thesis using run Cons.prems(2) small inside by (simp add: Let_def)
  qed
qed simp

text \<open>The store of the checkpoint harness has room for four sessions, so nothing moves.\<close>

lemma append_init_capacity:
  "ipmb_checkpoint_append al ipmb_checkpoint_store_init sid p = Ok s \<Longrightarrow> cp_items_capacity s = 4"
  by (auto simp: ipmb_checkpoint_append_def find_or_add_def ipmb_checkpoint_store_init_def find_item.simps
      put_item_def Let_def split: if_splits)

lemma checkpoint_harness_run:
  assumes "length data < 2 ^ 64" "\<forall>i k. als i k"
  shows "fuzz_checkpoint_store als moved data = (if 4 \<le> length data then Fault Oob_write else Ok ())"
proof -
  let ?p = "take (length data div 2) data"
  have len: "length ?p = length data div 2" by simp
  then have fits: "length ?p \<le> 2 ^ 63" using assms(1) by simp
  obtain s where s: "ipmb_checkpoint_append (als 0) ipmb_checkpoint_store_init 1 ?p = Ok s" "checkpoints s [(1, ?p)]"
    using checkpoint_append_cases [OF checkpoints_init, of 1 ?p "als 0"] fits assms(2)
    by (auto simp: spec_append_def located_def)
  have al: "\<forall>k. als 1 k" using assms(2) by simp
  note mig = migrate_outcome [OF s(2), where al = "als 1" and src = 1 and dst = 2 and moved = moved]
  have cap: "cp_items_capacity s = 4" by (rule append_init_capacity [OF s(1)])
  have two: "2 \<le> length ?p \<longleftrightarrow> 4 \<le> length data" unfolding len by auto
  show ?thesis
  proof (cases "4 \<le> length data")
    case True
    with two have "2 \<le> length ?p" by simp
    then have "ipmb_checkpoint_migrate (als 1) moved s 1 2 = Fault Oob_write"
      using mig cap al by (simp split: if_splits)
    with True show ?thesis
      by (auto simp: fuzz_checkpoint_store_def s(1))
  next
    case False
    with two have "\<not> 2 \<le> length ?p" by simp
    then obtain s' where "ipmb_checkpoint_migrate (als 1) moved s 1 2 = Ok s'"
      using mig cap al by (auto split: if_splits)
    with False show ?thesis by (simp add: fuzz_checkpoint_store_def s(1))
  qed
qed

text \<open>The shape of the ring: every array is complete, and the copies of the snapshot are written.\<close>

definition ring_shape :: "nat \<Rightarrow> ring_state \<Rightarrow> bool" where
  "ring_shape c s \<longleftrightarrow> segment_count (ring s) = c \<and> head (ring s) < c \<and>
     (\<exists>segs lens. segments (ring s) = Some segs \<and> lengths (ring s) = Some lens \<and> length segs = c \<and> length lens = c) \<and>
     (has_snapshot (ring s) \<longrightarrow> (\<exists>segs lens. snapshot_segments (ring s) = Some (map Some segs) \<and>
        snapshot_lengths (ring s) = Some (map Some lens) \<and> length segs = c \<and> length lens = c))"

lemma checkpoint_shape:
  assumes "ring_shape c s" "\<forall>k. al k"
  shows "\<exists>s'. ipmb_ring_checkpoint al s = Ok s' \<and> ring_shape c s'"
  using assms by (auto simp: ring_shape_def ipmb_ring_checkpoint_def rd_bytes_def store_all_cells Let_def)

lemma rollback_shape:
  assumes "ring_shape c s"
  shows "\<exists>s'. ipmb_ring_rollback s = Ok s' \<and> ring_shape c s'"
  using assms by (auto simp: ring_shape_def ipmb_ring_rollback_def load_all_cells Let_def)

lemma advance_shape:
  assumes "ring_shape c s" "\<forall>k. al k"
  shows "(\<exists>s'. ipmb_ring_advance al s d = Ok s' \<and> ring_shape c s') \<or> ipmb_ring_advance al s d = Fault Double_free"
proof -
  obtain segs lens where r: "segments (ring s) = Some segs" "lengths (ring s) = Some lens"
      "length segs = c" "length lens = c" "head (ring s) < c" "segment_count (ring s) = c"
    using assms(1) by (auto simp: ring_shape_def)
  show ?thesis
    using assms r
    by (cases "segs ! head (ring s)")
      (auto simp: ipmb_ring_advance_def ipmb_ring_append_def rd8_def free_segment_def ring_shape_def Let_def)
qed

lemma free_segments_shape:
  "n \<le> length segs \<Longrightarrow> (\<exists>h'. free_segments h segs n = Ok h') \<or> free_segments h segs n = Fault Double_free"
proof (induction h segs n rule: free_segments.induct)
  case (3 h p segs n)
  show ?case
  proof (cases "free_segment h p :: (ipmb_status, _) res")
    case (Ok h')
    with 3 show ?thesis by auto
  qed (auto simp: free_segment_def split: option.splits if_splits)
qed simp_all

lemma ring_loop_step:
  assumes "i < length data"
  shows "ring_loop als data i s =
    rbind (if data ! i AND 1 \<noteq> 0 then ipmb_ring_checkpoint (fst (als i)) s else Ok s) (\<lambda>s.
    rbind (if data ! i AND 2 \<noteq> 0 then ipmb_ring_rollback s else Ok s) (\<lambda>s.
    rbind (ignore_status (ipmb_ring_advance (snd (als i)) s (take 8 (drop i data)))) (ring_loop als data (i + 8))))"
proof -
  let ?n = "if length data - i > 8 then 8 else length data - i"
  have chunk: "rd_bytes data i ?n = (Ok (take 8 (drop i data)) :: (ipmb_status, _) res)"
    using assms by (auto simp: rd_bytes_def)
  have b: "rd8 data i = (Ok (data ! i) :: (ipmb_status, _) res)" using assms by (simp add: rd8_def)
  show ?thesis
    unfolding ring_loop.simps [of als data i s] b rbind.simps Let_def chunk using assms by simp
qed

lemma ring_loop_shape:
  assumes "\<forall>i k. fst (als i) k \<and> snd (als i) k"
  shows "ring_shape c s \<Longrightarrow> (\<exists>s'. ring_loop als data i s = Ok s' \<and> ring_shape c s') \<or> ring_loop als data i s = Fault Double_free"
proof (induction "length data - i" arbitrary: i s rule: less_induct)
  case less
  show ?case
  proof (cases "i < length data")
    case True
    let ?b = "data ! i"
    obtain s1 where s1: "(if ?b AND 1 \<noteq> 0 then ipmb_ring_checkpoint (fst (als i)) s else Ok s) = Ok s1" "ring_shape c s1"
      using checkpoint_shape [OF less.prems, of "fst (als i)"] less.prems assms by (cases "?b AND 1 \<noteq> 0") auto
    obtain s2 where s2: "(if ?b AND 2 \<noteq> 0 then ipmb_ring_rollback s1 else Ok s1) = Ok s2" "ring_shape c s2"
      using rollback_shape [OF s1(2)] s1(2) by (cases "?b AND 2 \<noteq> 0") auto
    have "\<forall>k. snd (als i) k" using assms by simp
    from advance_shape [OF s2(2) this, of "take 8 (drop i data)"] show ?thesis
    proof (elim disjE exE conjE)
      fix s3 assume "ipmb_ring_advance (snd (als i)) s2 (take 8 (drop i data)) = Ok s3" "ring_shape c s3"
      with less.hyps [of "i + 8" s3] True show ?thesis unfolding ring_loop_step [OF True] s1(1) s2(1) rbind.simps by simp
    qed (simp add: ring_loop_step [OF True] s1(1) s2(1))
  next
    case False
    with less.prems show ?thesis by (subst ring_loop.simps) simp
  qed
qed

text \<open>Without a rollback the ring holds the chunks appended.\<close>

lemma ring_loop_forward:
  assumes "\<forall>i k. fst (als i) k \<and> snd (als i) k" "\<forall>i < length data. i mod 8 = 0 \<longrightarrow> data ! i AND 2 = 0"
  shows "ring_holds 4 ds s \<Longrightarrow> i mod 8 = 0 \<Longrightarrow> \<exists>s' es. ring_loop als data i s = Ok s' \<and> ring_holds 4 es s'"
proof (induction "length data - i" arbitrary: i s ds rule: less_induct)
  case less
  show ?case
  proof (cases "i < length data")
    case True
    obtain s1 where s1: "(if data ! i AND 1 \<noteq> 0 then ipmb_ring_checkpoint (fst (als i)) s else Ok s) = Ok s1" "ring_holds 4 ds s1"
      using ring_checkpoint_holds [OF less.prems(1), of "fst (als i)"] less.prems assms(1) by (cases "data ! i AND 1 \<noteq> 0") auto
    obtain s3 where s3: "ipmb_ring_append (snd (als i)) s1 (take 8 (drop i data)) = Ok s3" "ring_holds 4 (ds @ [take 8 (drop i data)]) s3"
      using ring_append_holds [OF s1(2), of "snd (als i)" "take 8 (drop i data)"] assms(1) by auto
    have "(i + 8) mod 8 = 0" using less.prems(2) by simp
    with less.hyps [OF _ s3(2) this] True show ?thesis
      using assms(2) less.prems(2) s3(1) by (simp add: ring_loop_step [OF True] s1(1) ipmb_ring_advance_def)
  next
    case False
    with less.prems show ?thesis by (subst ring_loop.simps) auto
  qed
qed

text \<open>The first five chunks: block \<open>k\<close> is in slot \<open>k\<close> or in none, and none is freed before the fifth.\<close>

definition young_slots :: "nat \<Rightarrow> segment list \<Rightarrow> bool" where
  "young_slots n segs \<longleftrightarrow> length segs = 4 \<and> (\<forall>i < 4. segs ! i = None \<or> segs ! i = Some i \<and> i < n)"

definition young_ring :: "nat \<Rightarrow> ring_state \<Rightarrow> bool" where
  "young_ring n s \<longleftrightarrow> ring_shape 4 s \<and> head (ring s) = n mod 4 \<and> seg_fresh s = n \<and> (\<forall>a < n. seg_heap s a \<noteq> None) \<and>
     young_slots n (the (segments (ring s))) \<and>
     (has_snapshot (ring s) \<longrightarrow> (\<exists>segs. snapshot_segments (ring s) = Some (map Some segs) \<and> young_slots n segs))"

definition freeable :: "ring_state \<Rightarrow> bool" where
  "freeable s \<longleftrightarrow> (\<exists>segs. segments (ring s) = Some segs \<and> segment_count (ring s) = length segs \<and>
     distinct (filter (\<lambda>p. p \<noteq> None) segs) \<and> (\<forall>a. Some a \<in> set segs \<longrightarrow> seg_heap s a \<noteq> None))"

lemma freeable_frees: "freeable s \<Longrightarrow> \<exists>s'. ipmb_ring_free s = Ok s'"
  unfolding freeable_def using ring_free_outcome [of s] by (auto split: if_splits) (metis option.distinct(1))

lemma ring_holds_freeable:
  assumes "ring_holds c ds s" "0 < c"
  shows "freeable s"
  using assms last_in_distinct [OF assms(2)] last_in_mem [OF assms(2)] by (auto simp: ring_holds_def freeable_def)

lemma young_slots_grow: "young_slots n segs \<Longrightarrow> n < 4 \<Longrightarrow> young_slots (Suc n) (segs[n := Some n])"
  by (auto simp: young_slots_def nth_list_update less_Suc_eq)

lemma young_slots_weaken: "young_slots n segs \<Longrightarrow> young_slots (Suc n) segs"
  by (auto simp: young_slots_def less_Suc_eq)

lemma young_slots_distinct:
  assumes "length segs = c" "\<forall>i < c. segs ! i = None \<or> segs ! i = Some (f i)" "inj_on f {..<c}"
  shows "distinct (filter (\<lambda>p. p \<noteq> None) segs)"
proof -
  have "filter (\<lambda>p. p \<noteq> None) segs = map (\<lambda>i. Some (f i)) (filter (\<lambda>i. segs ! i \<noteq> None) [0..<c])"
  proof -
    have "filter (\<lambda>p. p \<noteq> None) segs = map ((!) segs) (filter (\<lambda>i. segs ! i \<noteq> None) [0..<c])"
      using map_nth [of segs] assms(1) by (metis (no_types, lifting) comp_apply filter_cong filter_map)
    also have "\<dots> = map (\<lambda>i. Some (f i)) (filter (\<lambda>i. segs ! i \<noteq> None) [0..<c])"
      using assms(2) by (intro map_cong) auto
    finally show ?thesis .
  qed
  moreover have "inj_on (\<lambda>i. Some (f i)) (set (filter (\<lambda>i. segs ! i \<noteq> None) [0..<c]))"
    using assms(3) by (auto simp: inj_on_def)
  ultimately show ?thesis by (simp add: distinct_map)
qed

lemma young_freeable:
  assumes "young_ring n s"
  shows "freeable s"
proof -
  obtain segs where segs: "segments (ring s) = Some segs" "segment_count (ring s) = 4" "young_slots n segs"
    using assms by (auto simp: young_ring_def ring_shape_def)
  have "distinct (filter (\<lambda>p. p \<noteq> None) segs)"
    using segs(3) by (intro young_slots_distinct [of _ 4 "\<lambda>i. i"]) (auto simp: young_slots_def)
  moreover have "seg_heap s a \<noteq> None" if "Some a \<in> set segs" for a
    using that segs(3) assms by (auto simp: young_slots_def young_ring_def in_set_conv_nth)
  ultimately show ?thesis using segs by (auto simp: freeable_def young_slots_def)
qed

lemma young_checkpoint:
  assumes "young_ring n s" "\<forall>k. al k"
  shows "\<exists>s'. ipmb_ring_checkpoint al s = Ok s' \<and> young_ring n s'"
  using assms by (auto simp: young_ring_def ring_shape_def ipmb_ring_checkpoint_def rd_bytes_def store_all_cells Let_def)

lemma young_rollback:
  assumes "young_ring n s"
  shows "\<exists>s'. ipmb_ring_rollback s = Ok s' \<and> young_ring n s'"
  using assms by (auto simp: young_ring_def ring_shape_def ipmb_ring_rollback_def load_all_cells Let_def)

lemma young_advance:
  assumes "young_ring n s" "\<forall>k. al k" "n < 4"
  shows "\<exists>s'. ipmb_ring_advance al s d = Ok s' \<and> young_ring (Suc n) s'"
proof -
  obtain segs lens where r: "segments (ring s) = Some segs" "lengths (ring s) = Some lens" "length segs = 4" "length lens = 4"
      "segment_count (ring s) = 4" "head (ring s) = n" "young_slots n segs" "seg_fresh s = n"
    using assms by (auto simp: young_ring_def ring_shape_def young_slots_def)
  have old: "segs ! n = None" using r(7) assms(3) by (auto simp: young_slots_def)
  have "ipmb_ring_advance al s d = Ok (s\<lparr>ring := (ring s)\<lparr>segments := Some (segs[n := Some n]),
      lengths := Some (lens[n := length d]), head := (n + 1) mod 4\<rparr>, seg_heap := (seg_heap s)(n \<mapsto> d), seg_fresh := n + 1\<rparr>)"
    (is "_ = Ok ?s")
    using r assms(2,3) old by (simp add: ipmb_ring_advance_def ipmb_ring_append_def rd8_def free_segment_def Let_def)
  moreover have "young_ring (Suc n) ?s"
    using assms(1) r assms(3) young_slots_grow [OF r(7) assms(3)] young_slots_weaken
    by (auto simp: young_ring_def ring_shape_def less_Suc_eq)
  ultimately show ?thesis by blast
qed

lemma fifth_advance:
  assumes "young_ring 4 s" "\<forall>k. al k"
  shows "\<exists>s'. ipmb_ring_advance al s d = Ok s' \<and> freeable s'"
proof -
  obtain segs lens where r: "segments (ring s) = Some segs" "lengths (ring s) = Some lens" "length segs = 4" "length lens = 4"
      "segment_count (ring s) = 4" "head (ring s) = 0" "young_slots 4 segs" "seg_fresh s = 4" "\<forall>a < 4. seg_heap s a \<noteq> None"
    using assms by (auto simp: young_ring_def ring_shape_def)
  have slot: "segs ! i = None \<or> segs ! i = Some i" if "i < 4" for i using r(7) that by (auto simp: young_slots_def)
  let ?h = "(if segs ! 0 = None then (seg_heap s)(4 \<mapsto> d) else ((seg_heap s)(4 \<mapsto> d))(0 := None))"
  have "free_segment ((seg_heap s)(4 \<mapsto> d)) (segs ! 0) = (Ok ?h :: (ipmb_status \<times> ring_state, _) res)"
    using slot [of 0] r(9) by (auto simp: free_segment_def)
  then have run: "ipmb_ring_advance al s d = Ok (s\<lparr>ring := (ring s)\<lparr>segments := Some (segs[0 := Some 4]),
      lengths := Some (lens[0 := length d]), head := 1\<rparr>, seg_heap := ?h, seg_fresh := 5\<rparr>)" (is "_ = Ok ?s")
    using r assms(2) by (simp add: ipmb_ring_advance_def ipmb_ring_append_def rd8_def Let_def)
  let ?f = "\<lambda>i. if i = 0 then 4 else i :: nat"
  have slots: "\<forall>i < 4. segs[0 := Some 4] ! i = None \<or> segs[0 := Some 4] ! i = Some (?f i)"
    using slot r(3) by (auto simp: nth_list_update)
  have "distinct (filter (\<lambda>p. p \<noteq> None) (segs[0 := Some 4]))"
    using slots r(3) by (intro young_slots_distinct [of _ 4 ?f]) (auto simp: inj_on_def)
  moreover have "seg_heap ?s a \<noteq> None" if "Some a \<in> set (segs[0 := Some 4])" for a
    using that slots r(3,9) by (auto simp: in_set_conv_nth split: if_splits)
  ultimately have "freeable ?s" using r by (auto simp: freeable_def)
  with run show ?thesis by blast
qed

lemma ring_loop_young:
  assumes al: "\<forall>i k. fst (als i) k \<and> snd (als i) k" and len: "length data \<le> 40"
  shows "young_ring n s \<Longrightarrow> n \<le> 4 \<Longrightarrow> \<exists>s'. ring_loop als data (8 * n) s = Ok s' \<and> freeable s'"
proof (induction "5 - n" arbitrary: n s rule: less_induct)
  case less
  let ?i = "8 * n"
  show ?case
  proof (cases "?i < length data")
    case True
    obtain s1 where s1: "(if data ! ?i AND 1 \<noteq> 0 then ipmb_ring_checkpoint (fst (als ?i)) s else Ok s) = Ok s1" "young_ring n s1"
      using young_checkpoint [OF less.prems(1), of "fst (als ?i)"] less.prems al by (cases "data ! ?i AND 1 \<noteq> 0") auto
    obtain s2 where s2: "(if data ! ?i AND 2 \<noteq> 0 then ipmb_ring_rollback s1 else Ok s1) = Ok s2" "young_ring n s2"
      using young_rollback [OF s1(2)] s1(2) by (cases "data ! ?i AND 2 \<noteq> 0") auto
    have al': "\<forall>k. snd (als ?i) k" using al by simp
    note step = ring_loop_step [OF True, of als s, unfolded s1(1) s2(1) rbind.simps]
    show ?thesis
    proof (cases "n < 4")
      case True
      from young_advance [OF s2(2) al' True] obtain s3 where
        s3: "ipmb_ring_advance (snd (als ?i)) s2 (take 8 (drop ?i data)) = Ok s3" "young_ring (Suc n) s3" by blast
      with less.hyps [OF _ s3(2)] True show ?thesis unfolding step by (simp add: add.commute)
    next
      case False
      with less.prems(2) have n: "n = 4" by simp
      from fifth_advance [OF s2(2) [unfolded n] al'] obtain s3 where
        s3: "ipmb_ring_advance (snd (als ?i)) s2 (take 8 (drop ?i data)) = Ok s3" "freeable s3" by blast
      have "ring_loop als data (?i + 8) s3 = Ok s3" using len n by (subst ring_loop.simps) simp
      with s3 show ?thesis unfolding step by simp
    qed
  next
    case False
    with young_freeable [OF less.prems(1)] show ?thesis by (subst ring_loop.simps) simp
  qed
qed

text \<open>The rules of the match table harness: the texts between zero bytes, cut at 100 bytes, at most
  ten of them; each that parses and whose field is known is added under its number.\<close>

definition first_text :: "byte list \<Rightarrow> byte list" where
  "first_text xs = take 100 (takeWhile (\<lambda>b. b \<noteq> 0) xs)"

fun fuzz_texts :: "nat \<Rightarrow> byte list \<Rightarrow> byte list list" where
  "fuzz_texts n xs = (case n of 0 \<Rightarrow> [] | Suc k \<Rightarrow>
     if xs = [] then [] else first_text xs # fuzz_texts k (drop (length (first_text xs) + 1) xs))"

declare fuzz_texts.simps [simp del]

definition text_rule :: "nat \<times> byte list \<Rightarrow> ipmb_match_rule list" where
  "text_rule x = (if snd x = [] then [] else case ipmb_rule_parse (map chr_of (snd x)) of
     Ok ast \<Rightarrow> if field_id (rule_field ast) = 0 then []
              else [rule_of (''auto'', of_nat (fst x + 1), assemble (rule_instrs ast))]
   | _ \<Rightarrow> [])"

definition fuzz_rules :: "byte list \<Rightarrow> ipmb_match_rule list" where
  "fuzz_rules data = concat (map text_rule (enumerate 0 (fuzz_texts 10 (drop 4 data))))"

lemma first_text_length: "length (first_text xs) = min 100 (length (takeWhile (\<lambda>b. b \<noteq> 0) xs))"
  by (simp add: first_text_def min.commute)

lemma rule_length_run:
  assumes "offset \<le> length data"
  shows "n \<le> length (first_text (drop offset data)) \<Longrightarrow>
    rule_length data offset n = Ok (length (first_text (drop offset data)))"
proof (induction "100 - n" arbitrary: n rule: less_induct)
  case less
  let ?xs = "drop offset data"
  let ?tw = "takeWhile (\<lambda>b. b \<noteq> 0) ?xs"
  have n: "n \<le> 100" "n \<le> length ?tw" using less.prems by (simp_all add: first_text_length)
  have tw: "length ?tw \<le> length ?xs" by (rule length_takeWhile_le)
  show ?case
  proof (cases "n < length (first_text ?xs)")
    case True
    then have lt: "n < length ?tw" "n < 100" by (simp_all add: first_text_length)
    then have "?xs ! n \<noteq> 0" using nth_mem [OF lt(1)] by (metis (mono_tags) set_takeWhileD takeWhile_nth)
    moreover have "offset + n < length data" using lt(1) tw by simp
    ultimately show ?thesis using lt less.hyps [of "n + 1"] True
      by (subst rule_length.simps) (simp add: rd8_def)
  next
    case False
    then have eq: "length (first_text ?xs) = n" using less.prems by simp
    show ?thesis
    proof (cases "offset + n < length data \<and> n < 100")
      case True
      with eq have "length ?tw = n" by (auto simp: first_text_length min_def split: if_splits)
      moreover from True have "n < length ?xs" by auto
      ultimately have "?xs ! n = 0" using nth_length_takeWhile [of "\<lambda>b. b \<noteq> 0" ?xs] by simp
      with True eq show ?thesis by (subst rule_length.simps) (simp add: rd8_def)
    next
      case False
      with eq show ?thesis by (subst rule_length.simps) (auto simp: rd8_def)
    qed
  qed
qed

lemma chr_of_nonzero:
  assumes "b \<noteq> 0"
  shows "chr_of b \<noteq> CHR 0x00"
proof
  assume "chr_of b = CHR 0x00"
  then have "(of_char (chr_of b) :: nat) = of_char CHR 0x00" by (rule arg_cong)
  moreover have "unat b < 256" using unsigned_less [of b, where ?'a = nat] by simp
  ultimately have "unat b = 0" by (simp add: chr_of_def)
  with assms show False by (simp add: unat_0_iff)
qed

lemma first_text_nonzero: "list_all (\<lambda>b. b \<noteq> 0) (first_text xs)"
  by (auto simp: first_text_def list_all_iff dest!: in_set_takeD set_takeWhileD)

lemma fuzz_frame_priority: "unat (ucast (b :: byte) :: 16 word) < 256"
proof -
  have "unat b < 256" using unsigned_less [of b, where ?'a = nat] by simp
  moreover from this have "unat b < 2 ^ LENGTH(16)" by simp
  then have "unat (ucast b :: 16 word) = unat b" by (simp only: unsigned_ucast_eq take_bit_nat_eq_self)
  ultimately show ?thesis by simp
qed

lemma first_text_prefix: obtains zs where "xs = first_text xs @ zs"
proof -
  have "prefix (first_text xs) xs"
    unfolding first_text_def using take_is_prefix takeWhile_is_prefix by (rule prefix_order.trans)
  with that show ?thesis by (auto simp: prefix_def)
qed

lemma add_text_rule:
  assumes "table_wf t" "\<forall>k. fst al k \<and> snd al k" "first_text xs \<noteq> []"
  shows "\<exists>t'. add_text al (first_text xs) i t = Ok t' \<and> table_wf t' \<and>
    table_rules t' = table_rules t @ text_rule (i, first_text xs)"
proof -
  let ?bytes = "first_text xs"
  have n: "length ?bytes \<le> 100" by (simp add: first_text_length)
  have store: "store_cells (calloc_cells 0 128) 0 ?bytes =
      (Ok (map Some ?bytes @ replicate (128 - length ?bytes) (Some 0)) :: (unit, _) res)"
    using n by (simp add: store_cells_def calloc_cells_def)
  have "128 - length ?bytes = Suc (127 - length ?bytes)" using n by simp
  then have cells: "map (map_option chr_of) (map Some ?bytes @ replicate (128 - length ?bytes) (Some 0)) =
      map Some (map chr_of ?bytes) @ Some (CHR 0x00) # replicate (127 - length ?bytes) (Some (CHR 0x00))"
    by simp
  have "c_string (map chr_of ?bytes) = map chr_of ?bytes"
    using first_text_nonzero [of xs] chr_of_nonzero by (intro c_string_id) (auto simp: list_all_iff)
  then have cstr: "read_cstring (map (map_option chr_of) (map Some ?bytes @ replicate (128 - length ?bytes) (Some 0))) =
      (Ok (map chr_of ?bytes) :: (unit, string) res)"
    unfolding cells by (simp only: read_cstring_prefix)
  show ?thesis
  proof (cases "ipmb_rule_parse (map chr_of ?bytes)")
    case (Ok ast)
    show ?thesis
    proof (cases "field_id (rule_field ast) = 0")
      case True
      with Ok assms show ?thesis
        by (auto simp: add_text_def store cstr [simplified] compile_outcome text_rule_def)
    next
      case False
      let ?code = "assemble (rule_instrs ast)" and ?prio = "of_nat (i + 1) :: 32 word"
      obtain rs where rs: "filled (match_rules t) (match_count t) (match_capacity t) rs"
        using assms(1) by (auto simp: table_wf_def)
      obtain t' where t': "ipmb_match_table_add (snd al) t ''auto'' ?prio ?code = Ok t'"
          "filled (match_rules t') (match_count t') (match_capacity t') (rs @ [rule_of (''auto'', ?prio, ?code)])"
        using match_table_add_cases [OF rs, of "snd al" "''auto''" ?prio ?code] assms(2) by auto
      have "ipmb_rule_compile (fst al) ast = Ok ?code"
        using False assms(2) by (simp add: compile_outcome list_all_iff)
      with Ok t'(1) have "add_text al ?bytes i t = Ok t'"
        by (simp add: add_text_def store cstr [simplified])
      moreover have "text_rule (i, ?bytes) = [rule_of (''auto'', ?prio, ?code)]"
        using Ok False assms(3) by (simp add: text_rule_def)
      ultimately show ?thesis
        using t'(2) table_filled [OF rs] table_filled [OF t'(2)] by (auto simp: table_wf_def)
    qed
  next
    case (Err e)
    with assms show ?thesis by (simp add: add_text_def store cstr [simplified] text_rule_def)
  next
    case (Fault u)
    with rule_parse_safe [of "map chr_of ?bytes"] show ?thesis by simp
  qed
qed

lemma match_fuzz_loop_rules:
  assumes "\<forall>i k. fst (als i) k \<and> snd (als i) k"
  shows "table_wf t \<Longrightarrow> offset \<le> length data + 1 \<Longrightarrow> i \<le> 10 \<Longrightarrow>
    \<exists>t'. match_fuzz_loop als data offset i t = Ok t' \<and> table_wf t' \<and>
      table_rules t' = table_rules t @ concat (map text_rule (enumerate i (fuzz_texts (10 - i) (drop offset data))))"
proof (induction "10 - i" arbitrary: i offset t)
  case 0
  then show ?case by (subst match_fuzz_loop.simps) (simp add: fuzz_texts.simps)
next
  case (Suc n)
  show ?case
  proof (cases "offset < length data")
    case True
    let ?xs = "drop offset data"
    have len: "(rule_length data offset 0 :: (unit, nat) res) = Ok (length (first_text ?xs))"
      using True by (intro rule_length_run) simp_all
    have ten: "10 - i = Suc n" "10 - Suc i = n" using Suc.hyps(2) by simp_all
    have texts: "fuzz_texts (10 - i) ?xs = first_text ?xs # fuzz_texts n (drop (offset + (length (first_text ?xs) + 1)) data)"
      unfolding ten using True by (subst fuzz_texts.simps) (simp add: add.commute)
    obtain zs where zs: "?xs = first_text ?xs @ zs" by (rule first_text_prefix)
    then have le: "length (first_text ?xs) \<le> length ?xs" by (metis length_append le_add1)
    have "take (length (first_text ?xs)) ?xs = first_text ?xs" by (subst (2) zs) simp
    with True le have bytes: "rd_bytes data offset (length (first_text ?xs)) = (Ok (first_text ?xs) :: (unit, _) res)"
      by (simp add: rd_bytes_def)
    let ?add = "if length (first_text ?xs) > 0 then rbind (rd_bytes data offset (length (first_text ?xs)))
        (\<lambda>bytes. add_text (als i) bytes i t) else Ok t"
    have "\<exists>t'. ?add = Ok t' \<and> table_wf t' \<and> table_rules t' = table_rules t @ text_rule (i, first_text ?xs)"
      unfolding bytes using add_text_rule [OF Suc.prems(1), of "als i" ?xs i] assms Suc.prems(1)
      by (cases "first_text ?xs = []") (auto simp: text_rule_def)
    then obtain t1 where t1: "?add = Ok t1" "table_wf t1" "table_rules t1 = table_rules t @ text_rule (i, first_text ?xs)"
      by blast
    have off: "offset + (length (first_text ?xs) + 1) \<le> length data + 1" using le True by simp
    have "i + 1 \<le> 10" "n = 10 - (i + 1)" using Suc.hyps(2) by simp_all
    from Suc.hyps(1) [OF this(2) t1(2) off this(1)] obtain t' where
      t': "match_fuzz_loop als data (offset + (length (first_text ?xs) + 1)) (i + 1) t1 = Ok t'" "table_wf t'"
        "table_rules t' = table_rules t1 @ concat (map text_rule (enumerate (i + 1)
           (fuzz_texts (10 - (i + 1)) (drop (offset + (length (first_text ?xs) + 1)) data))))"
      by blast
    have "i < 10" using Suc.hyps(2) by simp
    with True t'(1) have "match_fuzz_loop als data offset i t = Ok t'"
      unfolding match_fuzz_loop.simps [of als data offset i t] len rbind.simps t1(1) by simp
    with t'(2,3) t1(3) show ?thesis
      unfolding texts using ten by simp
  next
    case False
    with Suc.prems Suc.hyps(2) show ?thesis
      by (subst match_fuzz_loop.simps) (simp add: fuzz_texts.simps split: nat.split)
  qed
qed

lemma fuzz_rules_fit: "unat (priority f) < 256 \<Longrightarrow> list_all (score_fits f) (fuzz_rules data)"
proof -
  assume p: "unat (priority f) < 256"
  have texts: "length (fuzz_texts n xs) \<le> n" for n xs
    by (induction n xs rule: fuzz_texts.induct) (subst fuzz_texts.simps, auto split: nat.splits)
  have "score_fits f r" if "r \<in> set (text_rule (i, s))" "i < 10" for i s r
  proof -
    have "sint (of_nat (i + 1) :: 32 word) = int i + 1"
      using that(2) by (simp only: signed_of_nat) (subst signed_take_bit_int_eq_self, simp_all)
    moreover have "uint (priority f) < 256" using p unfolding unat_eq_nat_uint by arith
    ultimately show ?thesis using that
      by (auto simp: text_rule_def score_fits_rule_of i32_fits_def split: if_splits res.splits)
  qed
  then show ?thesis
    using texts [of 10 "drop 4 data"] by (fastforce simp: fuzz_rules_def list_all_iff in_set_enumerate_eq)
qed

section \<open>Properties\<close>

text \<open>C12: The targets no fuzzer can crash.  On every input and with every behaviour of the allocator
  the harnesses of the message, journal and telemetry parsers, of the rule parser and of the
  whole path from rule text to the machine return; that of the delta decoder returns or meets
  the signed overflow of its accumulator, and that of the run-length decoder returns for
  inputs below 2^55 bytes.\<close>

theorem safe_harnesses:
  "fuzz_frame_reader al data = Ok () \<and> fuzz_session_journal al data = Ok () \<and>
   fuzz_telemetry_extractor al data = Ok () \<and> fuzz_rule_parser al data = Ok () \<and>
   fuzz_route_vm al alc data = Ok () \<and> fuzz_delta_codec al data \<in> {Ok (), Fault Int_overflow} \<and>
   (2 ^ 55 \<le> length data \<or> fuzz_rle_codec al data = Ok ())"
proof (intro conjI)
  show "fuzz_frame_reader al data = Ok ()" "fuzz_session_journal al data = Ok ()" "fuzz_telemetry_extractor al data = Ok ()"
    by (simp_all add: fuzz_frame_reader_def fuzz_session_journal_def fuzz_telemetry_extractor_def swallow_safe
        parse_message_no_fault journal_parse_no_fault batch_parse_no_fault)
  show "fuzz_rule_parser al data = Ok ()"
    by (simp add: fuzz_rule_parser_def text_of_eq swallow_safe rule_parse_safe)
  show "fuzz_route_vm al alc data = Ok ()"
    using rule_parse_safe [of "c_string (map chr_of data)"]
    by (auto simp: fuzz_route_vm_def text_of_eq compile_outcome swallow_safe vm_safe split: res.split)
  show "fuzz_delta_codec al data \<in> {Ok (), Fault Int_overflow}"
    using delta_decode_safe [of al data] by (auto simp: fuzz_delta_codec_def swallow_safe)
  have "no_fault (ipmb_rle_decode al data)" if "length data < 2 ^ 55"
  proof (cases "prefix (ascii ''IRLE'') data")
    case True
    have "length (rle_expand (drop 4 data)) \<le> 2 ^ 63"
      using length_rle_expand [of "drop 4 data"] that by simp
    from rle_decode_outcome [OF this True, of al] show ?thesis by (elim disjE exE conjE) simp_all
  qed (auto simp: ipmb_rle_decode_def prefix_magic)
  then show "2 ^ 55 \<le> length data \<or> fuzz_rle_codec al data = Ok ()"
    by (metis fuzz_rle_codec_def not_le swallow_safe)
qed

text \<open>C13: What the pipeline harness finds.  With memory for the register maps, it crashes on exactly
  the inputs that parse as a message with a frame whose payload has a complete field table and,
  as the first field that does not end inside the payload, one whose offset and length the
  decoder's check accepts.\<close>

theorem full_pipeline_finds:
  assumes "\<forall>i k. als i k"
  shows "fuzz_full_pipeline al als data = (case ipmb_parse_message al data of
     Ok msg \<Rightarrow> if \<exists>f \<in> set (the (frames msg)). map_reads_outside (payload f) then Fault Oob_read else Ok ()
   | _ \<Rightarrow> Ok ())"
proof (cases "ipmb_parse_message al data")
  case (Ok msg)
  then obtain fs where "frames msg = Some fs" "length fs = unat (frame_count msg)" "\<forall>f \<in> set fs. frame_wf f"
    by (auto simp: parse_message_Ok message_wf_eq)
  with Ok pipeline_loop_run [OF this assms, of 0] show ?thesis
    by (simp add: fuzz_full_pipeline_def)
next
  case (Fault u)
  with parse_message_no_fault [of al data] show ?thesis by simp
qed (simp add: fuzz_full_pipeline_def)

definition crash_frame :: ipmb_frame where
  "crash_frame = (let f = sample_frame\<lparr>payload := ascii ''RMAP'' @ [1, 0, 0, 0, 1, 0, 0, 0, 4, 0, 9, 9], payload_len := 16\<rparr> in
     f\<lparr>crc := ipmb_crc32 (frame_body f)\<rparr>)"

lemma full_pipeline_finds_witness:
  "fuzz_full_pipeline (\<lambda>_. True) (\<lambda>_ _. True) (message_image (sample_message\<lparr>frames := Some [crash_frame]\<rparr>))
     = Fault Oob_read"
proof -
  let ?m = "sample_message\<lparr>frames := Some [crash_frame]\<rparr>"
  have "message_wf ?m"
    by (simp add: message_wf_eq sample_message_def frame_wf_def crash_frame_def sample_frame_def frame_body_def Let_def
        IPMB_MAX_FRAMES_def IPMB_MAX_PAYLOAD_def)
  then have "ipmb_parse_message (\<lambda>_. True) (message_image ?m) = Ok ?m" by (simp add: parse_message_Ok)
  moreover have "map_reads_outside (payload crash_frame)"
    by (simp add: crash_frame_def Let_def map_reads_outside_def table_complete_def le16_at_def ascii_def table_entries_def
        entry_inside_def entry_checked_def)
  ultimately show ?thesis using full_pipeline_finds [of "\<lambda>_ _. True"] by simp
qed

text \<open>What the histogram harness finds.  It crashes on exactly the inputs with a byte, after the
  first, whose low four bits plus the low three bits of the first byte reach 16: the index
  passes the check and the offset then moves it behind the bins.\<close>

theorem histogram_finds:
  "fuzz_histogram al data =
     (if al 0 \<and> (\<exists>b \<in> set (tl data). 16 \<le> unat (b AND 15) + unat (hd data AND 7)) then Fault Oob_write else Ok ())"
proof (cases data)
  case Nil
  then show ?thesis by (cases "al 0") (simp_all add: fuzz_histogram_def ipmb_histogram_init_def alloc_def)
next
  case (Cons b bs)
  have "b AND 7 \<le> 7" by (rule word_and_le1)
  then have "unat (b AND 7) < 16" by (simp add: word_le_nat_alt)
  moreover from this have "unat (b AND 7) < 2 ^ LENGTH(32)" by simp
  then have off: "unat (ucast (b AND 7) :: 32 word) = unat (b AND 7)"
    by (simp only: unsigned_ucast_eq take_bit_nat_eq_self)
  ultimately have small: "(ucast (b AND 7) :: 32 word) < 16" by (simp add: word_less_nat_alt)
  have wf: "histogram_wf \<lparr>bucket_count = 16, bins = Some (replicate 16 0)\<rparr>" by (simp add: histogram_wf_def)
  show ?thesis
    using histogram_loop_run [OF small wf, of bs] off
    by (cases "al 0") (simp_all add: Cons fuzz_histogram_def ipmb_histogram_init_def alloc_def)
qed

text \<open>The checkpoint harness crashes on every input of four bytes or more.  Half of the input is
  appended, and the migration of two bytes or more copies one byte too many; with memory
  available nothing else can happen.\<close>

theorem checkpoint_store_finds:
  assumes "length data < 2 ^ 64" "\<forall>i k. als i k"
  shows "fuzz_checkpoint_store als moved data = (if 4 \<le> length data then Fault Oob_write else Ok ())"
  using assms by (rule checkpoint_harness_run)

lemma checkpoint_store_finds_witness: "fuzz_checkpoint_store (\<lambda>_ _. True) False [1, 2, 3, 4] = Fault Oob_write"
  using checkpoint_store_finds [of "[1, 2, 3, 4]" "\<lambda>_ _. True" False] by simp

text \<open>C26: What the match table harness finds.  With memory available it crashes on exactly the inputs
  of which two of the rules match the frame of the first four bytes, if the block of results
  moves when it grows for a match after the first.\<close>

theorem match_table_finds:
  assumes "\<forall>i k. fst (als i) k \<and> snd (als i) k" "\<forall>k. al k"
  shows "fuzz_match_table als al mv data =
    (let hs = filter (\<lambda>r. ipmb_vm_evaluate (match_code r) (match_fuzz_frame data) = Ok True) (fuzz_rules data) in
     if 4 \<le> length data \<and> (\<exists>k < length hs. 0 < k \<and> mv k) then Fault Use_after_free else Ok ())"
proof (cases "length data < 4")
  case False
  let ?f = "match_fuzz_frame data"
  obtain t where t: "match_fuzz_loop als data 4 0 ipmb_match_table_init = Ok t" "table_wf t" "table_rules t = fuzz_rules data"
    using match_fuzz_loop_rules [OF assms(1) matches.empty_wf, of 4 data 0] False
    by (auto simp: matches.empty_contents fuzz_rules_def)
  have "unat (priority ?f) < 256" using fuzz_frame_priority by (simp add: match_fuzz_frame_def)
  then have "list_all (score_fits ?f) (hits t ?f)"
    using fuzz_rules_fit [of ?f data] by (auto simp: hits_def t(3) list_all_iff)
  from evaluate_hits [OF t(2) assms(2) this, of mv] show ?thesis
    using False t(1) unfolding hits_def t(3) Let_def
    by (auto simp: fuzz_match_table_def Let_def split: if_splits)
qed (simp add: fuzz_match_table_def Let_def)

lemma match_table_finds_witness:
  "fuzz_match_table (\<lambda>_. (\<lambda>_. True, \<lambda>_. True)) (\<lambda>_. True) (\<lambda>_. True)
     ([1, 2, 3, 9] @ ascii ''priority > 1'' @ [0] @ ascii ''priority > 2'') = Fault Use_after_free"
proof -
  let ?d = "[1, 2, 3, 9] @ ascii ''priority > 1'' @ [0] @ ascii ''priority > 2''"
  have "length (filter (\<lambda>r. ipmb_vm_evaluate (match_code r) (match_fuzz_frame ?d) = Ok True) (fuzz_rules ?d)) = 2"
    by code_simp
  then show ?thesis
    using match_table_finds [of "\<lambda>_. (\<lambda>_. True, \<lambda>_. True)" "\<lambda>_. True" "\<lambda>_. True" ?d]
    by (simp add: Let_def ascii_def) (metis One_nat_def less_2_cases_iff zero_less_one)
qed

text \<open>C25: What the ring harness finds.  With memory available a run returns, or ends in freeing a
  segment twice.  It returns for every input of at most 40 bytes and for every input none of
  whose chunks of 8 bytes starts with a byte that asks for a rollback; 41 bytes are enough for
  the double free.\<close>

theorem ring_window_finds:
  assumes "\<forall>k. al k" "\<forall>i k. fst (als i) k \<and> snd (als i) k"
  shows "fuzz_ring_window al als data \<in> {Ok (), Fault Double_free} \<and>
    (length data \<le> 40 \<or> list_all (\<lambda>i. i mod 8 = 0 \<longrightarrow> data ! i AND 2 = 0) [0..<length data] \<longrightarrow>
       fuzz_ring_window al als data = Ok ()) \<and>
    fuzz_ring_window (\<lambda>_. True) (\<lambda>_. (\<lambda>_. True, \<lambda>_. True)) (replicate 8 0 @ [1] @ replicate 31 0 @ [2])
      = Fault Double_free"
proof -
  obtain s where s: "ipmb_ring_init al new_ring 4 = Ok s" "ring_holds 4 [] s" "\<not> has_snapshot (ring s)"
    using ring_init_holds [of 4 al] assms(1) by auto
  have shape: "ring_shape 4 s" using s(2,3) by (auto simp: ring_holds_def ring_shape_def)
  have young: "young_ring 0 s"
    using shape s(2,3) by (auto simp: young_ring_def young_slots_def ring_holds_def)
  have frees: "fuzz_ring_window al als data = Ok ()" if "ring_loop als data 0 s = Ok s'" "freeable s'" for s'
    using that freeable_frees [OF that(2)] by (auto simp: fuzz_ring_window_def s(1))
  have all: "fuzz_ring_window al als data \<in> {Ok (), Fault Double_free}"
    using ring_loop_shape [OF assms(2) shape, of data 0]
  proof (elim disjE exE conjE)
    fix s' assume s': "ring_loop als data 0 s = Ok s'" "ring_shape 4 s'"
    then obtain segs where "segments (ring s') = Some segs" "segment_count (ring s') \<le> length segs"
      by (auto simp: ring_shape_def)
    with s'(1) free_segments_shape [OF this(2), of "seg_heap s'"] show ?thesis
      by (auto simp: fuzz_ring_window_def s(1) ipmb_ring_free_def)
  qed (simp add: fuzz_ring_window_def s(1))
  have short: "fuzz_ring_window al als data = Ok ()" if "length data \<le> 40"
    using ring_loop_young [OF assms(2) that young] frees by auto
  have forward: "fuzz_ring_window al als data = Ok ()"
    if "list_all (\<lambda>i. i mod 8 = 0 \<longrightarrow> data ! i AND 2 = 0) [0..<length data]"
  proof -
    have "\<forall>i < length data. i mod 8 = 0 \<longrightarrow> data ! i AND 2 = 0" using that by (simp add: list_all_iff)
    from ring_loop_forward [OF assms(2) this s(2), of 0] show ?thesis
      using frees ring_holds_freeable [of 4] by auto
  qed
  have "fuzz_ring_window (\<lambda>_. True) (\<lambda>_. (\<lambda>_. True, \<lambda>_. True)) (replicate 8 0 @ [1] @ replicate 31 0 @ [2])
      = Fault Double_free"
    by code_simp
  with all short forward show ?thesis by simp
qed

lemma ring_window_finds_witness:
  "fuzz_ring_window (\<lambda>_. True) (\<lambda>_. (\<lambda>_. True, \<lambda>_. True)) [3, 0, 0] = Ok ()"
  using ring_window_finds [of "\<lambda>_. True" "\<lambda>_. (\<lambda>_. True, \<lambda>_. True)" "[3, 0, 0]"] by simp

end
