(* ===== verification/Spec2Isabelle.thy ===== *)
theory Spec2Isabelle
  imports Endian Checksum Varint Bitstream Delta_Codec Rle_Codec Frame_Reader Journal
    Telemetry_Extractor Field_Decoder Transport_Layer Rule_Compiler Storage Telemetry_Buffers
    Session_Tracker Event_Log Replay_Engine Match_Table Checkpoint_Store Ring_Window
    Session_Catalog Protocol_Spec Schema_Registry Diagnostics File_Input Apps Vm_Verifier
    Test_Support Test_Suite Fuzz_Harnesses Fuzz_Findings
begin

text \<open>
  A verification development of IPMB, the industrial protocol message broker: a C11 library of
  parsers, codecs, a rule language with a small virtual machine, session bookkeeping and
  telemetry containers, three command-line programs, a test suite and fuzz harnesses.  File names below are those of the
  repository.

  \<^bold>\<open>The program.\<close>  A message is a header with a checksum and a list of frames with a checksum
  each (\<^verbatim>\<open>src/protocol/frame_reader.c\<close>).  The payload of a frame is, by its type, a register map
  (\<^verbatim>\<open>src/protocol/field_decoder.c\<close>), a set of fragments of a larger message
  (\<^verbatim>\<open>src/protocol/transport_layer.c\<close>), a batch of telemetry (\<^verbatim>\<open>src/telemetry/extractor.c\<close>) or a
  journal of session events (\<^verbatim>\<open>src/session/journal.c\<close>).  A journal is replayed: its records
  update the linked list of sessions (\<^verbatim>\<open>src/session/session_tracker.c\<close>) and take snapshots of
  it (\<^verbatim>\<open>src/replay\<close>).  Frames are routed by rules: a text is split into tokens, parsed, compiled
  to bytes and evaluated on a frame, alone or as the best of a table of rules
  (\<^verbatim>\<open>src/routing\<close>).  Below these lie the codecs (\<^verbatim>\<open>src/codec\<close>) and the byte utilities
  (\<^verbatim>\<open>src/util\<close>), beside them growing containers and constant tables.

  \<^bold>\<open>How C is modelled.\<close>  (\<^verbatim>\<open>Ipmb_Prelude\<close>, \<^verbatim>\<open>C_Memory\<close>.)  A call returns \<open>Ok\<close> with its results,
  \<open>Err\<close> with the status it returns early (with the object as the caller finds it, where it
  can be seen), or \<open>Fault\<close> with the kind of undefined behaviour: an access outside an object, a
  read of a byte never written, of a null or of a freed block, a double free, the overflow of
  an \<^verbatim>\<open>int\<close>.  So every theorem that names an outcome also says whether the code is memory
  safe.  A readable object is the list of its elements; an allocated block is a list of cells, \<open>None\<close>
  until written.  Blocks whose aliasing matters (session entries, ring segments) live in a
  heap, a map from addresses that are never given out again.  Allocation may fail: a call that
  allocates takes the answers of the allocator as an argument.  Where the code keeps a pointer
  into a block it reallocates (the best match, the source of a migration) an argument says
  whether the reallocation moves the block.  Structs are records, enumerations datatypes,
  integers of a fixed width words; a \<^verbatim>\<open>size_t\<close> is a \<^verbatim>\<open>nat\<close>, with \<^verbatim>\<open>mod size_modulus\<close> in the
  computations that can reach its width.  A frame keeps its payload and its payload length apart, as
  the code does: parsed frames have them agree, frames made by hand may have a null payload.  Loops are structural recursion, recursion with a measure, or
  \<open>partial_function (option)\<close> where the code's loop may not end (the growth loops, which hang
  once a capacity wraps to 0, and the walks over linked entries, which hang on a cycle);
  \<open>or_hang\<close> turns the missing result into a \<open>Fault\<close>, so that no theorem holds only because
  a loop does not return.

  \<^bold>\<open>Theories.\<close>
  \<^item> Bytes and codecs: \<^verbatim>\<open>Endian\<close>, \<^verbatim>\<open>Checksum\<close>, \<^verbatim>\<open>Varint\<close> for \<^verbatim>\<open>src/util/endian.c\<close>, \<^verbatim>\<open>checksum.c\<close> (with
    \<^verbatim>\<open>src/protocol/crc_table.c\<close>), \<^verbatim>\<open>varint.c\<close>; \<^verbatim>\<open>Bitstream\<close>, \<^verbatim>\<open>Delta_Codec\<close>, \<^verbatim>\<open>Rle_Codec\<close> for \<^verbatim>\<open>src/codec\<close>.
    Their lemmas relate each loop to the format as a function on lists; from these follow the
    round trips, the outcome on every input and the detection of burst errors by the checksum.
  \<^item> Parsers: \<^verbatim>\<open>Byte_Read\<close> models \<^verbatim>\<open>src/util/byte_read.c\<close> and states, as the locale
    \<open>reader_codec\<close>, what a reading step promises: success exactly on the wire image of its value,
    a short read on a truncated image, no access outside.  Steps compose and repeat (\<open>field_reader\<close>,
    \<open>record_loop\<close>); \<^verbatim>\<open>Frame_Reader\<close>, \<^verbatim>\<open>Journal\<close> and \<^verbatim>\<open>Telemetry_Extractor\<close> interpret them on their record
    parsers, so that each succeeds exactly on the inputs that start with the image of a well-formed value.  \<^verbatim>\<open>Field_Decoder\<close> and
    \<^verbatim>\<open>Transport_Layer\<close> use offsets instead of a cursor; their lemmas give every outcome, the
    unsafe ones included.
  \<^item> Rules: \<^verbatim>\<open>Rule_Lexer\<close> (with \<^verbatim>\<open>strncpy\<close>, \<^verbatim>\<open>strtol\<close>, \<^verbatim>\<open>isspace\<close> and \<^verbatim>\<open>%d\<close>) and \<^verbatim>\<open>Rule_Parser\<close> (with the
    printer and the presets) work on rows of characters in memory and are shown to stay inside them
    and to agree with the words of the text; then come \<^verbatim>\<open>Rule_Compiler\<close> (with \<^verbatim>\<open>symbol_table.c\<close> and \<^verbatim>\<open>rule_analyzer.c\<close>) and \<^verbatim>\<open>Route_Vm\<close>.  The
    machine refines a step relation on instructions, and compiled rules evaluate to their
    meaning, in a known number of steps.  \<^verbatim>\<open>Vm_Verifier\<close> adds a type system for rule code, with
    preservation and progress: it decides whether the machine answers.  \<^verbatim>\<open>Match_Table\<close> is the
    table of rules.
  \<^item> Containers: \<^verbatim>\<open>Growable\<close> holds the doubling step that five files repeat, and the locale
    \<open>append_store\<close>; \<^verbatim>\<open>Storage\<close>, \<^verbatim>\<open>Telemetry_Buffers\<close> and \<^verbatim>\<open>Match_Table\<close> interpret it.
    \<^verbatim>\<open>Checkpoint_Store\<close> and \<^verbatim>\<open>Ring_Window\<close> relate their stores to a map and to the last payloads.
  \<^item> Sessions: \<^verbatim>\<open>Session_Tracker\<close> refines the linked list to a list of sessions and provides
    the locale \<open>session_store\<close>, over which \<^verbatim>\<open>Event_Log\<close> and \<^verbatim>\<open>Replay_Engine\<close> are verified.
  \<^item> Tables: \<^verbatim>\<open>Session_Catalog\<close>, \<^verbatim>\<open>Protocol_Spec\<close>, \<^verbatim>\<open>Schema_Layout\<close>, \<^verbatim>\<open>Schema_Rows_A\<close>, \<^verbatim>\<open>Schema_Rows_B\<close>,
    \<^verbatim>\<open>Schema_Rows_C\<close> and \<^verbatim>\<open>Schema_Registry\<close> hold every row of the constant tables as it is in the source
    (260, 900 and 4499 rows), the functions that read them, and the rule the rows follow;
    \<^verbatim>\<open>Table_Names\<close> has the decimal names and the locale \<open>wrapping_catalog\<close>.
  \<^item> Programs: \<^verbatim>\<open>Diagnostics\<close> has the status texts, log lines, owner names and the risk score;
    \<^verbatim>\<open>File_Input\<close> the reading of files, over what \<^verbatim>\<open>fseek\<close>, \<^verbatim>\<open>ftell\<close> and \<^verbatim>\<open>fread\<close> answer, by the
    programs and by the harnesses; \<^verbatim>\<open>Apps\<close> the three \<^verbatim>\<open>main\<close> functions.
  \<^item> Tests: \<^verbatim>\<open>Test_Support\<close> models the builders of \<^verbatim>\<open>tests/support/message_builder.c\<close>, whose output the parsers
    read back, and \<^verbatim>\<open>Test_Suite\<close> the eight tests with their frees and their \<^verbatim>\<open>main\<close>, each assertion a possible
    error; evaluating them validates the model on the inputs of the tests, and proves no more.  \<^verbatim>\<open>Fuzz_Harnesses\<close> models the programs under \<^verbatim>\<open>fuzz\<close> and \<^verbatim>\<open>Fuzz_Findings\<close>
    determines on which inputs they reach undefined behaviour.

  This theory imports everything and composes it: rule text and message bytes to the answer of
  \<^verbatim>\<open>ipmb-route\<close>.

  \<^bold>\<open>Bounds.\<close>  No fuel is used.  The growth loops \<open>double_until\<close> and \<open>grow_until\<close> are shown to
  end when what is needed is at most \<open>2 ^ 63\<close> bytes, which is the hypothesis of the lemmas on
  buffers (\<open>2 ^ 62\<close> for the sample buffer, whose capacity doubles before the loop); the run-length decoder is characterised below \<open>2 ^ 55\<close> input bytes for the same
  reason (a run expands to at most 255 bytes), its encoder up to \<open>2 ^ 63 - 4\<close>, where the size of its block wraps.  Byte counts of arrays of structs are assumed to
  fit in \<^verbatim>\<open>size_t\<close>.  An \<^verbatim>\<open>int\<close> has 32 bits, a \<^verbatim>\<open>size_t\<close> and a \<^verbatim>\<open>long\<close> 64.

  \<^bold>\<open>Not modelled.\<close>  The streams beyond the bytes read from files and the text written.  The
  \<^verbatim>\<open>free\<close> functions of containers that own all
  their blocks are modelled by the fields they leave; the blocks are not followed there, so a
  leak on such a path is not visible.  The fuzz harnesses leave the frees of such containers and of their
  own copies out, the tests make them.  \<^verbatim>\<open>src/routing/policy_planner.c\<close>,
  \<^verbatim>\<open>src/protocol/profile_registry.c\<close>, \<^verbatim>\<open>src/session/consistency_checker.c\<close> and
  \<^verbatim>\<open>src/telemetry/report_formatter.c\<close> use types or headers that do not exist and belong to no build;
  \<^verbatim>\<open>src/telemetry/sensor_profiles.c\<close> is a table of floating-point numbers nobody reads.
  (\<^verbatim>\<open>schema_registry.c\<close> is modelled although the build leaves it out.)  The generated corpora, the
  examples and the build files contain no code of the library.  Threads do not occur in it.
\<close>

section \<open>Routing a message\<close>

text \<open>C4: From text and bytes to a routing decision.  When \<^verbatim>\<open>ipmb-route\<close> is given the text of a rule
  and a file that starts with the image of a well-formed message, it prints whether the rule
  holds of the first frame and exits with 0, if the rule names a field the compiler knows; it
  prints \<open>not matched\<close> and exits with 1 if it does not; and it rejects a message without frames
  (with the text of the status \<^verbatim>\<open>IPMB_OK\<close>).  Lexer, parser, compiler, machine and message parser
  work together in this.\<close>

theorem route_delivers:
  assumes "message_wf m" "frames m = Some fs" "rule_sayable a" "prefix (message_image m) buf"
    "read_file alf files path = Ok buf"
  shows "route_main alf (\<lambda>_. True) (\<lambda>_. True) [prog, rule_text a, path] files = Ok
    (case fs of
       [] \<Rightarrow> \<lparr>app_out = [], app_err = ''message rejected: ok'' @ newline, app_code = 1\<rparr>
     | f # _ \<Rightarrow>
         if field_id (rule_field a) = 0 then \<lparr>app_out = ''not matched'' @ newline, app_err = [], app_code = 1\<rparr>
         else \<lparr>app_out = (if rule_holds a f then ''matched'' else ''not matched'') @ newline, app_err = [],
               app_code = 0\<rparr>)"
proof -
  have parse: "ipmb_parse_message (\<lambda>_. True) buf = Ok m"
    using assms(1,4) by (simp add: parse_message_Ok)
  have count: "unat (frame_count m) = length fs"
    using assms(1,2) by (auto simp: message_wf_eq)
  show ?thesis
  proof (cases fs)
    case Nil
    with count have "frame_count m = 0" by (simp add: unat_eq_zero)
    with Nil parse assms(5) show ?thesis by (simp add: route_main_def ipmb_status_string_def)
  next
    case (Cons f fs')
    with count have "frame_count m \<noteq> 0" by auto
    moreover have "frames m = Some (f # fs')" using assms(2) Cons by simp
    from route_rule_outcome [OF this, of "rule_text a"] parse_rule_text [OF assms(3)]
    have "route_rule (\<lambda>_. True) (rule_text a) m =
        (if field_id (rule_field a) = 0 then Err IPMB_ERR_INVALID else Ok (rule_holds a f))" by simp
    ultimately show ?thesis using Cons parse assms(5) by (simp add: route_main_def)
  qed
qed

lemma route_delivers_witness:
  "route_main (\<lambda>_. True) (\<lambda>_. True) (\<lambda>_. True) [''ipmb-route'', ''priority < 64'', ''m''] [''m'' \<mapsto> regular_file (message_image sample_message)] =
     Ok \<lparr>app_out = ''matched'' @ newline, app_err = [], app_code = 0\<rparr>"
proof -
  let ?a = "\<lparr>rule_field = ''priority'', rule_op = IPMB_RULE_CMP_LT, rule_value = 64, rule_high = 0,
     rule_action = [], rule_priority = 10\<rparr>"
  have say: "rule_sayable ?a" by (simp add: rule_sayable_def is_token_def isspace_def)
  have printed: "rule_text ?a = ''priority < 64''" by code_simp
  have holds: "rule_holds ?a sample_frame" "field_id ''priority'' \<noteq> 0"
    by (simp_all add: rule_holds_load field_id_def load_field_def sample_frame_def)
  have "frames sample_message = Some [sample_frame]" by (simp add: sample_message_def)
  from route_delivers [OF sample_wf this say, of "message_image sample_message" "\<lambda>_. True"
      "[''m'' \<mapsto> regular_file (message_image sample_message)]" "''m''" "''ipmb-route''"] holds
  show ?thesis unfolding printed by simp
qed

end
